(* ===== verification/Prelude.thy ===== *)
theory Prelude
  imports Main "HOL-Library.Word" "HOL-Library.Monad_Syntax"
begin

text \<open>
  What every theory of the development shares: the machine integers of the C code, the
  memory monad in which a packet is read (\<open>None\<close> is a read outside the buffer), C's
  \<open>memcpy\<close> and \<open>memset\<close> on fixed arrays, and the collections the proofs draw on.
\<close>

unbundle bit_operations_syntax

type_synonym byte = "8 word"
type_synonym u16 = "16 word"
type_synonym u32 = "32 word"

named_theorems mem_simps \<open>evaluation of bounded reads\<close>
named_theorems parser_defs \<open>definitions of the packet parsers\<close>
named_theorems const_defs \<open>definitions of the constant tables\<close>

section \<open>Reading a buffer\<close>

text \<open>
  A read of C code through a pointer with a known extent. \<open>None\<close> means that the code
  touches memory outside the bytes it was given (undefined behaviour), so a theorem
  that a parser's result is \<open>Some r\<close> is a memory safety theorem.
\<close>

type_synonym 'a mem = "'a option"

definition rd :: "byte list \<Rightarrow> nat \<Rightarrow> byte mem" where
  "rd bs i = (if i < length bs then Some (bs ! i) else None)"

text \<open>The \<open>n\<close> bytes at offset \<open>i\<close>: the source of a \<open>memcpy\<close>, or a \<open>GUtilData\<close> view.\<close>

definition rdn :: "byte list \<Rightarrow> nat \<Rightarrow> nat \<Rightarrow> byte list mem" where
  "rdn bs i n = (if n = 0 then Some [] else if i + n \<le> length bs then Some (take n (drop i bs)) else None)"

lemma rd_Some [mem_simps]: "i < length bs \<Longrightarrow> rd bs i = Some (bs ! i)"
  by (simp add: rd_def)

lemma rd_None [mem_simps]: "\<not> i < length bs \<Longrightarrow> rd bs i = None"
  by (simp add: rd_def)

lemma rdn_Some [mem_simps]: "i + n \<le> length bs \<Longrightarrow> rdn bs i n = Some (take n (drop i bs))"
  by (simp add: rdn_def)

lemma rdn_None [mem_simps]: "0 < n \<Longrightarrow> length bs < i + n \<Longrightarrow> rdn bs i n = None"
  by (simp add: rdn_def)

lemma rdn_length: "rdn bs i n = Some xs \<Longrightarrow> length xs = n"
  by (auto simp: rdn_def split: if_splits)

lemma unat_byte_less: "unat (b :: byte) < 256"
  using unsigned_less [of b] by simp

lemma unat_byte_le: "unat (b :: byte) \<le> 255"
  using unat_byte_less [of b] by simp

lemma unat_of_nat_byte: "n < 256 \<Longrightarrow> unat (of_nat n :: byte) = n"
  by (simp add: unat_of_nat take_bit_nat_eq_self)

section \<open>Fixed arrays\<close>

text \<open>
  \<open>memcpy(dst, src, n); memset(dst + n, 0, m - n)\<close>: the first \<open>n\<close> bytes of
  \<open>src\<close>, then zeros up to the size \<open>m\<close> of the array.
\<close>

definition fill_array :: "nat \<Rightarrow> byte list \<Rightarrow> nat \<Rightarrow> byte list" where
  "fill_array m src n = take n src @ replicate (m - n) 0"

lemma length_fill_array [simp]: "n \<le> m \<Longrightarrow> n \<le> length src \<Longrightarrow> length (fill_array m src n) = m"
  by (simp add: fill_array_def)

lemma take_fill_array [simp]: "n \<le> length src \<Longrightarrow> take n (fill_array m src n) = take n src"
  by (simp add: fill_array_def)

text \<open>\<open>memcmp(a, b, n) == 0\<close>\<close>

definition memcmp_eq :: "byte list \<Rightarrow> byte list \<Rightarrow> nat \<Rightarrow> bool" where
  "memcmp_eq a b n \<longleftrightarrow> take n a = take n b"

lemma memcmp_eq_refl [simp]: "memcmp_eq a a n"
  by (simp add: memcmp_eq_def)

lemma memcmp_eq_sym: "memcmp_eq a b n \<Longrightarrow> memcmp_eq b a n"
  by (simp add: memcmp_eq_def)

lemma memcmp_eq_trans: "memcmp_eq a b n \<Longrightarrow> memcmp_eq b c n \<Longrightarrow> memcmp_eq a c n"
  by (simp add: memcmp_eq_def)

lemma memcmp_eq_0 [simp]: "memcmp_eq a b 0"
  by (simp add: memcmp_eq_def)

lemma memcmp_eq_nth: "memcmp_eq a b n \<Longrightarrow> i < n \<Longrightarrow> a ! i = b ! i"
  by (metis memcmp_eq_def nth_take)

section \<open>Lists\<close>

lemma drop_eq_ConsD: "drop i xs = y # ys \<Longrightarrow> i < length xs \<and> y = xs ! i"
  by (metis drop_all list.distinct(1) not_le_imp_less nth_via_drop)

lemma list_update_same_length [simp]: "length (xs[i := f (xs ! i)]) = length xs"
  by simp

end
