(* ===== verification/Nci_Types.thy ===== *)
theory Nci_Types
  imports Prelude
begin

text \<open>
  The data of the library (\<open>include/nci_types.h\<close>, \<open>src/nci_types_p.h\<close>, \<open>src/nci_util_p.h\<close>).
  An enumeration whose values arrive as unchecked bytes from the NFC controller
  (\<open>NCI_MODE\<close>, \<open>NCI_PROTOCOL\<close>, \<open>NCI_RF_INTERFACE\<close>, bit rates, status codes) is the byte
  itself with named constants, because the C code stores whatever byte arrived; an
  enumeration that only the code produces (\<open>NCI_STATE\<close>, \<open>NCI_REQUEST_STATUS\<close>,
  \<open>NCI_STALL\<close>, the deactivation types) is a datatype. A \<open>GUtilData\<close> view is the list
  of the bytes it designates.
\<close>

section \<open>Wire values\<close>

type_synonym NCI_MODE = byte
type_synonym NCI_PROTOCOL = byte
type_synonym NCI_RF_INTERFACE = byte
type_synonym NCI_TECH = u32
type_synonym NCI_OP_MODE = u32

abbreviation NCI_STATUS_OK :: byte where "NCI_STATUS_OK \<equiv> 0x00"
abbreviation NCI_STATUS_SYNTAX_ERROR :: byte where "NCI_STATUS_SYNTAX_ERROR \<equiv> 0x05"
abbreviation NCI_STATUS_INVALID_PARAM :: byte where "NCI_STATUS_INVALID_PARAM \<equiv> 0x09"
abbreviation NCI_DISCOVERY_TARGET_ACTIVATION_FAILED :: byte where
  "NCI_DISCOVERY_TARGET_ACTIVATION_FAILED \<equiv> 0xa1"
abbreviation NCI_DISCOVERY_TEAR_DOWN :: byte where "NCI_DISCOVERY_TEAR_DOWN \<equiv> 0xa2"
abbreviation NCI_RF_TRANSMISSION_ERROR :: byte where "NCI_RF_TRANSMISSION_ERROR \<equiv> 0xb0"
abbreviation NCI_RF_PROTOCOL_ERROR :: byte where "NCI_RF_PROTOCOL_ERROR \<equiv> 0xb1"
abbreviation NCI_RF_TIMEOUT_ERROR :: byte where "NCI_RF_TIMEOUT_ERROR \<equiv> 0xb2"

abbreviation NCI_MODE_PASSIVE_POLL_A :: NCI_MODE where "NCI_MODE_PASSIVE_POLL_A \<equiv> 0x00"
abbreviation NCI_MODE_PASSIVE_POLL_B :: NCI_MODE where "NCI_MODE_PASSIVE_POLL_B \<equiv> 0x01"
abbreviation NCI_MODE_PASSIVE_POLL_F :: NCI_MODE where "NCI_MODE_PASSIVE_POLL_F \<equiv> 0x02"
abbreviation NCI_MODE_ACTIVE_POLL_A :: NCI_MODE where "NCI_MODE_ACTIVE_POLL_A \<equiv> 0x03"
abbreviation NCI_MODE_ACTIVE_POLL_F :: NCI_MODE where "NCI_MODE_ACTIVE_POLL_F \<equiv> 0x05"
abbreviation NCI_MODE_PASSIVE_POLL_V :: NCI_MODE where "NCI_MODE_PASSIVE_POLL_V \<equiv> 0x06"
abbreviation NCI_MODE_PASSIVE_LISTEN_A :: NCI_MODE where "NCI_MODE_PASSIVE_LISTEN_A \<equiv> 0x80"
abbreviation NCI_MODE_PASSIVE_LISTEN_B :: NCI_MODE where "NCI_MODE_PASSIVE_LISTEN_B \<equiv> 0x81"
abbreviation NCI_MODE_PASSIVE_LISTEN_F :: NCI_MODE where "NCI_MODE_PASSIVE_LISTEN_F \<equiv> 0x82"
abbreviation NCI_MODE_ACTIVE_LISTEN_A :: NCI_MODE where "NCI_MODE_ACTIVE_LISTEN_A \<equiv> 0x83"
abbreviation NCI_MODE_ACTIVE_LISTEN_F :: NCI_MODE where "NCI_MODE_ACTIVE_LISTEN_F \<equiv> 0x85"
abbreviation NCI_MODE_PASSIVE_LISTEN_V :: NCI_MODE where "NCI_MODE_PASSIVE_LISTEN_V \<equiv> 0x86"

abbreviation NCI_PROTOCOL_UNDETERMINED :: NCI_PROTOCOL where "NCI_PROTOCOL_UNDETERMINED \<equiv> 0x00"
abbreviation NCI_PROTOCOL_T1T :: NCI_PROTOCOL where "NCI_PROTOCOL_T1T \<equiv> 0x01"
abbreviation NCI_PROTOCOL_T2T :: NCI_PROTOCOL where "NCI_PROTOCOL_T2T \<equiv> 0x02"
abbreviation NCI_PROTOCOL_T3T :: NCI_PROTOCOL where "NCI_PROTOCOL_T3T \<equiv> 0x03"
abbreviation NCI_PROTOCOL_ISO_DEP :: NCI_PROTOCOL where "NCI_PROTOCOL_ISO_DEP \<equiv> 0x04"
abbreviation NCI_PROTOCOL_NFC_DEP :: NCI_PROTOCOL where "NCI_PROTOCOL_NFC_DEP \<equiv> 0x05"
abbreviation NCI_PROTOCOL_T5T :: NCI_PROTOCOL where "NCI_PROTOCOL_T5T \<equiv> 0x06"
abbreviation NCI_PROTOCOL_PROPRIETARY :: NCI_PROTOCOL where "NCI_PROTOCOL_PROPRIETARY \<equiv> 0x80"

abbreviation NCI_RF_INTERFACE_NFCEE_DIRECT :: NCI_RF_INTERFACE where
  "NCI_RF_INTERFACE_NFCEE_DIRECT \<equiv> 0x00"
abbreviation NCI_RF_INTERFACE_FRAME :: NCI_RF_INTERFACE where "NCI_RF_INTERFACE_FRAME \<equiv> 0x01"
abbreviation NCI_RF_INTERFACE_ISO_DEP :: NCI_RF_INTERFACE where "NCI_RF_INTERFACE_ISO_DEP \<equiv> 0x02"
abbreviation NCI_RF_INTERFACE_NFC_DEP :: NCI_RF_INTERFACE where "NCI_RF_INTERFACE_NFC_DEP \<equiv> 0x03"
abbreviation NCI_RF_INTERFACE_PROPRIETARY :: NCI_RF_INTERFACE where
  "NCI_RF_INTERFACE_PROPRIETARY \<equiv> 0x80"

text \<open>Bit masks.\<close>

abbreviation NCI_TECH_NONE :: NCI_TECH where "NCI_TECH_NONE \<equiv> 0x0000"
abbreviation NCI_TECH_A_POLL_PASSIVE :: NCI_TECH where "NCI_TECH_A_POLL_PASSIVE \<equiv> 0x0001"
abbreviation NCI_TECH_A_POLL_ACTIVE :: NCI_TECH where "NCI_TECH_A_POLL_ACTIVE \<equiv> 0x0002"
abbreviation NCI_TECH_A_LISTEN_PASSIVE :: NCI_TECH where "NCI_TECH_A_LISTEN_PASSIVE \<equiv> 0x0004"
abbreviation NCI_TECH_A_LISTEN_ACTIVE :: NCI_TECH where "NCI_TECH_A_LISTEN_ACTIVE \<equiv> 0x0008"
abbreviation NCI_TECH_B_POLL :: NCI_TECH where "NCI_TECH_B_POLL \<equiv> 0x0010"
abbreviation NCI_TECH_B_LISTEN :: NCI_TECH where "NCI_TECH_B_LISTEN \<equiv> 0x0040"
abbreviation NCI_TECH_F_POLL_PASSIVE :: NCI_TECH where "NCI_TECH_F_POLL_PASSIVE \<equiv> 0x0100"
abbreviation NCI_TECH_F_POLL_ACTIVE :: NCI_TECH where "NCI_TECH_F_POLL_ACTIVE \<equiv> 0x0200"
abbreviation NCI_TECH_F_LISTEN_PASSIVE :: NCI_TECH where "NCI_TECH_F_LISTEN_PASSIVE \<equiv> 0x0400"
abbreviation NCI_TECH_F_LISTEN_ACTIVE :: NCI_TECH where "NCI_TECH_F_LISTEN_ACTIVE \<equiv> 0x0800"
abbreviation NCI_TECH_V_POLL :: NCI_TECH where "NCI_TECH_V_POLL \<equiv> 0x1000"
abbreviation NCI_TECH_V_LISTEN :: NCI_TECH where "NCI_TECH_V_LISTEN \<equiv> 0x4000"

abbreviation NCI_TECH_A_POLL :: NCI_TECH where "NCI_TECH_A_POLL \<equiv> 0x0003"
abbreviation NCI_TECH_A_LISTEN :: NCI_TECH where "NCI_TECH_A_LISTEN \<equiv> 0x000c"
abbreviation NCI_TECH_A :: NCI_TECH where "NCI_TECH_A \<equiv> 0x000f"
abbreviation NCI_TECH_B :: NCI_TECH where "NCI_TECH_B \<equiv> 0x0050"
abbreviation NCI_TECH_F_POLL :: NCI_TECH where "NCI_TECH_F_POLL \<equiv> 0x0300"
abbreviation NCI_TECH_F_LISTEN :: NCI_TECH where "NCI_TECH_F_LISTEN \<equiv> 0x0c00"
abbreviation NCI_TECH_F :: NCI_TECH where "NCI_TECH_F \<equiv> 0x0f00"
abbreviation NCI_TECH_V :: NCI_TECH where "NCI_TECH_V \<equiv> 0x5000"
abbreviation NCI_TECH_ALL :: NCI_TECH where "NCI_TECH_ALL \<equiv> 0x5f5f"

text \<open>The composite masks are the disjunctions the header spells out.\<close>

lemma nci_tech_masks:
  "NCI_TECH_A_POLL = NCI_TECH_A_POLL_PASSIVE OR NCI_TECH_A_POLL_ACTIVE"
  "NCI_TECH_A_LISTEN = NCI_TECH_A_LISTEN_PASSIVE OR NCI_TECH_A_LISTEN_ACTIVE"
  "NCI_TECH_A = NCI_TECH_A_POLL OR NCI_TECH_A_LISTEN"
  "NCI_TECH_B = NCI_TECH_B_POLL OR NCI_TECH_B_LISTEN"
  "NCI_TECH_F_POLL = NCI_TECH_F_POLL_PASSIVE OR NCI_TECH_F_POLL_ACTIVE"
  "NCI_TECH_F_LISTEN = NCI_TECH_F_LISTEN_PASSIVE OR NCI_TECH_F_LISTEN_ACTIVE"
  "NCI_TECH_F = NCI_TECH_F_POLL OR NCI_TECH_F_LISTEN"
  "NCI_TECH_V = NCI_TECH_V_POLL OR NCI_TECH_V_LISTEN"
  "NCI_TECH_ALL = NCI_TECH_A OR NCI_TECH_B OR NCI_TECH_F OR NCI_TECH_V"
  by simp_all

abbreviation NFC_OP_MODE_RW :: NCI_OP_MODE where "NFC_OP_MODE_RW \<equiv> 0x01"
abbreviation NFC_OP_MODE_PEER :: NCI_OP_MODE where "NFC_OP_MODE_PEER \<equiv> 0x02"
abbreviation NFC_OP_MODE_CE :: NCI_OP_MODE where "NFC_OP_MODE_CE \<equiv> 0x04"
abbreviation NFC_OP_MODE_POLL :: NCI_OP_MODE where "NFC_OP_MODE_POLL \<equiv> 0x08"
abbreviation NFC_OP_MODE_LISTEN :: NCI_OP_MODE where "NFC_OP_MODE_LISTEN \<equiv> 0x10"

text \<open>Message headers, group and operation identifiers.\<close>

abbreviation NCI_MT_MASK :: byte where "NCI_MT_MASK \<equiv> 0xe0"
abbreviation NCI_MT_DATA_PKT :: byte where "NCI_MT_DATA_PKT \<equiv> 0x00"
abbreviation NCI_MT_CMD_PKT :: byte where "NCI_MT_CMD_PKT \<equiv> 0x20"
abbreviation NCI_MT_RSP_PKT :: byte where "NCI_MT_RSP_PKT \<equiv> 0x40"
abbreviation NCI_MT_NTF_PKT :: byte where "NCI_MT_NTF_PKT \<equiv> 0x60"
abbreviation NCI_PBF :: byte where "NCI_PBF \<equiv> 0x10"

abbreviation NCI_GID_CORE :: byte where "NCI_GID_CORE \<equiv> 0x00"
abbreviation NCI_GID_RF :: byte where "NCI_GID_RF \<equiv> 0x01"
abbreviation NCI_OID_CORE_RESET :: byte where "NCI_OID_CORE_RESET \<equiv> 0x00"
abbreviation NCI_OID_CORE_INIT :: byte where "NCI_OID_CORE_INIT \<equiv> 0x01"
abbreviation NCI_OID_CORE_SET_CONFIG :: byte where "NCI_OID_CORE_SET_CONFIG \<equiv> 0x02"
abbreviation NCI_OID_CORE_GET_CONFIG :: byte where "NCI_OID_CORE_GET_CONFIG \<equiv> 0x03"
abbreviation NCI_OID_CORE_CONN_CREDITS :: byte where "NCI_OID_CORE_CONN_CREDITS \<equiv> 0x06"
abbreviation NCI_OID_CORE_GENERIC_ERROR :: byte where "NCI_OID_CORE_GENERIC_ERROR \<equiv> 0x07"
abbreviation NCI_OID_CORE_INTERFACE_ERROR :: byte where "NCI_OID_CORE_INTERFACE_ERROR \<equiv> 0x08"
abbreviation NCI_OID_RF_DISCOVER_MAP :: byte where "NCI_OID_RF_DISCOVER_MAP \<equiv> 0x00"
abbreviation NCI_OID_RF_SET_LISTEN_MODE_ROUTING :: byte where
  "NCI_OID_RF_SET_LISTEN_MODE_ROUTING \<equiv> 0x01"
abbreviation NCI_OID_RF_DISCOVER :: byte where "NCI_OID_RF_DISCOVER \<equiv> 0x03"
abbreviation NCI_OID_RF_DISCOVER_SELECT :: byte where "NCI_OID_RF_DISCOVER_SELECT \<equiv> 0x04"
abbreviation NCI_OID_RF_INTF_ACTIVATED :: byte where "NCI_OID_RF_INTF_ACTIVATED \<equiv> 0x05"
abbreviation NCI_OID_RF_DEACTIVATE :: byte where "NCI_OID_RF_DEACTIVATE \<equiv> 0x06"

abbreviation NCI_CONFIG_TOTAL_DURATION :: byte where "NCI_CONFIG_TOTAL_DURATION \<equiv> 0x00"
abbreviation NCI_CONFIG_PA_BAIL_OUT :: byte where "NCI_CONFIG_PA_BAIL_OUT \<equiv> 0x08"
abbreviation NCI_CONFIG_PB_BAIL_OUT :: byte where "NCI_CONFIG_PB_BAIL_OUT \<equiv> 0x11"
abbreviation NCI_CONFIG_PN_ATR_REQ_GEN_BYTES :: byte where "NCI_CONFIG_PN_ATR_REQ_GEN_BYTES \<equiv> 0x29"
abbreviation NCI_CONFIG_PN_ATR_REQ_CONFIG :: byte where "NCI_CONFIG_PN_ATR_REQ_CONFIG \<equiv> 0x2a"
abbreviation NCI_CONFIG_LA_SENS_RES_1 :: byte where "NCI_CONFIG_LA_SENS_RES_1 \<equiv> 0x30"
abbreviation NCI_CONFIG_LA_SEL_INFO :: byte where "NCI_CONFIG_LA_SEL_INFO \<equiv> 0x32"
abbreviation NCI_CONFIG_LA_NFCID1 :: byte where "NCI_CONFIG_LA_NFCID1 \<equiv> 0x33"
abbreviation NCI_CONFIG_LF_PROTOCOL_TYPE :: byte where "NCI_CONFIG_LF_PROTOCOL_TYPE \<equiv> 0x50"
abbreviation NCI_CONFIG_LI_A_HIST_BY :: byte where "NCI_CONFIG_LI_A_HIST_BY \<equiv> 0x59"
abbreviation NCI_CONFIG_LN_ATR_RES_GEN_BYTES :: byte where "NCI_CONFIG_LN_ATR_RES_GEN_BYTES \<equiv> 0x61"
abbreviation NCI_CONFIG_LN_ATR_RES_CONFIG :: byte where "NCI_CONFIG_LN_ATR_RES_CONFIG \<equiv> 0x62"

section \<open>Enumerations the code produces\<close>

datatype NCI_STATE =
    NCI_STATE_INIT | NCI_STATE_ERROR | NCI_STATE_STOP
  | NCI_RFST_IDLE | NCI_RFST_DISCOVERY | NCI_RFST_W4_ALL_DISCOVERIES
  | NCI_RFST_W4_HOST_SELECT | NCI_RFST_POLL_ACTIVE | NCI_RFST_LISTEN_ACTIVE
  | NCI_RFST_LISTEN_SLEEP

text \<open>The code compares states by the order of the enumeration.\<close>

fun state_value :: "NCI_STATE \<Rightarrow> nat" where
  "state_value NCI_STATE_INIT = 0"
| "state_value NCI_STATE_ERROR = 1"
| "state_value NCI_STATE_STOP = 2"
| "state_value NCI_RFST_IDLE = 3"
| "state_value NCI_RFST_DISCOVERY = 4"
| "state_value NCI_RFST_W4_ALL_DISCOVERIES = 5"
| "state_value NCI_RFST_W4_HOST_SELECT = 6"
| "state_value NCI_RFST_POLL_ACTIVE = 7"
| "state_value NCI_RFST_LISTEN_ACTIVE = 8"
| "state_value NCI_RFST_LISTEN_SLEEP = 9"

instantiation NCI_STATE :: linorder
begin

definition less_eq_NCI_STATE :: "NCI_STATE \<Rightarrow> NCI_STATE \<Rightarrow> bool" where
  "less_eq_NCI_STATE s t \<longleftrightarrow> state_value s \<le> state_value t"

definition less_NCI_STATE :: "NCI_STATE \<Rightarrow> NCI_STATE \<Rightarrow> bool" where
  "less_NCI_STATE s t \<longleftrightarrow> state_value s < state_value t"

instance
proof
  show "s \<le> t \<Longrightarrow> t \<le> s \<Longrightarrow> s = t" for s t :: NCI_STATE
    by (cases s; cases t) (simp_all add: less_eq_NCI_STATE_def)
qed (auto simp: less_eq_NCI_STATE_def less_NCI_STATE_def)

end

datatype NCI_REQUEST_STATUS = NCI_REQUEST_SUCCESS | NCI_REQUEST_TIMEOUT | NCI_REQUEST_CANCELLED

datatype NCI_STALL = NCI_STALL_STOP | NCI_STALL_ERROR

datatype NCI_INTERFACE_VERSION =
  NCI_INTERFACE_VERSION_UNKNOWN | NCI_INTERFACE_VERSION_1 | NCI_INTERFACE_VERSION_2

datatype NCI_DEACTIVATION_TYPE =
    NCI_DEACTIVATE_TYPE_IDLE | NCI_DEACTIVATE_TYPE_SLEEP
  | NCI_DEACTIVATE_TYPE_SLEEP_AF | NCI_DEACTIVATE_TYPE_DISCOVERY

abbreviation NCI_DEACTIVATION_REASON_DH_REQUEST :: byte where
  "NCI_DEACTIVATION_REASON_DH_REQUEST \<equiv> 0x00"

section \<open>Structures\<close>

record NciModeParamPollA =
  pa_sens_res :: "byte list"
  pa_nfcid1_len :: byte
  pa_nfcid1 :: "byte list"
  pa_sel_res_len :: byte
  pa_sel_res :: byte

record NciModeParamPollB =
  pb_nfcid0 :: "byte list"
  pb_fsc :: nat
  pb_app_data :: "byte list"
  pb_prot_info :: "byte list"

record NciModeParamPollF =
  pf_bitrate :: byte
  pf_nfcid2 :: "byte list"

record NciModeParamPollV =
  pv_res_flag :: byte
  pv_dsfid :: byte
  pv_uid :: "byte list"

record NciModeParamListenF =
  lf_nfcid2 :: "byte list"

datatype NciModeParam =
    PollA NciModeParamPollA | PollB NciModeParamPollB | PollF NciModeParamPollF
  | PollV NciModeParamPollV | ListenF NciModeParamListenF

record NciActivationParamIsoDepPollA =
  ia_fsc :: nat
  ia_t1 :: "byte list"
  ia_t0 :: byte
  ia_ta :: byte
  ia_tb :: byte
  ia_tc :: byte

record NciActivationParamIsoDepPollB =
  ib_mbli :: nat
  ib_did :: nat
  ib_hlr :: "byte list"

record NciActivationParamIsoDepListenA =
  ila_fsd :: nat
  ila_did :: nat

record NciActivationParamIsoDepListenB =
  ilb_nfcid0 :: "byte list"
  ilb_param :: "byte list"
  ilb_hlc :: "byte list"

record NciActivationParamNfcDepPoll =
  np_nfcid3 :: "byte list"
  np_did :: byte
  np_bs :: byte
  np_br :: byte
  np_to :: byte
  np_pp :: byte
  np_g :: "byte list"

record NciActivationParamNfcDepListen =
  nl_nfcid3 :: "byte list"
  nl_did :: byte
  nl_bs :: byte
  nl_br :: byte
  nl_pp :: byte
  nl_g :: "byte list"

datatype NciActivationParam =
    IsoDepPollA NciActivationParamIsoDepPollA | IsoDepPollB NciActivationParamIsoDepPollB
  | IsoDepListenA NciActivationParamIsoDepListenA | IsoDepListenB NciActivationParamIsoDepListenB
  | NfcDepPoll NciActivationParamNfcDepPoll | NfcDepListen NciActivationParamNfcDepListen

record NciIntfActivationNtf =
  ian_discovery_id :: byte
  ian_rf_intf :: NCI_RF_INTERFACE
  ian_protocol :: NCI_PROTOCOL
  ian_mode :: NCI_MODE
  ian_max_data_packet_size :: byte
  ian_num_credits :: byte
  ian_mode_param_bytes :: "byte list"
  ian_mode_param :: "NciModeParam option"
  ian_data_exchange_mode :: NCI_MODE
  ian_transmit_rate :: byte
  ian_receive_rate :: byte
  ian_activation_param_bytes :: "byte list"
  ian_activation_param :: "NciActivationParam option"

record NciDiscoveryNtf =
  dn_discovery_id :: byte
  dn_protocol :: NCI_PROTOCOL
  dn_mode :: NCI_MODE
  dn_param_bytes :: "byte list"
  dn_param :: "NciModeParam option"
  dn_last :: bool

record NciRfDeactivateNtf =
  rdn_type :: NCI_DEACTIVATION_TYPE
  rdn_reason :: byte

text \<open>\<open>NciNfcid1\<close> and \<open>NciAtsHb\<close>: a length and a fixed array of 10 (15) bytes.\<close>

record NciNfcid1 =
  nfcid1_len :: byte
  nfcid1_bytes :: "byte list"

record NciAtsHb =
  hb_len :: byte
  hb_bytes :: "byte list"

definition wf_nfcid1 :: "NciNfcid1 \<Rightarrow> bool" where
  "wf_nfcid1 x \<longleftrightarrow> length (nfcid1_bytes x) = 10 \<and> unat (nfcid1_len x) \<in> {0, 4, 7, 10}"

definition wf_hb :: "NciAtsHb \<Rightarrow> bool" where
  "wf_hb x \<longleftrightarrow> length (hb_bytes x) = 15 \<and> unat (hb_len x) \<le> 15"

definition zero_nfcid1 :: NciNfcid1 where
  "zero_nfcid1 = \<lparr>nfcid1_len = 0, nfcid1_bytes = replicate 10 0\<rparr>"

definition zero_hb :: NciAtsHb where
  "zero_hb = \<lparr>hb_len = 0, hb_bytes = replicate 15 0\<rparr>"

lemma wf_zero [simp]: "wf_nfcid1 zero_nfcid1" "wf_hb zero_hb"
  by (simp_all add: wf_nfcid1_def zero_nfcid1_def wf_hb_def zero_hb_def)

end
