(* ===== verification/Nci_Util.thy ===== *)
theory Nci_Util
  imports Nci_Types
begin

text \<open>
  The packet parsers and helpers of \<open>src/nci_util.c\<close>. A parser takes the bytes it may
  read (pointer and length of the C function) and returns \<open>None\<close> if it reads outside
  them, \<open>Some r\<close> otherwise; \<open>r\<close> is the C result (an \<open>option\<close> where C returns a
  pointer or NULL, or a boolean and an output structure). Debug output is not modelled.
\<close>

section \<open>NFCID1\<close>

definition nci_nfcid1_dynamic :: "NciNfcid1 \<Rightarrow> bool" where
  "nci_nfcid1_dynamic x \<longleftrightarrow>
     nfcid1_len x = 0 \<or> (nfcid1_len x = 4 \<and> nfcid1_bytes x ! 0 = 0x08)"

definition nci_nfcid1_equal :: "NciNfcid1 \<Rightarrow> NciNfcid1 \<Rightarrow> bool" where
  "nci_nfcid1_equal id1 id2 =
     (if nfcid1_len id1 = nfcid1_len id2 then
        if nfcid1_len id1 = 4 \<and> nfcid1_bytes id1 ! 0 = 0x08 then
          nfcid1_bytes id1 ! 0 = nfcid1_bytes id2 ! 0
        else memcmp_eq (nfcid1_bytes id1) (nfcid1_bytes id2) (min (unat (nfcid1_len id1)) 10)
      else if nfcid1_len id1 = 0 then nci_nfcid1_dynamic id2
      else if nfcid1_len id2 = 0 then nci_nfcid1_dynamic id1
      else False)"

definition nci_listen_mode :: "NCI_MODE \<Rightarrow> bool" where
  "nci_listen_mode mode \<longleftrightarrow>
     mode \<in> {NCI_MODE_PASSIVE_LISTEN_A, NCI_MODE_PASSIVE_LISTEN_B, NCI_MODE_PASSIVE_LISTEN_F,
             NCI_MODE_ACTIVE_LISTEN_A, NCI_MODE_ACTIVE_LISTEN_F, NCI_MODE_PASSIVE_LISTEN_V}"

section \<open>Configuration parameters (TLV lists)\<close>

text \<open>
  The loop \<open>while (nparams > 0 && (ptr + 2) <= end && (ptr + 2 + ptr[1]) <= end)\<close>: the list
  is what lies between \<open>ptr\<close> and \<open>end\<close>.
\<close>

fun nci_parse_find_config_param :: "nat \<Rightarrow> byte list \<Rightarrow> byte \<Rightarrow> byte list option" where
  "nci_parse_find_config_param 0 bs pid = None"
| "nci_parse_find_config_param (Suc n) (t # l # rest) pid =
     (if unat l \<le> length rest then
        if t = pid then Some (take (unat l) rest)
        else nci_parse_find_config_param n (drop (unat l) rest) pid
      else None)"
| "nci_parse_find_config_param (Suc n) bs pid = None"

text \<open>Little-endian value of at most four bytes, and its size (0: absent or too long).\<close>

fun le_uint :: "byte list \<Rightarrow> nat \<Rightarrow> u32" where
  "le_uint [] i = 0"
| "le_uint (b # bs) i = push_bit (8 * i) (ucast b) + le_uint bs (Suc i)"

definition nci_parse_config_param_uint :: "nat \<Rightarrow> byte list \<Rightarrow> byte \<Rightarrow> nat \<times> u32" where
  "nci_parse_config_param_uint nparams params pid =
     (case nci_parse_find_config_param nparams params pid of
        Some d \<Rightarrow> if 0 < length d \<and> length d \<le> 4 then (length d, le_uint d 0) else (0, 0)
      | None \<Rightarrow> (0, 0))"

definition nci_parse_config_param_nfcid1 :: "nat \<Rightarrow> byte list \<Rightarrow> byte \<Rightarrow> NciNfcid1 option" where
  "nci_parse_config_param_nfcid1 nparams params pid =
     (case nci_parse_find_config_param nparams params pid of
        Some d \<Rightarrow> if length d \<in> {4, 7, 10}
                 then Some \<lparr>nfcid1_len = of_nat (length d), nfcid1_bytes = fill_array 10 d (length d)\<rparr>
                 else None
      | None \<Rightarrow> None)"

section \<open>RF technology specific parameters\<close>

definition fsc_table :: "nat list" where
  "fsc_table = [16, 24, 32, 40, 48, 64, 96, 128, 256]"

definition fsc_of :: "nat \<Rightarrow> nat" where
  "fsc_of fsci = (if fsci < length fsc_table then fsc_table ! fsci
                  else fsc_table ! (length fsc_table - 1))"

definition parse_mode_poll_a :: "byte list \<Rightarrow> NciModeParam option mem" where
  "parse_mode_poll_a bs =
     (if 4 \<le> length bs then do {
        s0 \<leftarrow> rd bs 0;
        s1 \<leftarrow> rd bs 1;
        nlen \<leftarrow> rd bs 2;
        let n = unat nlen;
        if n \<le> 10 \<and> n + 4 \<le> length bs then do {
          m \<leftarrow> rd bs (n + 3);
          if n + 4 + unat m \<le> length bs then do {
            nfcid1 \<leftarrow> rdn bs 3 n;
            sel \<leftarrow> (if m \<noteq> 0 then rd bs (n + 4) else Some 0);
            Some (Some (PollA \<lparr>pa_sens_res = [s0, s1], pa_nfcid1_len = nlen,
              pa_nfcid1 = fill_array 10 nfcid1 n, pa_sel_res_len = m, pa_sel_res = sel\<rparr>))
          } else Some None
        } else Some None
      } else Some None)"

text \<open>The length byte is not checked against the buffer: every read below is a possible fault.\<close>

definition parse_mode_poll_b :: "byte list \<Rightarrow> NciModeParam option mem" where
  "parse_mode_poll_b bs =
     (if 1 \<le> length bs then do {
        n \<leftarrow> rd bs 0;
        if 11 \<le> unat n then do {
          b10 \<leftarrow> rd bs 10;
          nfcid0 \<leftarrow> rdn bs 1 4;
          app \<leftarrow> rdn bs 5 4;
          prot \<leftarrow> rdn bs 9 (unat n - 8);
          Some (Some (PollB \<lparr>pb_nfcid0 = nfcid0, pb_fsc = fsc_of (unat (drop_bit 4 b10)),
            pb_app_data = app, pb_prot_info = prot\<rparr>))
        } else Some None
      } else Some None)"

definition parse_mode_poll_f :: "byte list \<Rightarrow> NciModeParam option mem" where
  "parse_mode_poll_f bs =
     (if 1 < length bs then do {
        n \<leftarrow> rd bs 1;
        if 8 \<le> unat n \<and> unat n + 2 \<le> length bs then do {
          br \<leftarrow> rd bs 0;
          nfcid2 \<leftarrow> rdn bs 2 8;
          Some (Some (PollF \<lparr>pf_bitrate = br, pf_nfcid2 = nfcid2\<rparr>))
        } else Some None
      } else Some None)"

definition parse_mode_listen_f :: "byte list \<Rightarrow> NciModeParam option mem" where
  "parse_mode_listen_f bs =
     (if 0 < length bs then do {
        n \<leftarrow> rd bs 0;
        if unat n + 1 \<le> length bs then
          if n = 0 then Some (Some (ListenF \<lparr>lf_nfcid2 = []\<rparr>))
          else if n = 8 then do {
            nfcid2 \<leftarrow> rdn bs 1 8;
            Some (Some (ListenF \<lparr>lf_nfcid2 = nfcid2\<rparr>))
          } else Some None
        else Some None
      } else Some None)"

definition parse_mode_poll_v :: "byte list \<Rightarrow> NciModeParam option mem" where
  "parse_mode_poll_v bs =
     (if 10 \<le> length bs then do {
        r \<leftarrow> rd bs 0;
        d \<leftarrow> rd bs 1;
        uid \<leftarrow> rdn bs 2 8;
        Some (Some (PollV \<lparr>pv_res_flag = r, pv_dsfid = d, pv_uid = uid\<rparr>))
      } else Some None)"

definition nci_parse_mode_param :: "NCI_MODE \<Rightarrow> byte list \<Rightarrow> NciModeParam option mem" where
  "nci_parse_mode_param mode bs =
     (if mode = NCI_MODE_ACTIVE_POLL_A then
        (if bs = [] then Some None else parse_mode_poll_a bs)
      else if mode = NCI_MODE_PASSIVE_POLL_A then parse_mode_poll_a bs
      else if mode = NCI_MODE_PASSIVE_POLL_B then parse_mode_poll_b bs
      else if mode = NCI_MODE_ACTIVE_POLL_F \<or> mode = NCI_MODE_PASSIVE_POLL_F then parse_mode_poll_f bs
      else if mode = NCI_MODE_ACTIVE_LISTEN_F \<or> mode = NCI_MODE_PASSIVE_LISTEN_F then
        parse_mode_listen_f bs
      else if mode = NCI_MODE_PASSIVE_POLL_V then parse_mode_poll_v bs
      else Some None)"

section \<open>RF_DISCOVER_NTF\<close>

definition nci_parse_discover_ntf :: "bool \<Rightarrow> byte list \<Rightarrow> NciDiscoveryNtf option mem" where
  "nci_parse_discover_ntf have_param pkt =
     (if 5 \<le> length pkt then do {
        n8 \<leftarrow> rd pkt 3;
        let n = unat n8;
        if 5 + n \<le> length pkt then do {
          did \<leftarrow> rd pkt 0;
          proto \<leftarrow> rd pkt 1;
          mode \<leftarrow> rd pkt 2;
          pbytes \<leftarrow> rdn pkt 4 n;
          t \<leftarrow> rd pkt (4 + n);
          param \<leftarrow> (if n \<noteq> 0 \<and> have_param then nci_parse_mode_param mode pbytes else Some None);
          Some (Some \<lparr>dn_discovery_id = did, dn_protocol = proto, dn_mode = mode,
            dn_param_bytes = pbytes, dn_param = param, dn_last = (t \<noteq> 2)\<rparr>)
        } else Some None
      } else Some None)"

section \<open>Activation parameters\<close>

text \<open>
  Offsets into \<open>bs\<close> stand for the pointers \<open>ats_ptr\<close>, \<open>ta\<close>, \<open>tb\<close>, \<open>tc\<close>; \<open>ats\<close> is
  offset 1 and \<open>ats_end\<close> offset \<open>1 + ats_len\<close>.
\<close>

definition nci_parse_iso_dep_poll_a_param ::
    "byte list \<Rightarrow> NciActivationParamIsoDepPollA option mem" where
  "nci_parse_iso_dep_poll_a_param bs = do {
     ats_len \<leftarrow> rd bs 0;
     if 1 \<le> unat ats_len \<and> unat ats_len + 1 \<le> length bs then do {
       t0 \<leftarrow> rd bs 1;
       let has_a = (t0 AND 0x10 \<noteq> 0);
       let has_b = (t0 AND 0x20 \<noteq> 0);
       let has_c = (t0 AND 0x40 \<noteq> 0);
       let ta_ptr = 2;
       let tb_ptr = (if has_a then ta_ptr + 1 else ta_ptr);
       let tc_ptr = (if has_b then tb_ptr + 1 else tb_ptr);
       let ats_ptr = (if has_c then tc_ptr + 1 else tc_ptr);
       let ats_end = 1 + unat ats_len;
       if ats_ptr \<le> ats_end then do {
         ta \<leftarrow> (if has_a then rd bs ta_ptr else Some 0);
         tb \<leftarrow> (if has_b then rd bs tb_ptr else Some 0);
         tc \<leftarrow> (if has_c then rd bs tc_ptr else Some 0);
         t1 \<leftarrow> rdn bs ats_ptr (ats_end - ats_ptr);
         Some (Some \<lparr>ia_fsc = fsc_of (unat (t0 AND 0x0f)), ia_t1 = t1, ia_t0 = t0,
           ia_ta = ta, ia_tb = tb, ia_tc = tc\<rparr>)
       } else Some None
     } else Some None
   }"

definition nci_parse_iso_dep_listen_a_param ::
    "byte list \<Rightarrow> NciActivationParamIsoDepListenA option mem" where
  "nci_parse_iso_dep_listen_a_param bs =
     (if 0 < length bs then do {
        b2 \<leftarrow> rd bs 0;
        Some (Some \<lparr>ila_fsd = fsc_of (unat (drop_bit 4 b2)), ila_did = unat (b2 AND 0x0f)\<rparr>)
      } else Some None)"

text \<open>\<open>len\<close> is not used by the C function: the reads are bounded by the packet's own length byte.\<close>

definition nci_parse_iso_dep_poll_b_param ::
    "byte list \<Rightarrow> NciActivationParamIsoDepPollB option mem" where
  "nci_parse_iso_dep_poll_b_param bs = do {
     n \<leftarrow> rd bs 0;
     if 1 \<le> unat n then do {
       b1 \<leftarrow> rd bs 1;
       hlr \<leftarrow> (if 2 \<le> unat n then rdn bs 2 (unat n - 1) else Some []);
       Some (Some \<lparr>ib_mbli = unat (drop_bit 4 (b1 AND 0xf0)), ib_did = unat (b1 AND 0x0f), ib_hlr = hlr\<rparr>)
     } else Some None
   }"

definition nci_parse_iso_dep_listen_b_param ::
    "byte list \<Rightarrow> NciActivationParamIsoDepListenB option mem" where
  "nci_parse_iso_dep_listen_b_param bs = do {
     n \<leftarrow> rd bs 0;
     if 8 \<le> unat n \<and> unat n < length bs then do {
       nfcid0 \<leftarrow> rdn bs 1 4;
       par \<leftarrow> rdn bs 5 4;
       hlc \<leftarrow> (if 8 < unat n then rdn bs 9 (unat n - 8) else Some []);
       Some (Some \<lparr>ilb_nfcid0 = nfcid0, ilb_param = par, ilb_hlc = hlc\<rparr>)
     } else Some None
   }"

definition nci_parse_nfc_dep_poll_param ::
    "byte list \<Rightarrow> NciActivationParamNfcDepPoll option mem" where
  "nci_parse_nfc_dep_poll_param bs = do {
     n \<leftarrow> rd bs 0;
     if 15 \<le> unat n \<and> unat n + 1 \<le> length bs then do {
       nfcid3 \<leftarrow> rdn bs 1 10;
       did \<leftarrow> rd bs 11;
       bsb \<leftarrow> rd bs 12;
       br \<leftarrow> rd bs 13;
       to \<leftarrow> rd bs 14;
       pp \<leftarrow> rd bs 15;
       g \<leftarrow> (if 15 < unat n then rdn bs 16 (unat n - 15) else Some []);
       Some (Some \<lparr>np_nfcid3 = nfcid3, np_did = did, np_bs = bsb, np_br = br, np_to = to,
         np_pp = pp, np_g = g\<rparr>)
     } else Some None
   }"

definition nci_parse_nfc_dep_listen_param ::
    "byte list \<Rightarrow> NciActivationParamNfcDepListen option mem" where
  "nci_parse_nfc_dep_listen_param bs = do {
     n \<leftarrow> rd bs 0;
     if 14 \<le> unat n \<and> unat n + 1 \<le> length bs then do {
       nfcid3 \<leftarrow> rdn bs 1 10;
       did \<leftarrow> rd bs 11;
       bsb \<leftarrow> rd bs 12;
       br \<leftarrow> rd bs 13;
       pp \<leftarrow> rd bs 14;
       g \<leftarrow> (if 14 < unat n then rdn bs 15 (unat n - 14) else Some []);
       Some (Some \<lparr>nl_nfcid3 = nfcid3, nl_did = did, nl_bs = bsb, nl_br = br, nl_pp = pp, nl_g = g\<rparr>)
     } else Some None
   }"

definition nci_parse_activation_param ::
    "NCI_RF_INTERFACE \<Rightarrow> NCI_MODE \<Rightarrow> byte list \<Rightarrow> NciActivationParam option mem" where
  "nci_parse_activation_param intf mode bs =
     (if intf = NCI_RF_INTERFACE_ISO_DEP then
        (if mode \<in> {NCI_MODE_PASSIVE_POLL_A, NCI_MODE_ACTIVE_POLL_A} then
           map_option (map_option IsoDepPollA) (nci_parse_iso_dep_poll_a_param bs)
         else if mode \<in> {NCI_MODE_PASSIVE_LISTEN_A, NCI_MODE_ACTIVE_LISTEN_A} then
           map_option (map_option IsoDepListenA) (nci_parse_iso_dep_listen_a_param bs)
         else if mode = NCI_MODE_PASSIVE_POLL_B then
           map_option (map_option IsoDepPollB) (nci_parse_iso_dep_poll_b_param bs)
         else if mode = NCI_MODE_PASSIVE_LISTEN_B then
           map_option (map_option IsoDepListenB) (nci_parse_iso_dep_listen_b_param bs)
         else Some None)
      else if intf = NCI_RF_INTERFACE_NFC_DEP then
        (if mode \<in> {NCI_MODE_ACTIVE_POLL_A, NCI_MODE_ACTIVE_POLL_F,
                    NCI_MODE_PASSIVE_POLL_A, NCI_MODE_PASSIVE_POLL_F} then
           map_option (map_option NfcDepPoll) (nci_parse_nfc_dep_poll_param bs)
         else if mode \<in> {NCI_MODE_ACTIVE_LISTEN_A, NCI_MODE_ACTIVE_LISTEN_F,
                         NCI_MODE_PASSIVE_LISTEN_A, NCI_MODE_PASSIVE_LISTEN_F} then
           map_option (map_option NfcDepListen) (nci_parse_nfc_dep_listen_param bs)
         else Some None)
      else Some None)"

section \<open>RF_INTF_ACTIVATED_NTF\<close>

text \<open>\<open>memset(ntf, 0, sizeof(*ntf))\<close>: what is left in the structure when parsing fails.\<close>

definition zero_intf_activated_ntf :: NciIntfActivationNtf where
  "zero_intf_activated_ntf =
     \<lparr>ian_discovery_id = 0, ian_rf_intf = 0, ian_protocol = 0, ian_mode = 0,
      ian_max_data_packet_size = 0, ian_num_credits = 0, ian_mode_param_bytes = [],
      ian_mode_param = None, ian_data_exchange_mode = 0, ian_transmit_rate = 0,
      ian_receive_rate = 0, ian_activation_param_bytes = [], ian_activation_param = None\<rparr>"

definition nci_parse_intf_activated_ntf :: "byte list \<Rightarrow> (bool \<times> NciIntfActivationNtf) mem" where
  "nci_parse_intf_activated_ntf pkt =
     (if 6 < length pkt then do {
        n8 \<leftarrow> rd pkt 6;
        let n = unat n8;
        m8 \<leftarrow> (if 10 + n < length pkt then rd pkt (10 + n) else Some 0);
        let m = unat m8;
        if 11 + n + m \<le> length pkt then do {
          did \<leftarrow> rd pkt 0;
          intf \<leftarrow> rd pkt 1;
          proto \<leftarrow> rd pkt 2;
          mode \<leftarrow> rd pkt 3;
          maxp \<leftarrow> rd pkt 4;
          creds \<leftarrow> rd pkt 5;
          mbytes \<leftarrow> rdn pkt 7 n;
          dmode \<leftarrow> rd pkt (7 + n);
          tx \<leftarrow> rd pkt (8 + n);
          rx \<leftarrow> rd pkt (9 + n);
          abytes \<leftarrow> rdn pkt (11 + n) m;
          mp \<leftarrow> (if 0 < n then nci_parse_mode_param mode mbytes else Some None);
          ap \<leftarrow> (if 0 < m then nci_parse_activation_param intf mode abytes else Some None);
          Some (True, \<lparr>ian_discovery_id = did, ian_rf_intf = intf, ian_protocol = proto,
            ian_mode = mode, ian_max_data_packet_size = maxp, ian_num_credits = creds,
            ian_mode_param_bytes = mbytes, ian_mode_param = mp, ian_data_exchange_mode = dmode,
            ian_transmit_rate = tx, ian_receive_rate = rx, ian_activation_param_bytes = abytes,
            ian_activation_param = ap\<rparr>)
        } else Some (False, zero_intf_activated_ntf)
      } else Some (False, zero_intf_activated_ntf))"

section \<open>RF_DEACTIVATE_NTF\<close>

definition deactivation_type_of :: "byte \<Rightarrow> NCI_DEACTIVATION_TYPE option" where
  "deactivation_type_of b =
     (if b = 0x00 then Some NCI_DEACTIVATE_TYPE_IDLE
      else if b = 0x03 then Some NCI_DEACTIVATE_TYPE_DISCOVERY
      else if b = 0x01 then Some NCI_DEACTIVATE_TYPE_SLEEP
      else if b = 0x02 then Some NCI_DEACTIVATE_TYPE_SLEEP_AF
      else None)"

definition nci_parse_rf_deactivate_ntf :: "byte list \<Rightarrow> NciRfDeactivateNtf option" where
  "nci_parse_rf_deactivate_ntf pkt =
     (if 2 \<le> length pkt then
        case deactivation_type_of (pkt ! 0) of
          Some t \<Rightarrow> Some \<lparr>rdn_type = t, rdn_reason = pkt ! 1\<rparr>
        | None \<Rightarrow> None
      else None)"

section \<open>Memory safety of the parsers\<close>

lemma byte_nz: "(w :: byte) \<noteq> 0 \<Longrightarrow> Suc 0 \<le> unat w"
  by (simp add: Suc_le_eq unat_gt_0)

lemma parse_mode_poll_a_safe: "parse_mode_poll_a bs \<noteq> None"
  by (auto dest!: byte_nz simp: parse_mode_poll_a_def rd_def rdn_def Let_def split: if_splits)

lemma parse_mode_poll_b_fault:
  "parse_mode_poll_b bs = None \<longleftrightarrow> bs \<noteq> [] \<and> 11 \<le> unat (bs ! 0) \<and> length bs \<le> unat (bs ! 0)"
  by (cases bs) (auto simp: parse_mode_poll_b_def rd_def rdn_def split: if_splits)

lemma parse_mode_poll_f_safe: "parse_mode_poll_f bs \<noteq> None"
  by (auto simp: parse_mode_poll_f_def rd_def rdn_def Let_def split: if_splits)

lemma parse_mode_poll_v_safe: "parse_mode_poll_v bs \<noteq> None"
  by (auto simp: parse_mode_poll_v_def rd_def rdn_def Let_def split: if_splits)

lemma parse_mode_listen_f_safe: "parse_mode_listen_f bs \<noteq> None"
  by (auto simp: parse_mode_listen_f_def rd_def rdn_def Let_def split: if_splits)

lemmas mode_safe = parse_mode_poll_a_safe parse_mode_poll_b_fault parse_mode_poll_f_safe
  parse_mode_poll_v_safe parse_mode_listen_f_safe

lemma mode_param_fault:
  "nci_parse_mode_param mode bs = None \<longleftrightarrow>
     mode = NCI_MODE_PASSIVE_POLL_B \<and> bs \<noteq> [] \<and> 11 \<le> unat (bs ! 0) \<and> length bs \<le> unat (bs ! 0)"
  by (simp add: nci_parse_mode_param_def mode_safe del: not_None_eq)

lemma iso_dep_poll_a_fault: "nci_parse_iso_dep_poll_a_param bs = None \<longleftrightarrow> bs = []"
  by (cases bs) (auto simp: nci_parse_iso_dep_poll_a_param_def rd_def rdn_def Let_def split: if_splits)

lemma iso_dep_listen_a_safe: "nci_parse_iso_dep_listen_a_param bs \<noteq> None"
  by (cases bs) (auto simp: nci_parse_iso_dep_listen_a_param_def rd_def)

lemma iso_dep_poll_b_fault: "nci_parse_iso_dep_poll_b_param bs = None \<longleftrightarrow>
  bs = [] \<or> 1 \<le> unat (bs ! 0) \<and> length bs \<le> unat (bs ! 0)"
  by (cases bs) (auto simp: nci_parse_iso_dep_poll_b_param_def rd_def rdn_def not_le less_Suc_eq split: if_splits)

lemma iso_dep_listen_b_fault: "nci_parse_iso_dep_listen_b_param bs = None \<longleftrightarrow> bs = []"
  by (cases bs) (auto simp: nci_parse_iso_dep_listen_b_param_def rd_def rdn_def split: if_splits)

lemma nfc_dep_poll_fault: "nci_parse_nfc_dep_poll_param bs = None \<longleftrightarrow> bs = []"
  by (cases bs) (auto simp: nci_parse_nfc_dep_poll_param_def rd_def rdn_def split: if_splits)

lemma nfc_dep_listen_fault: "nci_parse_nfc_dep_listen_param bs = None \<longleftrightarrow> bs = []"
  by (cases bs) (auto simp: nci_parse_nfc_dep_listen_param_def rd_def rdn_def split: if_splits)

lemmas act_fault = iso_dep_poll_a_fault iso_dep_listen_a_safe iso_dep_poll_b_fault iso_dep_listen_b_fault
   nfc_dep_poll_fault nfc_dep_listen_fault

lemma activation_param_fault:
  "bs \<noteq> [] \<Longrightarrow> nci_parse_activation_param intf mode bs = None \<longleftrightarrow>
     intf = NCI_RF_INTERFACE_ISO_DEP \<and> mode = NCI_MODE_PASSIVE_POLL_B \<and>
     1 \<le> unat (bs ! 0) \<and> length bs \<le> unat (bs ! 0)"
  by (simp add: nci_parse_activation_param_def act_fault del: not_None_eq)

lemma act_mode: "nci_parse_activation_param intf mode bs = None \<Longrightarrow> bs = [] \<or> mode = NCI_MODE_PASSIVE_POLL_B"
  using activation_param_fault by blast

text \<open>
  C33. Memory safety of the mode parameters, exactly: the parser reads outside the bytes it
  is given only for NFC-B poll mode, when the length byte announces 11 bytes or more and
  the buffer ends before them. Every other mode, length and content is safe.
\<close>

theorem nci_parse_mode_param_fault:
  "nci_parse_mode_param mode bs = None \<longleftrightarrow>
     mode = NCI_MODE_PASSIVE_POLL_B \<and> bs \<noteq> [] \<and> 11 \<le> unat (bs ! 0) \<and> length bs \<le> unat (bs ! 0)"
  by (rule mode_param_fault)




text \<open>
  C35. Parsing RF_INTF_ACTIVATED_NTF never reads outside the packet, whatever its bytes and
  however short it is, unless its mode byte says NFC-B poll mode.
\<close>

theorem nci_parse_intf_activated_ntf_safe:
  assumes "pkt ! 3 \<noteq> NCI_MODE_PASSIVE_POLL_B"
  shows "\<exists>r. nci_parse_intf_activated_ntf pkt = Some r"
proof (rule ccontr)
  assume "\<not> ?thesis"
  then have "nci_parse_intf_activated_ntf pkt = None" by (cases "nci_parse_intf_activated_ntf pkt") auto
  then show False using assms
    by (auto simp: nci_parse_intf_activated_ntf_def rd_def rdn_def Let_def Option.bind_eq_None_conv
        mode_param_fault split: if_splits dest!: act_mode)
qed

lemma nci_parse_intf_activated_ntf_safe_witness:
  "\<exists>r. nci_parse_intf_activated_ntf [1, 2, 4, NCI_MODE_PASSIVE_POLL_A, 255, 1, 9, 4] = Some r"
  by (rule nci_parse_intf_activated_ntf_safe) simp


section \<open>The notification formats\<close>

text \<open>Encoders written from the tables of the NCI specification that the C comments quote.\<close>

definition enc_discover_ntf :: "byte \<Rightarrow> NCI_PROTOCOL \<Rightarrow> NCI_MODE \<Rightarrow> byte list \<Rightarrow> byte \<Rightarrow> byte list" where
  "enc_discover_ntf did proto mode params t = [did, proto, mode, of_nat (length params)] @ params @ [t]"

text \<open>
  Every RF_DISCOVER_NTF laid out as the specification's table says is parsed into its
  fields, the parameters according to its mode; the last-notification flag is cleared
  exactly by the notification type 2.
\<close>

theorem nci_parse_discover_ntf_enc:
  assumes "length params < 256"
  shows "nci_parse_discover_ntf True (enc_discover_ntf did proto mode params t) =
     do { mp \<leftarrow> (if params = [] then Some None else nci_parse_mode_param mode params);
          Some (Some \<lparr>dn_discovery_id = did, dn_protocol = proto, dn_mode = mode,
            dn_param_bytes = params, dn_param = mp, dn_last = (t \<noteq> 2)\<rparr>) }"
  using assms
  by (simp add: nci_parse_discover_ntf_def enc_discover_ntf_def rd_def rdn_def Let_def unat_of_nat_byte
      nth_append)

lemma nci_parse_discover_ntf_enc_witness:
  "nci_parse_discover_ntf True (enc_discover_ntf 1 NCI_PROTOCOL_ISO_DEP NCI_MODE_PASSIVE_POLL_V [0, 9, 1, 2, 3, 4, 5, 6, 7, 8] 2) =
     Some (Some \<lparr>dn_discovery_id = 1, dn_protocol = NCI_PROTOCOL_ISO_DEP, dn_mode = NCI_MODE_PASSIVE_POLL_V,
       dn_param_bytes = [0, 9, 1, 2, 3, 4, 5, 6, 7, 8],
       dn_param = Some (PollV \<lparr>pv_res_flag = 0, pv_dsfid = 9, pv_uid = [1, 2, 3, 4, 5, 6, 7, 8]\<rparr>), dn_last = False\<rparr>)"
  by (subst nci_parse_discover_ntf_enc) (simp_all add: nci_parse_mode_param_def parse_mode_poll_v_def rd_def rdn_def)


text \<open>
  A truncated RF_DISCOVER_NTF is rejected: no proper prefix of a well-formed
  notification is accepted, and none makes the parser read outside of it.
\<close>

theorem nci_parse_discover_ntf_truncated:
  assumes "length params < 256" and "k < length (enc_discover_ntf did proto mode params t)"
  shows "nci_parse_discover_ntf hp (take k (enc_discover_ntf did proto mode params t)) = Some None"
proof -
  have "k < 5 + length params" using assms(2) by (simp add: enc_discover_ntf_def)
  moreover have "take k (enc_discover_ntf did proto mode params t) ! 3 = of_nat (length params)" if "5 \<le> k"
    using that by (simp add: enc_discover_ntf_def)
  ultimately show ?thesis using assms
    by (simp add: nci_parse_discover_ntf_def rd_def Let_def unat_of_nat_byte enc_discover_ntf_def)
qed

lemma nci_parse_discover_ntf_truncated_witness:
  "nci_parse_discover_ntf True (take 6 (enc_discover_ntf 1 4 0 [4, 0, 0, 1] 0)) = Some None"
  by (rule nci_parse_discover_ntf_truncated) (simp_all add: enc_discover_ntf_def)


definition enc_intf_activated_ntf :: "NciIntfActivationNtf \<Rightarrow> byte list" where
  "enc_intf_activated_ntf x =
     [ian_discovery_id x, ian_rf_intf x, ian_protocol x, ian_mode x, ian_max_data_packet_size x,
      ian_num_credits x, of_nat (length (ian_mode_param_bytes x))] @ ian_mode_param_bytes x @
     [ian_data_exchange_mode x, ian_transmit_rate x, ian_receive_rate x,
      of_nat (length (ian_activation_param_bytes x))] @ ian_activation_param_bytes x"

text \<open>
  C36. Every RF_INTF_ACTIVATED_NTF laid out as the specification's table says is parsed
  successfully and into its fields; the two parameter structures are what their parsers
  make of the two byte arrays.
\<close>

theorem nci_parse_intf_activated_ntf_enc:
  assumes "length (ian_mode_param_bytes x) < 256" and "length (ian_activation_param_bytes x) < 256"
  shows "nci_parse_intf_activated_ntf (enc_intf_activated_ntf x) =
     do { mp \<leftarrow> (if ian_mode_param_bytes x = [] then Some None
                else nci_parse_mode_param (ian_mode x) (ian_mode_param_bytes x));
          ap \<leftarrow> (if ian_activation_param_bytes x = [] then Some None
                else nci_parse_activation_param (ian_rf_intf x) (ian_mode x) (ian_activation_param_bytes x));
          Some (True, x\<lparr>ian_mode_param := mp, ian_activation_param := ap\<rparr>) }"
  using assms
  by (cases x) (simp add: drop_Cons' drop_append nci_parse_intf_activated_ntf_def enc_intf_activated_ntf_def rd_def rdn_def Let_def unat_of_nat_byte
      nth_append)

lemma nci_parse_intf_activated_ntf_enc_witness:
  "nci_parse_intf_activated_ntf (enc_intf_activated_ntf (zero_intf_activated_ntf\<lparr>ian_rf_intf := 1, ian_mode := 1\<rparr>)) =
     Some (True, zero_intf_activated_ntf\<lparr>ian_rf_intf := 1, ian_mode := 1\<rparr>)"
  by (subst nci_parse_intf_activated_ntf_enc) (simp_all add: zero_intf_activated_ntf_def)


section \<open>TLV lists\<close>

fun tlv_encode :: "(byte \<times> byte list) list \<Rightarrow> byte list" where
  "tlv_encode [] = []"
| "tlv_encode ((t, v) # ps) = t # of_nat (length v) # v @ tlv_encode ps"

definition tlv_ok :: "(byte \<times> byte list) list \<Rightarrow> bool" where
  "tlv_ok ps \<longleftrightarrow> (\<forall>(t, v) \<in> set ps. length v < 256)"

lemma find_config_param_tlv:
  assumes "tlv_ok ps" and "n \<le> length ps"
  shows "nci_parse_find_config_param n (tlv_encode ps @ junk) pid = map_of (take n ps) pid"
  using assms
proof (induction ps arbitrary: n)
  case Nil
  then show ?case by simp
next
  case (Cons p ps)
  obtain t v where p: "p = (t, v)" by (cases p)
  show ?case
  proof (cases n)
    case 0
    then show ?thesis by simp
  next
    case (Suc m)
    have v: "length v < 256" and ok: "tlv_ok ps" using Cons.prems(1) p by (simp_all add: tlv_ok_def)
    have "nci_parse_find_config_param m (tlv_encode ps @ junk) pid = map_of (take m ps) pid"
      using Cons.IH [OF ok] Cons.prems(2) Suc by simp
    then show ?thesis using v Suc p by (simp add: unat_of_nat_byte)
  qed
qed

text \<open>
  Looking a parameter up in a TLV list (as in CORE_GET_CONFIG_RSP and the routing
  tables) finds the first value stored under that identifier among the first \<open>n\<close>
  entries, whatever bytes follow the list.
\<close>

theorem nci_parse_find_config_param_tlv:
  assumes "tlv_ok ps" and "n \<le> length ps"
  shows "nci_parse_find_config_param n (tlv_encode ps @ junk) pid = map_of (take n ps) pid"
  using assms by (rule find_config_param_tlv)

lemma nci_parse_find_config_param_tlv_witness:
  "nci_parse_find_config_param 2 (tlv_encode [(0x30, [1]), (0x33, [4, 5, 6, 7])] @ [9]) 0x33 = Some [4, 5, 6, 7]"
  by (subst nci_parse_find_config_param_tlv) (simp_all add: tlv_ok_def)


section \<open>NFCID1 comparison\<close>

text \<open>What an identifier stands for: nothing if it is generated dynamically, else its bytes.\<close>

definition nfcid1_canon :: "NciNfcid1 \<Rightarrow> byte list" where
  "nfcid1_canon x = (if nci_nfcid1_dynamic x then [] else take (unat (nfcid1_len x)) (nfcid1_bytes x))"

lemma nfcid1_equal_canon:
  assumes "wf_nfcid1 a" and "wf_nfcid1 b"
  shows "nci_nfcid1_equal a b \<longleftrightarrow> nfcid1_canon a = nfcid1_canon b"
proof -
  have l: "nfcid1_len a \<in> {0, 4, 7, 10}" "nfcid1_len b \<in> {0, 4, 7, 10}"
    and n: "length (nfcid1_bytes a) = 10" "length (nfcid1_bytes b) = 10"
    using assms by (auto simp: wf_nfcid1_def word_unat_eq_iff)
  have hd: "take 4 xs = take 4 ys \<Longrightarrow> xs ! 0 = ys ! 0" for xs ys :: "byte list"
    by (metis nth_take zero_less_numeral)
  have len: "take i (nfcid1_bytes a) \<noteq> take j (nfcid1_bytes b)" if "i \<noteq> j" "i \<le> 10" "j \<le> 10" for i j
    using that n by (metis length_take min.absorb2)
  have "take i xs \<noteq> nfcid1_bytes a" "take i xs \<noteq> nfcid1_bytes b" if "i < 10" for i xs
    using that n by (metis length_take min_less_iff_conj nat_less_le)+
  note ten = this [of 4] this [of 7]
  have ne: "nfcid1_bytes a \<noteq> []" "nfcid1_bytes b \<noteq> []" using n by auto
  from l show ?thesis
    using n ne ten hd [of "nfcid1_bytes a" "nfcid1_bytes b"] len
    by (elim insertE emptyE) (auto simp: nci_nfcid1_equal_def nfcid1_canon_def nci_nfcid1_dynamic_def memcmp_eq_def)
qed

text \<open>
  On well-formed identifiers \<open>nci_nfcid1_equal\<close> is equality of what they stand for:
  all dynamically generated ones are the same, the others are compared as byte strings.
\<close>

theorem nci_nfcid1_equal_canon:
  assumes "wf_nfcid1 a" and "wf_nfcid1 b"
  shows "nci_nfcid1_equal a b \<longleftrightarrow> nfcid1_canon a = nfcid1_canon b"
  using assms by (rule nfcid1_equal_canon)

lemma nci_nfcid1_equal_canon_witness:
  "nci_nfcid1_equal zero_nfcid1 \<lparr>nfcid1_len = 4, nfcid1_bytes = [8, 1, 2, 3, 0, 0, 0, 0, 0, 0]\<rparr>"
  by (subst nci_nfcid1_equal_canon)
    (simp_all add: wf_nfcid1_def zero_nfcid1_def nfcid1_canon_def nci_nfcid1_dynamic_def)

end
