(* ===== verification/Nci_Util_Copy.thy ===== *)
theory Nci_Util_Copy
  imports Nci_Util
begin

text \<open>
  The deep copies of \<open>src/nci_util.c\<close>. A copy is one allocation that holds the structure
  and, behind it at 8-byte aligned offsets, the byte arrays it points to. The sizes of
  the C structures depend on the platform and are parameters (\<open>mp_sz\<close>, \<open>dn_sz\<close>,
  \<open>ap_sz\<close>); each function returns the copied value, the number of bytes allocated and the
  offset just behind the last byte written, so that "the copy fits its allocation" is a
  statement about the result. A value whose constructor is not the union member that the
  mode selects would be read through the wrong member: that is \<open>None\<close>.
\<close>

definition G_ALIGN8 :: "nat \<Rightarrow> nat" where
  "G_ALIGN8 n = (n + 7) div 8 * 8"

lemma G_ALIGN8_ge: "n \<le> G_ALIGN8 n"
  unfolding G_ALIGN8_def by presburger

lemma G_ALIGN8_dvd: "8 dvd n \<Longrightarrow> G_ALIGN8 n = n"
  unfolding G_ALIGN8_def by presburger

lemma G_ALIGN8_mono: "m \<le> n \<Longrightarrow> G_ALIGN8 m \<le> G_ALIGN8 n"
  unfolding G_ALIGN8_def by (simp add: div_le_mono)

lemma dvd_G_ALIGN8 [simp]: "8 dvd G_ALIGN8 n"
  by (simp add: G_ALIGN8_def)

section \<open>Mode parameters\<close>

definition flat_modes :: "NCI_MODE set" where
  "flat_modes = {NCI_MODE_ACTIVE_POLL_A, NCI_MODE_PASSIVE_POLL_A, NCI_MODE_ACTIVE_POLL_F,
     NCI_MODE_PASSIVE_POLL_F, NCI_MODE_PASSIVE_POLL_V}"

definition listen_f_modes :: "NCI_MODE set" where
  "listen_f_modes = {NCI_MODE_ACTIVE_LISTEN_F, NCI_MODE_PASSIVE_LISTEN_F}"

definition prot_info_of :: "NciModeParam \<Rightarrow> byte list mem" where
  "prot_info_of p = (case p of PollB b \<Rightarrow> Some (pb_prot_info b) | _ \<Rightarrow> None)"

definition nfcid2_of :: "NciModeParam \<Rightarrow> byte list mem" where
  "nfcid2_of p = (case p of ListenF f \<Rightarrow> Some (lf_nfcid2 f) | _ \<Rightarrow> None)"

definition nci_mode_param_copy_impl ::
    "nat \<Rightarrow> NciModeParam option \<Rightarrow> NCI_MODE \<Rightarrow> (NciModeParam option \<times> nat) mem" where
  "nci_mode_param_copy_impl mp_sz src mode =
     (case src of
        None \<Rightarrow> Some (None, 0)
      | Some p \<Rightarrow>
          if mode \<in> flat_modes then Some (Some p, mp_sz)
          else if mode = NCI_MODE_PASSIVE_POLL_B then do {
            info \<leftarrow> prot_info_of p;
            Some (Some p, if info \<noteq> [] then G_ALIGN8 mp_sz + G_ALIGN8 (length info) else mp_sz)
          }
          else if mode \<in> listen_f_modes then do {
            nfcid2 \<leftarrow> nfcid2_of p;
            Some (Some p, if nfcid2 \<noteq> [] then G_ALIGN8 mp_sz + G_ALIGN8 (length nfcid2) else mp_sz)
          }
          else Some (None, 0))"

definition nci_mode_param_size :: "nat \<Rightarrow> NciModeParam option \<Rightarrow> NCI_MODE \<Rightarrow> nat mem" where
  "nci_mode_param_size mp_sz param mode =
     (case param of
        None \<Rightarrow> Some 0
      | Some p \<Rightarrow>
          if mode \<in> flat_modes then Some mp_sz
          else if mode = NCI_MODE_PASSIVE_POLL_B then do {
            info \<leftarrow> prot_info_of p;
            Some (if length info \<noteq> 0 then G_ALIGN8 mp_sz + G_ALIGN8 (length info) else mp_sz)
          }
          else if mode \<in> listen_f_modes then do {
            nfcid2 \<leftarrow> nfcid2_of p;
            Some (if length nfcid2 \<noteq> 0 then G_ALIGN8 mp_sz + G_ALIGN8 (length nfcid2) else mp_sz)
          }
          else Some 0)"

definition nci_util_copy_mode_param ::
    "nat \<Rightarrow> NciModeParam option \<Rightarrow> NCI_MODE \<Rightarrow> (NciModeParam option \<times> nat \<times> nat) mem" where
  "nci_util_copy_mode_param mp_sz param mode =
     (case param of
        None \<Rightarrow> Some (None, 0, 0)
      | Some p \<Rightarrow> do {
          size' \<leftarrow> nci_mode_param_size mp_sz param mode;
          if mode \<in> flat_modes \<or> mode = NCI_MODE_PASSIVE_POLL_B \<or> mode \<in> listen_f_modes then
            if size' \<noteq> 0 then do {
              (copy, end') \<leftarrow> nci_mode_param_copy_impl mp_sz param mode;
              Some (copy, size', end')
            } else Some (None, 0, 0)
          else Some (None, 0, 0)
        })"

section \<open>Discovery notifications\<close>

text \<open>First loop of \<open>nci_discovery_ntf_copy_array\<close>: the total size.\<close>

fun copy_array_size :: "nat \<Rightarrow> nat \<Rightarrow> NciDiscoveryNtf list \<Rightarrow> nat mem" where
  "copy_array_size mp_sz size' [] = Some size'"
| "copy_array_size mp_sz size' (src # ntfs) =
     (if dn_param_bytes src \<noteq> [] then
        case dn_param src of
          None \<Rightarrow> copy_array_size mp_sz (size' + G_ALIGN8 (length (dn_param_bytes src))) ntfs
        | Some p \<Rightarrow> do {
            psize \<leftarrow> nci_mode_param_size mp_sz (Some p) (dn_mode src);
            copy_array_size mp_sz (size' + G_ALIGN8 (length (dn_param_bytes src)) + G_ALIGN8 psize) ntfs
          }
      else copy_array_size mp_sz size' ntfs)"

text \<open>Second loop: the copies, and where the pointer \<open>ptr\<close> ends.\<close>

fun copy_array_loop :: "nat \<Rightarrow> nat \<Rightarrow> NciDiscoveryNtf list \<Rightarrow> (NciDiscoveryNtf list \<times> nat) mem" where
  "copy_array_loop mp_sz ptr [] = Some ([], ptr)"
| "copy_array_loop mp_sz ptr (src # ntfs) = do {
     (dest, ptr') \<leftarrow>
       (if dn_param_bytes src \<noteq> [] then do {
          let ptr1 = ptr + G_ALIGN8 (length (dn_param_bytes src));
          case dn_param src of
            None \<Rightarrow> Some (src, ptr1)
          | Some p \<Rightarrow> do {
              (q, copied) \<leftarrow> nci_mode_param_copy_impl mp_sz (Some p) (dn_mode src);
              if copied \<noteq> 0 then Some (src\<lparr>dn_param := q\<rparr>, ptr1 + G_ALIGN8 copied)
              else Some (src\<lparr>dn_param := None\<rparr>, ptr1)
            }
        } else Some (src, ptr));
     (dests, end') \<leftarrow> copy_array_loop mp_sz ptr' ntfs;
     Some (dest # dests, end')
   }"

definition nci_discovery_ntf_copy_array ::
    "nat \<Rightarrow> nat \<Rightarrow> NciDiscoveryNtf list \<Rightarrow> (NciDiscoveryNtf list option \<times> nat \<times> nat) mem" where
  "nci_discovery_ntf_copy_array dn_sz mp_sz ntfs =
     (if ntfs \<noteq> [] then do {
        size' \<leftarrow> copy_array_size mp_sz (G_ALIGN8 (dn_sz * length ntfs)) ntfs;
        (copies, end') \<leftarrow> copy_array_loop mp_sz (G_ALIGN8 (dn_sz * length ntfs)) ntfs;
        Some (Some copies, size', end')
      } else Some (None, 0, 0))"

definition nci_discovery_ntf_copy ::
    "nat \<Rightarrow> nat \<Rightarrow> NciDiscoveryNtf option \<Rightarrow> (NciDiscoveryNtf list option \<times> nat \<times> nat) mem" where
  "nci_discovery_ntf_copy dn_sz mp_sz ntf =
     (case ntf of Some x \<Rightarrow> nci_discovery_ntf_copy_array dn_sz mp_sz [x] | None \<Rightarrow> Some (None, 0, 0))"

section \<open>Activation parameters\<close>

text \<open>
  The value, the bytes allocated and the end of what is written; \<open>Some (None, 0, 0)\<close> is
  the NULL result for a combination without parameters.
\<close>

definition copy_tail_aligned :: "nat \<Rightarrow> NciActivationParam \<Rightarrow> byte list \<Rightarrow> NciActivationParam option \<times> nat \<times> nat" where
  "copy_tail_aligned ap_sz p bytes =
     (let size' = (if length bytes \<noteq> 0 then G_ALIGN8 ap_sz + G_ALIGN8 (length bytes) else ap_sz);
          end' = (if bytes \<noteq> [] then G_ALIGN8 ap_sz + length bytes else ap_sz)
      in (Some p, size', end'))"

definition copy_tail :: "nat \<Rightarrow> NciActivationParam \<Rightarrow> byte list \<Rightarrow> NciActivationParam option \<times> nat \<times> nat" where
  "copy_tail ap_sz p bytes =
     (let size' = ap_sz + G_ALIGN8 (length bytes);
          end' = (if bytes \<noteq> [] then G_ALIGN8 ap_sz + length bytes else ap_sz)
      in (Some p, size', end'))"

definition nci_util_copy_activation_param ::
    "nat \<Rightarrow> NciActivationParam option \<Rightarrow> NCI_RF_INTERFACE \<Rightarrow> NCI_MODE \<Rightarrow>
     (NciActivationParam option \<times> nat \<times> nat) mem" where
  "nci_util_copy_activation_param ap_sz param intf mode =
     (case param of
        None \<Rightarrow> Some (None, 0, 0)
      | Some p \<Rightarrow>
          if intf = NCI_RF_INTERFACE_ISO_DEP then
            if mode \<in> {NCI_MODE_PASSIVE_POLL_A, NCI_MODE_ACTIVE_POLL_A} then
              (case p of IsoDepPollA a \<Rightarrow> Some (copy_tail_aligned ap_sz p (ia_t1 a)) | _ \<Rightarrow> None)
            else if mode \<in> {NCI_MODE_PASSIVE_LISTEN_A, NCI_MODE_ACTIVE_LISTEN_A} then
              Some (Some p, ap_sz, ap_sz)
            else if mode = NCI_MODE_PASSIVE_POLL_B then
              (case p of IsoDepPollB b \<Rightarrow> Some (copy_tail_aligned ap_sz p (ib_hlr b)) | _ \<Rightarrow> None)
            else if mode = NCI_MODE_PASSIVE_LISTEN_B then
              (case p of IsoDepListenB b \<Rightarrow> Some (copy_tail_aligned ap_sz p (ilb_hlc b)) | _ \<Rightarrow> None)
            else Some (None, 0, 0)
          else if intf = NCI_RF_INTERFACE_NFC_DEP then
            if mode \<in> {NCI_MODE_ACTIVE_POLL_A, NCI_MODE_ACTIVE_POLL_F,
                       NCI_MODE_PASSIVE_POLL_A, NCI_MODE_PASSIVE_POLL_F} then
              (case p of NfcDepPoll n \<Rightarrow> Some (copy_tail ap_sz p (np_g n)) | _ \<Rightarrow> None)
            else if mode \<in> {NCI_MODE_ACTIVE_LISTEN_A, NCI_MODE_ACTIVE_LISTEN_F,
                            NCI_MODE_PASSIVE_LISTEN_A, NCI_MODE_PASSIVE_LISTEN_F} then
              (case p of NfcDepListen n \<Rightarrow> Some (copy_tail ap_sz p (nl_g n)) | _ \<Rightarrow> None)
            else Some (None, 0, 0)
          else Some (None, 0, 0))"

section \<open>The copies fit their allocations\<close>

lemma mode_param_size_copy:
  "nci_mode_param_copy_impl mp_sz (Some p) mode = Some (q, n) \<Longrightarrow>
   nci_mode_param_size mp_sz (Some p) mode = Some n \<and> (q = Some p \<or> q = None \<and> n = 0)"
  by (auto simp: nci_mode_param_copy_impl_def nci_mode_param_size_def Option.bind_eq_Some_conv split: if_splits)

lemma mode_param_size_copy_total:
  "nci_mode_param_size mp_sz (Some p) mode = Some n \<Longrightarrow>
   \<exists>q. nci_mode_param_copy_impl mp_sz (Some p) mode = Some (q, n)"
  by (auto simp: nci_mode_param_copy_impl_def nci_mode_param_size_def Option.bind_eq_Some_conv split: if_splits)

text \<open>
  The two loops agree: started at the same offset, the copying loop ends exactly at the
  computed size, and each copy is its source, but for parameters that cannot be copied.
\<close>

lemma copy_array_size_loop:
  assumes "copy_array_size mp_sz size' ntfs = Some tot"
  shows "\<exists>copies. copy_array_loop mp_sz size' ntfs = Some (copies, tot) \<and>
    list_all2 (\<lambda>d s. d = s \<or> d = s\<lparr>dn_param := None\<rparr>) copies ntfs"
  using assms
proof (induction ntfs arbitrary: size')
  case Nil
  then show ?case by simp
next
  case (Cons src ntfs)
  show ?case
  proof (cases "dn_param_bytes src \<noteq> [] \<and> dn_param src \<noteq> None")
    case False
    then show ?thesis
      using Cons.prems
      by (cases "dn_param_bytes src = []"; cases "dn_param src") (auto simp: Let_def dest!: Cons.IH)
  next
    case True
    then obtain p where p: "dn_param src = Some p" "dn_param_bytes src \<noteq> []" by auto
    with Cons.prems obtain n where n: "nci_mode_param_size mp_sz (Some p) (dn_mode src) = Some n"
      and rest: "copy_array_size mp_sz (size' + G_ALIGN8 (length (dn_param_bytes src)) + G_ALIGN8 n) ntfs = Some tot"
      by (auto simp: Option.bind_eq_Some_conv)
    from n obtain q where q: "nci_mode_param_copy_impl mp_sz (Some p) (dn_mode src) = Some (q, n)"
      using mode_param_size_copy_total by blast
    have d: "n \<noteq> 0 \<Longrightarrow> src\<lparr>dn_param := q\<rparr> = src"
      using mode_param_size_copy [OF q] p(1) by (cases src) auto
    show ?thesis
      using Cons.IH [OF rest] p q d by (cases "n = 0") (auto simp: Let_def G_ALIGN8_def)
  qed
qed

text \<open>The constructor of a parameter is the union member its mode selects.\<close>

definition param_tag_ok :: "NCI_MODE \<Rightarrow> NciModeParam \<Rightarrow> bool" where
  "param_tag_ok mode p \<longleftrightarrow>
     (mode = NCI_MODE_PASSIVE_POLL_B \<longrightarrow> prot_info_of p \<noteq> None) \<and>
     (mode \<in> listen_f_modes \<longrightarrow> nfcid2_of p \<noteq> None)"

definition ntf_tag_ok :: "NciDiscoveryNtf \<Rightarrow> bool" where
  "ntf_tag_ok x \<longleftrightarrow> (case dn_param x of None \<Rightarrow> True | Some p \<Rightarrow> param_tag_ok (dn_mode x) p)"

lemma param_tag_ok_size:
  "param_tag_ok mode p \<Longrightarrow> \<exists>n. nci_mode_param_size mp_sz (Some p) mode = Some n"
  by (auto simp: param_tag_ok_def nci_mode_param_size_def)

lemma copy_array_size_total:
  "\<forall>x \<in> set ntfs. ntf_tag_ok x \<Longrightarrow> \<exists>tot. copy_array_size mp_sz size' ntfs = Some tot"
proof (induction ntfs arbitrary: size')
  case Nil
  then show ?case by simp
next
  case (Cons x ntfs)
  have tl: "\<exists>tot. copy_array_size mp_sz s ntfs = Some tot" for s using Cons by simp
  show ?case
  proof (cases "dn_param x")
    case None
    then show ?thesis using tl by simp
  next
    case (Some p)
    then obtain n where "nci_mode_param_size mp_sz (Some p) (dn_mode x) = Some n"
      using Cons.prems param_tag_ok_size by (fastforce simp: ntf_tag_ok_def)
    then show ?thesis using tl Some by simp
  qed
qed

lemma nci_parse_mode_param_tag:
  "nci_parse_mode_param mode bs = Some (Some p) \<Longrightarrow> param_tag_ok mode p"
  by (auto simp: param_tag_ok_def nci_parse_mode_param_def listen_f_modes_def parse_mode_poll_b_def
      parse_mode_listen_f_def prot_info_of_def nfcid2_of_def Option.bind_eq_Some_conv split: if_splits)

lemma nci_parse_discover_ntf_tag:
  "nci_parse_discover_ntf hp pkt = Some (Some ntf) \<Longrightarrow> ntf_tag_ok ntf"
  by (auto simp: nci_parse_discover_ntf_def Let_def Option.bind_eq_Some_conv ntf_tag_ok_def
      split: if_splits option.splits intro: nci_parse_mode_param_tag)

lemma copy_array_fits:
  assumes "ntfs \<noteq> []" and "\<forall>x \<in> set ntfs. ntf_tag_ok x"
  shows "\<exists>copies sz. nci_discovery_ntf_copy_array dn_sz mp_sz ntfs = Some (Some copies, sz, sz) \<and>
    list_all2 (\<lambda>d s. d = s \<or> d = s\<lparr>dn_param := None\<rparr>) copies ntfs"
proof -
  obtain tot where t: "copy_array_size mp_sz (G_ALIGN8 (dn_sz * length ntfs)) ntfs = Some tot"
    using copy_array_size_total [OF assms(2)] by blast
  then show ?thesis
    using copy_array_size_loop [OF t] assms(1) by (auto simp: nci_discovery_ntf_copy_array_def)
qed



text \<open>
  Copying activation parameters that fit their interface and mode writes at most the
  bytes allocated, and the copy is equal to the source or, for a combination without
  parameters, nothing. The NFC-DEP branches compute the size from the unaligned size of
  the structure, so this rests on the structure's size being a multiple of 8.
\<close>

theorem nci_util_copy_activation_param_fits:
  assumes "8 dvd ap_sz" and "nci_util_copy_activation_param ap_sz (Some p) intf mode = Some (q, sz, end')"
  shows "end' \<le> sz \<and> (q = Some p \<or> q = None \<and> sz = 0)"
  using assms(2) G_ALIGN8_ge G_ALIGN8_dvd [OF assms(1)]
  by (auto simp: nci_util_copy_activation_param_def copy_tail_def copy_tail_aligned_def Let_def
      split: if_splits NciActivationParam.splits)

lemma nci_util_copy_activation_param_fits_witness:
  "(48 + 3 :: nat) \<le> 48 + 8 \<and>
   (Some (IsoDepPollB \<lparr>ib_mbli = 0, ib_did = 0, ib_hlr = [1, 2, 3]\<rparr>) = Some (IsoDepPollB \<lparr>ib_mbli = 0, ib_did = 0, ib_hlr = [1, 2, 3]\<rparr>) \<or>
    Some (IsoDepPollB \<lparr>ib_mbli = 0, ib_did = 0, ib_hlr = [1, 2, 3]\<rparr>) = None \<and> (48 + 8 :: nat) = 0)"
  by (rule nci_util_copy_activation_param_fits [of 48 _ NCI_RF_INTERFACE_ISO_DEP NCI_MODE_PASSIVE_POLL_B])
    (simp_all add: nci_util_copy_activation_param_def copy_tail_aligned_def G_ALIGN8_def Let_def)

section \<open>Unions\<close>

text \<open>The member of the union that a mode, or an RF interface and a mode, select.\<close>

definition mode_param_member :: "NCI_MODE \<Rightarrow> NciModeParam \<Rightarrow> bool" where
  "mode_param_member mode p =
     (case p of
        PollA _ \<Rightarrow> mode \<in> {NCI_MODE_ACTIVE_POLL_A, NCI_MODE_PASSIVE_POLL_A}
      | PollB _ \<Rightarrow> mode = NCI_MODE_PASSIVE_POLL_B
      | PollF _ \<Rightarrow> mode \<in> {NCI_MODE_ACTIVE_POLL_F, NCI_MODE_PASSIVE_POLL_F}
      | PollV _ \<Rightarrow> mode = NCI_MODE_PASSIVE_POLL_V
      | ListenF _ \<Rightarrow> mode \<in> {NCI_MODE_ACTIVE_LISTEN_F, NCI_MODE_PASSIVE_LISTEN_F})"

definition activation_param_member :: "NCI_RF_INTERFACE \<Rightarrow> NCI_MODE \<Rightarrow> NciActivationParam \<Rightarrow> bool" where
  "activation_param_member intf mode p =
     (case p of
        IsoDepPollA _ \<Rightarrow> intf = NCI_RF_INTERFACE_ISO_DEP \<and> mode \<in> {NCI_MODE_PASSIVE_POLL_A, NCI_MODE_ACTIVE_POLL_A}
      | IsoDepPollB _ \<Rightarrow> intf = NCI_RF_INTERFACE_ISO_DEP \<and> mode = NCI_MODE_PASSIVE_POLL_B
      | IsoDepListenA _ \<Rightarrow> intf = NCI_RF_INTERFACE_ISO_DEP \<and> mode \<in> {NCI_MODE_PASSIVE_LISTEN_A, NCI_MODE_ACTIVE_LISTEN_A}
      | IsoDepListenB _ \<Rightarrow> intf = NCI_RF_INTERFACE_ISO_DEP \<and> mode = NCI_MODE_PASSIVE_LISTEN_B
      | NfcDepPoll _ \<Rightarrow> intf = NCI_RF_INTERFACE_NFC_DEP \<and>
          mode \<in> {NCI_MODE_ACTIVE_POLL_A, NCI_MODE_ACTIVE_POLL_F, NCI_MODE_PASSIVE_POLL_A, NCI_MODE_PASSIVE_POLL_F}
      | NfcDepListen _ \<Rightarrow> intf = NCI_RF_INTERFACE_NFC_DEP \<and>
          mode \<in> {NCI_MODE_ACTIVE_LISTEN_A, NCI_MODE_ACTIVE_LISTEN_F, NCI_MODE_PASSIVE_LISTEN_A, NCI_MODE_PASSIVE_LISTEN_F})"

lemmas mode_parsers = parse_mode_poll_a_def parse_mode_poll_b_def parse_mode_poll_f_def parse_mode_poll_v_def parse_mode_listen_f_def

lemma mode_parser_member:
  "parse_mode_poll_a bs = Some (Some p) \<Longrightarrow> \<exists>x. p = PollA x" "parse_mode_poll_b bs = Some (Some p) \<Longrightarrow> \<exists>x. p = PollB x"
  "parse_mode_poll_f bs = Some (Some p) \<Longrightarrow> \<exists>x. p = PollF x" "parse_mode_poll_v bs = Some (Some p) \<Longrightarrow> \<exists>x. p = PollV x"
  "parse_mode_listen_f bs = Some (Some p) \<Longrightarrow> \<exists>x. p = ListenF x"
  by (auto simp: mode_parsers Option.bind_eq_Some_conv Let_def split: if_splits)

lemma parse_mode_param_member:
  "nci_parse_mode_param mode bs = Some (Some p) \<Longrightarrow> mode_param_member mode p"
  by (auto simp: nci_parse_mode_param_def mode_param_member_def split: if_splits dest!: mode_parser_member)

lemma parse_activation_param_member:
  "nci_parse_activation_param intf mode bs = Some (Some p) \<Longrightarrow> activation_param_member intf mode p"
  by (auto simp: nci_parse_activation_param_def activation_param_member_def split: if_splits)

lemma member_tag: "mode_param_member mode p \<Longrightarrow> param_tag_ok mode p"
  by (auto simp: mode_param_member_def param_tag_ok_def listen_f_modes_def prot_info_of_def nfcid2_of_def split: NciModeParam.splits)

lemma copy_mode_param_total: "param_tag_ok mode p \<Longrightarrow> nci_util_copy_mode_param sz (Some p) mode \<noteq> None"
  using param_tag_ok_size [of mode p sz] mode_param_size_copy_total [of sz p mode]
  by (auto simp: nci_util_copy_mode_param_def)

lemma copy_activation_param_total: "activation_param_member intf mode p \<Longrightarrow> nci_util_copy_activation_param sz (Some p) intf mode \<noteq> None"
  by (cases p) (auto simp: activation_param_member_def nci_util_copy_activation_param_def copy_tail_def copy_tail_aligned_def Let_def)

text \<open>
  C40. The parameters in a parsed \<open>RF_INTF_ACTIVATED_NTF\<close> are the members of their unions that
  its mode and RF interface select, so whoever reads them by mode and interface, as the
  copying functions do, reads what was written.
\<close>

theorem parsed_params_typed:
  assumes "nci_parse_intf_activated_ntf pkt = Some (True, ntf)"
  shows "(case ian_mode_param ntf of
            Some p \<Rightarrow> mode_param_member (ian_mode ntf) p \<and> nci_util_copy_mode_param sz (Some p) (ian_mode ntf) \<noteq> None
          | None \<Rightarrow> True) \<and>
         (case ian_activation_param ntf of
            Some p \<Rightarrow> activation_param_member (ian_rf_intf ntf) (ian_mode ntf) p \<and>
              nci_util_copy_activation_param asz (Some p) (ian_rf_intf ntf) (ian_mode ntf) \<noteq> None
          | None \<Rightarrow> True)"
proof -
  have "ian_mode_param ntf = Some p \<Longrightarrow> mode_param_member (ian_mode ntf) p" for p
    using assms by (auto simp: nci_parse_intf_activated_ntf_def Let_def Option.bind_eq_Some_conv zero_intf_activated_ntf_def
        split: if_splits intro: parse_mode_param_member)
  moreover have "ian_activation_param ntf = Some p \<Longrightarrow> activation_param_member (ian_rf_intf ntf) (ian_mode ntf) p" for p
    using assms by (auto simp: nci_parse_intf_activated_ntf_def Let_def Option.bind_eq_Some_conv zero_intf_activated_ntf_def
        split: if_splits intro: parse_activation_param_member)
  ultimately show ?thesis
    using copy_mode_param_total [OF member_tag] copy_activation_param_total by (auto split: option.split)
qed

text \<open>An NFC-A endpoint activated without activation parameters.\<close>

definition intf_activated_example :: NciIntfActivationNtf where
  "intf_activated_example =
     \<lparr>ian_discovery_id = 1, ian_rf_intf = NCI_RF_INTERFACE_ISO_DEP, ian_protocol = NCI_PROTOCOL_ISO_DEP,
      ian_mode = NCI_MODE_PASSIVE_POLL_A, ian_max_data_packet_size = 255, ian_num_credits = 1,
      ian_mode_param_bytes = [4, 0, 0, 0],
      ian_mode_param = Some (PollA \<lparr>pa_sens_res = [4, 0], pa_nfcid1_len = 0, pa_nfcid1 = fill_array 10 [] 0,
        pa_sel_res_len = 0, pa_sel_res = 0\<rparr>),
      ian_data_exchange_mode = 0, ian_transmit_rate = 0, ian_receive_rate = 0, ian_activation_param_bytes = [],
      ian_activation_param = None\<rparr>"

lemma parsed_params_typed_witness:
  "mode_param_member NCI_MODE_PASSIVE_POLL_A
     (PollA \<lparr>pa_sens_res = [4, 0], pa_nfcid1_len = 0, pa_nfcid1 = fill_array 10 [] 0, pa_sel_res_len = 0, pa_sel_res = 0\<rparr>)"
  using parsed_params_typed [of "[1, 2, 4, 0, 255, 1, 4, 4, 0, 0, 0, 0, 0, 0, 0]" intf_activated_example 40 48]
  by (simp add: nci_parse_intf_activated_ntf_def nci_parse_mode_param_def parse_mode_poll_a_def mem_simps intf_activated_example_def)

end
