(* ===== verification/Sar_Queue.thy ===== *)
theory Sar_Queue
  imports Nci_Types
begin

text \<open>
  The outgoing packet queues of \<open>src/nci_sar.c\<close>: a singly linked list with a pointer to
  its first and a pointer to its last packet. The chain reachable from \<open>first\<close> is a list;
  \<open>last\<close> is an address, so that an operation which updates one pointer and not the other
  is visible. A function pointer together with its user data is a tag.
\<close>

datatype sar_completion =
    Core_command_completion                     \<comment> \<open>nci_core_command_completion(self)\<close>
  | Core_send_data_msg_complete "nat option"    \<comment> \<open>the application's completion, if any\<close>

datatype sar_destroy = Core_send_data_msg_destroy "nat option"

record packet_out =
  po_addr :: nat                        \<comment> \<open>the address of the structure\<close>
  po_conn :: "(nat \<times> nat) option"       \<comment> \<open>pointer into the connection array: its allocation, index\<close>
  po_hdr0 :: byte
  po_hdr1 :: byte
  po_hdr2 :: byte
  po_payload :: "byte list option"
  po_payload_pos :: nat
  po_complete :: "sar_completion option"
  po_destroy :: "sar_destroy option"
  po_id :: u32

record out_queue =
  q_first :: "packet_out list"
  q_last :: "nat option"

definition empty_queue :: out_queue where
  "empty_queue = \<lparr>q_first = [], q_last = None\<rparr>"

section \<open>Operations\<close>

text \<open>\<open>queue->last->next = out\<close>: the chain up to the packet at that address, then \<open>out\<close>.\<close>

fun link_after :: "nat \<Rightarrow> packet_out \<Rightarrow> packet_out list \<Rightarrow> packet_out list" where
  "link_after a out [] = []"
| "link_after a out (p # ps) = (if po_addr p = a then [p, out] else p # link_after a out ps)"

definition queue_append :: "packet_out \<Rightarrow> out_queue \<Rightarrow> out_queue" where
  "queue_append out q =
     (case q_last q of
        Some a \<Rightarrow> q\<lparr>q_first := link_after a out (q_first q), q_last := Some (po_addr out)\<rparr>
      | None \<Rightarrow> q\<lparr>q_first := [out], q_last := Some (po_addr out)\<rparr>)"

text \<open>The head moves from the queue to \<open>writing\<close>.\<close>

definition queue_pop :: "out_queue \<Rightarrow> packet_out option \<times> out_queue" where
  "queue_pop q =
     (case q_first q of
        [] \<Rightarrow> (None, q)
      | out # rest \<Rightarrow> (Some out, q\<lparr>q_first := rest, q_last := (if rest = [] then None else q_last q)\<rparr>))"

text \<open>"No more credits left, put it back to the queue": \<open>last\<close> is left alone.\<close>

definition queue_put_back :: "packet_out \<Rightarrow> out_queue \<Rightarrow> out_queue" where
  "queue_put_back out q = q\<lparr>q_first := out # q_first q\<rparr>"

text \<open>
  The search of \<open>nci_sar_cancel_queue\<close> behind the head: \<open>prev\<close> is the address of the packet
  before the list. The result is the removed packet, the remaining chain and the new
  \<open>last\<close> pointer.
\<close>

fun cancel_after :: "nat \<Rightarrow> packet_out list \<Rightarrow> u32 \<Rightarrow> nat option \<Rightarrow>
    (packet_out \<times> packet_out list \<times> nat option) option" where
  "cancel_after prev [] i l = None"
| "cancel_after prev (out # rest) i l =
     (if po_id out = i then Some (out, rest, if rest = [] then Some prev else l)
      else case cancel_after (po_addr out) rest i l of
             Some (x, rest', l') \<Rightarrow> Some (x, out # rest', l')
           | None \<Rightarrow> None)"

definition nci_sar_cancel_queue :: "out_queue \<Rightarrow> u32 \<Rightarrow> (packet_out \<times> out_queue) option" where
  "nci_sar_cancel_queue q i =
     (case q_first q of
        [] \<Rightarrow> None
      | out # rest \<Rightarrow>
          if po_id out = i then
            Some (out, q\<lparr>q_first := rest, q_last := (if rest = [] then None else q_last q)\<rparr>)
          else case cancel_after (po_addr out) rest i (q_last q) of
                 Some (x, rest', l') \<Rightarrow> Some (x, q\<lparr>q_first := out # rest', q_last := l'\<rparr>)
               | None \<Rightarrow> None)"

section \<open>Well-formed queues\<close>

text \<open>
  \<open>queue_ok\<close>: the last pointer designates the end of the chain. \<open>queue_weak\<close>: it may also
  be NULL while the chain holds one packet, which is what \<open>queue_put_back\<close> leaves behind.
\<close>

definition addrs :: "out_queue \<Rightarrow> nat list" where
  "addrs q = map po_addr (q_first q)"

definition queue_ok :: "out_queue \<Rightarrow> bool" where
  "queue_ok q \<longleftrightarrow> distinct (addrs q) \<and>
     q_last q = (if q_first q = [] then None else Some (po_addr (last (q_first q))))"

definition queue_weak :: "out_queue \<Rightarrow> bool" where
  "queue_weak q \<longleftrightarrow> queue_ok q \<or> (length (q_first q) = 1 \<and> q_last q = None)"

lemma queue_ok_empty [simp]: "queue_ok empty_queue" and q_first_empty [simp]: "q_first empty_queue = []"
  by (simp_all add: queue_ok_def empty_queue_def addrs_def)

lemma queue_ok_weak [intro]: "queue_ok q \<Longrightarrow> queue_weak q"
  by (simp add: queue_weak_def)

lemma link_after_last:
  "distinct (map po_addr ps) \<Longrightarrow> ps \<noteq> [] \<Longrightarrow> link_after (po_addr (last ps)) out ps = ps @ [out]"
  by (induction ps) auto

lemma queue_append_chain:
  "queue_ok q \<Longrightarrow> q_first (queue_append out q) = q_first q @ [out]"
  by (auto simp: queue_append_def queue_ok_def addrs_def link_after_last)

lemma queue_append_ok:
  assumes "queue_ok q" and "po_addr out \<notin> set (addrs q)"
  shows "queue_ok (queue_append out q)"
proof -
  have "q_last (queue_append out q) = Some (po_addr out)"
    by (simp add: queue_append_def split: option.split)
  with assms show ?thesis
    by (simp add: queue_ok_def addrs_def queue_append_chain)
qed

lemma queue_pop_chain:
  "q_first q = out # rest \<Longrightarrow> fst (queue_pop q) = Some out \<and> q_first (snd (queue_pop q)) = rest"
  by (simp add: queue_pop_def)

lemma queue_pop_ok: "queue_ok q \<Longrightarrow> queue_ok (snd (queue_pop q))"
  by (auto simp: queue_pop_def queue_ok_def addrs_def split: list.split)

lemma queue_pop_weak: "queue_weak q \<Longrightarrow> queue_ok (snd (queue_pop q))"
  by (cases "q_first q") (auto simp: queue_weak_def queue_pop_ok, auto simp: queue_pop_def queue_ok_def addrs_def)

lemma queue_put_back_weak:
  "queue_ok q \<Longrightarrow> po_addr out \<notin> set (addrs q) \<Longrightarrow> queue_weak (queue_put_back out q)"
  by (auto simp: queue_weak_def queue_put_back_def queue_ok_def addrs_def)

lemma queue_put_back_ok_iff:
  assumes "queue_ok q" and "po_addr out \<notin> set (addrs q)"
  shows "queue_ok (queue_put_back out q) \<longleftrightarrow> q_first q \<noteq> []"
  using assms by (auto simp: queue_put_back_def queue_ok_def addrs_def)

text \<open>Cancellation removes the first packet with that identifier and nothing else.\<close>

lemma cancel_after_spec:
  "cancel_after prev ps i l =
     (case List.extract (\<lambda>p. po_id p = i) ps of
        None \<Rightarrow> None
      | Some (ys, x, zs) \<Rightarrow>
          Some (x, ys @ zs, if zs = [] then Some (if ys = [] then prev else po_addr (last ys)) else l))"
proof (induction ps arbitrary: prev)
  case Nil
  then show ?case by (simp add: extract_Nil_code)
next
  case (Cons p ps)
  then show ?case by (auto simp: extract_Cons_code split: option.splits)
qed

lemma nci_sar_cancel_queue_spec:
  assumes "queue_ok q"
  shows "case nci_sar_cancel_queue q i of
           None \<Rightarrow> \<forall>p \<in> set (q_first q). po_id p \<noteq> i
         | Some (x, q') \<Rightarrow> queue_ok q' \<and> po_id x = i \<and>
             (\<exists>ys zs. q_first q = ys @ x # zs \<and> q_first q' = ys @ zs \<and> (\<forall>p \<in> set ys. po_id p \<noteq> i))"
proof (cases "q_first q")
  case Nil
  then show ?thesis by (simp add: nci_sar_cancel_queue_def)
next
  case (Cons out rest)
  show ?thesis
  proof (cases "po_id out = i")
    case True
    have "\<exists>ys zs. out # rest = ys @ out # zs \<and> rest = ys @ zs \<and> (\<forall>p \<in> set ys. po_id p \<noteq> i)"
      by (rule exI [of _ "[]"]) simp
    then show ?thesis
      using assms Cons True by (simp add: nci_sar_cancel_queue_def queue_ok_def addrs_def)
  next
    case False
    show ?thesis
    proof (cases "List.extract (\<lambda>p. po_id p = i) rest")
      case None
      then have "\<forall>p \<in> set rest. po_id p \<noteq> i" by (simp add: extract_None_iff)
      with None show ?thesis
        using Cons False by (simp add: nci_sar_cancel_queue_def cancel_after_spec)
    next
      case (Some t)
      obtain ys x zs where t: "t = (ys, x, zs)" by (cases t)
      have r: "rest = ys @ x # zs" "po_id x = i" "\<forall>p \<in> set ys. po_id p \<noteq> i"
        using Some t by (auto simp: extract_Some_iff)
      have "\<exists>us vs. out # ys @ x # zs = us @ x # vs \<and> out # ys @ zs = us @ vs \<and> (\<forall>p \<in> set us. po_id p \<noteq> i)"
        by (rule exI [of _ "out # ys"], rule exI [of _ zs]) (use r False in auto)
      then show ?thesis
        using assms Cons False Some t r
        by (auto simp: nci_sar_cancel_queue_def cancel_after_spec queue_ok_def addrs_def)
    qed
  qed
qed

text \<open>
  Cancelling in a queue: the first packet with the identifier is taken out, the other
  packets and their order stay, the last pointer stays right; without such a packet the
  answer is that there is none.
\<close>

theorem nci_sar_cancel_queue_removes:
  assumes "queue_ok q"
  shows "case nci_sar_cancel_queue q i of
           None \<Rightarrow> \<forall>p \<in> set (q_first q). po_id p \<noteq> i
         | Some (x, q') \<Rightarrow> queue_ok q' \<and> po_id x = i \<and>
             (\<exists>ys zs. q_first q = ys @ x # zs \<and> q_first q' = ys @ zs \<and> (\<forall>p \<in> set ys. po_id p \<noteq> i))"
  by (rule nci_sar_cancel_queue_spec [OF assms])

definition example_packet :: "nat \<Rightarrow> u32 \<Rightarrow> packet_out" where
  "example_packet a i = \<lparr>po_addr = a, po_conn = None, po_hdr0 = 0x20, po_hdr1 = 0, po_hdr2 = 0, po_payload = None,
     po_payload_pos = 0, po_complete = None, po_destroy = None, po_id = i\<rparr>"

lemma nci_sar_cancel_queue_removes_witness:
  "case nci_sar_cancel_queue \<lparr>q_first = [example_packet 1 7, example_packet 2 8], q_last = Some 2\<rparr> 8 of
     None \<Rightarrow> False | Some (x, q') \<Rightarrow> queue_ok q' \<and> po_id x = 8"
proof -
  have "queue_ok \<lparr>q_first = [example_packet 1 7, example_packet 2 8], q_last = Some 2\<rparr>"
    by (simp add: queue_ok_def addrs_def example_packet_def)
  from nci_sar_cancel_queue_removes [OF this, of 8] show ?thesis
    by (simp add: example_packet_def split: option.splits prod.splits)
qed

section \<open>The first-in first-out interface\<close>

text \<open>
  What the transmitter relies on: an abstraction to the list of waiting packets, an
  insertion that appends a fresh packet, a removal of the head.
\<close>

fun enq_fresh :: "('p \<Rightarrow> 'q \<Rightarrow> bool) \<Rightarrow> ('p \<Rightarrow> 'q \<Rightarrow> 'q) \<Rightarrow> 'p list \<Rightarrow> 'q \<Rightarrow> bool" where
  "enq_fresh fresh enq [] q = True"
| "enq_fresh fresh enq (p # ps) q = (fresh p q \<and> enq_fresh fresh enq ps (enq p q))"

fun deq_n :: "('q \<Rightarrow> 'p option \<times> 'q) \<Rightarrow> nat \<Rightarrow> 'q \<Rightarrow> 'p option list" where
  "deq_n deq 0 q = []"
| "deq_n deq (Suc n) q = fst (deq q) # deq_n deq n (snd (deq q))"

locale fifo =
  fixes items :: "'q \<Rightarrow> 'p list"
    and invar :: "'q \<Rightarrow> bool"
    and fresh :: "'p \<Rightarrow> 'q \<Rightarrow> bool"
    and start :: "'q"
    and enq :: "'p \<Rightarrow> 'q \<Rightarrow> 'q"
    and deq :: "'q \<Rightarrow> 'p option \<times> 'q"
  assumes items_start: "items start = []"
    and invar_start: "invar start"
    and items_enq: "invar q \<Longrightarrow> fresh p q \<Longrightarrow> items (enq p q) = items q @ [p]"
    and invar_enq: "invar q \<Longrightarrow> fresh p q \<Longrightarrow> invar (enq p q)"
    and deq_items: "invar q \<Longrightarrow> items q = p # ps \<Longrightarrow> fst (deq q) = Some p \<and> items (snd (deq q)) = ps"
    and invar_deq: "invar q \<Longrightarrow> invar (snd (deq q))"
begin

text \<open>Packets come out in the order they went in.\<close>

lemma enq_all_items:
  "invar q \<Longrightarrow> enq_fresh fresh enq ps q \<Longrightarrow> items (fold enq ps q) = items q @ ps \<and> invar (fold enq ps q)"
  by (induction ps arbitrary: q) (auto simp: items_enq invar_enq)

lemma deq_n_items: "invar q \<Longrightarrow> items q = ps \<Longrightarrow> deq_n deq (length ps) q = map Some ps"
  by (induction ps arbitrary: q) (auto simp: deq_items invar_deq)

lemma enq_deq_order:
  assumes "enq_fresh fresh enq ps start"
  shows "deq_n deq (length ps) (fold enq ps start) = map Some ps"
  using enq_all_items [OF invar_start assms] by (simp add: deq_n_items items_start)

end

definition addr_fresh :: "packet_out \<Rightarrow> out_queue \<Rightarrow> bool" where
  "addr_fresh p q \<longleftrightarrow> po_addr p \<notin> set (addrs q)"

interpretation outq: fifo q_first queue_ok addr_fresh empty_queue queue_append queue_pop
  by unfold_locales
    (auto simp: addr_fresh_def queue_append_chain queue_append_ok queue_pop_ok queue_pop_chain)

end
