(* ===== verification/Nci_Sar.thy ===== *)
theory Nci_Sar
  imports Sar_Queue
begin

text \<open>
  Segmentation and reassembly (\<open>src/nci_sar.c\<close>). The state is the C structure; the
  callbacks into the client (\<open>NciSarClientFunctions\<close>, the completion and destroy
  functions of a packet) are functions on the state, which is extensible: a client keeps
  its own state in the record extension, so that a callback may do anything a client
  does, calls into this component included. The HAL (\<open>include/nci_hal.h\<close>) is outside
  the repository: every call to it is logged in \<open>sar_hal\<close>, and its answer is an arbitrary
  function \<open>hal_answer\<close> of the calls made so far. Its completion callback is a later
  event, and destroy callbacks only release memory.
\<close>

section \<open>State\<close>

datatype hal_call = HalStart | HalStop | HalWrite "byte list list" | HalCancelWrite

record logical_conn =
  lc_credits :: byte
  lc_in :: "byte list option"
  lc_out :: out_queue

record nci_sar =
  sar_hal :: "hal_call list"
  sar_started :: bool
  sar_max_logical_conns :: byte
  sar_control_payload_limit :: byte
  sar_data_payload_limit :: byte
  sar_last_packet_id :: u32
  sar_start_write_id :: bool             \<comment> \<open>an idle source is scheduled\<close>
  sar_write_pending :: bool
  sar_writing :: "packet_out option"
  sar_cmd :: out_queue
  sar_conn :: "logical_conn list"
  sar_conn_gen :: nat                    \<comment> \<open>which allocation \<open>conn\<close> points to\<close>
  sar_control_in :: "byte list option"
  sar_read_buf :: "byte list option"
  sar_next_addr :: nat                   \<comment> \<open>the next address \<open>g_slice_new0\<close> returns\<close>
  sar_fault :: bool                      \<comment> \<open>an invalid pointer was dereferenced\<close>

record 'w sar_client =
  fn_error :: "'w \<Rightarrow> 'w"
  fn_handle_response :: "byte \<Rightarrow> byte \<Rightarrow> byte list \<Rightarrow> 'w \<Rightarrow> 'w"
  fn_handle_notification :: "byte \<Rightarrow> byte \<Rightarrow> byte list \<Rightarrow> 'w \<Rightarrow> 'w"
  fn_handle_data_packet :: "byte \<Rightarrow> byte list \<Rightarrow> 'w \<Rightarrow> 'w"
  fn_complete :: "sar_completion \<Rightarrow> bool \<Rightarrow> 'w \<Rightarrow> 'w"
  fn_destroy :: "sar_destroy \<Rightarrow> 'w \<Rightarrow> 'w"
  hal_answer :: "hal_call list \<Rightarrow> bool"

abbreviation SAR_DEFAULT_MAX_LOGICAL_CONNECTIONS :: byte where
  "SAR_DEFAULT_MAX_LOGICAL_CONNECTIONS \<equiv> 1"
abbreviation SAR_MIN_CONTROL_PAYLOAD_LIMIT :: byte where "SAR_MIN_CONTROL_PAYLOAD_LIMIT \<equiv> 0x20"
abbreviation SAR_MIN_DATA_PAYLOAD_LIMIT :: byte where "SAR_MIN_DATA_PAYLOAD_LIMIT \<equiv> 0x01"
abbreviation SAR_UNLIMITED_CREDITS :: byte where "SAR_UNLIMITED_CREDITS \<equiv> 0xff"
abbreviation NCI_HDR_SIZE :: nat where "NCI_HDR_SIZE \<equiv> 3"
abbreviation NCI_CONTROL_GID_MASK :: byte where "NCI_CONTROL_GID_MASK \<equiv> 0x0f"
abbreviation NCI_CONTROL_OID_MASK :: byte where "NCI_CONTROL_OID_MASK \<equiv> 0x3f"
abbreviation NCI_DATA_CID_MASK :: byte where "NCI_DATA_CID_MASK \<equiv> 0x0f"
abbreviation NCI_DATA_CR_MASK :: byte where "NCI_DATA_CR_MASK \<equiv> 0x03"

text \<open>\<open>g_new0(NciSarLogicalConnection)\<close>\<close>

definition new_conn :: logical_conn where
  "new_conn = \<lparr>lc_credits = 0, lc_in = None, lc_out = empty_queue\<rparr>"

definition hal_tell :: "hal_call \<Rightarrow> 'a nci_sar_scheme \<Rightarrow> 'a nci_sar_scheme" where
  "hal_tell c s = s\<lparr>sar_hal := sar_hal s @ [c]\<rparr>"

definition upd_conn :: "nat \<Rightarrow> (logical_conn \<Rightarrow> logical_conn) \<Rightarrow> 'a nci_sar_scheme \<Rightarrow> 'a nci_sar_scheme" where
  "upd_conn i f s = s\<lparr>sar_conn := (sar_conn s)[i := f (sar_conn s ! i)]\<rparr>"

definition run_complete :: "('a nci_sar_scheme) sar_client \<Rightarrow> packet_out \<Rightarrow> bool \<Rightarrow> 'a nci_sar_scheme \<Rightarrow> 'a nci_sar_scheme" where
  "run_complete cl out ok s = (case po_complete out of Some f \<Rightarrow> fn_complete cl f ok s | None \<Rightarrow> s)"

definition nci_sar_packet_out_free :: "('a nci_sar_scheme) sar_client \<Rightarrow> packet_out \<Rightarrow> 'a nci_sar_scheme \<Rightarrow> 'a nci_sar_scheme" where
  "nci_sar_packet_out_free cl out s = (case po_destroy out of Some d \<Rightarrow> fn_destroy cl d s | None \<Rightarrow> s)"

section \<open>Writing\<close>

text \<open>The search both \<open>nci_sar_write_queue\<close> and \<open>nci_sar_can_write\<close> make.\<close>

definition conn_ready :: "logical_conn \<Rightarrow> bool" where
  "conn_ready c \<longleftrightarrow> q_first (lc_out c) \<noteq> [] \<and> lc_credits c \<noteq> 0"

fun first_ready :: "nat \<Rightarrow> logical_conn list \<Rightarrow> nat option" where
  "first_ready i [] = None"
| "first_ready i (c # cs) = (if conn_ready c then Some i else first_ready (Suc i) cs)"

definition sar_ready_conn :: "'a nci_sar_scheme \<Rightarrow> nat option" where
  "sar_ready_conn s = first_ready 0 (take (unat (sar_max_logical_conns s)) (sar_conn s))"

definition spend_credit :: "logical_conn \<Rightarrow> logical_conn" where
  "spend_credit c =
     (if lc_credits c \<noteq> SAR_UNLIMITED_CREDITS then c\<lparr>lc_credits := lc_credits c - 1\<rparr> else c)"

datatype queue_ref = QCmd | QConn nat

definition nci_sar_write_queue :: "'a nci_sar_scheme \<Rightarrow> queue_ref option \<times> 'a nci_sar_scheme" where
  "nci_sar_write_queue s =
     (if q_first (sar_cmd s) \<noteq> [] then (Some QCmd, s)
      else case sar_ready_conn s of
             Some i \<Rightarrow> (Some (QConn i), upd_conn i spend_credit s)
           | None \<Rightarrow> (None, s))"

definition nci_sar_can_write :: "'a nci_sar_scheme \<Rightarrow> bool" where
  "nci_sar_can_write s \<longleftrightarrow>
     sar_writing s = None \<and> (q_first (sar_cmd s) \<noteq> [] \<or> sar_ready_conn s \<noteq> None)"

definition nci_sar_schedule_write :: "'a nci_sar_scheme \<Rightarrow> 'a nci_sar_scheme" where
  "nci_sar_schedule_write s =
     (if \<not> sar_start_write_id s \<and> nci_sar_can_write s then s\<lparr>sar_start_write_id := True\<rparr> else s)"

text \<open>
  The first part of \<open>nci_sar_attempt_write\<close>: the packet being written continues if its
  connection has a credit, else it goes back to the head of the connection's queue. A
  pointer into a connection array that was reallocated is invalid.
\<close>

definition sar_attempt_continue :: "'a nci_sar_scheme \<Rightarrow> 'a nci_sar_scheme" where
  "sar_attempt_continue s =
     (case sar_writing s of
        Some out \<Rightarrow>
          (case po_conn out of
             Some (gen, i) \<Rightarrow>
               if gen = sar_conn_gen s \<and> i < length (sar_conn s) then
                 if lc_credits (sar_conn s ! i) \<noteq> 0 then upd_conn i spend_credit s
                 else (upd_conn i (\<lambda>c. c\<lparr>lc_out := queue_put_back out (lc_out c)\<rparr>) s)\<lparr>sar_writing := None\<rparr>
               else s\<lparr>sar_fault := True\<rparr>
           | None \<Rightarrow> s)
      | None \<Rightarrow> s)"

text \<open>The second part: if nothing is being written, take the head of a queue.\<close>

definition sar_attempt_pick :: "'a nci_sar_scheme \<Rightarrow> 'a nci_sar_scheme" where
  "sar_attempt_pick s =
     (case sar_writing s of
        Some _ \<Rightarrow> s
      | None \<Rightarrow>
          (case nci_sar_write_queue s of
             (Some QCmd, s1) \<Rightarrow>
               (case queue_pop (sar_cmd s1) of (out, q) \<Rightarrow> s1\<lparr>sar_writing := out, sar_cmd := q\<rparr>)
           | (Some (QConn i), s1) \<Rightarrow>
               (case queue_pop (lc_out (sar_conn s1 ! i)) of
                  (out, q) \<Rightarrow> (upd_conn i (\<lambda>c. c\<lparr>lc_out := q\<rparr>) s1)\<lparr>sar_writing := out\<rparr>)
           | (None, s1) \<Rightarrow> s1))"

text \<open>The header and the chunks of the next segment of \<open>out\<close>, with \<open>out\<close> advanced.\<close>

definition po_remaining :: "packet_out \<Rightarrow> byte list" where
  "po_remaining out = (case po_payload out of Some p \<Rightarrow> drop (po_payload_pos out) p | None \<Rightarrow> [])"

definition sar_next_chunk :: "nat \<Rightarrow> packet_out \<Rightarrow> byte list list \<times> packet_out" where
  "sar_next_chunk max_payload_size out =
     (let rest = po_remaining out; n = length rest in
      if n \<le> max_payload_size then
        let out' = out\<lparr>po_hdr0 := po_hdr0 out AND NOT NCI_PBF, po_hdr2 := of_nat n,
                       po_payload_pos := po_payload_pos out + n\<rparr>
        in ([po_hdr0 out', po_hdr1 out', po_hdr2 out'] # (if n \<noteq> 0 then [rest] else []), out')
      else
        let out' = out\<lparr>po_hdr0 := po_hdr0 out OR NCI_PBF, po_hdr2 := of_nat max_payload_size,
                       po_payload_pos := po_payload_pos out + max_payload_size\<rparr>
        in ([[po_hdr0 out', po_hdr1 out', po_hdr2 out'], take max_payload_size rest], out'))"

definition max_payload_for :: "'a nci_sar_scheme \<Rightarrow> packet_out \<Rightarrow> nat" where
  "max_payload_for s out =
     unat (if po_hdr0 out AND NCI_MT_MASK = NCI_MT_CMD_PKT then sar_control_payload_limit s
           else sar_data_payload_limit s)"

text \<open>"Start HAL on demand", also the body of \<open>nci_sar_start\<close>.\<close>

definition sar_start_hal :: "('a nci_sar_scheme) sar_client \<Rightarrow> 'a nci_sar_scheme \<Rightarrow> 'a nci_sar_scheme" where
  "sar_start_hal cl s =
     (if sar_started s then s
      else let s1 = hal_tell HalStart s in s1\<lparr>sar_started := hal_answer cl (sar_hal s1)\<rparr>)"

text \<open>The third part: submit the next segment to the HAL, or give up on the packet.\<close>

definition sar_attempt_submit :: "('a nci_sar_scheme) sar_client \<Rightarrow> 'a nci_sar_scheme \<Rightarrow> 'a nci_sar_scheme" where
  "sar_attempt_submit cl s =
     (case sar_writing s of
        None \<Rightarrow> s
      | Some out \<Rightarrow>
          (case sar_next_chunk (max_payload_for s out) out of
             (chunks, out') \<Rightarrow>
               let s1 = sar_start_hal cl (s\<lparr>sar_writing := Some out'\<rparr>);
                   s2 = (if sar_started s1 then hal_tell (HalWrite chunks) (s1\<lparr>sar_write_pending := True\<rparr>) else s1);
                   submitted = (sar_started s1 \<and> hal_answer cl (sar_hal s2))
               in if submitted then s2
                  else nci_sar_schedule_write
                         (fn_error cl
                           (nci_sar_packet_out_free cl out'
                             (run_complete cl out' False
                               (s2\<lparr>sar_write_pending := False, sar_writing := None\<rparr>))))))"

definition nci_sar_attempt_write :: "('a nci_sar_scheme) sar_client \<Rightarrow> 'a nci_sar_scheme \<Rightarrow> 'a nci_sar_scheme" where
  "nci_sar_attempt_write cl s =
     (if sar_write_pending s then s
      else let s1 = sar_attempt_continue s in
           if sar_fault s1 then s1 else sar_attempt_submit cl (sar_attempt_pick s1))"

text \<open>The HAL reports the end of a write. \<open>self->writing\<close> is dereferenced unchecked.\<close>

definition nci_sar_write_completed :: "('a nci_sar_scheme) sar_client \<Rightarrow> bool \<Rightarrow> 'a nci_sar_scheme \<Rightarrow> 'a nci_sar_scheme" where
  "nci_sar_write_completed cl ok s =
     (case sar_writing s of
        None \<Rightarrow> s\<lparr>sar_fault := True\<rparr>
      | Some out \<Rightarrow>
          let s1 = s\<lparr>sar_write_pending := False\<rparr> in
          if ok then
            let payload_len = (case po_payload out of Some p \<Rightarrow> length p | None \<Rightarrow> 0) in
            nci_sar_attempt_write cl
              (if payload_len = po_payload_pos out then
                 nci_sar_packet_out_free cl out (run_complete cl out True (s1\<lparr>sar_writing := None\<rparr>))
               else s1)
          else
            fn_error cl (nci_sar_packet_out_free cl out (run_complete cl out False (s1\<lparr>sar_writing := None\<rparr>))))"

text \<open>The idle callback.\<close>

definition nci_sar_start_write :: "('a nci_sar_scheme) sar_client \<Rightarrow> 'a nci_sar_scheme \<Rightarrow> 'a nci_sar_scheme" where
  "nci_sar_start_write cl s = nci_sar_attempt_write cl (s\<lparr>sar_start_write_id := False\<rparr>)"

section \<open>Sending\<close>

definition sar_enqueue :: "queue_ref \<Rightarrow> packet_out \<Rightarrow> 'a nci_sar_scheme \<Rightarrow> 'a nci_sar_scheme" where
  "sar_enqueue q out s =
     (case q of
        QCmd \<Rightarrow> s\<lparr>sar_cmd := queue_append out (sar_cmd s)\<rparr>
      | QConn i \<Rightarrow> upd_conn i (\<lambda>c. c\<lparr>lc_out := queue_append out (lc_out c)\<rparr>) s)"

definition nci_sar_send ::
    "queue_ref \<Rightarrow> (nat \<times> nat) option \<Rightarrow> byte \<Rightarrow> byte \<Rightarrow> byte list option \<Rightarrow> sar_completion option \<Rightarrow>
     sar_destroy option \<Rightarrow> 'a nci_sar_scheme \<Rightarrow> u32 \<times> 'a nci_sar_scheme" where
  "nci_sar_send queue conn hdr0 hdr1 payload complete destroy s =
     (let id1 = sar_last_packet_id s + 1;
          pid = (if id1 = 0 then id1 + 1 else id1);
          out = \<lparr>po_addr = sar_next_addr s, po_conn = conn, po_hdr0 = hdr0, po_hdr1 = hdr1, po_hdr2 = 0,
                 po_payload = payload, po_payload_pos = 0, po_complete = complete, po_destroy = destroy,
                 po_id = pid\<rparr>;
          s1 = s\<lparr>sar_last_packet_id := pid, sar_next_addr := Suc (sar_next_addr s)\<rparr>
      in (pid, nci_sar_schedule_write (sar_enqueue queue out s1)))"

definition nci_sar_send_command ::
    "byte \<Rightarrow> byte \<Rightarrow> byte list option \<Rightarrow> sar_completion option \<Rightarrow> sar_destroy option \<Rightarrow>
     'a nci_sar_scheme \<Rightarrow> u32 \<times> 'a nci_sar_scheme" where
  "nci_sar_send_command gid oid payload complete destroy s =
     nci_sar_send QCmd None (NCI_MT_CMD_PKT OR (gid AND NCI_CONTROL_GID_MASK)) (oid AND NCI_CONTROL_OID_MASK)
       payload complete destroy s"

definition nci_sar_send_data_packet ::
    "byte \<Rightarrow> byte list option \<Rightarrow> sar_completion option \<Rightarrow> sar_destroy option \<Rightarrow>
     'a nci_sar_scheme \<Rightarrow> u32 \<times> 'a nci_sar_scheme" where
  "nci_sar_send_data_packet cid payload complete destroy s =
     (if unat cid < unat (sar_max_logical_conns s) then
        nci_sar_send (QConn (unat cid)) (Some (sar_conn_gen s, unat cid)) (cid AND NCI_DATA_CID_MASK) 0
          payload complete destroy s
      else (0, s))"

fun cancel_conns :: "nat \<Rightarrow> logical_conn list \<Rightarrow> u32 \<Rightarrow> (packet_out \<times> nat \<times> out_queue) option" where
  "cancel_conns i [] pid = None"
| "cancel_conns i (c # cs) pid =
     (case nci_sar_cancel_queue (lc_out c) pid of
        Some (x, q) \<Rightarrow> Some (x, i, q)
      | None \<Rightarrow> cancel_conns (Suc i) cs pid)"

text \<open>\<open>nci_sar_cancel_queue\<close> on the command queue, then on each connection's.\<close>

definition sar_cancel_queued :: "('a nci_sar_scheme) sar_client \<Rightarrow> u32 \<Rightarrow> 'a nci_sar_scheme \<Rightarrow> 'a nci_sar_scheme" where
  "sar_cancel_queued cl pid s =
     (case nci_sar_cancel_queue (sar_cmd s) pid of
        Some (x, q) \<Rightarrow> nci_sar_packet_out_free cl x (s\<lparr>sar_cmd := q\<rparr>)
      | None \<Rightarrow>
          (case cancel_conns 0 (take (unat (sar_max_logical_conns s)) (sar_conn s)) pid of
             Some (x, i, q) \<Rightarrow> nci_sar_packet_out_free cl x (upd_conn i (\<lambda>c. c\<lparr>lc_out := q\<rparr>) s)
           | None \<Rightarrow> s))"

definition nci_sar_cancel :: "('a nci_sar_scheme) sar_client \<Rightarrow> u32 \<Rightarrow> 'a nci_sar_scheme \<Rightarrow> 'a nci_sar_scheme" where
  "nci_sar_cancel cl pid s =
     (if pid = 0 then s
      else case sar_writing s of
             Some out \<Rightarrow>
               if po_id out = pid then s\<lparr>sar_writing := Some (out\<lparr>po_complete := None\<rparr>)\<rparr>
               else sar_cancel_queued cl pid s
           | None \<Rightarrow> sar_cancel_queued cl pid s)"

end
