(* ===== verification/Nci_Sar_Rx.thy ===== *)
theory Nci_Sar_Rx
  imports Nci_Sar
begin

text \<open>
  The receiving side of \<open>src/nci_sar.c\<close>, its credits, its configuration and its reset.
\<close>

section \<open>Credits\<close>

text \<open>\<open>cid\<close> is checked by the caller. The comparison is on C ints.\<close>

definition add_credits :: "byte \<Rightarrow> byte \<Rightarrow> byte" where
  "add_credits have credits =
     (if unat credits > 0xff - unat have then SAR_UNLIMITED_CREDITS else have + credits)"

definition nci_sar_take_credits :: "byte \<Rightarrow> byte \<Rightarrow> 'a nci_sar_scheme \<Rightarrow> 'a nci_sar_scheme" where
  "nci_sar_take_credits cid credits s =
     (if credits \<noteq> 0 then
        let s1 = upd_conn (unat cid) (\<lambda>c. c\<lparr>lc_credits := add_credits (lc_credits c) credits\<rparr>) s
        in if q_first (lc_out (sar_conn s1 ! unat cid)) \<noteq> [] then nci_sar_schedule_write s1 else s1
      else s)"

definition nci_sar_set_initial_credits :: "byte \<Rightarrow> byte \<Rightarrow> 'a nci_sar_scheme \<Rightarrow> 'a nci_sar_scheme" where
  "nci_sar_set_initial_credits cid credits s =
     (if unat cid < unat (sar_max_logical_conns s)
      then upd_conn (unat cid) (\<lambda>c. c\<lparr>lc_credits := credits\<rparr>) s else s)"

definition nci_sar_add_credits :: "byte \<Rightarrow> byte \<Rightarrow> 'a nci_sar_scheme \<Rightarrow> 'a nci_sar_scheme" where
  "nci_sar_add_credits cid credits s =
     (if unat cid < unat (sar_max_logical_conns s) then nci_sar_take_credits cid credits s else s)"

section \<open>Reassembly\<close>

text \<open>
  A segment is the header (three bytes) and as many payload bytes as the third says; the
  caller has checked that they are there. \<open>in\<close> accumulates the header of the first
  segment and the payloads of all of them.
\<close>

definition nci_sar_hal_handle_control_packet ::
    "('a nci_sar_scheme) sar_client \<Rightarrow> byte \<Rightarrow> byte \<Rightarrow> byte \<Rightarrow> byte list \<Rightarrow> 'a nci_sar_scheme \<Rightarrow> 'a nci_sar_scheme" where
  "nci_sar_hal_handle_control_packet cl mt gid oid payload s =
     (if mt = NCI_MT_RSP_PKT then fn_handle_response cl gid oid payload s
      else fn_handle_notification cl gid oid payload s)"

text \<open>The array is put back, empty, unless the callback started a new one.\<close>

definition restore_in :: "byte list option \<Rightarrow> byte list option" where
  "restore_in x = (case x of None \<Rightarrow> Some [] | Some bs \<Rightarrow> Some bs)"

definition in_pending :: "byte list option \<Rightarrow> bool" where
  "in_pending x = (case x of Some bs \<Rightarrow> bs \<noteq> [] | None \<Rightarrow> False)"

definition nci_sar_hal_handle_control_segment ::
    "('a nci_sar_scheme) sar_client \<Rightarrow> byte list \<Rightarrow> 'a nci_sar_scheme \<Rightarrow> 'a nci_sar_scheme" where
  "nci_sar_hal_handle_control_segment cl packet s =
     (let hdr = packet ! 0;
          mt = hdr AND NCI_MT_MASK;
          gid = hdr AND NCI_CONTROL_GID_MASK;
          oid = packet ! 1 AND NCI_CONTROL_OID_MASK;
          payload_len = unat (packet ! 2);
          payload = take payload_len (drop NCI_HDR_SIZE packet)
      in if in_pending (sar_control_in s) then
           let inb = the (sar_control_in s) in
           if mt = inb ! 0 AND NCI_MT_MASK \<and> gid = inb ! 0 AND NCI_CONTROL_GID_MASK \<and>
              oid = inb ! 1 AND NCI_CONTROL_OID_MASK then
             let inb' = inb @ payload in
             if hdr AND NCI_PBF = 0 then
               let s1 = nci_sar_hal_handle_control_packet cl mt gid oid (drop NCI_HDR_SIZE inb')
                          (s\<lparr>sar_control_in := None\<rparr>)
               in s1\<lparr>sar_control_in := restore_in (sar_control_in s1)\<rparr>
             else s\<lparr>sar_control_in := Some inb'\<rparr>
           else fn_error cl s
         else if hdr AND NCI_PBF \<noteq> 0 then
           s\<lparr>sar_control_in := Some (take (payload_len + NCI_HDR_SIZE) packet)\<rparr>
         else nci_sar_hal_handle_control_packet cl mt gid oid payload s)"

text \<open>The connection is written after the callback: it must not have been reallocated.\<close>

definition nci_sar_hal_handle_data_segment ::
    "('a nci_sar_scheme) sar_client \<Rightarrow> byte list \<Rightarrow> 'a nci_sar_scheme \<Rightarrow> 'a nci_sar_scheme" where
  "nci_sar_hal_handle_data_segment cl packet s =
     (let hdr = packet ! 0;
          cid = hdr AND NCI_DATA_CID_MASK;
          cr = packet ! 1 AND NCI_DATA_CR_MASK;
          payload_len = unat (packet ! 2);
          payload = take payload_len (drop NCI_HDR_SIZE packet);
          i = unat cid
      in if i < unat (sar_max_logical_conns s) then
           let s0 = nci_sar_take_credits cid cr s; inc = lc_in (sar_conn s0 ! i) in
           if in_pending inc then
             let inb' = the inc @ payload in
             if hdr AND NCI_PBF = 0 then
               let s1 = fn_handle_data_packet cl cid (drop NCI_HDR_SIZE inb')
                          (upd_conn i (\<lambda>c. c\<lparr>lc_in := None\<rparr>) s0)
               in if sar_conn_gen s1 = sar_conn_gen s0
                  then upd_conn i (\<lambda>c. c\<lparr>lc_in := restore_in (lc_in c)\<rparr>) s1
                  else s1\<lparr>sar_fault := True\<rparr>
             else upd_conn i (\<lambda>c. c\<lparr>lc_in := Some inb'\<rparr>) s0
           else if hdr AND NCI_PBF \<noteq> 0 then
             upd_conn i (\<lambda>c. c\<lparr>lc_in := Some (take (payload_len + NCI_HDR_SIZE) packet)\<rparr>) s0
           else fn_handle_data_packet cl cid payload s0
         else fn_error cl s)"

definition nci_sar_hal_handle_segment ::
    "('a nci_sar_scheme) sar_client \<Rightarrow> byte list \<Rightarrow> 'a nci_sar_scheme \<Rightarrow> 'a nci_sar_scheme" where
  "nci_sar_hal_handle_segment cl packet s =
     (let mt = packet ! 0 AND NCI_MT_MASK in
      if mt = NCI_MT_DATA_PKT then nci_sar_hal_handle_data_segment cl packet s
      else if mt = NCI_MT_RSP_PKT \<or> mt = NCI_MT_NTF_PKT then nci_sar_hal_handle_control_segment cl packet s
      else fn_error cl s)"

section \<open>The HAL client\<close>

definition nci_sar_hal_client_error :: "('a nci_sar_scheme) sar_client \<Rightarrow> 'a nci_sar_scheme \<Rightarrow> 'a nci_sar_scheme" where
  "nci_sar_hal_client_error cl s = fn_error cl s"

text \<open>
  The loop over complete packets, over the caller's bytes or over the read buffer:
  \<open>while (len > 2 && len >= (bytes[2] + NCI_HDR_SIZE))\<close>. The result holds the bytes left.
\<close>

definition packet_complete :: "byte list \<Rightarrow> bool" where
  "packet_complete bs \<longleftrightarrow> 2 < length bs \<and> unat (bs ! 2) + NCI_HDR_SIZE \<le> length bs"

function sar_read_loop ::
    "('a nci_sar_scheme) sar_client \<Rightarrow> byte list \<Rightarrow> 'a nci_sar_scheme \<Rightarrow> byte list \<times> 'a nci_sar_scheme" where
  "sar_read_loop cl bs s =
     (if packet_complete bs then
        let packet_len = unat (bs ! 2) + NCI_HDR_SIZE
        in sar_read_loop cl (drop packet_len bs) (nci_sar_hal_handle_segment cl (take packet_len bs) s)
      else (bs, s))"
  by pat_completeness auto
termination
  by (relation "measure (\<lambda>(cl, bs, s). length bs)") (auto simp: packet_complete_def)

declare sar_read_loop.simps [simp del]

text \<open>
  The bytes that remain are appended to the read buffer. While the second loop runs over
  the buffer, the client's callbacks do not see it: the buffer is written back at the end.
\<close>

definition nci_sar_hal_client_read ::
    "('a nci_sar_scheme) sar_client \<Rightarrow> byte list \<Rightarrow> 'a nci_sar_scheme \<Rightarrow> 'a nci_sar_scheme" where
  "nci_sar_hal_client_read cl bytes s =
     (case (if in_pending (sar_read_buf s) then (bytes, s) else sar_read_loop cl bytes s) of
        (bs, s1) \<Rightarrow>
          if bs \<noteq> [] then
            let buf = (case sar_read_buf s1 of Some b \<Rightarrow> b | None \<Rightarrow> []) @ bs in
            case sar_read_loop cl buf s1 of (rest, s2) \<Rightarrow> s2\<lparr>sar_read_buf := Some rest\<rparr>
          else s1)"

section \<open>Configuration and reset\<close>

text \<open>\<open>while (queue->first)\<close>: the packets are freed, no completion is called.\<close>

definition nci_sar_clear_queue :: "('a nci_sar_scheme) sar_client \<Rightarrow> out_queue \<Rightarrow> 'a nci_sar_scheme \<Rightarrow> 'a nci_sar_scheme" where
  "nci_sar_clear_queue cl q s = fold (nci_sar_packet_out_free cl) (q_first q) s"

text \<open>\<open>nci_sar_new\<close>; the client's own state is the extension \<open>ext\<close>.\<close>

definition nci_sar_new :: "'a \<Rightarrow> 'a nci_sar_scheme" where
  "nci_sar_new ext =
     \<lparr>sar_hal = [], sar_started = False, sar_max_logical_conns = SAR_DEFAULT_MAX_LOGICAL_CONNECTIONS,
      sar_control_payload_limit = SAR_MIN_CONTROL_PAYLOAD_LIMIT,
      sar_data_payload_limit = SAR_MIN_DATA_PAYLOAD_LIMIT, sar_last_packet_id = 0,
      sar_start_write_id = False, sar_write_pending = False, sar_writing = None, sar_cmd = empty_queue,
      sar_conn = [new_conn], sar_conn_gen = 0, sar_control_in = None, sar_read_buf = None,
      sar_next_addr = 0, sar_fault = False, \<dots> = ext\<rparr>"

definition nci_sar_start :: "('a nci_sar_scheme) sar_client \<Rightarrow> 'a nci_sar_scheme \<Rightarrow> bool \<times> 'a nci_sar_scheme" where
  "nci_sar_start cl s = (let s1 = sar_start_hal cl s in (sar_started s1, s1))"

definition reset_conn :: "logical_conn \<Rightarrow> logical_conn" where
  "reset_conn c = c\<lparr>lc_out := empty_queue, lc_credits := 0, lc_in := map_option (\<lambda>_. []) (lc_in c)\<rparr>"

text \<open>The loop over the connections of \<open>nci_sar_reset\<close>.\<close>

definition sar_reset_conns :: "('a nci_sar_scheme) sar_client \<Rightarrow> 'a nci_sar_scheme \<Rightarrow> 'a nci_sar_scheme" where
  "sar_reset_conns cl s =
     fold (\<lambda>i s'. upd_conn i reset_conn (nci_sar_clear_queue cl (lc_out (sar_conn s' ! i)) s'))
       [0..<unat (sar_max_logical_conns s)] s"

definition nci_sar_reset :: "('a nci_sar_scheme) sar_client \<Rightarrow> 'a nci_sar_scheme \<Rightarrow> 'a nci_sar_scheme" where
  "nci_sar_reset cl s =
     (let cancel = sar_writing s;
          s1 = (if cancel \<noteq> None then
                  let s' = s\<lparr>sar_writing := None\<rparr> in
                  if sar_write_pending s' then (hal_tell HalCancelWrite s')\<lparr>sar_write_pending := False\<rparr> else s'
                else s);
          s2 = (if sar_started s1 then hal_tell HalStop (s1\<lparr>sar_started := False\<rparr>) else s1);
          s3 = sar_reset_conns cl s2;
          s4 = s3\<lparr>sar_control_in := map_option (\<lambda>_. []) (sar_control_in s3)\<rparr>;
          s5 = (nci_sar_clear_queue cl (sar_cmd s4) s4)\<lparr>sar_cmd := empty_queue\<rparr>;
          s6 = s5\<lparr>sar_start_write_id := False\<rparr>
      in case cancel of
           Some out \<Rightarrow> nci_sar_packet_out_free cl out (run_complete cl out False s6)
         | None \<Rightarrow> s6)"

text \<open>Nothing that was allocated is left.\<close>

definition nci_sar_free :: "('a nci_sar_scheme) sar_client \<Rightarrow> 'a nci_sar_scheme \<Rightarrow> 'a nci_sar_scheme" where
  "nci_sar_free cl s =
     (nci_sar_reset cl s)\<lparr>sar_max_logical_conns := 0, sar_conn := [], sar_control_in := None, sar_read_buf := None\<rparr>"

text \<open>\<open>g_realloc\<close> invalidates every pointer into the old array.\<close>

definition nci_sar_set_max_logical_connections ::
    "('a nci_sar_scheme) sar_client \<Rightarrow> byte \<Rightarrow> 'a nci_sar_scheme \<Rightarrow> 'a nci_sar_scheme" where
  "nci_sar_set_max_logical_connections cl max0 s =
     (let max' = (if max0 = 0 then SAR_DEFAULT_MAX_LOGICAL_CONNECTIONS else max0);
          cur = unat (sar_max_logical_conns s)
      in if unat max' > cur then
           s\<lparr>sar_conn := sar_conn s @ replicate (unat max' - cur) new_conn,
             sar_conn_gen := Suc (sar_conn_gen s), sar_max_logical_conns := max'\<rparr>
         else if unat max' < cur then
           let s1 = fold (\<lambda>i s'. nci_sar_clear_queue cl (lc_out (sar_conn s' ! i)) s') [unat max'..<cur] s
           in s1\<lparr>sar_conn := take (unat max') (sar_conn s1), sar_conn_gen := Suc (sar_conn_gen s1),
                 sar_max_logical_conns := max'\<rparr>
         else s)"

definition nci_sar_set_max_control_payload_size :: "byte \<Rightarrow> 'a nci_sar_scheme \<Rightarrow> 'a nci_sar_scheme" where
  "nci_sar_set_max_control_payload_size m s =
     s\<lparr>sar_control_payload_limit := (if m < SAR_MIN_CONTROL_PAYLOAD_LIMIT then SAR_MIN_CONTROL_PAYLOAD_LIMIT else m)\<rparr>"

definition nci_sar_set_max_data_payload_size :: "byte \<Rightarrow> 'a nci_sar_scheme \<Rightarrow> 'a nci_sar_scheme" where
  "nci_sar_set_max_data_payload_size m s =
     s\<lparr>sar_data_payload_limit := (if m < SAR_MIN_DATA_PAYLOAD_LIMIT then SAR_MIN_DATA_PAYLOAD_LIMIT else m)\<rparr>"

end
