(* ===== verification/Nci_World.thy ===== *)
theory Nci_World
  imports Nci_Util_Copy Nci_Sar_Rx
begin

unbundle bit_operations_syntax

text \<open>
  The state of the whole library: the segmentation layer, extended with the fields of
  \<open>NciCoreObject\<close> (\<open>src/nci_core.c\<close>), \<open>NciSm\<close> and \<open>NciSmObject\<close> (\<open>src/nci_sm.c\<close>), of the
  states and the transitions. A state and a transition are objects of which the library
  makes one each, so a pointer to one is its name; a response handler with its user data
  is a tag. Glib's main loop is outside: a scheduled source is a flag, its callback an
  event. Everything the application hears (signals, completions) goes to \<open>env_app\<close>, an
  arbitrary function on the state, because the application may call back.
\<close>

section \<open>Names\<close>

datatype nci_transition =
    TReset | TDeactivateToIdle | TDeactivateToDiscovery | TIdleToDiscovery
  | TPollActiveToIdle | TListenActiveToIdle

datatype rsp_handler =
    nci_core_io_dummy_resp
  | nci_state_w4_host_select_rsp
  | nci_transition_deactivate_to_discovery_idle_rsp
  | nci_transition_deactivate_to_discovery_rsp
  | nci_transition_deactivate_to_idle_rsp
  | nci_transition_poll_active_to_idle_rsp
  | nci_transition_listen_active_to_idle_rsp
  | nci_transition_reset_rsp
  | nci_transition_reset_init_v1_rsp
  | nci_transition_reset_init_v2_rsp
  | nci_transition_reset_set_config_rsp
  | nci_transition_idle_to_discovery_discover_rsp
  | nci_transition_idle_to_discover_map_rsp
  | nci_transition_idle_to_discovery_set_tech_routing_rsp
  | nci_transition_idle_to_discovery_last_protocol_routing_rsp
  | nci_transition_idle_to_discovery_set_protocol_routing_rsp
  | nci_transition_idle_to_discovery_set_mixed_routing_rsp
  | nci_transition_idle_to_discovery_set_config_rsp
  | nci_transition_idle_to_discovery_get_config_rsp

datatype NCI_CORE_PARAM =
  NCI_CORE_PARAM_LLC_VERSION | NCI_CORE_PARAM_LLC_WKS | NCI_CORE_PARAM_LA_NFCID1 | NCI_CORE_PARAM_LI_A_HB

datatype app_event =
    SigCurrentState | SigNextState | SigIntfActivated NciIntfActivationNtf
  | SigDataPacket byte "byte list" | SigParamChanged NCI_CORE_PARAM
  | AppSendComplete nat bool | AppSendDestroy nat

datatype nci_param = ParamW4AllDiscoveries NciDiscoveryNtf | ParamW4HostSelect "NciDiscoveryNtf list"

section \<open>The state\<close>

record nci_world = nci_sar +
  core_cmd_id :: u32
  core_cmd_timeout_id :: bool
  core_rsp_gid :: byte
  core_rsp_oid :: byte
  core_rsp_handler :: "rsp_handler option"
  core_cmd_timeout :: u32
  core_current_state :: NCI_STATE
  core_next_state :: NCI_STATE
  sm_last_state :: NCI_STATE
  sm_next_state :: NCI_STATE
  sm_rf_interfaces :: "byte list option"
  sm_max_routing_table_size :: nat
  sm_techs :: NCI_TECH
  sm_version :: NCI_INTERFACE_VERSION
  sm_nfcc_discovery :: byte
  sm_nfcc_routing :: byte
  sm_nfcc_power :: byte
  sm_op_mode :: NCI_OP_MODE
  sm_llc_version :: byte
  sm_llc_wks :: u16
  sm_la_nfcid1 :: NciNfcid1
  sm_li_a_hb :: NciAtsHb
  sm_default_la_nfcid1 :: NciNfcid1
  sm_default_li_a_hb :: NciAtsHb
  sm_next_transition :: "nci_transition option"
  sm_active_transition :: "nci_transition option"
  sm_active_state :: "NCI_STATE option"
  sm_entering_state :: nat
  sm_pending_switch :: "NCI_STATE option"     \<comment> \<open>\<open>pending_switch_id\<close> and its closure\<close>
  sm_pending_next :: bool                     \<comment> \<open>\<open>pending_signals\<close>, the two bits in use\<close>
  sm_pending_last :: bool
  st_active :: "NCI_STATE \<Rightarrow> bool"            \<comment> \<open>\<open>active\<close> of the state objects\<close>
  st_discoveries :: "NciDiscoveryNtf list"    \<comment> \<open>\<open>NciStateW4AllDiscoveries\<close>\<close>
  tr_timeout_id :: "nci_transition \<Rightarrow> bool"
  tr_ntf :: "NciRfDeactivateNtf option"       \<comment> \<open>\<open>NciTransitionListenActiveToIdle\<close>\<close>
  tr_expecting_ntf :: bool

text \<open>
  The environment: the HAL, the application, the sizes of two C structures that the
  copies of notifications depend on, and the sorted insertion of glib.
\<close>

record nci_env =
  env_hal :: "hal_call list \<Rightarrow> bool"
  env_app :: "app_event \<Rightarrow> nci_world \<Rightarrow> nci_world"
  env_sizeof_ntf :: nat
  env_sizeof_mode_param :: nat
  env_insert_sorted :: "(NciDiscoveryNtf \<Rightarrow> NciDiscoveryNtf \<Rightarrow> int) \<Rightarrow>
    NciDiscoveryNtf list \<Rightarrow> NciDiscoveryNtf \<Rightarrow> NciDiscoveryNtf list"   \<comment> \<open>\<open>g_slist_insert_sorted\<close>\<close>

section \<open>The objects before anything happened\<close>

text \<open>
  \<open>nci_core_object_init\<close> and \<open>nci_sm_object_init\<close> over zeroed memory, with the
  segmentation layer of \<open>nci_sar_new\<close>: poll modes only, technologies A, B and F, state
  \<open>INIT\<close> entered, a command timeout of 2000 ms. The configuration file and the parameters
  come in \<open>nci_core_new\<close> (theory \<open>Nci_Core\<close>).
\<close>

definition nci_sm_object_init :: nci_world where
  "nci_sm_object_init =
     nci_sar_new
       (nci_world.fields 0 False 0 0 None 2000 NCI_STATE_INIT NCI_STATE_INIT
          NCI_STATE_INIT NCI_STATE_INIT None 0 (NCI_TECH_A OR NCI_TECH_B OR NCI_TECH_F) NCI_INTERFACE_VERSION_UNKNOWN
          0 0 0 (NFC_OP_MODE_RW OR NFC_OP_MODE_POLL) 0 0 zero_nfcid1 zero_hb zero_nfcid1 zero_hb
          None None (Some NCI_STATE_INIT) 0 None False False
          (\<lambda>s. s = NCI_STATE_INIT) [] (\<lambda>_. False) None False)"

lemma nci_sm_object_init_fields [simp]:
  "core_cmd_id nci_sm_object_init = 0" "core_cmd_timeout nci_sm_object_init = 2000"
  "core_rsp_handler nci_sm_object_init = None" "core_cmd_timeout_id nci_sm_object_init = False"
  "sm_last_state nci_sm_object_init = NCI_STATE_INIT" "sm_next_state nci_sm_object_init = NCI_STATE_INIT"
  "sm_techs nci_sm_object_init = NCI_TECH_A OR NCI_TECH_B OR NCI_TECH_F"
  "sm_op_mode nci_sm_object_init = NFC_OP_MODE_RW OR NFC_OP_MODE_POLL"
  "sm_la_nfcid1 nci_sm_object_init = zero_nfcid1" "sm_li_a_hb nci_sm_object_init = zero_hb"
  "sm_active_transition nci_sm_object_init = None" "sm_next_transition nci_sm_object_init = None"
  "sm_active_state nci_sm_object_init = Some NCI_STATE_INIT" "sm_entering_state nci_sm_object_init = 0"
  "sm_pending_switch nci_sm_object_init = None" "sm_max_routing_table_size nci_sm_object_init = 0"
  "st_active nci_sm_object_init = (\<lambda>s. s = NCI_STATE_INIT)"
  by (simp_all add: nci_sm_object_init_def nci_world.defs nci_sar_new_def)

section \<open>Tables set up by \<open>nci_sm_new\<close>\<close>

definition transition_dest :: "nci_transition \<Rightarrow> NCI_STATE" where
  "transition_dest t =
     (case t of
        TReset \<Rightarrow> NCI_RFST_IDLE
      | TDeactivateToIdle \<Rightarrow> NCI_RFST_IDLE
      | TDeactivateToDiscovery \<Rightarrow> NCI_RFST_DISCOVERY
      | TIdleToDiscovery \<Rightarrow> NCI_RFST_DISCOVERY
      | TPollActiveToIdle \<Rightarrow> NCI_RFST_IDLE
      | TListenActiveToIdle \<Rightarrow> NCI_RFST_IDLE)"

text \<open>The transitions each state was given; a state's table is keyed by the destination.\<close>

definition sm_transitions :: "(NCI_STATE \<times> nci_transition) list" where
  "sm_transitions =
     [(NCI_RFST_DISCOVERY, TDeactivateToIdle),
      (NCI_RFST_W4_ALL_DISCOVERIES, TDeactivateToIdle),
      (NCI_RFST_W4_HOST_SELECT, TDeactivateToIdle),
      (NCI_RFST_LISTEN_SLEEP, TDeactivateToIdle),
      (NCI_RFST_POLL_ACTIVE, TDeactivateToDiscovery),
      (NCI_RFST_LISTEN_ACTIVE, TDeactivateToDiscovery),
      (NCI_RFST_IDLE, TIdleToDiscovery),
      (NCI_RFST_POLL_ACTIVE, TPollActiveToIdle),
      (NCI_RFST_LISTEN_ACTIVE, TListenActiveToIdle)]"

definition nci_state_get_transition :: "NCI_STATE \<Rightarrow> NCI_STATE \<Rightarrow> nci_transition option" where
  "nci_state_get_transition src dest =
     map_of (map (\<lambda>(s, t). ((s, transition_dest t), t)) sm_transitions) (src, dest)"

definition NCI_IS_INTERNAL_STATE :: "NCI_STATE \<Rightarrow> bool" where
  "NCI_IS_INTERNAL_STATE s \<longleftrightarrow> s < NCI_RFST_IDLE"

lemma NCI_IS_INTERNAL_STATE_iff: "NCI_IS_INTERNAL_STATE s \<longleftrightarrow> s \<in> {NCI_STATE_INIT, NCI_STATE_ERROR, NCI_STATE_STOP}"
  by (cases s) (simp_all add: NCI_IS_INTERNAL_STATE_def less_NCI_STATE_def)

definition nci_sm_active_transition :: "nci_world \<Rightarrow> nci_transition \<Rightarrow> bool" where
  "nci_sm_active_transition w t \<longleftrightarrow> sm_active_transition w = Some t"

section \<open>The command channel of \<open>NciCore\<close>\<close>

text \<open>
  What the segmentation layer needs of its client when it only releases packets: the
  destroy function and the HAL.
\<close>

definition nci_core_send_data_msg_destroy :: "nci_env \<Rightarrow> nat option \<Rightarrow> nci_world \<Rightarrow> nci_world" where
  "nci_core_send_data_msg_destroy env d w = (case d of Some x \<Rightarrow> env_app env (AppSendDestroy x) w | None \<Rightarrow> w)"

definition run_destroy :: "nci_env \<Rightarrow> sar_destroy \<Rightarrow> nci_world \<Rightarrow> nci_world" where
  "run_destroy env d w = (case d of Core_send_data_msg_destroy x \<Rightarrow> nci_core_send_data_msg_destroy env x w)"

definition free_client :: "nci_env \<Rightarrow> nci_world sar_client" where
  "free_client env =
     \<lparr>fn_error = (\<lambda>w. w), fn_handle_response = (\<lambda>_ _ _ w. w), fn_handle_notification = (\<lambda>_ _ _ w. w),
      fn_handle_data_packet = (\<lambda>_ _ w. w), fn_complete = (\<lambda>_ _ w. w), fn_destroy = run_destroy env,
      hal_answer = env_hal env\<rparr>"

text \<open>
  The handler of the cancelled command is called with \<open>NCI_REQUEST_CANCELLED\<close>, on which
  every response handler returns at once (\<open>run_rsp_cancelled\<close> in \<open>Nci_Rsp\<close>).
\<close>

definition nci_core_cancel_command :: "nci_env \<Rightarrow> nci_world \<Rightarrow> nci_world" where
  "nci_core_cancel_command env w =
     (let w1 = w\<lparr>core_cmd_timeout_id := False\<rparr> in
      if core_cmd_id w1 \<noteq> 0 then
        (nci_sar_cancel (free_client env) (core_cmd_id w1) w1)\<lparr>core_cmd_id := 0, core_rsp_handler := None\<rparr>
      else w1)"

definition nci_core_io_send ::
    "nci_env \<Rightarrow> byte \<Rightarrow> byte \<Rightarrow> byte list option \<Rightarrow> rsp_handler option \<Rightarrow> nci_world \<Rightarrow> bool \<times> nci_world" where
  "nci_core_io_send env gid oid payload resp w =
     (let w1 = nci_core_cancel_command env w;
          w2 = w1\<lparr>core_rsp_gid := gid, core_rsp_oid := oid,
                  core_rsp_handler := Some (case resp of Some h \<Rightarrow> h | None \<Rightarrow> nci_core_io_dummy_resp)\<rparr>
      in case nci_sar_send_command gid oid payload (Some Core_command_completion) None w2 of
           (pid, w3) \<Rightarrow>
             let w4 = w3\<lparr>core_cmd_id := pid\<rparr> in
             if pid \<noteq> 0 then
               (True, if core_cmd_timeout w4 \<noteq> 0 then w4\<lparr>core_cmd_timeout_id := True\<rparr> else w4)
             else (False, w4\<lparr>core_rsp_handler := None\<rparr>))"

text \<open>\<open>io->timeout(io)\<close>\<close>

definition nci_core_io_timeout :: "nci_world \<Rightarrow> u32" where
  [simp]: "nci_core_io_timeout w = core_cmd_timeout w"

definition nci_core_io_cancel :: "nci_env \<Rightarrow> nci_world \<Rightarrow> nci_world" where
  "nci_core_io_cancel env w = nci_core_cancel_command env (w\<lparr>core_rsp_handler := None\<rparr>)"

definition nci_sm_send_command ::
    "nci_env \<Rightarrow> byte \<Rightarrow> byte \<Rightarrow> byte list option \<Rightarrow> rsp_handler \<Rightarrow> nci_world \<Rightarrow> bool \<times> nci_world" where
  "nci_sm_send_command env gid oid payload resp w = nci_core_io_send env gid oid payload (Some resp) w"

section \<open>Signals\<close>

definition nci_core_last_state_changed :: "nci_env \<Rightarrow> nci_world \<Rightarrow> nci_world" where
  "nci_core_last_state_changed env w =
     env_app env SigCurrentState (w\<lparr>core_current_state := sm_last_state w\<rparr>)"

definition nci_core_next_state_changed :: "nci_env \<Rightarrow> nci_world \<Rightarrow> nci_world" where
  "nci_core_next_state_changed env w =
     env_app env SigNextState (w\<lparr>core_next_state := sm_next_state w\<rparr>)"

text \<open>The loop over the signals in the order of their numbers (next state, then last state).\<close>

definition nci_sm_emit_pending_signals :: "nci_env \<Rightarrow> nci_world \<Rightarrow> nci_world" where
  "nci_sm_emit_pending_signals env w =
     (let w1 = (if sm_pending_next w then nci_core_next_state_changed env (w\<lparr>sm_pending_next := False\<rparr>) else w)
      in if sm_pending_last w1 then nci_core_last_state_changed env (w1\<lparr>sm_pending_last := False\<rparr>) else w1)"

definition nci_sm_set_last_state :: "NCI_STATE \<Rightarrow> nci_world \<Rightarrow> nci_world" where
  "nci_sm_set_last_state s w =
     (if sm_last_state w \<noteq> s then w\<lparr>sm_last_state := s, sm_pending_last := True\<rparr> else w)"

definition nci_sm_set_next_state :: "NCI_STATE \<Rightarrow> nci_world \<Rightarrow> nci_world" where
  "nci_sm_set_next_state s w =
     (if sm_next_state w \<noteq> s then w\<lparr>sm_next_state := s, sm_pending_next := True\<rparr> else w)"

end
