(* ===== verification/Sm_Spec.thy ===== *)
theory Sm_Spec
  imports Nci_World
begin

text \<open>
  What the state machine promises, without its objects, timers, commands and signals: it is
  \<open>At\<close> a state, or \<open>Going\<close> from a state through a transition, perhaps with a transition to
  follow, to a target. \<open>spec_step\<close> lists all the ways in which that may change.
\<close>

section \<open>The abstract machine\<close>

datatype sm_spec = At NCI_STATE | Going NCI_STATE nci_transition "nci_transition option" NCI_STATE

fun spec_enter :: "NCI_STATE \<Rightarrow> sm_spec \<Rightarrow> sm_spec" where
  "spec_enter s (Going _ _ (Some t) target) = (if transition_dest t = s then At s else Going s t None target)"
| "spec_enter s _ = At s"

fun spec_switch :: "NCI_STATE \<Rightarrow> sm_spec \<Rightarrow> sm_spec" where
  "spec_switch next (At s) =
     (if s = next then At s
      else (case nci_state_get_transition s next of
              Some t \<Rightarrow> Going s t None next
            | None \<Rightarrow>
                if NCI_IS_INTERNAL_STATE next then At next
                else let t = (case nci_state_get_transition s NCI_RFST_IDLE of Some t \<Rightarrow> t | None \<Rightarrow> TReset)
                     in if next = NCI_RFST_IDLE then Going s t None next
                        else (case nci_state_get_transition NCI_RFST_IDLE next of
                                Some t' \<Rightarrow> Going s t (Some t') next
                              | None \<Rightarrow> At NCI_STATE_ERROR)))"
| "spec_switch next (Going s t th target) =
     (if target = next then Going s t th target
      else if transition_dest t = next then Going s t None target
      else (case nci_state_get_transition (transition_dest t) next of
              Some t' \<Rightarrow> Going s t (Some t') next
            | None \<Rightarrow> if NCI_IS_INTERNAL_STATE next then At next else At NCI_STATE_ERROR))"

section \<open>Steps\<close>

text \<open>The edges that notifications of the NFCC take, between the states of the RF state machine.\<close>

definition rf_edges :: "(NCI_STATE \<times> NCI_STATE) list" where
  "rf_edges =
     [(NCI_RFST_DISCOVERY, NCI_RFST_W4_ALL_DISCOVERIES), (NCI_RFST_DISCOVERY, NCI_RFST_POLL_ACTIVE),
      (NCI_RFST_DISCOVERY, NCI_RFST_LISTEN_ACTIVE), (NCI_RFST_W4_ALL_DISCOVERIES, NCI_RFST_W4_HOST_SELECT),
      (NCI_RFST_W4_HOST_SELECT, NCI_RFST_POLL_ACTIVE), (NCI_RFST_POLL_ACTIVE, NCI_RFST_IDLE),
      (NCI_RFST_POLL_ACTIVE, NCI_RFST_DISCOVERY), (NCI_RFST_LISTEN_ACTIVE, NCI_RFST_LISTEN_SLEEP),
      (NCI_RFST_LISTEN_ACTIVE, NCI_RFST_DISCOVERY), (NCI_RFST_LISTEN_SLEEP, NCI_RFST_LISTEN_ACTIVE),
      (NCI_RFST_LISTEN_SLEEP, NCI_RFST_DISCOVERY)]"

inductive spec_step :: "sm_spec \<Rightarrow> sm_spec \<Rightarrow> bool" where
  notify: "(s, s') \<in> set rf_edges \<Longrightarrow> spec_step (At s) (At s')"
| complete: "spec_step (Going from t th target) (spec_enter (transition_dest t) (Going from t th target))"
| deactivated: "t \<in> {TDeactivateToDiscovery, TPollActiveToIdle} \<Longrightarrow> s \<in> {NCI_RFST_IDLE, NCI_RFST_DISCOVERY} \<Longrightarrow>
    spec_step (Going from t th target) (spec_enter s (Going from t th target))"
| fail: "spec_step a (At NCI_STATE_ERROR)"
| switch: "spec_step a (spec_switch s a)"
| reset: "spec_step a (spec_switch NCI_RFST_IDLE (At NCI_STATE_INIT))"

end
