(* ===== verification/Discovery_Cmds.thy ===== *)
theory Discovery_Cmds
  imports Nci_World
begin

text \<open>
  The commands of the transition from \<open>RFST_IDLE\<close> to \<open>RFST_DISCOVERY\<close>
  (\<open>src/nci_transition_idle_to_discovery.c\<close>): \<open>CORE_GET_CONFIG\<close>, \<open>CORE_SET_CONFIG\<close>,
  \<open>RF_SET_LISTEN_MODE_ROUTING\<close>, \<open>RF_DISCOVER_MAP\<close> and \<open>RF_DISCOVER\<close>, as functions of the
  state machine's fields, and the decision which parameters have to be written. A
  \<open>GByteArray\<close> under construction is the list of its bytes.
\<close>

unbundle bit_operations_syntax

section \<open>Constants\<close>

abbreviation NCI_DISCOVER_MAP_MODE_POLL :: byte where "NCI_DISCOVER_MAP_MODE_POLL \<equiv> 0x01"
abbreviation NCI_DISCOVER_MAP_MODE_LISTEN :: byte where "NCI_DISCOVER_MAP_MODE_LISTEN \<equiv> 0x02"
abbreviation NCI_ROUTING_ENTRY_TYPE_TECHNOLOGY :: byte where "NCI_ROUTING_ENTRY_TYPE_TECHNOLOGY \<equiv> 0x00"
abbreviation NCI_ROUTING_ENTRY_TYPE_PROTOCOL :: byte where "NCI_ROUTING_ENTRY_TYPE_PROTOCOL \<equiv> 0x01"
abbreviation NCI_ROUTING_ENTRY_POWER_ON :: byte where "NCI_ROUTING_ENTRY_POWER_ON \<equiv> 0x01"
abbreviation NCI_NFCEE_ID_DH :: byte where "NCI_NFCEE_ID_DH \<equiv> 0x00"
abbreviation NCI_RF_TECHNOLOGY_A :: byte where "NCI_RF_TECHNOLOGY_A \<equiv> 0x00"
abbreviation NCI_RF_TECHNOLOGY_B :: byte where "NCI_RF_TECHNOLOGY_B \<equiv> 0x01"
abbreviation NCI_RF_TECHNOLOGY_F :: byte where "NCI_RF_TECHNOLOGY_F \<equiv> 0x02"
abbreviation NCI_NFCC_ROUTING_TECHNOLOGY_BASED :: byte where "NCI_NFCC_ROUTING_TECHNOLOGY_BASED \<equiv> 0x02"
abbreviation NCI_NFCC_ROUTING_PROTOCOL_BASED :: byte where "NCI_NFCC_ROUTING_PROTOCOL_BASED \<equiv> 0x04"
abbreviation NCI_LA_SENS_RES_NFCID1_LEN_MASK :: byte where "NCI_LA_SENS_RES_NFCID1_LEN_MASK \<equiv> 0xc0"
abbreviation NCI_LA_SEL_INFO_ISO_DEP :: byte where "NCI_LA_SEL_INFO_ISO_DEP \<equiv> 0x20"
abbreviation NCI_LA_SEL_INFO_NFC_DEP :: byte where "NCI_LA_SEL_INFO_NFC_DEP \<equiv> 0x40"
abbreviation NCI_LF_PROTOCOL_TYPE_NFC_DEP :: byte where "NCI_LF_PROTOCOL_TYPE_NFC_DEP \<equiv> 0x02"

text \<open>\<open>x & y\<close> as a condition.\<close>

definition any_bit :: "u32 \<Rightarrow> u32 \<Rightarrow> bool" where
  "any_bit x y \<longleftrightarrow> x AND y \<noteq> 0"

definition all_bits :: "u32 \<Rightarrow> u32 \<Rightarrow> bool" where
  "all_bits x y \<longleftrightarrow> x AND y = y"

text \<open>\<open>cmd->data[i] += n\<close>\<close>

definition bump :: "nat \<Rightarrow> byte \<Rightarrow> byte list \<Rightarrow> byte list" where
  "bump i n cmd = cmd[i := cmd ! i + n]"

section \<open>\<open>RF_DISCOVER_CMD\<close>\<close>

definition tech_modes :: "(NCI_TECH \<times> NCI_MODE) list" where
  "tech_modes =
     [(NCI_TECH_A_POLL_ACTIVE, NCI_MODE_ACTIVE_POLL_A),
      (NCI_TECH_A_POLL_PASSIVE, NCI_MODE_PASSIVE_POLL_A),
      (NCI_TECH_B_POLL, NCI_MODE_PASSIVE_POLL_B),
      (NCI_TECH_F_POLL_ACTIVE, NCI_MODE_ACTIVE_POLL_F),
      (NCI_TECH_F_POLL_PASSIVE, NCI_MODE_PASSIVE_POLL_F),
      (NCI_TECH_A_LISTEN_ACTIVE, NCI_MODE_ACTIVE_LISTEN_A),
      (NCI_TECH_A_LISTEN_PASSIVE, NCI_MODE_PASSIVE_LISTEN_A),
      (NCI_TECH_B_LISTEN, NCI_MODE_PASSIVE_LISTEN_B),
      (NCI_TECH_F_LISTEN_ACTIVE, NCI_MODE_ACTIVE_LISTEN_F),
      (NCI_TECH_F_LISTEN_PASSIVE, NCI_MODE_PASSIVE_LISTEN_F),
      (NCI_TECH_V_POLL, NCI_MODE_PASSIVE_POLL_V),
      (NCI_TECH_V_LISTEN, NCI_MODE_PASSIVE_LISTEN_V)]"

definition discover_techs :: "NCI_OP_MODE \<Rightarrow> NCI_TECH" where
  "discover_techs op =
     (let t0 = NCI_TECH_NONE;
          t1 = (if any_bit op NFC_OP_MODE_RW
                then t0 OR (NCI_TECH_A_POLL OR NCI_TECH_B_POLL OR NCI_TECH_F_POLL OR NCI_TECH_V_POLL) else t0);
          t2 = (if any_bit op NFC_OP_MODE_PEER \<and> any_bit op NFC_OP_MODE_POLL
                then t1 OR (NCI_TECH_A_POLL OR NCI_TECH_F_POLL) else t1);
          t3 = (if any_bit op NFC_OP_MODE_PEER \<and> any_bit op NFC_OP_MODE_LISTEN
                then t2 OR (NCI_TECH_A_LISTEN OR NCI_TECH_F_LISTEN) else t2)
      in if any_bit op NFC_OP_MODE_CE then t3 OR (NCI_TECH_A_LISTEN_PASSIVE OR NCI_TECH_B_LISTEN) else t3)"

text \<open>The loop over the table: it ends early when no technology is left.\<close>

fun discover_loop :: "(NCI_TECH \<times> NCI_MODE) list \<Rightarrow> NCI_TECH \<Rightarrow> byte list \<Rightarrow> byte list" where
  "discover_loop [] techs cmd = cmd"
| "discover_loop ((t, m) # tms) techs cmd =
     (if techs = 0 then cmd
      else if any_bit techs t then discover_loop tms (techs AND NOT t) (bump 0 1 cmd @ [m, 1])
      else discover_loop tms techs cmd)"

definition discover_cmd :: "nci_world \<Rightarrow> byte list" where
  "discover_cmd w = discover_loop tech_modes (discover_techs (sm_op_mode w) AND sm_techs w) [0x00]"

definition nci_transition_idle_to_discovery_discover :: "nci_env \<Rightarrow> nci_world \<Rightarrow> nci_world" where
  "nci_transition_idle_to_discovery_discover env w =
     snd (nci_sm_send_command env NCI_GID_RF NCI_OID_RF_DISCOVER (Some (discover_cmd w))
       nci_transition_idle_to_discovery_discover_rsp w)"

section \<open>\<open>RF_DISCOVER_MAP_CMD\<close>\<close>

definition map_when :: "bool \<Rightarrow> byte \<Rightarrow> byte list \<Rightarrow> byte list \<Rightarrow> byte list" where
  "map_when c n entries cmd = (if c then bump 0 n cmd @ entries else cmd)"

definition discover_map_cmd :: "nci_world \<Rightarrow> byte list" where
  "discover_map_cmd w =
     (let op = sm_op_mode w; techs = sm_techs w;
          rw = any_bit op NFC_OP_MODE_RW; peer = any_bit op NFC_OP_MODE_PEER;
          c0 = [0x00];
          c1 = map_when (rw \<and> any_bit techs NCI_TECH_A_POLL) 2
                 [NCI_PROTOCOL_T1T, NCI_DISCOVER_MAP_MODE_POLL, NCI_RF_INTERFACE_FRAME,
                  NCI_PROTOCOL_T2T, NCI_DISCOVER_MAP_MODE_POLL, NCI_RF_INTERFACE_FRAME] c0;
          c2 = map_when (rw \<and> any_bit techs NCI_TECH_F_POLL) 1
                 [NCI_PROTOCOL_T3T, NCI_DISCOVER_MAP_MODE_POLL, NCI_RF_INTERFACE_FRAME] c1;
          c3 = map_when (rw \<and> any_bit techs NCI_TECH_V_POLL) 1
                 [NCI_PROTOCOL_T5T, NCI_DISCOVER_MAP_MODE_POLL, NCI_RF_INTERFACE_FRAME] c2;
          c4 = map_when (rw \<and> any_bit techs (NCI_TECH_A_POLL OR NCI_TECH_B_POLL)) 1
                 [NCI_PROTOCOL_ISO_DEP, NCI_DISCOVER_MAP_MODE_POLL, NCI_RF_INTERFACE_ISO_DEP] c3;
          c5 = map_when (peer \<and> any_bit op NFC_OP_MODE_POLL \<and> any_bit techs (NCI_TECH_A_POLL OR NCI_TECH_F_POLL)) 1
                 [NCI_PROTOCOL_NFC_DEP, NCI_DISCOVER_MAP_MODE_POLL, NCI_RF_INTERFACE_NFC_DEP] c4;
          c6 = map_when (peer \<and> any_bit op NFC_OP_MODE_LISTEN \<and> any_bit techs (NCI_TECH_A_LISTEN OR NCI_TECH_F_LISTEN)) 1
                 [NCI_PROTOCOL_NFC_DEP, NCI_DISCOVER_MAP_MODE_LISTEN, NCI_RF_INTERFACE_NFC_DEP] c5
      in map_when (any_bit op NFC_OP_MODE_CE \<and> any_bit techs (NCI_TECH_A_LISTEN OR NCI_TECH_B_LISTEN)) 1
           [NCI_PROTOCOL_ISO_DEP, NCI_DISCOVER_MAP_MODE_LISTEN, NCI_RF_INTERFACE_ISO_DEP] c6)"

definition nci_transition_idle_to_discover_map :: "nci_env \<Rightarrow> nci_world \<Rightarrow> nci_world" where
  "nci_transition_idle_to_discover_map env w =
     snd (nci_sm_send_command env NCI_GID_RF NCI_OID_RF_DISCOVER_MAP (Some (discover_map_cmd w))
       nci_transition_idle_to_discover_map_rsp w)"

section \<open>\<open>RF_SET_LISTEN_MODE_ROUTING_CMD\<close>\<close>

text \<open>\<open>entry\<close> is one of the five byte tables of the file, passed whole.\<close>

definition nci_transition_idle_to_discovery_add_routing_entry :: "nci_world \<Rightarrow> byte list \<Rightarrow> byte list \<Rightarrow> byte list" where
  "nci_transition_idle_to_discovery_add_routing_entry w cmd entry =
     (let entry_size = 2 + unat (entry ! 1) in
      if length cmd \<le> sm_max_routing_table_size w + 2 then bump 1 1 cmd @ take entry_size entry
      else cmd)"

text \<open>The entries; note the bitwise \<open>&\<close> in the condition of the ISO-DEP entry.\<close>

definition nci_transition_idle_to_discovery_protocol_routing_entries :: "nci_world \<Rightarrow> byte list \<Rightarrow> byte list" where
  "nci_transition_idle_to_discovery_protocol_routing_entries w cmd =
     (let op = sm_op_mode w; techs = sm_techs w;
          c1 = (if any_bit op NFC_OP_MODE_PEER \<and> any_bit op (NFC_OP_MODE_POLL OR NFC_OP_MODE_LISTEN) \<and>
                   any_bit techs (NCI_TECH_A OR NCI_TECH_F)
                then nci_transition_idle_to_discovery_add_routing_entry w cmd
                       [NCI_ROUTING_ENTRY_TYPE_PROTOCOL, 3, NCI_NFCEE_ID_DH, NCI_ROUTING_ENTRY_POWER_ON, NCI_PROTOCOL_NFC_DEP]
                else cmd)
      in if (op AND (NFC_OP_MODE_CE OR NFC_OP_MODE_RW)) AND (techs AND (NCI_TECH_A OR NCI_TECH_B)) \<noteq> 0
         then nci_transition_idle_to_discovery_add_routing_entry w c1
                [NCI_ROUTING_ENTRY_TYPE_PROTOCOL, 3, NCI_NFCEE_ID_DH, NCI_ROUTING_ENTRY_POWER_ON, NCI_PROTOCOL_ISO_DEP]
         else c1)"

definition nci_transition_idle_to_discovery_tech_routing_entries :: "nci_world \<Rightarrow> byte list \<Rightarrow> byte list" where
  "nci_transition_idle_to_discovery_tech_routing_entries w cmd =
     (let op = sm_op_mode w; techs = sm_techs w;
          c1 = (if any_bit techs NCI_TECH_F_LISTEN \<and> any_bit op (NFC_OP_MODE_RW OR NFC_OP_MODE_PEER)
                then nci_transition_idle_to_discovery_add_routing_entry w cmd
                       [NCI_ROUTING_ENTRY_TYPE_TECHNOLOGY, 3, NCI_NFCEE_ID_DH, NCI_ROUTING_ENTRY_POWER_ON, NCI_RF_TECHNOLOGY_F]
                else cmd);
          c2 = (if any_bit techs NCI_TECH_B
                then nci_transition_idle_to_discovery_add_routing_entry w c1
                       [NCI_ROUTING_ENTRY_TYPE_TECHNOLOGY, 3, NCI_NFCEE_ID_DH, NCI_ROUTING_ENTRY_POWER_ON, NCI_RF_TECHNOLOGY_B]
                else c1)
      in if any_bit techs NCI_TECH_A
         then nci_transition_idle_to_discovery_add_routing_entry w c2
                [NCI_ROUTING_ENTRY_TYPE_TECHNOLOGY, 3, NCI_NFCEE_ID_DH, NCI_ROUTING_ENTRY_POWER_ON, NCI_RF_TECHNOLOGY_A]
         else c2)"

definition nci_transition_idle_to_discovery_mixed_routing_entries :: "nci_world \<Rightarrow> byte list \<Rightarrow> byte list" where
  "nci_transition_idle_to_discovery_mixed_routing_entries w cmd =
     nci_transition_idle_to_discovery_tech_routing_entries w
       (nci_transition_idle_to_discovery_protocol_routing_entries w cmd)"

definition nci_transition_idle_to_discovery_set_routing ::
    "nci_env \<Rightarrow> (nci_world \<Rightarrow> byte list \<Rightarrow> byte list) \<Rightarrow> rsp_handler \<Rightarrow> nci_world \<Rightarrow> nci_world" where
  "nci_transition_idle_to_discovery_set_routing env add_routing_entries rsp w =
     snd (nci_sm_send_command env NCI_GID_RF NCI_OID_RF_SET_LISTEN_MODE_ROUTING
       (Some (add_routing_entries w [0x00, 0x00])) rsp w)"

definition nci_transition_idle_to_discovery_configure_routing :: "nci_env \<Rightarrow> nci_world \<Rightarrow> nci_world" where
  "nci_transition_idle_to_discovery_configure_routing env w =
     (let op = sm_op_mode w;
          kinds = sm_nfcc_routing w AND (NCI_NFCC_ROUTING_PROTOCOL_BASED OR NCI_NFCC_ROUTING_TECHNOLOGY_BASED)
      in if sm_max_routing_table_size w \<noteq> 0 \<and>
            (any_bit op NFC_OP_MODE_CE \<or> all_bits op (NFC_OP_MODE_PEER OR NFC_OP_MODE_LISTEN)) \<and> kinds \<noteq> 0
         then if kinds = NCI_NFCC_ROUTING_PROTOCOL_BASED OR NCI_NFCC_ROUTING_TECHNOLOGY_BASED
              then nci_transition_idle_to_discovery_set_routing env
                     nci_transition_idle_to_discovery_mixed_routing_entries
                     nci_transition_idle_to_discovery_set_mixed_routing_rsp w
              else if kinds = NCI_NFCC_ROUTING_PROTOCOL_BASED
              then nci_transition_idle_to_discovery_set_routing env
                     nci_transition_idle_to_discovery_protocol_routing_entries
                     nci_transition_idle_to_discovery_last_protocol_routing_rsp w
              else nci_transition_idle_to_discovery_set_routing env
                     nci_transition_idle_to_discovery_tech_routing_entries
                     nci_transition_idle_to_discovery_set_tech_routing_rsp w
         else nci_transition_idle_to_discover_map env w)"

section \<open>\<open>CORE_SET_CONFIG_CMD\<close>\<close>

abbreviation CORE_SET_CONFIG_LA_SENS_RES_1 :: u32 where "CORE_SET_CONFIG_LA_SENS_RES_1 \<equiv> 0x01"
abbreviation CORE_SET_CONFIG_LA_SEL_INFO :: u32 where "CORE_SET_CONFIG_LA_SEL_INFO \<equiv> 0x02"
abbreviation CORE_SET_CONFIG_LA_NFCID1 :: u32 where "CORE_SET_CONFIG_LA_NFCID1 \<equiv> 0x04"
abbreviation CORE_SET_CONFIG_LF_PROTOCOL_TYPE :: u32 where "CORE_SET_CONFIG_LF_PROTOCOL_TYPE \<equiv> 0x08"
abbreviation CORE_SET_CONFIG_LI_A_HB :: u32 where "CORE_SET_CONFIG_LI_A_HB \<equiv> 0x10"

text \<open>One parameter: appended with its length, and counted.\<close>

definition config_when :: "bool \<Rightarrow> byte \<Rightarrow> byte \<Rightarrow> byte list \<Rightarrow> byte list \<Rightarrow> byte list" where
  "config_when c pid len val cmd = (if c then bump 0 1 (cmd @ [pid, len] @ take (unat len) val) else cmd)"

definition set_config_cmd :: "u32 \<Rightarrow> byte \<Rightarrow> NciNfcid1 \<Rightarrow> NciAtsHb \<Rightarrow> byte \<Rightarrow> byte \<Rightarrow> byte list" where
  "set_config_cmd set_config la_sens_res_1 la_nfcid1 li_a_hb la_sel_info lf_protocol_type =
     (let c0 = [0x00];
          c1 = config_when (any_bit set_config CORE_SET_CONFIG_LA_SENS_RES_1)
                 NCI_CONFIG_LA_SENS_RES_1 1 [la_sens_res_1] c0;
          c2 = config_when (any_bit set_config CORE_SET_CONFIG_LA_SEL_INFO)
                 NCI_CONFIG_LA_SEL_INFO 1 [la_sel_info] c1;
          c3 = config_when (any_bit set_config CORE_SET_CONFIG_LA_NFCID1)
                 NCI_CONFIG_LA_NFCID1 (nfcid1_len la_nfcid1) (nfcid1_bytes la_nfcid1) c2;
          c4 = config_when (any_bit set_config CORE_SET_CONFIG_LF_PROTOCOL_TYPE)
                 NCI_CONFIG_LF_PROTOCOL_TYPE 1 [lf_protocol_type] c3
      in config_when (any_bit set_config CORE_SET_CONFIG_LI_A_HB)
           NCI_CONFIG_LI_A_HIST_BY (hb_len li_a_hb) (hb_bytes li_a_hb) c4)"

definition nci_transition_idle_to_discovery_set_config ::
    "nci_env \<Rightarrow> u32 \<Rightarrow> byte \<Rightarrow> NciNfcid1 \<Rightarrow> NciAtsHb \<Rightarrow> byte \<Rightarrow> byte \<Rightarrow> nci_world \<Rightarrow> nci_world" where
  "nci_transition_idle_to_discovery_set_config env set_config la_sens_res_1 la_nfcid1 li_a_hb la_sel_info lf_protocol_type w =
     snd (nci_sm_send_command env NCI_GID_CORE NCI_OID_CORE_SET_CONFIG
       (Some (set_config_cmd set_config la_sens_res_1 la_nfcid1 li_a_hb la_sel_info lf_protocol_type))
       nci_transition_idle_to_discovery_set_config_rsp w)"

section \<open>The expected configuration\<close>

definition nci_transition_idle_to_discovery_la_sens_res_1_expected :: "nci_world \<Rightarrow> byte" where
  "nci_transition_idle_to_discovery_la_sens_res_1_expected w =
     (let n = unat (nfcid1_len (sm_la_nfcid1 w)) in
      if n = 0 \<or> n = 4 then 0x00 else if n = 7 then 0x40 else if n = 10 then 0x80 else 0)"

definition nci_transition_idle_to_discovery_la_nfcid1_expected :: "nci_world \<Rightarrow> NciNfcid1" where
  "nci_transition_idle_to_discovery_la_nfcid1_expected w =
     (let x = sm_la_nfcid1 w; n = unat (nfcid1_len x) in
      if n = 4 \<or> n = 7 \<or> n = 10
      then \<lparr>nfcid1_len = nfcid1_len x, nfcid1_bytes = fill_array 10 (nfcid1_bytes x) n\<rparr>
      else \<lparr>nfcid1_len = 4, nfcid1_bytes = 0x08 # replicate 9 0\<rparr>)"

definition nci_transition_idle_to_discovery_la_sel_info_expected :: "nci_world \<Rightarrow> byte" where
  "nci_transition_idle_to_discovery_la_sel_info_expected w =
     (let op = sm_op_mode w;
          e1 = (if any_bit op NFC_OP_MODE_CE then 0 OR NCI_LA_SEL_INFO_ISO_DEP else 0)
      in if all_bits op (NFC_OP_MODE_LISTEN OR NFC_OP_MODE_PEER) then e1 OR NCI_LA_SEL_INFO_NFC_DEP else e1)"

definition nci_transition_idle_to_discovery_lf_protocol_type_expected :: "nci_world \<Rightarrow> byte" where
  "nci_transition_idle_to_discovery_lf_protocol_type_expected w =
     (if all_bits (sm_op_mode w) (NFC_OP_MODE_LISTEN OR NFC_OP_MODE_PEER) \<and> any_bit (sm_techs w) NCI_TECH_F_LISTEN
      then NCI_LF_PROTOCOL_TYPE_NFC_DEP else 0)"

section \<open>Comparing with what the NFCC has\<close>

text \<open>
  The answer and the value of \<open>*expected\<close> afterwards: a byte whose other bits the NFCC
  already uses is written back with those bits kept.
\<close>

definition nci_transition_idle_to_discovery_config_byte_ok ::
    "nat \<Rightarrow> byte list \<Rightarrow> byte \<Rightarrow> byte \<Rightarrow> byte \<Rightarrow> bool \<times> byte" where
  "nci_transition_idle_to_discovery_config_byte_ok nparams params pid expected msk =
     (case nci_parse_config_param_uint nparams params pid of
        (n, val) \<Rightarrow>
          if n = 1 then
            let b = ucast val :: byte in
            if b AND msk = expected then (True, expected) else (False, expected OR (b AND NOT msk))
          else (False, expected))"

definition nci_transition_idle_to_discovery_config_nfcid1_ok ::
    "nat \<Rightarrow> byte list \<Rightarrow> byte \<Rightarrow> NciNfcid1 \<Rightarrow> bool" where
  "nci_transition_idle_to_discovery_config_nfcid1_ok nparams params pid nfcid1 =
     (case nci_parse_config_param_nfcid1 nparams params pid of
        None \<Rightarrow> False
      | Some val \<Rightarrow> nci_nfcid1_equal val nfcid1)"

definition nci_transition_idle_to_discovery_hb_ok :: "nat \<Rightarrow> byte list \<Rightarrow> byte \<Rightarrow> NciAtsHb \<Rightarrow> bool" where
  "nci_transition_idle_to_discovery_hb_ok nparams params pid hb =
     (case nci_parse_find_config_param nparams params pid of
        None \<Rightarrow> hb_len hb = 0
      | Some val \<Rightarrow> length val = unat (hb_len hb) \<and> (hb_len hb = 0 \<or> memcmp_eq val (hb_bytes hb) (unat (hb_len hb))))"

text \<open>The four parameters that are checked one by one; the historical bytes follow the same pattern.\<close>

definition nci_transition_idle_to_discovery_la_sens_res_1_ok :: "nat \<Rightarrow> byte list \<Rightarrow> byte \<Rightarrow> bool \<times> byte" where
  [simp]: "nci_transition_idle_to_discovery_la_sens_res_1_ok nparams params expected =
     nci_transition_idle_to_discovery_config_byte_ok nparams params NCI_CONFIG_LA_SENS_RES_1 expected
       NCI_LA_SENS_RES_NFCID1_LEN_MASK"

definition nci_transition_idle_to_discovery_la_nfcid1_ok :: "nat \<Rightarrow> byte list \<Rightarrow> NciNfcid1 \<Rightarrow> bool" where
  [simp]: "nci_transition_idle_to_discovery_la_nfcid1_ok nparams params expected =
     nci_transition_idle_to_discovery_config_nfcid1_ok nparams params NCI_CONFIG_LA_NFCID1 expected"

definition nci_transition_idle_to_discovery_la_sel_info_ok :: "nat \<Rightarrow> byte list \<Rightarrow> byte \<Rightarrow> bool \<times> byte" where
  [simp]: "nci_transition_idle_to_discovery_la_sel_info_ok nparams params expected =
     nci_transition_idle_to_discovery_config_byte_ok nparams params NCI_CONFIG_LA_SEL_INFO expected
       (NCI_LA_SEL_INFO_ISO_DEP OR NCI_LA_SEL_INFO_NFC_DEP)"

definition nci_transition_idle_to_discovery_lf_protocol_type_ok :: "nat \<Rightarrow> byte list \<Rightarrow> byte \<Rightarrow> bool \<times> byte" where
  [simp]: "nci_transition_idle_to_discovery_lf_protocol_type_ok nparams params expected =
     nci_transition_idle_to_discovery_config_byte_ok nparams params NCI_CONFIG_LF_PROTOCOL_TYPE expected
       NCI_LF_PROTOCOL_TYPE_NFC_DEP"

text \<open>
  What the response handler of \<open>CORE_GET_CONFIG\<close> works out when there is a response: the
  parameters to write, and the three bytes to write.
\<close>

definition get_config_flags :: "byte list \<Rightarrow> nci_world \<Rightarrow> u32 \<times> byte \<times> byte \<times> byte" where
  "get_config_flags payload w =
     (let f0 = CORE_SET_CONFIG_LA_SENS_RES_1 OR CORE_SET_CONFIG_LA_SEL_INFO OR CORE_SET_CONFIG_LA_NFCID1 OR
               CORE_SET_CONFIG_LI_A_HB OR CORE_SET_CONFIG_LF_PROTOCOL_TYPE;
          sens0 = nci_transition_idle_to_discovery_la_sens_res_1_expected w;
          sel0 = nci_transition_idle_to_discovery_la_sel_info_expected w;
          lf0 = nci_transition_idle_to_discovery_lf_protocol_type_expected w;
          nfcid1 = nci_transition_idle_to_discovery_la_nfcid1_expected w
      in if length payload \<ge> 2 \<and> payload ! 0 = NCI_STATUS_OK then
           let n = unat (payload ! 1); params = drop 2 payload;
               (sens_ok, sens) = nci_transition_idle_to_discovery_la_sens_res_1_ok n params sens0;
               f1 = (if sens_ok then f0 AND NOT CORE_SET_CONFIG_LA_SENS_RES_1 else f0);
               f2 = (if nci_transition_idle_to_discovery_la_nfcid1_ok n params nfcid1
                     then f1 AND NOT CORE_SET_CONFIG_LA_NFCID1 else f1);
               (sel_ok, sel) = nci_transition_idle_to_discovery_la_sel_info_ok n params sel0;
               f3 = (if sel_ok then f2 AND NOT CORE_SET_CONFIG_LA_SEL_INFO else f2);
               (lf_ok, lf) = nci_transition_idle_to_discovery_lf_protocol_type_ok n params lf0;
               f4 = (if lf_ok then f3 AND NOT CORE_SET_CONFIG_LF_PROTOCOL_TYPE else f3);
               f5 = (if nci_transition_idle_to_discovery_hb_ok n params NCI_CONFIG_LI_A_HIST_BY (sm_li_a_hb w)
                     then f4 AND NOT CORE_SET_CONFIG_LI_A_HB else f4)
           in (f5, sens, sel, lf)
         else (f0, sens0, sel0, lf0))"

definition get_config_cmd :: "byte list" where
  "get_config_cmd =
     [5, NCI_CONFIG_LA_SENS_RES_1, NCI_CONFIG_LA_SEL_INFO, NCI_CONFIG_LA_NFCID1, NCI_CONFIG_LF_PROTOCOL_TYPE,
      NCI_CONFIG_LI_A_HIST_BY]"

end
