(* ===== verification/Nci_Transition.thy ===== *)
theory Nci_Transition
  imports Discovery_Cmds
begin

text \<open>
  How a transition starts and what happens when it has finished (\<open>src/nci_transition.c\<close> and
  the \<open>start\<close> and \<open>finished\<close> methods of the six transitions): the timer, the first command,
  and the commands that the other methods send. None of this enters a state.
\<close>

unbundle bit_operations_syntax

section \<open>The base class\<close>

definition nci_transition_default_start :: "nci_transition \<Rightarrow> nci_world \<Rightarrow> bool \<times> nci_world" where
  "nci_transition_default_start t w =
     (True, w\<lparr>tr_timeout_id := (tr_timeout_id w)(t := nci_core_io_timeout w \<noteq> 0)\<rparr>)"

definition nci_transition_default_finished :: "nci_transition \<Rightarrow> nci_world \<Rightarrow> nci_world" where
  "nci_transition_default_finished t w = w\<lparr>tr_timeout_id := (tr_timeout_id w)(t := False)\<rparr>"

definition nci_transition_deactivate_to_idle :: "nci_env \<Rightarrow> rsp_handler \<Rightarrow> nci_world \<Rightarrow> bool \<times> nci_world" where
  "nci_transition_deactivate_to_idle env resp w =
     nci_sm_send_command env NCI_GID_RF NCI_OID_RF_DEACTIVATE (Some [0x00]) resp w"

definition nci_transition_deactivate_to_discovery :: "nci_env \<Rightarrow> rsp_handler \<Rightarrow> nci_world \<Rightarrow> bool \<times> nci_world" where
  "nci_transition_deactivate_to_discovery env resp w =
     nci_sm_send_command env NCI_GID_RF NCI_OID_RF_DEACTIVATE (Some [0x03]) resp w"

section \<open>The reset transition\<close>

definition nci_transition_reset_start :: "nci_env \<Rightarrow> nci_world \<Rightarrow> bool \<times> nci_world" where
  "nci_transition_reset_start env w =
     (case nci_transition_default_start TReset w of
        (True, w1) \<Rightarrow>
          nci_sm_send_command env NCI_GID_CORE NCI_OID_CORE_RESET (Some [0x00]) nci_transition_reset_rsp
            (w1\<lparr>sm_rf_interfaces := None, sm_max_routing_table_size := 0,
                sm_version := NCI_INTERFACE_VERSION_UNKNOWN, sm_nfcc_discovery := 0, sm_nfcc_routing := 0,
                sm_nfcc_power := 0\<rparr>)
      | (False, w1) \<Rightarrow> (False, w1))"

text \<open>
  General Bytes: the LLCP magic and the parameters VERSION, MIUX, WKS, LTO and OPT; the
  configuration has them twice, after the fixed part.
\<close>

definition llcp_general_bytes :: "nci_world \<Rightarrow> byte list" where
  "llcp_general_bytes w =
     [0x46, 0x66, 0x6d] @ [1, 1, sm_llc_version w] @ [2, 0x02, 0x07, 0xff] @
     [3, 2, ucast (drop_bit 8 (sm_llc_wks w)), ucast (sm_llc_wks w)] @ [4, 0x01, 0x64] @ [7, 0x01, 0x03]"

definition reset_set_config_cmd :: "nci_world \<Rightarrow> byte list" where
  "reset_set_config_cmd w =
     (let gb = llcp_general_bytes w;
          cmd = [7, NCI_CONFIG_TOTAL_DURATION, 0x02, 0xf4, 0x01, NCI_CONFIG_PA_BAIL_OUT, 0x01, 0x00,
                 NCI_CONFIG_PB_BAIL_OUT, 0x01, 0x00, NCI_CONFIG_LN_ATR_RES_CONFIG, 0x01, 0x30,
                 NCI_CONFIG_PN_ATR_REQ_CONFIG, 0x01, 0x30]
      in cmd @ [NCI_CONFIG_LN_ATR_RES_GEN_BYTES, of_nat (length gb)] @ gb @
         [NCI_CONFIG_PN_ATR_REQ_GEN_BYTES, of_nat (length gb)] @ gb)"

definition nci_transition_reset_set_config :: "nci_env \<Rightarrow> nci_world \<Rightarrow> nci_world" where
  "nci_transition_reset_set_config env w =
     snd (nci_sm_send_command env NCI_GID_CORE NCI_OID_CORE_SET_CONFIG (Some (reset_set_config_cmd w))
       nci_transition_reset_set_config_rsp w)"

section \<open>Leaving \<open>RFST_LISTEN_ACTIVE\<close>\<close>

definition nci_transition_listen_active_to_idle_reset :: "nci_world \<Rightarrow> nci_world" where
  "nci_transition_listen_active_to_idle_reset w = w\<lparr>tr_ntf := None, tr_expecting_ntf := False\<rparr>"

section \<open>The methods \<open>start\<close> and \<open>finished\<close>\<close>

definition and_then :: "bool \<times> nci_world \<Rightarrow> (nci_world \<Rightarrow> bool \<times> nci_world) \<Rightarrow> bool \<times> nci_world" where
  "and_then r f = (case r of (ok, w) \<Rightarrow> if ok then f w else (False, w))"

definition nci_transition_deactivate_to_idle_start :: "nci_env \<Rightarrow> nci_world \<Rightarrow> bool \<times> nci_world" where
  [simp]: "nci_transition_deactivate_to_idle_start env w =
     and_then (nci_transition_default_start TDeactivateToIdle w)
       (nci_transition_deactivate_to_idle env nci_transition_deactivate_to_idle_rsp)"

definition nci_transition_deactivate_to_discovery_start :: "nci_env \<Rightarrow> nci_world \<Rightarrow> bool \<times> nci_world" where
  [simp]: "nci_transition_deactivate_to_discovery_start env w =
     and_then (nci_transition_default_start TDeactivateToDiscovery w)
       (nci_transition_deactivate_to_discovery env nci_transition_deactivate_to_discovery_rsp)"

definition nci_transition_idle_to_discovery_start :: "nci_env \<Rightarrow> nci_world \<Rightarrow> bool \<times> nci_world" where
  [simp]: "nci_transition_idle_to_discovery_start env w =
     and_then (nci_transition_default_start TIdleToDiscovery w)
       (nci_sm_send_command env NCI_GID_CORE NCI_OID_CORE_GET_CONFIG (Some get_config_cmd)
         nci_transition_idle_to_discovery_get_config_rsp)"

definition nci_transition_poll_active_to_idle_start :: "nci_env \<Rightarrow> nci_world \<Rightarrow> bool \<times> nci_world" where
  [simp]: "nci_transition_poll_active_to_idle_start env w =
     and_then (nci_transition_default_start TPollActiveToIdle w)
       (nci_transition_deactivate_to_idle env nci_transition_poll_active_to_idle_rsp)"

definition nci_transition_listen_active_to_idle_start :: "nci_env \<Rightarrow> nci_world \<Rightarrow> bool \<times> nci_world" where
  [simp]: "nci_transition_listen_active_to_idle_start env w =
     and_then (nci_transition_default_start TListenActiveToIdle (nci_transition_listen_active_to_idle_reset w))
       (nci_transition_deactivate_to_idle env nci_transition_listen_active_to_idle_rsp)"

definition nci_transition_start :: "nci_env \<Rightarrow> nci_transition \<Rightarrow> nci_world \<Rightarrow> bool \<times> nci_world" where
  "nci_transition_start env t w =
     (case t of
        TReset \<Rightarrow> nci_transition_reset_start env w
      | TDeactivateToIdle \<Rightarrow> nci_transition_deactivate_to_idle_start env w
      | TDeactivateToDiscovery \<Rightarrow> nci_transition_deactivate_to_discovery_start env w
      | TIdleToDiscovery \<Rightarrow> nci_transition_idle_to_discovery_start env w
      | TPollActiveToIdle \<Rightarrow> nci_transition_poll_active_to_idle_start env w
      | TListenActiveToIdle \<Rightarrow> nci_transition_listen_active_to_idle_start env w)"

definition nci_transition_finished :: "nci_transition \<Rightarrow> nci_world \<Rightarrow> nci_world" where
  "nci_transition_finished t w =
     nci_transition_default_finished t
       (if t = TListenActiveToIdle then nci_transition_listen_active_to_idle_reset w else w)"

end
