(* ===== verification/Nci_Sm.thy ===== *)
theory Nci_Sm
  imports Nci_Transition
begin

text \<open>
  The state machine (\<open>src/nci_sm.c\<close>): entering a state, stalling, switching directly, through a
  transition or later from the main loop. The states' own \<open>enter\<close>, \<open>reenter\<close> and \<open>leave\<close>
  methods are here too, because entering \<open>RFST_W4_ALL_DISCOVERIES\<close> can enter
  \<open>RFST_W4_HOST_SELECT\<close> from inside: \<open>nci_sm_enter_state_internal\<close> takes the method as an
  argument, \<open>nci_state_entered0\<close> is the one with nothing below it.
\<close>

unbundle bit_operations_syntax

section \<open>Transitions\<close>

definition nci_sm_finish_active_transition :: "nci_world \<Rightarrow> nci_world" where
  "nci_sm_finish_active_transition w =
     (case sm_active_transition w of
        Some t \<Rightarrow> nci_transition_finished t (w\<lparr>sm_active_transition := None\<rparr>)
      | None \<Rightarrow> w)"

definition nci_state_w4_all_discoveries_leave :: "nci_world \<Rightarrow> nci_world" where
  [simp]: "nci_state_w4_all_discoveries_leave w = w\<lparr>st_discoveries := []\<rparr>"

definition nci_state_leave :: "NCI_STATE \<Rightarrow> nci_world \<Rightarrow> nci_world" where
  "nci_state_leave s w =
     (let w1 = (if s = NCI_RFST_W4_ALL_DISCOVERIES then nci_state_w4_all_discoveries_leave w else w)
      in w1\<lparr>st_active := (st_active w1)(s := False)\<rparr>)"

definition leave_active_state :: "nci_world \<Rightarrow> nci_world" where
  "leave_active_state w = (case sm_active_state w of Some s \<Rightarrow> nci_state_leave s w | None \<Rightarrow> w)"

definition nci_sm_start_transition :: "nci_env \<Rightarrow> nci_transition \<Rightarrow> nci_world \<Rightarrow> bool \<times> nci_world" where
  "nci_sm_start_transition env t w =
     (let w1 = (if sm_active_transition w \<noteq> Some t then nci_sm_finish_active_transition w else w);
          w2 = w1\<lparr>sm_active_transition := Some t\<rparr>
      in case nci_transition_start env t w2 of
           (True, w3) \<Rightarrow> (True, (leave_active_state w3)\<lparr>sm_active_state := None\<rparr>)
         | (False, w3) \<Rightarrow>
             (False, if sm_active_transition w3 = Some t then w3\<lparr>sm_active_transition := None\<rparr> else w3))"

section \<open>Entering a state\<close>

text \<open>
  The three parts shared by every entry: activate the state (\<open>entered s p\<close> is what the class
  of state \<open>s\<close> does besides marking itself active), start the transition that was waiting
  for it, take note of the states.
\<close>

definition sm_activate ::
    "(NCI_STATE \<Rightarrow> nci_param option \<Rightarrow> nci_world \<Rightarrow> nci_world) \<Rightarrow> NCI_STATE \<Rightarrow> nci_param option \<Rightarrow> nci_world \<Rightarrow> nci_world" where
  "sm_activate entered s param w =
     (if sm_active_state w = Some s then entered s param w
      else let w1 = entered s param ((leave_active_state w)\<lparr>sm_active_state := Some s\<rparr>)
           in w1\<lparr>st_active := (st_active w1)(s := True)\<rparr>)"

definition sm_start_next :: "nci_env \<Rightarrow> NCI_STATE \<Rightarrow> nci_world \<Rightarrow> nci_world" where
  "sm_start_next env s w =
     (let w1 = w\<lparr>sm_next_transition := None\<rparr> in
      case sm_next_transition w of
        Some t \<Rightarrow> if transition_dest t = s then w1 else snd (nci_sm_start_transition env t w1)
      | None \<Rightarrow> w1)"

definition sm_settle :: "NCI_STATE \<Rightarrow> nci_world \<Rightarrow> nci_world" where
  "sm_settle s w =
     (let w1 = nci_sm_set_last_state s w in
      if sm_active_transition w1 = None then nci_sm_set_next_state s w1 else w1)"

definition nci_sm_enter_state_internal ::
    "nci_env \<Rightarrow> (NCI_STATE \<Rightarrow> nci_param option \<Rightarrow> nci_world \<Rightarrow> nci_world) \<Rightarrow>
     NCI_STATE \<Rightarrow> nci_param option \<Rightarrow> nci_world \<Rightarrow> nci_world" where
  "nci_sm_enter_state_internal env entered s param w =
     (let w1 = nci_sm_finish_active_transition (w\<lparr>sm_entering_state := sm_entering_state w + 1\<rparr>);
          w2 = sm_settle s (sm_start_next env s (sm_activate entered s param w1))
      in w2\<lparr>sm_entering_state := sm_entering_state w2 - 1\<rparr>)"

section \<open>What the states do when entered\<close>

definition nci_sm_supports_protocol :: "nci_world \<Rightarrow> NCI_PROTOCOL \<Rightarrow> bool" where
  "nci_sm_supports_protocol w p =
     (if p = NCI_PROTOCOL_T2T \<or> p = NCI_PROTOCOL_T5T then any_bit (sm_op_mode w) NFC_OP_MODE_RW
      else if p = NCI_PROTOCOL_ISO_DEP then any_bit (sm_op_mode w) (NFC_OP_MODE_RW OR NFC_OP_MODE_CE)
      else if p = NCI_PROTOCOL_NFC_DEP then any_bit (sm_op_mode w) NFC_OP_MODE_PEER
      else False)"

fun host_select_order :: "NCI_PROTOCOL list \<Rightarrow> NciDiscoveryNtf \<Rightarrow> NciDiscoveryNtf \<Rightarrow> int" where
  "host_select_order [] a b = uint (dn_discovery_id a) - uint (dn_discovery_id b)"
| "host_select_order (p # ps) a b =
     (if dn_protocol a = p then -1 else if dn_protocol b = p then 1 else host_select_order ps a b)"

definition nci_state_w4_host_select_sort :: "NciDiscoveryNtf \<Rightarrow> NciDiscoveryNtf \<Rightarrow> int" where
  "nci_state_w4_host_select_sort a b =
     (if dn_protocol a \<noteq> dn_protocol b
      then host_select_order [NCI_PROTOCOL_NFC_DEP, NCI_PROTOCOL_ISO_DEP, NCI_PROTOCOL_T2T] a b
      else uint (dn_discovery_id a) - uint (dn_discovery_id b))"

definition host_select_candidates :: "nci_env \<Rightarrow> nci_world \<Rightarrow> NciDiscoveryNtf list \<Rightarrow> NciDiscoveryNtf list" where
  "host_select_candidates env w ntfs =
     foldl (\<lambda>selected ntf. if nci_sm_supports_protocol w (dn_protocol ntf)
                           then env_insert_sorted env nci_state_w4_host_select_sort selected ntf else selected) [] ntfs"

definition host_select_cmd :: "NciDiscoveryNtf \<Rightarrow> byte list" where
  "host_select_cmd ntf =
     [dn_discovery_id ntf, dn_protocol ntf,
      if dn_protocol ntf = NCI_PROTOCOL_ISO_DEP then NCI_RF_INTERFACE_ISO_DEP
      else if dn_protocol ntf = NCI_PROTOCOL_NFC_DEP then NCI_RF_INTERFACE_NFC_DEP
      else NCI_RF_INTERFACE_FRAME]"

text \<open>
  \<open>nci_sm_switch_to\<close> while a state is being entered: the switch is left to the main loop,
  in place of one scheduled before. This is the only branch the entry methods can take,
  because \<open>nci_sm_enter_state_internal\<close> has counted itself in \<open>entering_state\<close>.
\<close>

definition nci_sm_schedule_switch :: "NCI_STATE \<Rightarrow> nci_world \<Rightarrow> nci_world" where
  "nci_sm_schedule_switch s w = w\<lparr>sm_pending_switch := Some s\<rparr>"

definition nci_state_w4_host_select_entered :: "nci_env \<Rightarrow> nci_param option \<Rightarrow> nci_world \<Rightarrow> nci_world" where
  "nci_state_w4_host_select_entered env param w =
     (case param of
        Some (ParamW4HostSelect ntfs) \<Rightarrow>
          (case host_select_candidates env w ntfs of
             ntf # _ \<Rightarrow>
               snd (nci_sm_send_command env NCI_GID_RF NCI_OID_RF_DISCOVER_SELECT (Some (host_select_cmd ntf))
                 nci_state_w4_host_select_rsp w)
           | [] \<Rightarrow> nci_sm_schedule_switch NCI_RFST_DISCOVERY w)
      | _ \<Rightarrow> w)"

definition nci_state_discovery_entered :: "nci_world \<Rightarrow> nci_world" where
  [simp]: "nci_state_discovery_entered w = nci_sar_set_max_data_payload_size 0 w"

definition nci_state_entered0 :: "nci_env \<Rightarrow> NCI_STATE \<Rightarrow> nci_param option \<Rightarrow> nci_world \<Rightarrow> nci_world" where
  "nci_state_entered0 env s param w =
     (case s of
        NCI_RFST_DISCOVERY \<Rightarrow> nci_state_discovery_entered w
      | NCI_RFST_W4_HOST_SELECT \<Rightarrow> nci_state_w4_host_select_entered env param w
      | _ \<Rightarrow> w)"

text \<open>
  Copies of notifications (\<open>nci_discovery_ntf_copy_array\<close>); a copy that reads through the
  wrong member of the parameter union is a fault.
\<close>

definition with_copies ::
    "nci_env \<Rightarrow> NciDiscoveryNtf list \<Rightarrow> (NciDiscoveryNtf list \<Rightarrow> nci_world \<Rightarrow> nci_world) \<Rightarrow> nci_world \<Rightarrow> nci_world" where
  "with_copies env ntfs f w =
     (case nci_discovery_ntf_copy_array (env_sizeof_ntf env) (env_sizeof_mode_param env) ntfs of
        None \<Rightarrow> w\<lparr>sar_fault := True\<rparr>
      | Some (None, _) \<Rightarrow> f [] w
      | Some (Some copies, _) \<Rightarrow> f copies w)"

text \<open>\<open>nci_sm_enter_state(sm, NCI_RFST_W4_HOST_SELECT, param)\<close>\<close>

definition nci_sm_enter_host_select :: "nci_env \<Rightarrow> NciDiscoveryNtf list \<Rightarrow> nci_world \<Rightarrow> nci_world" where
  "nci_sm_enter_host_select env ntfs w =
     nci_sm_emit_pending_signals env
       (nci_sm_enter_state_internal env (nci_state_entered0 env) NCI_RFST_W4_HOST_SELECT (Some (ParamW4HostSelect ntfs)) w)"

definition nci_state_w4_all_discoveries_handle_discovery :: "nci_env \<Rightarrow> NciDiscoveryNtf \<Rightarrow> nci_world \<Rightarrow> nci_world" where
  "nci_state_w4_all_discoveries_handle_discovery env ntf w =
     with_copies env [ntf] (\<lambda>copy w.
       let w1 = w\<lparr>st_discoveries := st_discoveries w @ copy\<rparr> in
       if dn_last ntf
       then with_copies env (st_discoveries w1) (nci_sm_enter_host_select env) w1
       else w1) w"

definition nci_state_w4_all_discoveries_start :: "nci_env \<Rightarrow> nci_param option \<Rightarrow> nci_world \<Rightarrow> nci_world" where
  "nci_state_w4_all_discoveries_start env param w =
     (let w1 = w\<lparr>st_discoveries := []\<rparr> in
      case param of
        Some (ParamW4AllDiscoveries ntf) \<Rightarrow> nci_state_w4_all_discoveries_handle_discovery env ntf w1
      | _ \<Rightarrow> w1)"

definition nci_state_entered :: "nci_env \<Rightarrow> NCI_STATE \<Rightarrow> nci_param option \<Rightarrow> nci_world \<Rightarrow> nci_world" where
  "nci_state_entered env s param w =
     (if s = NCI_RFST_W4_ALL_DISCOVERIES then nci_state_w4_all_discoveries_start env param w
      else nci_state_entered0 env s param w)"

definition nci_sm_enter_state :: "nci_env \<Rightarrow> NCI_STATE \<Rightarrow> nci_param option \<Rightarrow> nci_world \<Rightarrow> nci_world" where
  "nci_sm_enter_state env s param w =
     nci_sm_emit_pending_signals env (nci_sm_enter_state_internal env (nci_state_entered env) s param w)"

section \<open>Stalling\<close>

definition nci_sm_stall_internal :: "nci_env \<Rightarrow> NCI_STALL \<Rightarrow> nci_world \<Rightarrow> nci_world" where
  "nci_sm_stall_internal env type w =
     (let s = (case type of NCI_STALL_STOP \<Rightarrow> NCI_STATE_STOP | NCI_STALL_ERROR \<Rightarrow> NCI_STATE_ERROR);
          w1 = nci_sm_finish_active_transition (nci_core_io_cancel env w);
          w2 = nci_sm_set_next_state s (nci_sm_set_last_state s w1)
      in if sm_active_state w2 \<noteq> Some s then
           let w3 = nci_state_entered env s None ((leave_active_state w2)\<lparr>sm_active_state := Some s\<rparr>)
           in w3\<lparr>st_active := (st_active w3)(s := True)\<rparr>
         else w2)"

definition nci_sm_stall :: "nci_env \<Rightarrow> NCI_STALL \<Rightarrow> nci_world \<Rightarrow> nci_world" where
  "nci_sm_stall env type w = nci_sm_emit_pending_signals env (nci_sm_stall_internal env type w)"

abbreviation nci_sm_error :: "nci_env \<Rightarrow> nci_world \<Rightarrow> nci_world" where
  "nci_sm_error env \<equiv> nci_sm_stall env NCI_STALL_ERROR"

section \<open>Switching\<close>

text \<open>The two halves of \<open>nci_sm_switch_internal\<close>: a transition is active, or none is.\<close>

definition switch_during_transition :: "nci_env \<Rightarrow> nci_transition \<Rightarrow> NCI_STATE \<Rightarrow> nci_world \<Rightarrow> nci_world" where
  "switch_during_transition env t next w =
     (let dest = transition_dest t in
      if dest \<noteq> next then
        (case nci_state_get_transition dest next of
           Some t' \<Rightarrow> nci_sm_set_next_state next (w\<lparr>sm_next_transition := Some t'\<rparr>)
         | None \<Rightarrow>
             if NCI_IS_INTERNAL_STATE next then nci_sm_enter_state_internal env (nci_state_entered env) next None w
             else nci_sm_stall_internal env NCI_STALL_ERROR w)
      else w)"

definition switch_from_state :: "nci_env \<Rightarrow> NCI_STATE \<Rightarrow> nci_world \<Rightarrow> nci_world" where
  "switch_from_state env next w =
     (case nci_state_get_transition (sm_last_state w) next of
        Some t \<Rightarrow>
          (case nci_sm_start_transition env t w of
             (True, w1) \<Rightarrow> nci_sm_set_next_state next w1
           | (False, w1) \<Rightarrow> nci_sm_stall_internal env NCI_STALL_ERROR w1)
      | None \<Rightarrow>
          if NCI_IS_INTERNAL_STATE next then nci_sm_enter_state_internal env (nci_state_entered env) next None w
          else
            let to_idle = (case nci_state_get_transition (sm_last_state w) NCI_RFST_IDLE of
                             Some t \<Rightarrow> t | None \<Rightarrow> TReset)
            in case nci_sm_start_transition env to_idle w of
                 (True, w1) \<Rightarrow>
                   if next = NCI_RFST_IDLE then nci_sm_set_next_state NCI_RFST_IDLE w1
                   else (case nci_state_get_transition NCI_RFST_IDLE next of
                           Some t' \<Rightarrow> nci_sm_set_next_state next (w1\<lparr>sm_next_transition := Some t'\<rparr>)
                         | None \<Rightarrow> nci_sm_stall_internal env NCI_STALL_ERROR (w1\<lparr>sm_next_transition := None\<rparr>))
               | (False, w1) \<Rightarrow> nci_sm_stall_internal env NCI_STALL_ERROR w1)"

definition nci_sm_switch_internal :: "nci_env \<Rightarrow> NCI_STATE \<Rightarrow> nci_world \<Rightarrow> nci_world" where
  "nci_sm_switch_internal env next w =
     (if sm_next_state w \<noteq> next then
        nci_sm_emit_pending_signals env
          (let w1 = w\<lparr>sm_next_transition := None\<rparr> in
           case sm_active_transition w1 of
             Some t \<Rightarrow> switch_during_transition env t next w1
           | None \<Rightarrow> switch_from_state env next w1)
      else w)"

definition nci_sm_switch_proc :: "nci_env \<Rightarrow> nci_world \<Rightarrow> nci_world" where
  "nci_sm_switch_proc env w =
     (case sm_pending_switch w of
        Some s \<Rightarrow> nci_sm_switch_internal env s (w\<lparr>sm_pending_switch := None\<rparr>)
      | None \<Rightarrow> w)"

definition nci_sm_switch_to :: "nci_env \<Rightarrow> NCI_STATE \<Rightarrow> nci_world \<Rightarrow> nci_world" where
  "nci_sm_switch_to env s w =
     (let w1 = w\<lparr>sm_pending_switch := None\<rparr> in
      if sm_entering_state w1 \<noteq> 0 then nci_sm_schedule_switch s w1 else nci_sm_switch_internal env s w1)"

definition nci_sm_reset :: "nci_env \<Rightarrow> nci_world \<Rightarrow> nci_world" where
  "nci_sm_reset env w =
     nci_sm_emit_pending_signals env
       (nci_sm_switch_internal env NCI_RFST_IDLE
          (nci_sm_enter_state_internal env (nci_state_entered env) NCI_STATE_INIT None
             (w\<lparr>sm_pending_switch := None, sm_next_transition := None\<rparr>)))"

section \<open>Modes, technologies and parameters\<close>

definition nci_sm_restart :: "nci_env \<Rightarrow> nci_world \<Rightarrow> nci_world" where
  "nci_sm_restart env w = (if sm_next_state w > NCI_RFST_IDLE then nci_sm_switch_to env NCI_RFST_IDLE w else w)"

definition nci_sm_set_op_mode :: "nci_env \<Rightarrow> NCI_OP_MODE \<Rightarrow> nci_world \<Rightarrow> nci_world" where
  "nci_sm_set_op_mode env op_mode w =
     (if sm_op_mode w \<noteq> op_mode then nci_sm_restart env (w\<lparr>sm_op_mode := op_mode\<rparr>) else w)"

definition nci_sm_set_tech :: "nci_env \<Rightarrow> NCI_TECH \<Rightarrow> nci_world \<Rightarrow> NCI_TECH \<times> nci_world" where
  "nci_sm_set_tech env tech w =
     (let valid_techs = tech AND NCI_TECH_ALL in
      if sm_techs w \<noteq> valid_techs then (valid_techs, nci_sm_restart env (w\<lparr>sm_techs := valid_techs\<rparr>))
      else (NCI_TECH_NONE, w))"

definition nci_sm_set_la_nfcid1 :: "NciNfcid1 option \<Rightarrow> nci_world \<Rightarrow> nci_world" where
  "nci_sm_set_la_nfcid1 nfcid1 w =
     (case nfcid1 of
        None \<Rightarrow> w\<lparr>sm_la_nfcid1 := sm_default_la_nfcid1 w\<rparr>
      | Some x \<Rightarrow>
          if unat (nfcid1_len x) \<in> {0, 4, 7, 10} \<and> \<not> nci_nfcid1_equal x (sm_la_nfcid1 w) then
            let len = (if nci_nfcid1_dynamic x then 0 else nfcid1_len x) in
            w\<lparr>sm_la_nfcid1 := \<lparr>nfcid1_len = len, nfcid1_bytes = fill_array 10 (nfcid1_bytes x) (unat len)\<rparr>\<rparr>
          else w)"

definition nci_sm_set_li_a_hb :: "NciAtsHb option \<Rightarrow> nci_world \<Rightarrow> nci_world" where
  "nci_sm_set_li_a_hb hb w =
     (case hb of
        None \<Rightarrow> w\<lparr>sm_li_a_hb := sm_default_li_a_hb w\<rparr>
      | Some x \<Rightarrow>
          let len = min (unat (hb_len x)) 15 in
          w\<lparr>sm_li_a_hb := \<lparr>hb_len = of_nat len, hb_bytes = fill_array 15 (hb_bytes x) len\<rparr>\<rparr>)"

section \<open>Interface activation, credits, deactivation\<close>

definition nci_sm_intf_activated :: "nci_env \<Rightarrow> NciIntfActivationNtf \<Rightarrow> nci_world \<Rightarrow> nci_world" where
  "nci_sm_intf_activated env ntf w =
     env_app env (SigIntfActivated ntf)
       (nci_sar_set_initial_credits 0 (ian_num_credits ntf)
          (nci_sar_set_max_data_payload_size (ian_max_data_packet_size ntf) w))"

fun add_credit_entries :: "nat \<Rightarrow> byte list \<Rightarrow> nci_world \<Rightarrow> nci_world" where
  "add_credit_entries (Suc n) (cid # cr # rest) w = add_credit_entries n rest (nci_sar_add_credits cid cr w)"
| "add_credit_entries n bs w = w"

definition nci_sm_handle_conn_credits_ntf :: "nci_env \<Rightarrow> byte list \<Rightarrow> nci_world \<Rightarrow> nci_world" where
  "nci_sm_handle_conn_credits_ntf env payload w =
     (case payload of
        n # entries \<Rightarrow>
          if length payload \<ge> 1 + 2 * unat n then add_credit_entries (unat n) entries w else nci_sm_error env w
      | [] \<Rightarrow> nci_sm_error env w)"

definition nci_sm_handle_rf_deactivate_ntf :: "nci_env \<Rightarrow> byte list \<Rightarrow> nci_world \<Rightarrow> nci_world" where
  "nci_sm_handle_rf_deactivate_ntf env payload w =
     (case nci_parse_rf_deactivate_ntf payload of
        Some ntf \<Rightarrow>
          (case rdn_type ntf of
             NCI_DEACTIVATE_TYPE_IDLE \<Rightarrow> nci_sm_enter_state env NCI_RFST_IDLE None w
           | NCI_DEACTIVATE_TYPE_DISCOVERY \<Rightarrow> nci_sm_enter_state env NCI_RFST_DISCOVERY None w
           | _ \<Rightarrow> nci_sm_error env w)
      | None \<Rightarrow> nci_sm_error env w)"

end
