(* ===== verification/Nci_Rsp.thy ===== *)
theory Nci_Rsp
  imports Nci_Sm
begin

text \<open>
  The response handlers of the states and the transitions, one per C function, and the
  dispatch on the handler that \<open>NciCore\<close> has stored. \<open>payload\<close> is empty when the request
  timed out or was cancelled.
\<close>

unbundle bit_operations_syntax

section \<open>Transitions as seen by their handlers\<close>

definition nci_transition_error :: "nci_env \<Rightarrow> nci_world \<Rightarrow> nci_world" where
  "nci_transition_error env w = nci_sm_stall env NCI_STALL_ERROR w"

definition nci_transition_finish :: "nci_env \<Rightarrow> nci_transition \<Rightarrow> nci_world \<Rightarrow> nci_world" where
  "nci_transition_finish env t w =
     (if nci_sm_active_transition w t then nci_sm_enter_state env (transition_dest t) None w else w)"

definition nci_transition_timeout :: "nci_env \<Rightarrow> nci_transition \<Rightarrow> nci_world \<Rightarrow> nci_world" where
  "nci_transition_timeout env t w = nci_sm_error env (w\<lparr>tr_timeout_id := (tr_timeout_id w)(t := False)\<rparr>)"

text \<open>
  The first test of every transition's handler: a cancelled request, or one whose
  transition is no longer the active one, is ignored.
\<close>

definition when_active ::
    "nci_transition \<Rightarrow> NCI_REQUEST_STATUS \<Rightarrow> (nci_world \<Rightarrow> nci_world) \<Rightarrow> nci_world \<Rightarrow> nci_world" where
  "when_active t status f w =
     (if status = NCI_REQUEST_CANCELLED \<or> \<not> nci_sm_active_transition w t then w else f w)"

definition status_ok :: "byte list \<Rightarrow> bool" where
  "status_ok payload \<longleftrightarrow> length payload > 0 \<and> payload ! 0 = NCI_STATUS_OK"

section \<open>Deactivation\<close>

definition run_deactivate_to_discovery_idle_rsp ::
    "nci_env \<Rightarrow> NCI_REQUEST_STATUS \<Rightarrow> byte list \<Rightarrow> nci_world \<Rightarrow> nci_world" where
  "run_deactivate_to_discovery_idle_rsp env status payload =
     when_active TDeactivateToDiscovery status (\<lambda>w.
       if status = NCI_REQUEST_SUCCESS \<and> length payload = 1 \<and> payload ! 0 = NCI_STATUS_OK
       then nci_sm_enter_state env NCI_RFST_IDLE None w
       else nci_transition_error env w)"

definition run_deactivate_to_discovery_rsp ::
    "nci_env \<Rightarrow> NCI_REQUEST_STATUS \<Rightarrow> byte list \<Rightarrow> nci_world \<Rightarrow> nci_world" where
  "run_deactivate_to_discovery_rsp env status payload =
     when_active TDeactivateToDiscovery status (\<lambda>w.
       if status = NCI_REQUEST_TIMEOUT then nci_transition_error env w
       else if length payload = 1 \<and> payload ! 0 = NCI_STATUS_OK then w
       else snd (nci_transition_deactivate_to_idle env nci_transition_deactivate_to_discovery_idle_rsp w))"

definition run_deactivate_to_idle_rsp ::
    "nci_env \<Rightarrow> NCI_REQUEST_STATUS \<Rightarrow> byte list \<Rightarrow> nci_world \<Rightarrow> nci_world" where
  "run_deactivate_to_idle_rsp env status payload =
     when_active TDeactivateToIdle status (\<lambda>w.
       if status = NCI_REQUEST_TIMEOUT then nci_transition_error env w
       else if status_ok payload then nci_transition_finish env TDeactivateToIdle w
       else nci_transition_error env w)"

definition run_poll_active_to_idle_rsp ::
    "nci_env \<Rightarrow> NCI_REQUEST_STATUS \<Rightarrow> byte list \<Rightarrow> nci_world \<Rightarrow> nci_world" where
  "run_poll_active_to_idle_rsp env status payload =
     when_active TPollActiveToIdle status (\<lambda>w.
       if status = NCI_REQUEST_TIMEOUT then nci_transition_error env w
       else if length payload = 1 \<and> payload ! 0 = NCI_STATUS_OK then w
       else nci_transition_error env w)"

definition run_listen_active_to_idle_rsp ::
    "nci_env \<Rightarrow> NCI_REQUEST_STATUS \<Rightarrow> byte list \<Rightarrow> nci_world \<Rightarrow> nci_world" where
  "run_listen_active_to_idle_rsp env status payload =
     when_active TListenActiveToIdle status (\<lambda>w.
       if status = NCI_REQUEST_TIMEOUT then nci_transition_error env w
       else if length payload = 1 \<and> payload ! 0 = NCI_STATUS_OK then
         (if tr_ntf w \<noteq> None then nci_transition_finish env TListenActiveToIdle w
          else w\<lparr>tr_expecting_ntf := True\<rparr>)
       else nci_transition_error env w)"

section \<open>Reset and initialisation\<close>

definition run_reset_rsp :: "nci_env \<Rightarrow> NCI_REQUEST_STATUS \<Rightarrow> byte list \<Rightarrow> nci_world \<Rightarrow> nci_world" where
  "run_reset_rsp env status payload =
     when_active TReset status (\<lambda>w.
       if status = NCI_REQUEST_TIMEOUT then nci_sm_error env w
       else if length payload = 3 then
         let w1 = w\<lparr>sm_version := NCI_INTERFACE_VERSION_1\<rparr> in
         if payload ! 0 = NCI_STATUS_OK
         then snd (nci_sm_send_command env NCI_GID_CORE NCI_OID_CORE_INIT None nci_transition_reset_init_v1_rsp w1)
         else nci_sm_error env w1
       else if length payload = 1 then
         let w1 = w\<lparr>sm_version := NCI_INTERFACE_VERSION_2\<rparr> in
         if payload ! 0 = NCI_STATUS_OK then w1 else nci_sm_error env w1
       else nci_sm_error env w)"

text \<open>What both versions of \<open>CORE_INIT_RSP\<close> lead to.\<close>

definition init_done :: "nci_env \<Rightarrow> byte \<Rightarrow> byte \<Rightarrow> nci_world \<Rightarrow> nci_world" where
  "init_done env max_logical_conns max_control_payload w =
     nci_transition_reset_set_config env
       (nci_sar_set_max_data_payload_size 0
         (nci_sar_set_max_control_payload_size max_control_payload
           (nci_sar_set_max_logical_connections (free_client env) max_logical_conns w)))"

definition run_reset_init_v1_rsp :: "nci_env \<Rightarrow> NCI_REQUEST_STATUS \<Rightarrow> byte list \<Rightarrow> nci_world \<Rightarrow> nci_world" where
  "run_reset_init_v1_rsp env status pkt =
     when_active TReset status (\<lambda>w.
       if status = NCI_REQUEST_TIMEOUT then nci_sm_error env w
       else if length pkt \<ge> 17 \<and> pkt ! 0 = NCI_STATUS_OK \<and> length pkt = unat (pkt ! 5) + 17 then
         let n = unat (pkt ! 5) in
         init_done env (pkt ! (6 + n)) (pkt ! (9 + n))
           (w\<lparr>sm_rf_interfaces := (if n > 0 then Some (take n (drop 6 pkt)) else None),
              sm_nfcc_discovery := pkt ! 1, sm_nfcc_routing := pkt ! 2, sm_nfcc_power := pkt ! 3,
              sm_max_routing_table_size := unat (pkt ! (8 + n)) * 256 + unat (pkt ! (7 + n))\<rparr>)
       else nci_sm_error env w)"

text \<open>The list of interfaces with their extensions, within the count and the packet.\<close>

fun v2_interfaces :: "nat \<Rightarrow> byte list \<Rightarrow> byte list" where
  "v2_interfaces (Suc n) (intf # len # rest) =
     (if unat len \<le> length rest then intf # v2_interfaces n (drop (unat len) rest) else [])"
| "v2_interfaces n bs = []"

definition run_reset_init_v2_rsp :: "nci_env \<Rightarrow> NCI_REQUEST_STATUS \<Rightarrow> byte list \<Rightarrow> nci_world \<Rightarrow> nci_world" where
  "run_reset_init_v2_rsp env status pkt =
     when_active TReset status (\<lambda>w.
       if status = NCI_REQUEST_TIMEOUT then nci_sm_error env w
       else if length pkt \<ge> 14 \<and> pkt ! 0 = NCI_STATUS_OK \<and> length pkt \<ge> 2 * unat (pkt ! 13) + 14 then
         let n = unat (pkt ! 13) in
         init_done env (pkt ! 5) (pkt ! 8)
           (w\<lparr>sm_rf_interfaces := (if n > 0 then Some (v2_interfaces n (drop 14 pkt)) else None),
              sm_nfcc_discovery := pkt ! 1, sm_nfcc_routing := pkt ! 2, sm_nfcc_power := pkt ! 3,
              sm_max_routing_table_size := unat (pkt ! 7) * 256 + unat (pkt ! 6)\<rparr>)
       else nci_sm_error env w)"

definition run_reset_set_config_rsp :: "nci_env \<Rightarrow> NCI_REQUEST_STATUS \<Rightarrow> byte list \<Rightarrow> nci_world \<Rightarrow> nci_world" where
  "run_reset_set_config_rsp env status payload =
     when_active TReset status (\<lambda>w.
       if status = NCI_REQUEST_TIMEOUT then nci_sm_error env w else nci_transition_finish env TReset w)"

section \<open>From idle to discovery\<close>

definition run_discover_rsp :: "nci_env \<Rightarrow> NCI_REQUEST_STATUS \<Rightarrow> byte list \<Rightarrow> nci_world \<Rightarrow> nci_world" where
  "run_discover_rsp env status payload =
     when_active TIdleToDiscovery status (\<lambda>w.
       if status = NCI_REQUEST_TIMEOUT then nci_transition_error env w
       else if status_ok payload then nci_transition_finish env TIdleToDiscovery w
       else nci_transition_error env w)"

definition run_discover_map_rsp :: "nci_env \<Rightarrow> NCI_REQUEST_STATUS \<Rightarrow> byte list \<Rightarrow> nci_world \<Rightarrow> nci_world" where
  "run_discover_map_rsp env status payload =
     when_active TIdleToDiscovery status (\<lambda>w.
       if status = NCI_REQUEST_TIMEOUT then nci_transition_error env w
       else if status_ok payload then nci_transition_idle_to_discovery_discover env w
       else nci_transition_error env w)"

definition run_last_set_routing_rsp :: "nci_env \<Rightarrow> NCI_REQUEST_STATUS \<Rightarrow> byte list \<Rightarrow> nci_world \<Rightarrow> nci_world" where
  "run_last_set_routing_rsp env status payload =
     when_active TIdleToDiscovery status (\<lambda>w.
       if status = NCI_REQUEST_TIMEOUT then nci_transition_error env w
       else nci_transition_idle_to_discover_map env w)"

definition run_set_protocol_routing_rsp :: "nci_env \<Rightarrow> NCI_REQUEST_STATUS \<Rightarrow> byte list \<Rightarrow> nci_world \<Rightarrow> nci_world" where
  "run_set_protocol_routing_rsp env status payload =
     when_active TIdleToDiscovery status (\<lambda>w.
       if status = NCI_REQUEST_TIMEOUT then nci_sm_error env w
       else if status_ok payload then nci_transition_idle_to_discover_map env w
       else nci_transition_idle_to_discovery_set_routing env
              nci_transition_idle_to_discovery_tech_routing_entries
              nci_transition_idle_to_discovery_set_tech_routing_rsp w)"

definition run_set_mixed_routing_rsp :: "nci_env \<Rightarrow> NCI_REQUEST_STATUS \<Rightarrow> byte list \<Rightarrow> nci_world \<Rightarrow> nci_world" where
  "run_set_mixed_routing_rsp env status payload =
     when_active TIdleToDiscovery status (\<lambda>w.
       if status = NCI_REQUEST_TIMEOUT then nci_sm_error env w
       else if status_ok payload then nci_transition_idle_to_discover_map env w
       else nci_transition_idle_to_discovery_set_routing env
              nci_transition_idle_to_discovery_protocol_routing_entries
              nci_transition_idle_to_discovery_set_protocol_routing_rsp w)"

definition run_set_config_rsp :: "nci_env \<Rightarrow> NCI_REQUEST_STATUS \<Rightarrow> byte list \<Rightarrow> nci_world \<Rightarrow> nci_world" where
  "run_set_config_rsp env status payload =
     when_active TIdleToDiscovery status (\<lambda>w.
       if status = NCI_REQUEST_TIMEOUT then nci_sm_error env w
       else nci_transition_idle_to_discovery_configure_routing env w)"

definition run_get_config_rsp :: "nci_env \<Rightarrow> NCI_REQUEST_STATUS \<Rightarrow> byte list \<Rightarrow> nci_world \<Rightarrow> nci_world" where
  "run_get_config_rsp env status payload =
     when_active TIdleToDiscovery status (\<lambda>w.
       if status = NCI_REQUEST_TIMEOUT then nci_sm_error env w
       else case get_config_flags payload w of
         (set_config, la_sens_res_1, la_sel_info, lf_protocol_type) \<Rightarrow>
           if set_config = 0 then nci_transition_idle_to_discovery_configure_routing env w
           else nci_transition_idle_to_discovery_set_config env set_config la_sens_res_1
                  (nci_transition_idle_to_discovery_la_nfcid1_expected w) (sm_li_a_hb w) la_sel_info lf_protocol_type w)"

section \<open>Dispatch\<close>

definition run_rsp :: "nci_env \<Rightarrow> rsp_handler \<Rightarrow> NCI_REQUEST_STATUS \<Rightarrow> byte list \<Rightarrow> nci_world \<Rightarrow> nci_world" where
  "run_rsp env h status payload w =
     (case h of
        nci_core_io_dummy_resp \<Rightarrow> w
      | nci_state_w4_host_select_rsp \<Rightarrow> w
      | nci_transition_deactivate_to_discovery_idle_rsp \<Rightarrow> run_deactivate_to_discovery_idle_rsp env status payload w
      | nci_transition_deactivate_to_discovery_rsp \<Rightarrow> run_deactivate_to_discovery_rsp env status payload w
      | nci_transition_deactivate_to_idle_rsp \<Rightarrow> run_deactivate_to_idle_rsp env status payload w
      | nci_transition_poll_active_to_idle_rsp \<Rightarrow> run_poll_active_to_idle_rsp env status payload w
      | nci_transition_listen_active_to_idle_rsp \<Rightarrow> run_listen_active_to_idle_rsp env status payload w
      | nci_transition_reset_rsp \<Rightarrow> run_reset_rsp env status payload w
      | nci_transition_reset_init_v1_rsp \<Rightarrow> run_reset_init_v1_rsp env status payload w
      | nci_transition_reset_init_v2_rsp \<Rightarrow> run_reset_init_v2_rsp env status payload w
      | nci_transition_reset_set_config_rsp \<Rightarrow> run_reset_set_config_rsp env status payload w
      | nci_transition_idle_to_discovery_discover_rsp \<Rightarrow> run_discover_rsp env status payload w
      | nci_transition_idle_to_discover_map_rsp \<Rightarrow> run_discover_map_rsp env status payload w
      | nci_transition_idle_to_discovery_set_tech_routing_rsp \<Rightarrow> run_last_set_routing_rsp env status payload w
      | nci_transition_idle_to_discovery_last_protocol_routing_rsp \<Rightarrow> run_last_set_routing_rsp env status payload w
      | nci_transition_idle_to_discovery_set_protocol_routing_rsp \<Rightarrow> run_set_protocol_routing_rsp env status payload w
      | nci_transition_idle_to_discovery_set_mixed_routing_rsp \<Rightarrow> run_set_mixed_routing_rsp env status payload w
      | nci_transition_idle_to_discovery_set_config_rsp \<Rightarrow> run_set_config_rsp env status payload w
      | nci_transition_idle_to_discovery_get_config_rsp \<Rightarrow> run_get_config_rsp env status payload w)"

lemmas run_rsp_defs =
  run_deactivate_to_discovery_idle_rsp_def run_deactivate_to_discovery_rsp_def run_deactivate_to_idle_rsp_def
  run_poll_active_to_idle_rsp_def run_listen_active_to_idle_rsp_def run_reset_rsp_def run_reset_init_v1_rsp_def
  run_reset_init_v2_rsp_def run_reset_set_config_rsp_def run_discover_rsp_def run_discover_map_rsp_def
  run_last_set_routing_rsp_def run_set_protocol_routing_rsp_def run_set_mixed_routing_rsp_def run_set_config_rsp_def
  run_get_config_rsp_def

text \<open>A cancelled request changes nothing, whatever its handler: what \<open>nci_core_cancel_command\<close> relies on.\<close>

lemma run_rsp_cancelled: "run_rsp env h NCI_REQUEST_CANCELLED payload w = w"
  by (cases h) (simp_all add: run_rsp_def run_rsp_defs when_active_def)

end
