(* ===== verification/Nci_Ntf.thy ===== *)
theory Nci_Ntf
  imports Nci_Rsp
begin

text \<open>
  Notifications from the NFC controller: the \<open>handle_ntf\<close> methods of the states
  (\<open>src/nci_state.c\<close> and \<open>src/nci_state_*.c\<close>) and of the transitions, and the choice between
  them in \<open>nci_sm_handle_ntf\<close>: the active transition if there is one, otherwise the last
  state. A parser that reads outside the packet is a fault.
\<close>

unbundle bit_operations_syntax

section \<open>What several states do\<close>

definition nci_state_default_handle_ntf :: "nci_env \<Rightarrow> byte \<Rightarrow> byte \<Rightarrow> byte list \<Rightarrow> nci_world \<Rightarrow> nci_world" where
  "nci_state_default_handle_ntf env gid oid payload w =
     (if gid = NCI_GID_CORE \<and> oid = NCI_OID_CORE_CONN_CREDITS then nci_sm_handle_conn_credits_ntf env payload w else w)"

definition nci_state_poll_active_interface_error_ntf :: "nci_env \<Rightarrow> byte list \<Rightarrow> nci_world \<Rightarrow> bool \<times> nci_world" where
  "nci_state_poll_active_interface_error_ntf env payload w =
     (if length payload = 2 \<and>
         payload ! 0 \<in> {NCI_STATUS_SYNTAX_ERROR, NCI_RF_TRANSMISSION_ERROR, NCI_RF_PROTOCOL_ERROR, NCI_RF_TIMEOUT_ERROR}
      then (True, nci_sm_switch_to env NCI_RFST_DISCOVERY w) else (False, w))"

text \<open>Parse \<open>RF_INTF_ACTIVATED_NTF\<close> and go on with the result.\<close>

definition with_intf_activated ::
    "byte list \<Rightarrow> (bool \<Rightarrow> NciIntfActivationNtf \<Rightarrow> nci_world \<Rightarrow> nci_world) \<Rightarrow> nci_world \<Rightarrow> nci_world" where
  "with_intf_activated payload f w =
     (case nci_parse_intf_activated_ntf payload of
        None \<Rightarrow> w\<lparr>sar_fault := True\<rparr>
      | Some (ok, ntf) \<Rightarrow> f ok ntf w)"

section \<open>\<open>RFST_DISCOVERY\<close>\<close>

definition nci_state_discovery_intf_activated_ntf :: "nci_env \<Rightarrow> byte list \<Rightarrow> nci_world \<Rightarrow> nci_world" where
  "nci_state_discovery_intf_activated_ntf env payload =
     with_intf_activated payload (\<lambda>ok ntf w.
       let w1 = nci_sm_enter_state env
                  (if nci_listen_mode (ian_mode ntf) then NCI_RFST_LISTEN_ACTIVE else NCI_RFST_POLL_ACTIVE) None w
       in if ok then nci_sm_intf_activated env ntf w1 else nci_sm_switch_to env NCI_RFST_IDLE w1)"

definition nci_state_discovery_discover_ntf :: "nci_env \<Rightarrow> byte list \<Rightarrow> nci_world \<Rightarrow> nci_world" where
  "nci_state_discovery_discover_ntf env payload w =
     (case nci_parse_discover_ntf True payload of
        None \<Rightarrow> w\<lparr>sar_fault := True\<rparr>
      | Some None \<Rightarrow> w
      | Some (Some ntf) \<Rightarrow>
          with_copies env [ntf] (\<lambda>copies w.
            nci_sm_enter_state env NCI_RFST_W4_ALL_DISCOVERIES
              (case copies of c # _ \<Rightarrow> Some (ParamW4AllDiscoveries c) | [] \<Rightarrow> None) w) w)"

definition nci_state_discovery_generic_error_ntf :: "byte list \<Rightarrow> bool" where
  "nci_state_discovery_generic_error_ntf payload \<longleftrightarrow>
     length payload = 1 \<and> payload ! 0 \<in> {NCI_DISCOVERY_TARGET_ACTIVATION_FAILED, NCI_DISCOVERY_TEAR_DOWN}"

definition nci_state_discovery_handle_ntf :: "nci_env \<Rightarrow> byte \<Rightarrow> byte \<Rightarrow> byte list \<Rightarrow> nci_world \<Rightarrow> nci_world" where
  "nci_state_discovery_handle_ntf env gid oid payload w =
     (if gid = NCI_GID_CORE \<and> oid = NCI_OID_CORE_GENERIC_ERROR \<and> nci_state_discovery_generic_error_ntf payload then w
      else if gid = NCI_GID_RF \<and> oid = NCI_OID_RF_DISCOVER then nci_state_discovery_discover_ntf env payload w
      else if gid = NCI_GID_RF \<and> oid = NCI_OID_RF_INTF_ACTIVATED then nci_state_discovery_intf_activated_ntf env payload w
      else nci_state_default_handle_ntf env gid oid payload w)"

section \<open>\<open>RFST_W4_ALL_DISCOVERIES\<close> and \<open>RFST_W4_HOST_SELECT\<close>\<close>

definition nci_state_w4_all_discoveries_discover_ntf :: "nci_env \<Rightarrow> byte list \<Rightarrow> nci_world \<Rightarrow> nci_world" where
  "nci_state_w4_all_discoveries_discover_ntf env payload w =
     (case nci_parse_discover_ntf True payload of
        None \<Rightarrow> w\<lparr>sar_fault := True\<rparr>
      | Some None \<Rightarrow> w
      | Some (Some ntf) \<Rightarrow> nci_state_w4_all_discoveries_handle_discovery env ntf w)"

definition nci_state_w4_all_discoveries_handle_ntf :: "nci_env \<Rightarrow> byte \<Rightarrow> byte \<Rightarrow> byte list \<Rightarrow> nci_world \<Rightarrow> nci_world" where
  "nci_state_w4_all_discoveries_handle_ntf env gid oid payload w =
     (if gid = NCI_GID_RF \<and> oid = NCI_OID_RF_DISCOVER then nci_state_w4_all_discoveries_discover_ntf env payload w
      else nci_state_default_handle_ntf env gid oid payload w)"

definition nci_state_w4_host_select_handle_intf_activated_ntf :: "nci_env \<Rightarrow> byte list \<Rightarrow> nci_world \<Rightarrow> nci_world" where
  "nci_state_w4_host_select_handle_intf_activated_ntf env payload =
     with_intf_activated payload (\<lambda>ok ntf w.
       let w1 = nci_sm_enter_state env NCI_RFST_POLL_ACTIVE None w
       in if ok then nci_sm_intf_activated env ntf w1 else nci_sm_switch_to env NCI_RFST_DISCOVERY w1)"

definition nci_state_w4_host_select_generic_error_ntf :: "nci_env \<Rightarrow> byte list \<Rightarrow> nci_world \<Rightarrow> bool \<times> nci_world" where
  "nci_state_w4_host_select_generic_error_ntf env payload w =
     (if length payload = 1 \<and> payload ! 0 = NCI_DISCOVERY_TARGET_ACTIVATION_FAILED
      then (True, nci_sm_switch_to env NCI_RFST_DISCOVERY w) else (False, w))"

definition nci_state_w4_host_select_handle_ntf :: "nci_env \<Rightarrow> byte \<Rightarrow> byte \<Rightarrow> byte list \<Rightarrow> nci_world \<Rightarrow> nci_world" where
  "nci_state_w4_host_select_handle_ntf env gid oid payload w =
     (if gid = NCI_GID_CORE \<and> oid = NCI_OID_CORE_GENERIC_ERROR then
        (case nci_state_w4_host_select_generic_error_ntf env payload w of
           (True, w1) \<Rightarrow> w1
         | (False, w1) \<Rightarrow> nci_state_default_handle_ntf env gid oid payload w1)
      else if gid = NCI_GID_RF \<and> oid = NCI_OID_RF_INTF_ACTIVATED then
        nci_state_w4_host_select_handle_intf_activated_ntf env payload w
      else nci_state_default_handle_ntf env gid oid payload w)"

section \<open>\<open>RFST_POLL_ACTIVE\<close>, \<open>RFST_LISTEN_ACTIVE\<close> and \<open>RFST_LISTEN_SLEEP\<close>\<close>

definition nci_state_poll_active_handle_ntf :: "nci_env \<Rightarrow> byte \<Rightarrow> byte \<Rightarrow> byte list \<Rightarrow> nci_world \<Rightarrow> nci_world" where
  "nci_state_poll_active_handle_ntf env gid oid payload w =
     (if gid = NCI_GID_CORE \<and> oid = NCI_OID_CORE_INTERFACE_ERROR then
        (case nci_state_poll_active_interface_error_ntf env payload w of
           (True, w1) \<Rightarrow> w1
         | (False, w1) \<Rightarrow> nci_state_default_handle_ntf env gid oid payload w1)
      else if gid = NCI_GID_RF \<and> oid = NCI_OID_RF_DEACTIVATE then nci_sm_handle_rf_deactivate_ntf env payload w
      else nci_state_default_handle_ntf env gid oid payload w)"

definition nci_state_listen_active_interface_error_ntf :: "nci_env \<Rightarrow> byte list \<Rightarrow> nci_world \<Rightarrow> bool \<times> nci_world" where
  "nci_state_listen_active_interface_error_ntf env payload w =
     (if length payload = 2 \<and>
         payload ! 0 \<in> {NCI_STATUS_SYNTAX_ERROR, NCI_RF_TRANSMISSION_ERROR, NCI_RF_PROTOCOL_ERROR, NCI_RF_TIMEOUT_ERROR}
      then (True, nci_sm_switch_to env NCI_RFST_DISCOVERY w) else (False, w))"

definition nci_state_listen_active_rf_deactivate_ntf :: "nci_env \<Rightarrow> byte list \<Rightarrow> nci_world \<Rightarrow> nci_world" where
  "nci_state_listen_active_rf_deactivate_ntf env payload w =
     (case map_option rdn_type (nci_parse_rf_deactivate_ntf payload) of
        Some NCI_DEACTIVATE_TYPE_SLEEP \<Rightarrow> nci_sm_enter_state env NCI_RFST_LISTEN_SLEEP None w
      | Some NCI_DEACTIVATE_TYPE_SLEEP_AF \<Rightarrow> nci_sm_enter_state env NCI_RFST_LISTEN_SLEEP None w
      | Some NCI_DEACTIVATE_TYPE_DISCOVERY \<Rightarrow> nci_sm_enter_state env NCI_RFST_DISCOVERY None w
      | _ \<Rightarrow> nci_sm_stall env NCI_STALL_ERROR w)"

definition nci_state_listen_active_handle_ntf :: "nci_env \<Rightarrow> byte \<Rightarrow> byte \<Rightarrow> byte list \<Rightarrow> nci_world \<Rightarrow> nci_world" where
  "nci_state_listen_active_handle_ntf env gid oid payload w =
     (if gid = NCI_GID_CORE \<and> oid = NCI_OID_CORE_INTERFACE_ERROR then
        (case nci_state_listen_active_interface_error_ntf env payload w of
           (True, w1) \<Rightarrow> w1
         | (False, w1) \<Rightarrow> nci_state_default_handle_ntf env gid oid payload w1)
      else if gid = NCI_GID_RF \<and> oid = NCI_OID_RF_DEACTIVATE then nci_state_listen_active_rf_deactivate_ntf env payload w
      else nci_state_default_handle_ntf env gid oid payload w)"

definition nci_state_listen_sleep_intf_activated_ntf :: "nci_env \<Rightarrow> byte list \<Rightarrow> nci_world \<Rightarrow> nci_world" where
  "nci_state_listen_sleep_intf_activated_ntf env payload =
     with_intf_activated payload (\<lambda>ok ntf w.
       if ok \<and> nci_listen_mode (ian_mode ntf)
       then nci_sm_intf_activated env ntf (nci_sm_enter_state env NCI_RFST_LISTEN_ACTIVE None w)
       else nci_sm_stall env NCI_STALL_ERROR w)"

definition nci_state_listen_sleep_rf_deactivate_ntf :: "nci_env \<Rightarrow> byte list \<Rightarrow> nci_world \<Rightarrow> nci_world" where
  "nci_state_listen_sleep_rf_deactivate_ntf env payload w =
     (case map_option rdn_type (nci_parse_rf_deactivate_ntf payload) of
        Some NCI_DEACTIVATE_TYPE_DISCOVERY \<Rightarrow> nci_sm_enter_state env NCI_RFST_DISCOVERY None w
      | _ \<Rightarrow> nci_sm_stall env NCI_STALL_ERROR w)"

definition nci_state_listen_sleep_handle_ntf :: "nci_env \<Rightarrow> byte \<Rightarrow> byte \<Rightarrow> byte list \<Rightarrow> nci_world \<Rightarrow> nci_world" where
  "nci_state_listen_sleep_handle_ntf env gid oid payload w =
     (if gid = NCI_GID_RF \<and> oid = NCI_OID_RF_INTF_ACTIVATED then nci_state_listen_sleep_intf_activated_ntf env payload w
      else if gid = NCI_GID_RF \<and> oid = NCI_OID_RF_DEACTIVATE then nci_state_listen_sleep_rf_deactivate_ntf env payload w
      else nci_state_default_handle_ntf env gid oid payload w)"

definition nci_state_handle_ntf :: "nci_env \<Rightarrow> NCI_STATE \<Rightarrow> byte \<Rightarrow> byte \<Rightarrow> byte list \<Rightarrow> nci_world \<Rightarrow> nci_world" where
  "nci_state_handle_ntf env s =
     (case s of
        NCI_RFST_DISCOVERY \<Rightarrow> nci_state_discovery_handle_ntf env
      | NCI_RFST_W4_ALL_DISCOVERIES \<Rightarrow> nci_state_w4_all_discoveries_handle_ntf env
      | NCI_RFST_W4_HOST_SELECT \<Rightarrow> nci_state_w4_host_select_handle_ntf env
      | NCI_RFST_POLL_ACTIVE \<Rightarrow> nci_state_poll_active_handle_ntf env
      | NCI_RFST_LISTEN_ACTIVE \<Rightarrow> nci_state_listen_active_handle_ntf env
      | NCI_RFST_LISTEN_SLEEP \<Rightarrow> nci_state_listen_sleep_handle_ntf env
      | _ \<Rightarrow> nci_state_default_handle_ntf env)"

section \<open>Transitions\<close>

definition nci_transition_default_handle_ntf :: "nci_env \<Rightarrow> byte \<Rightarrow> byte \<Rightarrow> byte list \<Rightarrow> nci_world \<Rightarrow> nci_world" where
  "nci_transition_default_handle_ntf env gid oid payload w =
     (if gid = NCI_GID_CORE \<and> oid = NCI_OID_CORE_CONN_CREDITS then nci_sm_handle_conn_credits_ntf env payload w else w)"

definition nci_transition_reset_handle_ntf :: "nci_env \<Rightarrow> byte \<Rightarrow> byte \<Rightarrow> byte list \<Rightarrow> nci_world \<Rightarrow> nci_world" where
  "nci_transition_reset_handle_ntf env gid oid payload w =
     (if gid = NCI_GID_CORE \<and> oid = NCI_OID_CORE_RESET \<and> sm_version w = NCI_INTERFACE_VERSION_2 \<and>
         length payload \<ge> 5 \<and> 5 + unat (payload ! 4) \<le> length payload
      then snd (nci_sm_send_command env NCI_GID_CORE NCI_OID_CORE_INIT (Some [0x00, 0x00])
                 nci_transition_reset_init_v2_rsp w)
      else nci_transition_default_handle_ntf env gid oid payload w)"

definition nci_transition_listen_active_to_idle_handle_ntf ::
    "nci_env \<Rightarrow> byte \<Rightarrow> byte \<Rightarrow> byte list \<Rightarrow> nci_world \<Rightarrow> nci_world" where
  "nci_transition_listen_active_to_idle_handle_ntf env gid oid payload w =
     (if gid = NCI_GID_RF \<and> oid = NCI_OID_RF_DEACTIVATE then
        (case nci_parse_rf_deactivate_ntf payload of
           Some ntf \<Rightarrow>
             if tr_expecting_ntf w \<and> rdn_type ntf = NCI_DEACTIVATE_TYPE_IDLE \<and>
                rdn_reason ntf = NCI_DEACTIVATION_REASON_DH_REQUEST
             then nci_transition_finish env TListenActiveToIdle w
             else w\<lparr>tr_ntf := Some ntf\<rparr>
         | None \<Rightarrow> nci_transition_error env w)
      else nci_transition_default_handle_ntf env gid oid payload w)"

definition nci_transition_deactivate_to_discovery_handle_ntf ::
    "nci_env \<Rightarrow> byte \<Rightarrow> byte \<Rightarrow> byte list \<Rightarrow> nci_world \<Rightarrow> nci_world" where
  [simp]: "nci_transition_deactivate_to_discovery_handle_ntf env gid oid payload w =
     (if gid = NCI_GID_RF \<and> oid = NCI_OID_RF_DEACTIVATE then nci_sm_handle_rf_deactivate_ntf env payload w
      else nci_transition_default_handle_ntf env gid oid payload w)"

definition nci_transition_poll_active_to_idle_handle_ntf ::
    "nci_env \<Rightarrow> byte \<Rightarrow> byte \<Rightarrow> byte list \<Rightarrow> nci_world \<Rightarrow> nci_world" where
  [simp]: "nci_transition_poll_active_to_idle_handle_ntf env gid oid payload w =
     (if gid = NCI_GID_RF \<and> oid = NCI_OID_RF_DEACTIVATE then nci_sm_handle_rf_deactivate_ntf env payload w
      else nci_transition_default_handle_ntf env gid oid payload w)"

definition nci_transition_handle_ntf ::
    "nci_env \<Rightarrow> nci_transition \<Rightarrow> byte \<Rightarrow> byte \<Rightarrow> byte list \<Rightarrow> nci_world \<Rightarrow> nci_world" where
  "nci_transition_handle_ntf env t gid oid payload w =
     (case t of
        TReset \<Rightarrow> nci_transition_reset_handle_ntf env gid oid payload w
      | TListenActiveToIdle \<Rightarrow> nci_transition_listen_active_to_idle_handle_ntf env gid oid payload w
      | TDeactivateToDiscovery \<Rightarrow> nci_transition_deactivate_to_discovery_handle_ntf env gid oid payload w
      | TPollActiveToIdle \<Rightarrow> nci_transition_poll_active_to_idle_handle_ntf env gid oid payload w
      | _ \<Rightarrow> nci_transition_default_handle_ntf env gid oid payload w)"

definition nci_sm_handle_ntf :: "nci_env \<Rightarrow> byte \<Rightarrow> byte \<Rightarrow> byte list \<Rightarrow> nci_world \<Rightarrow> nci_world" where
  "nci_sm_handle_ntf env gid oid payload w =
     (case sm_active_transition w of
        Some t \<Rightarrow> nci_transition_handle_ntf env t gid oid payload w
      | None \<Rightarrow> nci_state_handle_ntf env (sm_last_state w) gid oid payload w)"

end
