(* ===== verification/Nci_Core.thy ===== *)
theory Nci_Core
  imports Nci_Ntf
begin

text \<open>
  \<open>NciCore\<close> (\<open>src/nci_core.c\<close>): the client of the segmentation layer, the command timeout, the
  parameters and the public interface. \<open>core_client\<close> closes the circle: what the
  segmentation layer calls is the state machine, which sends through the segmentation layer.
\<close>

unbundle bit_operations_syntax

section \<open>The client of the segmentation layer\<close>

definition nci_core_command_completion :: "nci_env \<Rightarrow> bool \<Rightarrow> nci_world \<Rightarrow> nci_world" where
  "nci_core_command_completion env success w =
     (let w1 = w\<lparr>core_cmd_id := 0\<rparr> in if success then w1 else nci_sm_error env w1)"

definition nci_core_send_data_msg_complete :: "nci_env \<Rightarrow> nat option \<Rightarrow> bool \<Rightarrow> nci_world \<Rightarrow> nci_world" where
  "nci_core_send_data_msg_complete env c ok w = (case c of Some x \<Rightarrow> env_app env (AppSendComplete x ok) w | None \<Rightarrow> w)"

definition run_completion :: "nci_env \<Rightarrow> sar_completion \<Rightarrow> bool \<Rightarrow> nci_world \<Rightarrow> nci_world" where
  "run_completion env c ok w =
     (case c of
        Core_command_completion \<Rightarrow> nci_core_command_completion env ok w
      | Core_send_data_msg_complete x \<Rightarrow> nci_core_send_data_msg_complete env x ok w)"

definition nci_core_sar_error :: "nci_env \<Rightarrow> nci_world \<Rightarrow> nci_world" where
  "nci_core_sar_error env w = nci_sm_error env w"

definition nci_core_sar_handle_response :: "nci_env \<Rightarrow> byte \<Rightarrow> byte \<Rightarrow> byte list \<Rightarrow> nci_world \<Rightarrow> nci_world" where
  "nci_core_sar_handle_response env gid oid payload w =
     (case core_rsp_handler w of
        Some h \<Rightarrow>
          if core_rsp_gid w = gid \<and> core_rsp_oid w = oid then
            run_rsp env h NCI_REQUEST_SUCCESS payload
              (w\<lparr>core_cmd_timeout_id := False, core_cmd_id := 0, core_rsp_handler := None\<rparr>)
          else w
      | None \<Rightarrow> w)"

definition nci_core_sar_handle_notification :: "nci_env \<Rightarrow> byte \<Rightarrow> byte \<Rightarrow> byte list \<Rightarrow> nci_world \<Rightarrow> nci_world" where
  "nci_core_sar_handle_notification env gid oid payload w = nci_sm_handle_ntf env gid oid payload w"

definition nci_core_sar_handle_data_packet :: "nci_env \<Rightarrow> byte \<Rightarrow> byte list \<Rightarrow> nci_world \<Rightarrow> nci_world" where
  "nci_core_sar_handle_data_packet env cid payload w = env_app env (SigDataPacket cid payload) w"

definition core_client :: "nci_env \<Rightarrow> nci_world sar_client" where
  "core_client env =
     \<lparr>fn_error = nci_core_sar_error env, fn_handle_response = nci_core_sar_handle_response env,
      fn_handle_notification = nci_core_sar_handle_notification env,
      fn_handle_data_packet = nci_core_sar_handle_data_packet env, fn_complete = run_completion env,
      fn_destroy = run_destroy env, hal_answer = env_hal env\<rparr>"

section \<open>Timeout and restart\<close>

definition nci_core_command_timeout :: "nci_env \<Rightarrow> nci_world \<Rightarrow> nci_world" where
  "nci_core_command_timeout env w =
     (let w1 = w\<lparr>core_cmd_timeout_id := False\<rparr>;
          w2 = (nci_sar_cancel (core_client env) (core_cmd_id w1) w1)\<lparr>core_cmd_id := 0\<rparr>;
          w3 = (case core_rsp_handler w2 of
                  Some h \<Rightarrow> run_rsp env h NCI_REQUEST_TIMEOUT [] (w2\<lparr>core_rsp_handler := None\<rparr>)
                | None \<Rightarrow> w2)
      in nci_sm_error env w3)"

definition nci_core_restart_internal :: "nci_env \<Rightarrow> nci_world \<Rightarrow> nci_world" where
  "nci_core_restart_internal env w =
     nci_sm_reset env (nci_sar_reset (core_client env) (nci_core_cancel_command env w))"

section \<open>Parameters\<close>

text \<open>\<open>NciCoreParam\<close>: the key and the member of the union that the key selects.\<close>

datatype core_param =
  ParamLLCVersion byte | ParamLLCWks u16 | ParamLaNfcid1 NciNfcid1 | ParamLiAHb NciAtsHb | ParamUnknown

definition param_keys :: "NCI_CORE_PARAM list" where
  "param_keys = [NCI_CORE_PARAM_LLC_VERSION, NCI_CORE_PARAM_LLC_WKS, NCI_CORE_PARAM_LA_NFCID1, NCI_CORE_PARAM_LI_A_HB]"

definition core_param_get :: "NCI_CORE_PARAM \<Rightarrow> nci_world \<Rightarrow> core_param" where
  "core_param_get key w =
     (case key of
        NCI_CORE_PARAM_LLC_VERSION \<Rightarrow> ParamLLCVersion (sm_llc_version w)
      | NCI_CORE_PARAM_LLC_WKS \<Rightarrow> ParamLLCWks (sm_llc_wks w)
      | NCI_CORE_PARAM_LA_NFCID1 \<Rightarrow>
          let n = min (unat (nfcid1_len (sm_la_nfcid1 w))) 10 in
          ParamLaNfcid1 \<lparr>nfcid1_len = of_nat n, nfcid1_bytes = fill_array 10 (nfcid1_bytes (sm_la_nfcid1 w)) n\<rparr>
      | NCI_CORE_PARAM_LI_A_HB \<Rightarrow>
          let n = min (unat (hb_len (sm_li_a_hb w))) 15 in
          ParamLiAHb \<lparr>hb_len = of_nat n, hb_bytes = fill_array 15 (hb_bytes (sm_li_a_hb w)) n\<rparr>)"

definition nci_core_get_param :: "NCI_CORE_PARAM option \<Rightarrow> nci_world \<Rightarrow> core_param option" where
  "nci_core_get_param key w = map_option (\<lambda>k. core_param_get k w) key"   \<comment> \<open>\<open>None\<close>: not a key, no value\<close>

definition core_param_set :: "core_param \<Rightarrow> nci_world \<Rightarrow> nci_world" where
  "core_param_set p w =
     (case p of
        ParamLLCVersion v \<Rightarrow> w\<lparr>sm_llc_version := v\<rparr>
      | ParamLLCWks v \<Rightarrow> w\<lparr>sm_llc_wks := v OR 0x01\<rparr>
      | ParamLaNfcid1 x \<Rightarrow> nci_sm_set_la_nfcid1 (Some x) w
      | ParamLiAHb x \<Rightarrow> nci_sm_set_li_a_hb (Some x) w
      | ParamUnknown \<Rightarrow> w)"

definition core_param_reset :: "NCI_CORE_PARAM \<Rightarrow> nci_world \<Rightarrow> nci_world" where
  "core_param_reset key w =
     (case key of
        NCI_CORE_PARAM_LLC_VERSION \<Rightarrow> core_param_set (ParamLLCVersion 0x11) w
      | NCI_CORE_PARAM_LLC_WKS \<Rightarrow> core_param_set (ParamLLCWks 0x0003) w
      | NCI_CORE_PARAM_LA_NFCID1 \<Rightarrow> nci_sm_set_la_nfcid1 None w
      | NCI_CORE_PARAM_LI_A_HB \<Rightarrow> nci_sm_set_li_a_hb None w)"

definition nci_core_param_equal_hb :: "NciAtsHb \<Rightarrow> NciAtsHb \<Rightarrow> bool" where
  "nci_core_param_equal_hb a b \<longleftrightarrow>
     hb_len a = hb_len b \<and> memcmp_eq (hb_bytes a) (hb_bytes b) (min (unat (hb_len a)) 15)"

definition core_param_equal :: "core_param \<Rightarrow> core_param \<Rightarrow> bool" where
  "core_param_equal p q =
     (case (p, q) of
        (ParamLaNfcid1 x, ParamLaNfcid1 y) \<Rightarrow> nci_nfcid1_equal x y
      | (ParamLiAHb x, ParamLiAHb y) \<Rightarrow> nci_core_param_equal_hb x y
      | _ \<Rightarrow> p = q)"

definition nci_core_reset_param :: "nci_env \<Rightarrow> NCI_CORE_PARAM \<Rightarrow> nci_world \<Rightarrow> nci_world" where
  "nci_core_reset_param env key w =
     (let w1 = core_param_reset key w in
      if core_param_equal (core_param_get key w) (core_param_get key w1) then w1
      else nci_core_restart_internal env (env_app env (SigParamChanged key) w1))"

definition params_changed :: "nci_world \<Rightarrow> nci_world \<Rightarrow> NCI_CORE_PARAM list" where
  "params_changed w w' = filter (\<lambda>k. \<not> core_param_equal (core_param_get k w) (core_param_get k w')) param_keys"

definition nci_core_set_params :: "nci_env \<Rightarrow> core_param list option \<Rightarrow> bool \<Rightarrow> nci_world \<Rightarrow> nci_world" where
  "nci_core_set_params env params reset w =
     (if params = None \<and> \<not> reset then w
      else
        let w1 = (if reset then fold core_param_reset param_keys w else w);
            w2 = (case params of Some ps \<Rightarrow> fold core_param_set ps w1 | None \<Rightarrow> w1);
            change = params_changed w w2
        in if change = [] then w2
           else nci_core_restart_internal env (fold (\<lambda>k. env_app env (SigParamChanged k)) change w2))"

section \<open>Construction and the rest of the interface\<close>

text \<open>
  \<open>nci_core_new\<close>; \<open>config\<close> is the effect of the configuration file on the state machine
  (\<open>nci_sm_parse_config\<close>, theory \<open>Nci_Config\<close>, or nothing).
\<close>

definition nci_core_new :: "(nci_world \<Rightarrow> nci_world) \<Rightarrow> nci_world" where
  "nci_core_new config =
     (let w = fold core_param_reset param_keys (config nci_sm_object_init) in
      w\<lparr>core_current_state := sm_last_state w, core_next_state := sm_next_state w\<rparr>)"

text \<open>
  \<open>nci_core_free\<close>, the last reference to the core being given up, and the finalizers. It clears
  \<open>sm->io\<close> first; the one use of it on this path is the cancel of a stall when the command being
  written fails, and then nothing is left to cancel. The objects themselves are in theory
  \<open>Nci_Objects\<close>.
\<close>

definition finalize_sm :: "nci_world \<Rightarrow> nci_world" where
  "finalize_sm w =
     (leave_active_state (nci_sm_finish_active_transition (w\<lparr>sm_pending_switch := None\<rparr>)))
       \<lparr>sm_rf_interfaces := None, sm_next_transition := None\<rparr>"

definition nci_core_object_finalize :: "nci_world \<Rightarrow> nci_world" where
  "nci_core_object_finalize w = finalize_sm (w\<lparr>core_cmd_timeout_id := False\<rparr>)"

definition nci_core_free :: "nci_env \<Rightarrow> nci_world \<Rightarrow> nci_world" where
  "nci_core_free env w =
     nci_core_object_finalize (nci_sar_free (core_client env) (w\<lparr>core_cmd_timeout_id := False\<rparr>))"

definition nci_core_restart :: "nci_env \<Rightarrow> nci_world \<Rightarrow> nci_world" where
  "nci_core_restart env w = nci_core_restart_internal env w"

definition nci_core_set_state :: "nci_env \<Rightarrow> NCI_STATE \<Rightarrow> nci_world \<Rightarrow> nci_world" where
  "nci_core_set_state env s w = nci_sm_switch_to env s w"

definition nci_core_set_op_mode :: "nci_env \<Rightarrow> NCI_OP_MODE \<Rightarrow> nci_world \<Rightarrow> nci_world" where
  "nci_core_set_op_mode env op_mode w = nci_sm_set_op_mode env op_mode w"

definition nci_core_get_tech :: "nci_world \<Rightarrow> NCI_TECH" where
  "nci_core_get_tech w = sm_techs w"

definition nci_core_set_tech :: "nci_env \<Rightarrow> NCI_TECH \<Rightarrow> nci_world \<Rightarrow> NCI_TECH \<times> nci_world" where
  "nci_core_set_tech env tech w = nci_sm_set_tech env tech w"

definition nci_core_send_data_msg ::
    "byte \<Rightarrow> byte list option \<Rightarrow> nat option \<Rightarrow> nat option \<Rightarrow> nci_world \<Rightarrow> u32 \<times> nci_world" where
  "nci_core_send_data_msg cid payload complete destroy w =
     (if complete \<noteq> None \<or> destroy \<noteq> None then
        nci_sar_send_data_packet cid payload (Some (Core_send_data_msg_complete complete))
          (Some (Core_send_data_msg_destroy destroy)) w
      else nci_sar_send_data_packet cid payload None None w)"

definition nci_core_cancel :: "nci_env \<Rightarrow> u32 \<Rightarrow> nci_world \<Rightarrow> nci_world" where
  "nci_core_cancel env pid w = nci_sar_cancel (core_client env) pid w"

text \<open>
  Cancelling only releases packets, so the smaller client of \<open>nci_core_cancel_command\<close> is
  as good as the whole one.
\<close>

lemma cancel_client: "nci_sar_cancel (free_client env) pid w = nci_sar_cancel (core_client env) pid w"
  by (simp add: nci_sar_cancel_def sar_cancel_queued_def nci_sar_packet_out_free_def free_client_def core_client_def
      split: option.split prod.split)

end
