(* ===== verification/Nci_Config.thy ===== *)
theory Nci_Config
  imports Nci_Core
begin

text \<open>
  The configuration file (\<open>nci_sm_parse_config\<close> of \<open>src/nci_sm.c\<close>). The key file and the string
  functions of glib and libglibutil are parameters: \<open>cfg_string\<close> is
  \<open>g_key_file_get_string\<close> in the section \<open>Configuration\<close>, the others are
  \<open>g_strsplit_set\<close> (with the separators of the file), \<open>g_strstrip\<close>,
  \<open>g_ascii_strcasecmp(..) == 0\<close> and \<open>gutil_hex2bin\<close> (\<open>None\<close> if it fails).
\<close>

unbundle bit_operations_syntax

record config_lib =
  cfg_string :: "string \<Rightarrow> string option"
  cfg_split :: "string \<Rightarrow> string list"
  cfg_strip :: "string \<Rightarrow> string"
  cfg_same :: "string \<Rightarrow> string \<Rightarrow> bool"
  cfg_hex2bin :: "string \<Rightarrow> byte list option"

definition nci_tech_options :: "(string \<times> NCI_TECH) list" where
  "nci_tech_options =
     [(''A'', NCI_TECH_A), (''B'', NCI_TECH_B), (''F'', NCI_TECH_F), (''V'', NCI_TECH_V),
      (''Poll-A'', NCI_TECH_A_POLL), (''Poll-B'', NCI_TECH_B_POLL), (''Poll-F'', NCI_TECH_F_POLL),
      (''Poll-V'', NCI_TECH_V_POLL), (''Listen-A'', NCI_TECH_A_LISTEN), (''Listen-B'', NCI_TECH_B_LISTEN),
      (''Listen-F'', NCI_TECH_F_LISTEN), (''Listen-V'', NCI_TECH_V_LISTEN)]"

section \<open>Technologies\<close>

definition tech_option :: "config_lib \<Rightarrow> string \<Rightarrow> NCI_TECH" where
  "tech_option lib val =
     (case filter (\<lambda>opt. cfg_same lib val (fst opt)) nci_tech_options of
        opt # _ \<Rightarrow> snd opt
      | [] \<Rightarrow> NCI_TECH_NONE)"

definition NCI_TECH_DEFAULT :: NCI_TECH where
  "NCI_TECH_DEFAULT = NCI_TECH_A OR NCI_TECH_B OR NCI_TECH_F"

definition config_techs :: "config_lib \<Rightarrow> nci_world \<Rightarrow> nci_world" where
  "config_techs lib w =
     (case cfg_string lib ''Technologies'' of
        None \<Rightarrow> w
      | Some sval \<Rightarrow>
          let techs = fold (\<lambda>val techs. techs OR tech_option lib (cfg_strip lib val)) (cfg_split lib sval) NCI_TECH_NONE
          in w\<lparr>sm_techs := (if techs = 0 then NCI_TECH_DEFAULT else techs)\<rparr>)"

section \<open>Parameters\<close>

definition config_la_nfcid1 :: "config_lib \<Rightarrow> nci_world \<Rightarrow> nci_world" where
  "config_la_nfcid1 lib w =
     (case cfg_string lib ''LA_NFCID1'' of
        None \<Rightarrow> w
      | Some sval0 \<Rightarrow>
          let sval = cfg_strip lib sval0; len = length sval in
          if len = 0 then w\<lparr>sm_default_la_nfcid1 := zero_nfcid1\<rparr>
          else if len = 8 \<or> len = 14 \<or> len = 20 then
            (case cfg_hex2bin lib sval of
               Some bytes \<Rightarrow>
                 let x = \<lparr>nfcid1_len = of_nat (len div 2),
                          nfcid1_bytes = bytes @ drop (length bytes) (nfcid1_bytes (sm_default_la_nfcid1 w))\<rparr>
                 in w\<lparr>sm_la_nfcid1 := x, sm_default_la_nfcid1 := x\<rparr>
             | None \<Rightarrow> w\<lparr>sm_default_la_nfcid1 := zero_nfcid1\<rparr>)
          else w)"

text \<open>
  \<open>memset(out->bytes + out->len, 0, sizeof(out->bytes) - len)\<close>, where \<open>len\<close> is the number of
  hexadecimal digits and not of bytes: with more than 15 digits the size wraps around and
  the call runs through all of the memory.
\<close>

definition config_li_a_hb :: "config_lib \<Rightarrow> nci_world \<Rightarrow> nci_world" where
  "config_li_a_hb lib w =
     (case cfg_string lib ''LI_A_HB'' of
        None \<Rightarrow> w
      | Some sval0 \<Rightarrow>
          let sval = cfg_strip lib sval0; len = length sval in
          if len \<le> 2 * 15 then
            (case cfg_hex2bin lib sval of
               Some bytes \<Rightarrow>
                 let out_len = len div 2;
                     old = hb_bytes (sm_default_li_a_hb w);
                     copied = take out_len bytes @ drop out_len old;
                     hb = \<lparr>hb_len = of_nat out_len, hb_bytes = copied\<rparr>
                 in if out_len < 15 then
                      if len \<le> 15 then
                        w\<lparr>sm_default_li_a_hb :=
                            hb\<lparr>hb_bytes := take out_len copied @ replicate (15 - len) 0 @ drop (out_len + (15 - len)) copied\<rparr>\<rparr>
                      else w\<lparr>sm_default_li_a_hb := hb, sar_fault := True\<rparr>
                    else w\<lparr>sm_default_li_a_hb := hb\<rparr>
             | None \<Rightarrow> w)
          else w)"

definition nci_sm_parse_config :: "config_lib \<Rightarrow> nci_world \<Rightarrow> nci_world" where
  "nci_sm_parse_config lib w = config_li_a_hb lib (config_la_nfcid1 lib (config_techs lib w))"

section \<open>Properties\<close>

text \<open>What is relied on: \<open>gutil_hex2bin\<close> turns \<open>2 * n\<close> digits into \<open>n\<close> bytes.\<close>

definition hex2bin_ok :: "config_lib \<Rightarrow> bool" where
  "hex2bin_ok lib \<longleftrightarrow> (\<forall>s bytes. cfg_hex2bin lib s = Some bytes \<longrightarrow> length s = 2 * length bytes)"

text \<open>
  C38. Historical bytes in the configuration file break the library when there are 8 to 14
  of them: clearing the rest of the array takes the number of digits for the number of
  bytes. With fewer, or with exactly 15, they become the default.
\<close>

theorem config_li_a_hb_overrun:
  assumes "hex2bin_ok lib" and "cfg_string lib ''LI_A_HB'' = Some s"
    and "cfg_hex2bin lib (cfg_strip lib s) = Some bytes" and "length bytes \<le> 15"
    and "length (hb_bytes (sm_default_li_a_hb w)) = 15" and "\<not> sar_fault w"
  shows "if 8 \<le> length bytes \<and> length bytes \<le> 14 then sar_fault (config_li_a_hb lib w)
    else \<not> sar_fault (config_li_a_hb lib w) \<and>
      hb_len (sm_default_li_a_hb (config_li_a_hb lib w)) = of_nat (length bytes) \<and>
      take (length bytes) (hb_bytes (sm_default_li_a_hb (config_li_a_hb lib w))) = bytes"
proof -
  have "length (cfg_strip lib s) = 2 * length bytes" using assms(1,3) by (auto simp: hex2bin_ok_def)
  then show ?thesis using assms(2-) by (auto simp: config_li_a_hb_def Let_def)
qed

text \<open>A library for the witnesses, and a configuration with eight historical bytes.\<close>

definition hex_digit :: "char \<Rightarrow> nat option" where
  "hex_digit c = map_of (zip ''0123456789abcdef'' [0..<16]) c"

fun hex_bytes :: "string \<Rightarrow> byte list option" where
  "hex_bytes [] = Some []"
| "hex_bytes [c] = None"
| "hex_bytes (c # d # s) =
     (case (hex_digit c, hex_digit d, hex_bytes s) of
        (Some x, Some y, Some bs) \<Rightarrow> Some (of_nat (16 * x + y) # bs)
      | _ \<Rightarrow> None)"

lemma hex_bytes_length: "hex_bytes s = Some bs \<Longrightarrow> length s = 2 * length bs"
  by (induction s arbitrary: bs rule: hex_bytes.induct) (auto split: option.splits)

definition hb_config :: config_lib where
  "hb_config =
     \<lparr>cfg_string = (\<lambda>k. if k = ''LI_A_HB'' then Some ''8031807365210000'' else None), cfg_split = (\<lambda>s. [s]),
      cfg_strip = (\<lambda>s. s), cfg_same = (\<lambda>a b. a = b), cfg_hex2bin = hex_bytes\<rparr>"

lemma config_li_a_hb_overrun_witness: "sar_fault (config_li_a_hb hb_config nci_sm_object_init)"
  using config_li_a_hb_overrun [of hb_config "''8031807365210000''"
      "[0x80, 0x31, 0x80, 0x73, 0x65, 0x21, 0, 0]" nci_sm_object_init]
  by (simp add: hb_config_def hex2bin_ok_def hex_bytes_length hex_digit_def upt_conv_Cons
      nci_sm_object_init_def nci_world.defs nci_sar_new_def zero_hb_def)

end
