(* ===== verification/Nci_Machine.thy ===== *)
theory Nci_Machine
  imports Nci_Config
begin

text \<open>
  The library as a whole, as the application and the main loop see it: every entry into the
  code is a step of \<open>core_step\<close>. What the HAL reports (bytes read, an error, a completed
  write), the callbacks of the main loop (each only when it is scheduled) and the public
  functions of \<open>include/nci_core.h\<close>. The steps come in any order; the application's handlers
  run inside them (\<open>env_app\<close>). Arguments have their C types: the arrays inside a parameter
  have their declared sizes.
\<close>

definition core_param_typed :: "core_param \<Rightarrow> bool" where
  "core_param_typed p =
     (case p of
        ParamLaNfcid1 x \<Rightarrow> length (nfcid1_bytes x) = 10
      | ParamLiAHb x \<Rightarrow> length (hb_bytes x) = 15
      | _ \<Rightarrow> True)"

inductive core_step :: "nci_env \<Rightarrow> nci_world \<Rightarrow> nci_world \<Rightarrow> bool" for env where
  idle: "sar_start_write_id w \<Longrightarrow> core_step env w (nci_sar_start_write (core_client env) w)"
| written: "sar_write_pending w \<Longrightarrow> core_step env w (nci_sar_write_completed (core_client env) ok w)"
| read: "core_step env w (nci_sar_hal_client_read (core_client env) bytes w)"
| hal_error: "core_step env w (nci_sar_hal_client_error (core_client env) w)"
| command_timeout: "core_cmd_timeout_id w \<Longrightarrow> core_step env w (nci_core_command_timeout env w)"
| transition_timeout: "tr_timeout_id w t \<Longrightarrow> core_step env w (nci_transition_timeout env t w)"
| switch: "sm_pending_switch w \<noteq> None \<Longrightarrow> core_step env w (nci_sm_switch_proc env w)"
| restart: "core_step env w (nci_core_restart env w)"
| set_state: "core_step env w (nci_core_set_state env s w)"
| set_op_mode: "core_step env w (nci_core_set_op_mode env op_mode w)"
| set_tech: "core_step env w (snd (nci_core_set_tech env tech w))"
| reset_param: "core_step env w (nci_core_reset_param env key w)"
| set_params: "list_all core_param_typed (case params of Some ps \<Rightarrow> ps | None \<Rightarrow> []) \<Longrightarrow>
    core_step env w (nci_core_set_params env params reset w)"
| send_data: "core_step env w (snd (nci_core_send_data_msg cid payload complete destroy w))"
| cancel: "core_step env w (nci_core_cancel env pid w)"

inductive_cases core_stepE: "core_step env w w'"

text \<open>The states that can be reached from a new object, configured by a file or not;
  \<open>gutil_hex2bin\<close> makes a byte of two digits (\<open>hex2bin_ok\<close>).\<close>

inductive core_reachable :: "nci_env \<Rightarrow> nci_world \<Rightarrow> bool" for env where
  new: "core_reachable env (nci_core_new (\<lambda>w. w))"
| configured: "hex2bin_ok lib \<Longrightarrow> core_reachable env (nci_core_new (nci_sm_parse_config lib))"
| step: "core_reachable env w \<Longrightarrow> core_step env w w' \<Longrightarrow> core_reachable env w'"

text \<open>Reaching a concrete state.\<close>

lemma core_reachable_run: "core_reachable env w \<Longrightarrow> (core_step env)\<^sup>*\<^sup>* w w' \<Longrightarrow> core_reachable env w'"
  by (rotate_tac, induction rule: rtranclp_induct) (auto intro: core_reachable.step)

end
