(* ===== verification/Sar_Segments.thy ===== *)
theory Sar_Segments
  imports Nci_Sar_Rx
begin

text \<open>
  What segmentation and reassembly promise: the transmitter cuts a packet into frames
  (\<open>sar_frames\<close> of \<open>sar_fragments\<close>), the receiver joins the frames into the packet.
\<close>

section \<open>Frames of a packet\<close>

text \<open>The payload cut into segments of at most \<open>m\<close> bytes, and their frames.\<close>

function sar_fragments :: "nat \<Rightarrow> byte list \<Rightarrow> byte list list" where
  "sar_fragments m p = (if m = 0 \<or> length p \<le> m then [p] else take m p # sar_fragments m (drop m p))"
  by pat_completeness auto
termination by (relation "measure (\<lambda>(m, p). length p)") auto

declare sar_fragments.simps [simp del]

fun sar_frames :: "byte \<Rightarrow> byte \<Rightarrow> byte list list \<Rightarrow> byte list list" where
  "sar_frames h0 h1 [] = []"
| "sar_frames h0 h1 [p] = [[h0 AND NOT NCI_PBF, h1, of_nat (length p)] @ p]"
| "sar_frames h0 h1 (p # q # ps) = ([h0 OR NCI_PBF, h1, of_nat (length p)] @ p) # sar_frames h0 h1 (q # ps)"

lemma sar_fragments_nonempty [simp]: "sar_fragments m p \<noteq> []"
  by (subst sar_fragments.simps) simp

lemma sar_fragments_concat: "concat (sar_fragments m p) = p"
  by (induction m p rule: sar_fragments.induct) (subst sar_fragments.simps, auto)

lemma sar_fragments_bound: "0 < m \<Longrightarrow> q \<in> set (sar_fragments m p) \<Longrightarrow> length q \<le> m"
proof (induction m p rule: sar_fragments.induct)
  case (1 m p)
  then show ?case
    by (subst (asm) (2) sar_fragments.simps) (auto split: if_splits)
qed

lemma sar_fragments_pos: "q \<in> set (butlast (sar_fragments m p)) \<Longrightarrow> length q = m"
proof (induction m p rule: sar_fragments.induct)
  case (1 m p)
  then show ?case
    by (subst (asm) (2) sar_fragments.simps) (auto split: if_splits)
qed

lemma sar_fragments_count: "0 < m \<Longrightarrow> length (sar_fragments m p) = max 1 ((length p + m - 1) div m)"
proof (induction m p rule: sar_fragments.induct)
  case (1 m p)
  show ?case
  proof (cases "length p \<le> m")
    case True
    have "length p + m - 1 < 2 * m" using True 1 by linarith
    then have "(length p + m - 1) div m < 2" by (rule less_mult_imp_div_less)
    then have "(length p + m - 1) div m \<le> 1" by linarith
    then show ?thesis using True by (subst sar_fragments.simps) simp
  next
    case False
    then have "(length p + m - 1) div m = Suc ((length p - m + m - 1) div m)"
      using 1 le_div_geq [of m "length p + m - 1"] by simp
    moreover have "1 \<le> (length p - m + m - 1) div m"
      using False 1 by (simp add: div_greater_zero_iff Suc_le_eq)
    ultimately show ?thesis using False 1 by (subst sar_fragments.simps) simp
  qed
qed

lemma sar_frames_shape:
  assumes "\<forall>q \<in> set ps. length q < 256"
  shows "length (sar_frames h0 h1 ps) = length ps \<and>
    (\<forall>k < length ps. sar_frames h0 h1 ps ! k =
       [if Suc k = length ps then h0 AND NOT NCI_PBF else h0 OR NCI_PBF, h1, of_nat (length (ps ! k))] @ ps ! k)"
  by (induction h0 h1 ps rule: sar_frames.induct) (auto simp: nth_Cons split: nat.split)

lemma sar_frames_payload: "concat (map (drop NCI_HDR_SIZE) (sar_frames h0 h1 ps)) = concat ps"
  by (induction h0 h1 ps rule: sar_frames.induct) auto

lemma sar_frames_bound: "\<forall>q \<in> set ps. length q \<le> m \<Longrightarrow> f \<in> set (sar_frames h0 h1 ps) \<Longrightarrow> length f \<le> m + NCI_HDR_SIZE"
  by (induction h0 h1 ps rule: sar_frames.induct) auto

lemma sar_frames_length [simp]: "length (sar_frames h0 h1 ps) = length ps"
  by (induction h0 h1 ps rule: sar_frames.induct) auto

text \<open>The transmitter's chunks, concatenated, are the frames of the fragments.\<close>

definition next_frame :: "nat \<Rightarrow> packet_out \<Rightarrow> byte list" where
  "next_frame m out = concat (fst (sar_next_chunk m out))"

definition next_out :: "nat \<Rightarrow> packet_out \<Rightarrow> packet_out" where
  "next_out m out = snd (sar_next_chunk m out)"

lemma next_out_remaining: "po_remaining (next_out m out) = drop m (po_remaining out)"
  by (auto simp: next_out_def sar_next_chunk_def po_remaining_def Let_def add.commute split: option.splits)

lemma hdr_pbf:
  "((h :: byte) OR NCI_PBF) AND NOT NCI_PBF = h AND NOT NCI_PBF"
  "((h :: byte) OR NCI_PBF) OR NCI_PBF = h OR NCI_PBF"
  by (simp_all add: bit.conj_disj_distrib2 or.assoc)

lemma next_frame_frames:
  assumes "0 < m"
  shows "sar_frames (po_hdr0 out) (po_hdr1 out) (sar_fragments m (po_remaining out)) =
     next_frame m out # (if length (po_remaining out) \<le> m then []
       else sar_frames (po_hdr0 (next_out m out)) (po_hdr1 (next_out m out)) (sar_fragments m (po_remaining (next_out m out))))"
proof (cases "length (po_remaining out) \<le> m")
  case True
  then show ?thesis
    by (subst sar_fragments.simps) (auto simp: next_frame_def sar_next_chunk_def Let_def)
next
  case False
  have pbf: "sar_frames (h OR NCI_PBF) h1 ps = sar_frames h h1 ps" for h h1 ps
    by (induction h h1 ps rule: sar_frames.induct) (simp_all only: sar_frames.simps hdr_pbf)
  obtain q qs where q: "sar_fragments m (drop m (po_remaining out)) = q # qs"
    by (meson neq_Nil_conv sar_fragments_nonempty)
  have f: "sar_fragments m (po_remaining out) = take m (po_remaining out) # q # qs"
    using False assms q by (subst sar_fragments.simps) simp
  have h: "po_hdr0 (next_out m out) = po_hdr0 out OR NCI_PBF" "po_hdr1 (next_out m out) = po_hdr1 out"
    using False by (simp_all add: next_out_def sar_next_chunk_def Let_def)
  have n: "next_frame m out = [po_hdr0 out OR NCI_PBF, po_hdr1 out, of_nat m] @ take m (po_remaining out)"
    using False by (simp add: next_frame_def sar_next_chunk_def Let_def)
  show ?thesis
    using False by (simp add: f h n next_out_remaining pbf q)
qed

section \<open>Transmission\<close>

text \<open>What a log of HAL calls put on the wire, one element per write.\<close>

fun wire :: "hal_call list \<Rightarrow> byte list list" where
  "wire [] = []"
| "wire (HalWrite chunks # l) = concat chunks # wire l"
| "wire (HalStart # l) = wire l"
| "wire (HalStop # l) = wire l"
| "wire (HalCancelWrite # l) = wire l"

lemma wire_append [simp]: "wire (a @ b) = wire a @ wire b"
  by (induction a rule: wire.induct) auto

definition hal_accepts :: "'w sar_client \<Rightarrow> bool" where
  "hal_accepts cl \<longleftrightarrow> (\<forall>l. hal_answer cl l)"

lemma next_out_simps [simp]:
  "po_conn (next_out m out) = po_conn out" "po_payload (next_out m out) = po_payload out"
  "po_complete (next_out m out) = po_complete out" "po_destroy (next_out m out) = po_destroy out"
  "po_id (next_out m out) = po_id out" "po_addr (next_out m out) = po_addr out"
  by (simp_all add: next_out_def sar_next_chunk_def Let_def)

lemma next_out_mt: "po_hdr0 (next_out m out) AND NCI_MT_MASK = po_hdr0 out AND NCI_MT_MASK"
proof -
  have "(h AND NOT NCI_PBF) AND NCI_MT_MASK = h AND NCI_MT_MASK" "(h OR NCI_PBF) AND NCI_MT_MASK = h AND NCI_MT_MASK" for h :: byte
    by (simp_all add: and.assoc bit.conj_disj_distrib2)
  then show ?thesis by (simp add: next_out_def sar_next_chunk_def Let_def)
qed

lemma max_payload_next [simp]: "max_payload_for s (next_out m out) = max_payload_for s out"
  by (simp add: max_payload_for_def next_out_mt)

lemma max_payload_cong:
  "sar_control_payload_limit s = sar_control_payload_limit t \<Longrightarrow>
   sar_data_payload_limit s = sar_data_payload_limit t \<Longrightarrow> max_payload_for s out = max_payload_for t out"
  by (simp add: max_payload_for_def)

text \<open>A submission the HAL accepts.\<close>

definition submit_state :: "packet_out \<Rightarrow> 'a nci_sar_scheme \<Rightarrow> 'a nci_sar_scheme" where
  "submit_state out s =
     s\<lparr>sar_hal := sar_hal s @ (if sar_started s then [] else [HalStart]) @ [HalWrite (fst (sar_next_chunk (max_payload_for s out) out))],
       sar_started := True, sar_write_pending := True,
       sar_writing := Some (next_out (max_payload_for s out) out)\<rparr>"

lemma sar_attempt_submit_accept:
  "hal_accepts cl \<Longrightarrow> sar_writing s = Some out \<Longrightarrow> sar_attempt_submit cl s = submit_state out s"
  by (cases "sar_next_chunk (max_payload_for s out) out")
    (simp add: sar_attempt_submit_def submit_state_def hal_accepts_def sar_start_hal_def hal_tell_def
      Let_def next_out_def)

definition completed :: "packet_out \<Rightarrow> bool" where
  "completed out \<longleftrightarrow> (case po_payload out of Some p \<Rightarrow> length p | None \<Rightarrow> 0) = po_payload_pos out"

definition pos_ok :: "packet_out \<Rightarrow> bool" where
  "pos_ok out \<longleftrightarrow> po_payload_pos out \<le> (case po_payload out of Some p \<Rightarrow> length p | None \<Rightarrow> 0)"

lemma completed_remaining: "pos_ok out \<Longrightarrow> completed out \<longleftrightarrow> po_remaining out = []"
  by (auto simp: completed_def po_remaining_def pos_ok_def split: option.splits)

lemma next_out_pos_ok: "pos_ok out \<Longrightarrow> pos_ok (next_out m out)"
  by (auto simp: pos_ok_def next_out_def sar_next_chunk_def po_remaining_def Let_def split: option.splits)

lemma next_out_completed:
  "pos_ok out \<Longrightarrow> completed (next_out m out) \<longleftrightarrow> length (po_remaining out) \<le> m"
  by (simp add: completed_remaining next_out_pos_ok next_out_remaining)

text \<open>The completion of a write that leaves a control packet unfinished submits its next segment.\<close>

lemma write_completed_continue:
  assumes "hal_accepts cl" and "sar_writing s = Some out" and "po_conn out = None"
    and "pos_ok out" and "\<not> completed out" and "\<not> sar_fault s"
  shows "nci_sar_write_completed cl True s = submit_state out s"
  using assms sar_attempt_submit_accept [of cl "s\<lparr>sar_write_pending := False\<rparr>" out]
  by (cases "po_payload out") (simp_all add: nci_sar_write_completed_def nci_sar_attempt_write_def sar_attempt_continue_def
      sar_attempt_pick_def completed_def submit_state_def max_payload_for_def pos_ok_def Let_def)

lemma run_control_packet:
  assumes "hal_accepts cl" and "sar_writing s = Some out" and "po_conn out = None"
    and "pos_ok out" and "m = max_payload_for s out" and "0 < m"
    and "fs = (if completed out then [] else sar_frames (po_hdr0 out) (po_hdr1 out) (sar_fragments m (po_remaining out)))"
    and "sar_started s" and "\<not> sar_fault s"
  shows "let s' = (nci_sar_write_completed cl True ^^ length fs) s in
           wire (sar_hal s') = wire (sar_hal s) @ fs \<and>
           (\<exists>out'. sar_writing s' = Some out' \<and> completed out' \<and> po_id out' = po_id out) \<and>
           sar_write_pending s' = (sar_write_pending s \<or> fs \<noteq> []) \<and> sar_cmd s' = sar_cmd s \<and> sar_conn s' = sar_conn s"
  using assms
proof (induction "length (po_remaining out)" arbitrary: s out fs rule: less_induct)
  case less
  show ?case
  proof (cases "completed out")
    case True
    then show ?thesis using less.prems by simp
  next
    case False
    let ?s1 = "submit_state out s" and ?o = "next_out m out"
    let ?gs = "if completed ?o then [] else sar_frames (po_hdr0 ?o) (po_hdr1 ?o) (sar_fragments m (po_remaining ?o))"
    have rem: "po_remaining out \<noteq> []" using False less.prems by (simp add: completed_remaining)
    have lt: "length (po_remaining ?o) < length (po_remaining out)"
      using rem less.prems(6) by (simp add: next_out_remaining)
    have fs: "fs = next_frame m out # ?gs"
      using False less.prems next_frame_frames [of m out] by (simp add: next_out_completed)
    have w: "sar_writing ?s1 = Some ?o" "max_payload_for ?s1 ?o = m"
      using less.prems by (simp_all add: submit_state_def max_payload_for_def next_out_mt)
    have st: "sar_started ?s1" by (simp add: submit_state_def)
    have nf: "\<not> sar_fault ?s1" using less.prems by (simp add: submit_state_def)
    note IH = less.hyps [OF lt less.prems(1) w(1) _ next_out_pos_ok [OF less.prems(4)] w(2) [symmetric] less.prems(6) refl st nf]
    have step: "nci_sar_write_completed cl True s = ?s1"
      using less.prems False by (intro write_completed_continue)
    have h: "wire (sar_hal ?s1) = wire (sar_hal s) @ [next_frame m out]"
      using less.prems by (simp add: submit_state_def next_frame_def)
    have n: "(nci_sar_write_completed cl True ^^ length fs) s = (nci_sar_write_completed cl True ^^ length ?gs) ?s1"
      by (simp only: fs list.size add_Suc_right add_0_right funpow.simps(2) funpow_swap1 comp_apply step)
    show ?thesis
      using IH less.prems(3) h fs unfolding n Let_def by (simp add: submit_state_def)
  qed
qed

text \<open>The payload of a packet, \<open>[]\<close> for none, and how it reaches the wire.\<close>

definition payload_bytes :: "byte list option \<Rightarrow> byte list" where
  "payload_bytes p = (case p of Some b \<Rightarrow> b | None \<Rightarrow> [])"

definition idle_tx :: "'a nci_sar_scheme \<Rightarrow> bool" where
  "idle_tx s \<longleftrightarrow> sar_writing s = None \<and> \<not> sar_write_pending s \<and> \<not> sar_fault s \<and> sar_cmd s = empty_queue"

lemma send_command_state:
  assumes "idle_tx s"
  shows "\<exists>out pid.
    nci_sar_send_command gid oid payload complete destroy s =
      (pid, s\<lparr>sar_last_packet_id := pid, sar_next_addr := Suc (sar_next_addr s), sar_start_write_id := True,
             sar_cmd := \<lparr>q_first = [out], q_last = Some (po_addr out)\<rparr>\<rparr>) \<and>
    po_hdr0 out = NCI_MT_CMD_PKT OR (gid AND NCI_CONTROL_GID_MASK) \<and> po_hdr1 out = oid AND NCI_CONTROL_OID_MASK \<and>
    po_conn out = None \<and> po_payload out = payload \<and> po_payload_pos out = 0 \<and> po_id out = pid \<and>
    po_complete out = complete \<and> po_destroy out = destroy"
proof -
  let ?id = "sar_last_packet_id s + 1"
  let ?pid = "if ?id = 0 then ?id + 1 else ?id"
  let ?out = "\<lparr>po_addr = sar_next_addr s, po_conn = None, po_hdr0 = NCI_MT_CMD_PKT OR (gid AND NCI_CONTROL_GID_MASK),
     po_hdr1 = oid AND NCI_CONTROL_OID_MASK, po_hdr2 = 0, po_payload = payload, po_payload_pos = 0,
     po_complete = complete, po_destroy = destroy, po_id = ?pid\<rparr>"
  show ?thesis
    using assms by (intro exI [of _ ?out] exI [of _ ?pid])
      (simp add: nci_sar_send_command_def nci_sar_send_def sar_enqueue_def Let_def queue_append_def idle_tx_def
        empty_queue_def nci_sar_schedule_write_def nci_sar_can_write_def)
qed

lemma cmd_mt: "(NCI_MT_CMD_PKT OR (gid AND NCI_CONTROL_GID_MASK)) AND NCI_MT_MASK = NCI_MT_CMD_PKT"
  by (simp add: bit.conj_disj_distrib2 and.assoc)

lemma start_write_command:
  assumes "hal_accepts cl" and "sar_writing s = None" and "\<not> sar_write_pending s" and "\<not> sar_fault s"
    and "sar_cmd s = \<lparr>q_first = [out], q_last = l\<rparr>"
  shows "nci_sar_start_write cl s =
    submit_state out (s\<lparr>sar_start_write_id := False, sar_writing := Some out, sar_cmd := empty_queue\<rparr>)"
  using assms
  by (simp add: nci_sar_start_write_def nci_sar_attempt_write_def sar_attempt_continue_def sar_attempt_pick_def
      nci_sar_write_queue_def queue_pop_def Let_def empty_queue_def
      sar_attempt_submit_accept [of cl "s\<lparr>sar_start_write_id := False, sar_writing := Some out, sar_cmd := empty_queue\<rparr>" out, unfolded empty_queue_def])


text \<open>A client that does nothing, over a HAL that accepts everything.\<close>

definition null_client :: "'w sar_client" where
  "null_client = \<lparr>fn_error = (\<lambda>s. s), fn_handle_response = (\<lambda>_ _ _ s. s), fn_handle_notification = (\<lambda>_ _ _ s. s),
     fn_handle_data_packet = (\<lambda>_ _ s. s), fn_complete = (\<lambda>_ _ s. s), fn_destroy = (\<lambda>_ s. s),
     hal_answer = (\<lambda>_. True)\<rparr>"

lemma null_client_accepts: "hal_accepts null_client"
  by (simp add: hal_accepts_def null_client_def)

lemma nci_sar_new_idle: "idle_tx (nci_sar_new ext)"
  by (simp add: idle_tx_def nci_sar_new_def)

text \<open>
  C3. A command sent on an idle transmitter reaches the HAL as the frames of its payload
  cut at the control payload limit: each frame carries the MT, GID and OID of the command
  and the length of its part, all but the last have the packet boundary flag, the parts
  are at most the limit and concatenate to the payload; after the last write the packet
  is complete and no other packet was touched.
\<close>

theorem nci_sar_send_command_wire:
  assumes "hal_accepts cl" and "idle_tx s" and m: "m = unat (sar_control_payload_limit s)" and "0 < m"
    and fs: "fs = sar_frames (NCI_MT_CMD_PKT OR (gid AND NCI_CONTROL_GID_MASK)) (oid AND NCI_CONTROL_OID_MASK)
           (sar_fragments m (payload_bytes payload))"
    and s1: "nci_sar_send_command gid oid payload complete destroy s = (pid, s1)"
    and s2: "s2 = (nci_sar_write_completed cl True ^^ (length fs - 1)) (nci_sar_start_write cl s1)"
  shows "wire (sar_hal s2) = wire (sar_hal s) @ fs \<and>
    concat (map (drop NCI_HDR_SIZE) fs) = payload_bytes payload \<and> (\<forall>f \<in> set fs. length f \<le> m + NCI_HDR_SIZE) \<and>
    length fs = max 1 ((length (payload_bytes payload) + m - 1) div m) \<and> sar_cmd s2 = empty_queue \<and> sar_conn s2 = sar_conn s \<and> sar_write_pending s2 \<and>
    (\<exists>out. sar_writing s2 = Some out \<and> completed out \<and> po_id out = pid)"
proof -
  obtain out where st: "s1 = s\<lparr>sar_last_packet_id := pid, sar_next_addr := Suc (sar_next_addr s), sar_start_write_id := True,
             sar_cmd := \<lparr>q_first = [out], q_last = Some (po_addr out)\<rparr>\<rparr>"
    and out: "po_hdr0 out = NCI_MT_CMD_PKT OR (gid AND NCI_CONTROL_GID_MASK)" "po_hdr1 out = oid AND NCI_CONTROL_OID_MASK"
    "po_conn out = None" "po_payload out = payload" "po_payload_pos out = 0" "po_id out = pid"
    using send_command_state [OF assms(2), of gid oid payload complete destroy] s1 by auto
  define t where "t = s1\<lparr>sar_start_write_id := False, sar_writing := Some out, sar_cmd := empty_queue\<rparr>"
  have start: "nci_sar_start_write cl s1 = submit_state out t"
    unfolding t_def using assms(1,2) by (intro start_write_command) (simp_all add: st idle_tx_def)
  have rem: "po_remaining out = payload_bytes payload" "pos_ok out"
    using out by (simp_all add: po_remaining_def payload_bytes_def pos_ok_def split: option.split)
  have mx: "max_payload_for t out = m" "max_payload_for (submit_state out t) (next_out m out) = m"
    by (simp_all add: max_payload_for_def out next_out_mt cmd_mt m t_def st submit_state_def)
  let ?o = "next_out m out" and ?u = "submit_state out t"
  let ?gs = "if completed ?o then [] else sar_frames (po_hdr0 ?o) (po_hdr1 ?o) (sar_fragments m (po_remaining ?o))"
  have fsc: "fs = next_frame m out # ?gs"
    using next_frame_frames [OF assms(4), of out] by (simp add: fs out rem next_out_completed)
  have u: "sar_writing ?u = Some ?o" "sar_started ?u" "\<not> sar_fault ?u" "sar_cmd ?u = empty_queue" "sar_conn ?u = sar_conn s"
    "wire (sar_hal ?u) = wire (sar_hal s) @ [next_frame m out]" "sar_write_pending ?u"
    using assms(2) mx by (simp_all add: submit_state_def t_def st idle_tx_def next_frame_def)
  have cut: "concat (map (drop NCI_HDR_SIZE) fs) = payload_bytes payload"
    by (simp add: fs sar_frames_payload sar_fragments_concat)
  have len: "length fs = max 1 ((length (payload_bytes payload) + m - 1) div m)"
    by (simp only: fs sar_frames_length sar_fragments_count [OF assms(4)])
  have bnd: "\<forall>f \<in> set fs. length f \<le> m + NCI_HDR_SIZE"
    unfolding fs using sar_fragments_bound [OF assms(4)] by (blast intro: sar_frames_bound)
  have "s2 = (nci_sar_write_completed cl True ^^ length ?gs) ?u"
    unfolding s2 start by (simp only: fsc list.size add_Suc_right add_0_right diff_Suc_1)
  then have "wire (sar_hal s2) = wire (sar_hal s) @ fs \<and> sar_cmd s2 = empty_queue \<and> sar_conn s2 = sar_conn s \<and>
    sar_write_pending s2 \<and> (\<exists>out. sar_writing s2 = Some out \<and> completed out \<and> po_id out = pid)"
    using run_control_packet [OF assms(1) u(1) _ next_out_pos_ok [OF rem(2)] mx(2) [symmetric] assms(4) refl u(2,3)] out
    by (simp add: u fsc Let_def del: if_split)
  then show ?thesis
    using cut bnd len by blast
qed



lemma nci_sar_send_command_wire_witness:
  "wire (sar_hal (nci_sar_write_completed null_client True (nci_sar_start_write null_client
      (snd (nci_sar_send_command 2 1 (Some (replicate 40 7)) None None (nci_sar_new ())))))) =
    [[0x32, 1, 32] @ replicate 32 7, [0x22, 1, 8] @ replicate 8 7]"
proof -
  let ?fs = "sar_frames (NCI_MT_CMD_PKT OR (2 AND NCI_CONTROL_GID_MASK)) (1 AND NCI_CONTROL_OID_MASK)
    (sar_fragments 32 (payload_bytes (Some (replicate 40 7))))"
  let ?r = "nci_sar_send_command 2 1 (Some (replicate 40 7)) None None (nci_sar_new ())"
  have fs: "?fs = [[0x32, 1, 32] @ replicate 32 7, [0x22, 1, 8] @ replicate 8 7]"
    by (simp add: sar_fragments.simps payload_bytes_def)
  have "wire (sar_hal ((nci_sar_write_completed null_client True ^^ (length ?fs - 1))
      (nci_sar_start_write null_client (snd ?r)))) = wire (sar_hal (nci_sar_new ())) @ ?fs"
    using nci_sar_send_command_wire [OF null_client_accepts nci_sar_new_idle, where pid = "fst ?r" and ?s1.0 = "snd ?r",
      OF _ _ refl prod.collapse [symmetric] refl, of 32, THEN conjunct1] by (simp add: nci_sar_new_def)
  then show ?thesis
    unfolding fs by (simp add: nci_sar_new_def)
qed

end
