(* ===== verification/Sar_Reassembly.thy ===== *)
theory Sar_Reassembly
  imports Sar_Segments
begin

text \<open>
  What the receiver of \<open>src/nci_sar.c\<close> promises: the frames of a packet are joined into one
  packet, and how the transport cuts the byte stream into chunks does not matter.
\<close>

section \<open>Reassembly\<close>

definition frame :: "byte \<Rightarrow> byte \<Rightarrow> byte list \<Rightarrow> byte list" where
  "frame h0 h1 p = [h0, h1, of_nat (length p)] @ p"

lemma frame_complete: "length p < 256 \<Longrightarrow> packet_complete (frame h0 h1 p @ rest)"
  by (simp add: packet_complete_def frame_def unat_of_nat_byte nth_append)

lemma sar_read_loop_frame:
  assumes "length p < 256"
  shows "sar_read_loop cl (frame h0 h1 p @ rest) s =
    sar_read_loop cl rest (nci_sar_hal_handle_segment cl (frame h0 h1 p) s)"
proof -
  have "unat ((frame h0 h1 p @ rest) ! 2) + NCI_HDR_SIZE = length (frame h0 h1 p)"
    using assms by (simp add: frame_def unat_of_nat_byte numeral_2_eq_2)
  then show ?thesis
    using frame_complete [OF assms, of h0 h1 rest]
    by (subst sar_read_loop.simps) (simp only: if_True Let_def take_append take_all drop_append drop_all
        append_Nil append_Nil2 diff_self_eq_0 take_0 drop_0 order_refl)
qed

lemma sar_read_loop_Nil [simp]: "sar_read_loop cl [] s = ([], s)"
  by (subst sar_read_loop.simps) (simp add: packet_complete_def)

text \<open>The bytes of the three fields as the receiver decodes them.\<close>

lemma frame_fields:
  assumes "length p < 256"
  shows "frame h0 h1 p ! 0 = h0" "frame h0 h1 p ! 1 = h1" "frame h0 h1 p ! Suc 0 = h1" "unat (frame h0 h1 p ! 2) = length p"
    "take (length p) (drop NCI_HDR_SIZE (frame h0 h1 p)) = p" "take (length p + NCI_HDR_SIZE) (frame h0 h1 p) = frame h0 h1 p"
  using assms by (simp_all add: frame_def unat_of_nat_byte)

text \<open>The first header byte of the last frame and of the others.\<close>

definition last_hdr :: "byte \<Rightarrow> byte" where "last_hdr h = h AND NOT NCI_PBF"
definition more_hdr :: "byte \<Rightarrow> byte" where "more_hdr h = h OR NCI_PBF"

lemma sar_frames_Cons:
  "sar_frames h0 h1 (p # ps) =
     (if ps = [] then [frame (last_hdr h0) h1 p] else frame (more_hdr h0) h1 p # sar_frames h0 h1 ps)"
  by (cases ps) (simp_all add: frame_def last_hdr_def more_hdr_def)

lemma pbf_bits:
  "last_hdr h AND NCI_PBF = 0" "more_hdr h AND NCI_PBF \<noteq> 0"
  "last_hdr h AND NCI_MT_MASK = h AND NCI_MT_MASK"
  "more_hdr h AND NCI_MT_MASK = h AND NCI_MT_MASK"
  "last_hdr h AND 0x0f = h AND 0x0f"
  "more_hdr h AND 0x0f = h AND 0x0f"
  by (simp_all add: last_hdr_def more_hdr_def and.assoc bit.conj_disj_distrib2)

text \<open>A data segment without credits, by the state of the connection's buffer.\<close>

lemma take_no_credits: "nci_sar_take_credits cid 0 s = s"
  by (simp add: nci_sar_take_credits_def)

lemma data_segment_first:
  assumes "length p < 256" and "h0 AND NCI_MT_MASK = NCI_MT_DATA_PKT" and "h1 AND NCI_DATA_CR_MASK = 0"
    and i: "i = unat (h0 AND NCI_DATA_CID_MASK)" and "i < unat (sar_max_logical_conns s)"
    and "\<not> in_pending (lc_in (sar_conn s ! i))"
  shows "nci_sar_hal_handle_segment cl (frame h0 h1 p) s =
     (if h0 AND NCI_PBF \<noteq> 0 then upd_conn i (\<lambda>c. c\<lparr>lc_in := Some (frame h0 h1 p)\<rparr>) s
      else fn_handle_data_packet cl (h0 AND NCI_DATA_CID_MASK) p s)"
  using assms(2-6) 
  by (simp add: nci_sar_hal_handle_segment_def nci_sar_hal_handle_data_segment_def frame_fields [OF assms(1)] take_no_credits Let_def)

lemma data_segment_next:
  assumes "length p < 256" and "h0 AND NCI_MT_MASK = NCI_MT_DATA_PKT" and "h1 AND NCI_DATA_CR_MASK = 0"
    and i: "i = unat (h0 AND NCI_DATA_CID_MASK)" and "i < unat (sar_max_logical_conns s)"
    and "lc_in (sar_conn s ! i) = Some b" and "b \<noteq> []"
  shows "nci_sar_hal_handle_segment cl (frame h0 h1 p) s =
     (if h0 AND NCI_PBF \<noteq> 0 then upd_conn i (\<lambda>c. c\<lparr>lc_in := Some (b @ p)\<rparr>) s
      else let s1 = fn_handle_data_packet cl (h0 AND NCI_DATA_CID_MASK) (drop NCI_HDR_SIZE (b @ p))
                      (upd_conn i (\<lambda>c. c\<lparr>lc_in := None\<rparr>) s)
           in if sar_conn_gen s1 = sar_conn_gen s
              then upd_conn i (\<lambda>c. c\<lparr>lc_in := restore_in (lc_in c)\<rparr>) s1 else s1\<lparr>sar_fault := True\<rparr>)"
  using assms(2-7) 
  by (simp add: nci_sar_hal_handle_segment_def nci_sar_hal_handle_data_segment_def frame_fields [OF assms(1)] take_no_credits Let_def in_pending_def)

lemma upd_conn_upd_conn [simp]:
  "i < length (sar_conn s) \<Longrightarrow> upd_conn i f (upd_conn i g s) = upd_conn i (\<lambda>c. f (g c)) s"
  by (simp add: upd_conn_def)

lemma upd_conn_simps [simp]:
  "sar_max_logical_conns (upd_conn i f s) = sar_max_logical_conns s"
  "sar_conn_gen (upd_conn i f s) = sar_conn_gen s"
  "length (sar_conn (upd_conn i f s)) = length (sar_conn s)"
  "i < length (sar_conn s) \<Longrightarrow> sar_conn (upd_conn i f s) ! i = f (sar_conn s ! i)"
  "sar_read_buf (upd_conn i f s) = sar_read_buf s"
  by (simp_all add: upd_conn_def)

definition deliver_data :: "('a nci_sar_scheme) sar_client \<Rightarrow> byte \<Rightarrow> byte list \<Rightarrow> 'a nci_sar_scheme \<Rightarrow> 'a nci_sar_scheme" where
  "deliver_data cl cid p s =
     (let s1 = fn_handle_data_packet cl cid p (upd_conn (unat cid) (\<lambda>c. c\<lparr>lc_in := None\<rparr>) s)
      in if sar_conn_gen s1 = sar_conn_gen s
         then upd_conn (unat cid) (\<lambda>c. c\<lparr>lc_in := restore_in (lc_in c)\<rparr>) s1 else s1\<lparr>sar_fault := True\<rparr>)"

lemma data_frames_tail:
  assumes "\<forall>p \<in> set ps. length p < 256" and "ps \<noteq> []"
    and "h0 AND NCI_MT_MASK = NCI_MT_DATA_PKT" and "h1 AND NCI_DATA_CR_MASK = 0"
    and "h0 AND NCI_DATA_CID_MASK = cid" and "unat cid < unat (sar_max_logical_conns s)"
    and "unat cid < length (sar_conn s)" and "3 \<le> length b"
  shows "sar_read_loop cl (concat (sar_frames h0 h1 ps)) (upd_conn (unat cid) (\<lambda>c. c\<lparr>lc_in := Some b\<rparr>) s) =
    ([], deliver_data cl cid (drop NCI_HDR_SIZE b @ concat ps) s)"
  using assms
proof (induction ps arbitrary: b)
  case Nil
  then show ?case by simp
next
  case (Cons p ps)
  let ?s = "upd_conn (unat cid) (\<lambda>c. c\<lparr>lc_in := Some b\<rparr>) s"
  have p: "length p < 256" and b: "b \<noteq> []" using Cons.prems by auto
  have s: "unat cid < unat (sar_max_logical_conns ?s)" "lc_in (sar_conn ?s ! unat cid) = Some b"
    using Cons.prems by simp_all
  show ?case
  proof (cases "ps = []")
    case True
    have seg: "nci_sar_hal_handle_segment cl (frame (last_hdr h0) h1 p) ?s = deliver_data cl cid (drop NCI_HDR_SIZE b @ p) s"
      using data_segment_next [OF p, of "last_hdr h0" h1 "unat cid" ?s b cl] Cons.prems s b
      by (simp add: pbf_bits deliver_data_def)
    show ?thesis
      using sar_read_loop_frame [OF p, of cl "last_hdr h0" h1 "[]" ?s] True
      by (simp add: sar_frames_Cons seg)
  next
    case False
    have seg: "nci_sar_hal_handle_segment cl (frame (more_hdr h0) h1 p) ?s = upd_conn (unat cid) (\<lambda>c. c\<lparr>lc_in := Some (b @ p)\<rparr>) s"
      using data_segment_next [OF p, of "more_hdr h0" h1 "unat cid" ?s b cl] Cons.prems s b
      by (simp add: pbf_bits)
    show ?thesis
      using Cons.IH [of "b @ p"] Cons.prems False
      by (simp add: sar_frames_Cons sar_read_loop_frame [OF p] seg)
  qed
qed

lemma data_frames_read:
  assumes "\<forall>p \<in> set ps. length p < 256" and "ps \<noteq> []"
    and "h0 AND NCI_MT_MASK = NCI_MT_DATA_PKT" and "h1 AND NCI_DATA_CR_MASK = 0"
    and "h0 AND NCI_DATA_CID_MASK = cid" and "unat cid < unat (sar_max_logical_conns s)"
    and "unat cid < length (sar_conn s)" and "\<not> in_pending (lc_in (sar_conn s ! unat cid))"
  shows "sar_read_loop cl (concat (sar_frames h0 h1 ps)) s =
    ([], if length ps = 1 then fn_handle_data_packet cl cid (concat ps) s else deliver_data cl cid (concat ps) s)"
proof -
  obtain p qs where ps: "ps = p # qs" using assms(2) by (cases ps) auto
  have p: "length p < 256" using assms(1) ps by simp
  show ?thesis
  proof (cases "qs = []")
    case True
    have seg: "nci_sar_hal_handle_segment cl (frame (last_hdr h0) h1 p) s = fn_handle_data_packet cl cid p s"
      using data_segment_first [OF p, of "last_hdr h0" h1 "unat cid" s cl] assms by (simp add: pbf_bits)
    then show ?thesis
      using sar_read_loop_frame [OF p, of cl "last_hdr h0" h1 "[]" s] True ps by (simp add: sar_frames_Cons)
  next
    case False
    have seg: "nci_sar_hal_handle_segment cl (frame (more_hdr h0) h1 p) s =
        upd_conn (unat cid) (\<lambda>c. c\<lparr>lc_in := Some (frame (more_hdr h0) h1 p)\<rparr>) s"
      using data_segment_first [OF p, of "more_hdr h0" h1 "unat cid" s cl] assms by (simp add: pbf_bits)
    have d: "drop NCI_HDR_SIZE (frame (more_hdr h0) h1 p) = p" "3 \<le> length (frame (more_hdr h0) h1 p)"
      by (simp_all add: frame_def)
    show ?thesis
      using data_frames_tail [of qs h0 h1 cid s "frame (more_hdr h0) h1 p" cl] assms False d(2) ps
      by (simp add: sar_frames_Cons sar_read_loop_frame [OF p] seg d(1))
  qed
qed


definition deliver_control :: "('a nci_sar_scheme) sar_client \<Rightarrow> byte \<Rightarrow> byte \<Rightarrow> byte \<Rightarrow> byte list \<Rightarrow> 'a nci_sar_scheme \<Rightarrow> 'a nci_sar_scheme" where
  "deliver_control cl mt gid oid p s =
     (let s1 = nci_sar_hal_handle_control_packet cl mt gid oid p (s\<lparr>sar_control_in := None\<rparr>)
      in s1\<lparr>sar_control_in := restore_in (sar_control_in s1)\<rparr>)"

lemma control_segment_first:
  assumes "length p < 256" and "mt = h0 AND NCI_MT_MASK" and "mt = NCI_MT_RSP_PKT \<or> mt = NCI_MT_NTF_PKT"
    and "\<not> in_pending (sar_control_in s)"
  shows "nci_sar_hal_handle_segment cl (frame h0 h1 p) s =
     (if h0 AND NCI_PBF \<noteq> 0 then s\<lparr>sar_control_in := Some (frame h0 h1 p)\<rparr>
      else nci_sar_hal_handle_control_packet cl mt (h0 AND NCI_CONTROL_GID_MASK) (h1 AND NCI_CONTROL_OID_MASK) p s)"
  using assms(2-4) 
  by (auto simp add: nci_sar_hal_handle_segment_def nci_sar_hal_handle_control_segment_def frame_fields [OF assms(1)] Let_def)

lemma control_segment_next:
  assumes "length p < 256" and "mt = h0 AND NCI_MT_MASK" and "mt = NCI_MT_RSP_PKT \<or> mt = NCI_MT_NTF_PKT"
    and "sar_control_in s = Some b" and "b \<noteq> []" and "b ! 0 AND NCI_MT_MASK = mt"
    and "b ! 0 AND NCI_CONTROL_GID_MASK = h0 AND NCI_CONTROL_GID_MASK"
    and "b ! 1 AND NCI_CONTROL_OID_MASK = h1 AND NCI_CONTROL_OID_MASK"
  shows "nci_sar_hal_handle_segment cl (frame h0 h1 p) s =
     (if h0 AND NCI_PBF \<noteq> 0 then s\<lparr>sar_control_in := Some (b @ p)\<rparr>
      else deliver_control cl mt (h0 AND NCI_CONTROL_GID_MASK) (h1 AND NCI_CONTROL_OID_MASK) (drop NCI_HDR_SIZE (b @ p)) s)"
  using assms(2-8) 
  by (auto simp add: nci_sar_hal_handle_segment_def nci_sar_hal_handle_control_segment_def frame_fields [OF assms(1)] Let_def
      in_pending_def deliver_control_def)

lemma deliver_control_in: "deliver_control cl mt gid oid p (s\<lparr>sar_control_in := x\<rparr>) = deliver_control cl mt gid oid p s"
  by (simp add: deliver_control_def)

lemma control_frames_tail:
  assumes "\<forall>p \<in> set ps. length p < 256" and "ps \<noteq> []"
    and "mt = h0 AND NCI_MT_MASK" and "mt = NCI_MT_RSP_PKT \<or> mt = NCI_MT_NTF_PKT" and "3 \<le> length b"
    and "b ! 0 AND NCI_MT_MASK = mt" and "b ! 0 AND NCI_CONTROL_GID_MASK = h0 AND NCI_CONTROL_GID_MASK"
    and "b ! 1 AND NCI_CONTROL_OID_MASK = h1 AND NCI_CONTROL_OID_MASK"
  shows "sar_read_loop cl (concat (sar_frames h0 h1 ps)) (s\<lparr>sar_control_in := Some b\<rparr>) =
    ([], deliver_control cl mt (h0 AND NCI_CONTROL_GID_MASK) (h1 AND NCI_CONTROL_OID_MASK) (drop NCI_HDR_SIZE b @ concat ps) s)"
  using assms
proof (induction ps arbitrary: b)
  case Nil
  then show ?case by simp
next
  case (Cons p ps)
  let ?s = "s\<lparr>sar_control_in := Some b\<rparr>"
  have p: "length p < 256" and b: "b \<noteq> []" using Cons.prems by auto
  have nth: "(b @ p) ! 0 = b ! 0" "(b @ p) ! 1 = b ! 1" using Cons.prems(5) b by (simp_all add: nth_append)
  show ?case
  proof (cases "ps = []")
    case True
    have seg: "nci_sar_hal_handle_segment cl (frame (last_hdr h0) h1 p) ?s =
        deliver_control cl mt (h0 AND NCI_CONTROL_GID_MASK) (h1 AND NCI_CONTROL_OID_MASK) (drop NCI_HDR_SIZE b @ p) s"
      using control_segment_next [OF p, of mt "last_hdr h0" ?s b h1 cl] Cons.prems b
      by (simp add: pbf_bits deliver_control_in)
    show ?thesis
      using sar_read_loop_frame [OF p, of cl "last_hdr h0" h1 "[]" ?s] True
      by (simp add: sar_frames_Cons seg)
  next
    case False
    have seg: "nci_sar_hal_handle_segment cl (frame (more_hdr h0) h1 p) ?s = s\<lparr>sar_control_in := Some (b @ p)\<rparr>"
      using control_segment_next [OF p, of mt "more_hdr h0" ?s b h1 cl] Cons.prems b
      by (simp add: pbf_bits)
    show ?thesis
      using Cons.IH [of "b @ p", unfolded nth] Cons.prems False
      by (simp add: sar_frames_Cons sar_read_loop_frame [OF p] seg)
  qed
qed

lemma control_frames_read:
  assumes "\<forall>p \<in> set ps. length p < 256" and "ps \<noteq> []"
    and "mt = h0 AND NCI_MT_MASK" and "mt = NCI_MT_RSP_PKT \<or> mt = NCI_MT_NTF_PKT"
    and "\<not> in_pending (sar_control_in s)"
    and "gid = h0 AND NCI_CONTROL_GID_MASK" and "oid = h1 AND NCI_CONTROL_OID_MASK"
  shows "sar_read_loop cl (concat (sar_frames h0 h1 ps)) s =
    ([], if length ps = 1 then nci_sar_hal_handle_control_packet cl mt gid oid (concat ps) s
         else deliver_control cl mt gid oid (concat ps) s)"
proof -
  obtain p qs where ps: "ps = p # qs" using assms(2) by (cases ps) auto
  have p: "length p < 256" using assms(1) ps by simp
  show ?thesis
  proof (cases "qs = []")
    case True
    have seg: "nci_sar_hal_handle_segment cl (frame (last_hdr h0) h1 p) s = nci_sar_hal_handle_control_packet cl mt gid oid p s"
      using control_segment_first [OF p, of mt "last_hdr h0" s cl h1] assms by (simp add: pbf_bits)
    then show ?thesis
      using sar_read_loop_frame [OF p, of cl "last_hdr h0" h1 "[]" s] True ps by (simp add: sar_frames_Cons)
  next
    case False
    have seg: "nci_sar_hal_handle_segment cl (frame (more_hdr h0) h1 p) s =
        s\<lparr>sar_control_in := Some (frame (more_hdr h0) h1 p)\<rparr>"
      using control_segment_first [OF p, of mt "more_hdr h0" s cl h1] assms by (simp add: pbf_bits)
    have d: "drop NCI_HDR_SIZE (frame (more_hdr h0) h1 p) = p" "3 \<le> length (frame (more_hdr h0) h1 p)"
      by (simp_all add: frame_def)
    show ?thesis
      using control_frames_tail [of qs mt h0 "frame (more_hdr h0) h1 p" h1 cl s] assms False d(2) ps
      by (simp add: sar_frames_Cons sar_read_loop_frame [OF p] seg d(1) frame_fields [OF p] pbf_bits)
  qed
qed

section \<open>Chunks of the byte stream\<close>

text \<open>A callback that neither looks at nor touches the read buffer.\<close>

definition read_buf_free :: "('a nci_sar_scheme \<Rightarrow> 'a nci_sar_scheme) \<Rightarrow> bool" where
  "read_buf_free f \<longleftrightarrow> (\<forall>x s. f (s\<lparr>sar_read_buf := x\<rparr>) = (f s)\<lparr>sar_read_buf := x\<rparr>)"

definition client_read_buf_free :: "('a nci_sar_scheme) sar_client \<Rightarrow> bool" where
  "client_read_buf_free cl \<longleftrightarrow> read_buf_free (fn_error cl) \<and>
     (\<forall>gid oid p. read_buf_free (fn_handle_response cl gid oid p) \<and> read_buf_free (fn_handle_notification cl gid oid p)) \<and>
     (\<forall>cid p. read_buf_free (fn_handle_data_packet cl cid p))"

lemma schedule_write_read_buf:
  "nci_sar_schedule_write (s\<lparr>sar_read_buf := x\<rparr>) = (nci_sar_schedule_write s)\<lparr>sar_read_buf := x\<rparr>"
  by (simp add: nci_sar_schedule_write_def nci_sar_can_write_def sar_ready_conn_def)

lemma upd_conn_read_buf: "upd_conn i f (s\<lparr>sar_read_buf := x\<rparr>) = (upd_conn i f s)\<lparr>sar_read_buf := x\<rparr>"
  by (simp add: upd_conn_def)

lemma take_credits_read_buf:
  "nci_sar_take_credits cid cr (s\<lparr>sar_read_buf := x\<rparr>) = (nci_sar_take_credits cid cr s)\<lparr>sar_read_buf := x\<rparr>"
  by (simp add: nci_sar_take_credits_def Let_def upd_conn_read_buf schedule_write_read_buf)

lemma handle_segment_read_buf:
  assumes "client_read_buf_free cl"
  shows "nci_sar_hal_handle_segment cl f (s\<lparr>sar_read_buf := x\<rparr>) = (nci_sar_hal_handle_segment cl f s)\<lparr>sar_read_buf := x\<rparr>"
proof -
  note c = assms [unfolded client_read_buf_free_def read_buf_free_def]
  have e: "fn_error cl (s\<lparr>sar_read_buf := x\<rparr>) = (fn_error cl s)\<lparr>sar_read_buf := x\<rparr>" for s
    using c by simp
  have k: "nci_sar_hal_handle_control_packet cl mt gid oid p (s\<lparr>sar_read_buf := x\<rparr>) =
      (nci_sar_hal_handle_control_packet cl mt gid oid p s)\<lparr>sar_read_buf := x\<rparr>" for mt gid oid p s
    using c by (simp add: nci_sar_hal_handle_control_packet_def)
  have d: "fn_handle_data_packet cl cid p (s\<lparr>sar_read_buf := x\<rparr>) = (fn_handle_data_packet cl cid p s)\<lparr>sar_read_buf := x\<rparr>" for cid p s
    using c by simp
  have k2: "nci_sar_hal_handle_control_packet cl mt gid oid p (s\<lparr>sar_read_buf := x, sar_control_in := y\<rparr>) =
      (nci_sar_hal_handle_control_packet cl mt gid oid p (s\<lparr>sar_control_in := y\<rparr>))\<lparr>sar_read_buf := x\<rparr>" for mt gid oid p s y
  proof -
    have "s\<lparr>sar_read_buf := x, sar_control_in := y\<rparr> = s\<lparr>sar_control_in := y, sar_read_buf := x\<rparr>" by simp
    then show ?thesis by (simp only: k)
  qed
  show ?thesis
    by (simp add: nci_sar_hal_handle_segment_def nci_sar_hal_handle_data_segment_def
        nci_sar_hal_handle_control_segment_def Let_def e k k2 d take_credits_read_buf upd_conn_read_buf)
qed

lemma read_loop_read_buf:
  assumes "client_read_buf_free cl"
  shows "sar_read_loop cl bs (s\<lparr>sar_read_buf := x\<rparr>) =
    (fst (sar_read_loop cl bs s), (snd (sar_read_loop cl bs s))\<lparr>sar_read_buf := x\<rparr>)"
  using assms
proof (induction cl bs s rule: sar_read_loop.induct)
  case (1 cl bs s)
  then show ?case
    by (subst (1 2 3) sar_read_loop.simps) (simp add: Let_def handle_segment_read_buf)
qed

lemma read_loop_keeps_buf:
  assumes "client_read_buf_free cl" and "sar_read_loop cl bs s = (r, s1)"
  shows "sar_read_buf s1 = sar_read_buf s"
proof -
  have "s1 = s1\<lparr>sar_read_buf := sar_read_buf s\<rparr>"
    using read_loop_read_buf [OF assms(1), of bs "sar_read_buf s" s] assms(2) by simp
  then have "sar_read_buf s1 = sar_read_buf (s1\<lparr>sar_read_buf := sar_read_buf s\<rparr>)" by (rule arg_cong)
  then show ?thesis by simp
qed

lemma packet_complete_append: "packet_complete a \<Longrightarrow> packet_complete (a @ b)"
  by (auto simp: packet_complete_def nth_append)

lemma read_loop_rest: "sar_read_loop cl bs s = (r, s1) \<Longrightarrow> \<not> packet_complete r"
proof (induction cl bs s rule: sar_read_loop.induct)
  case (1 cl bs s)
  from 1(2) show ?case
    by (subst (asm) sar_read_loop.simps) (use 1(1) [OF _ refl] in \<open>auto simp: Let_def split: if_splits\<close>)
qed

lemma read_loop_incomplete: "\<not> packet_complete bs \<Longrightarrow> sar_read_loop cl bs s = (bs, s)"
  by (subst sar_read_loop.simps) simp

lemma read_loop_append:
  "sar_read_loop cl (a @ b) s = (case sar_read_loop cl a s of (r, s1) \<Rightarrow> sar_read_loop cl (r @ b) s1)"
proof (induction cl a s rule: sar_read_loop.induct)
  case (1 cl a s)
  show ?case
  proof (cases "packet_complete a")
    case True
    then have n: "(a @ b) ! 2 = a ! 2" "unat (a ! 2) + NCI_HDR_SIZE \<le> length a"
      by (simp_all add: packet_complete_def nth_append)
    show ?thesis
      using 1 [OF True refl] True packet_complete_append [OF True, of b] n
      by (subst (1 2) sar_read_loop.simps) (simp add: Let_def)
  next
    case False
    then show ?thesis by (simp add: read_loop_incomplete)
  qed
qed

text \<open>The bytes waiting in the read buffer; the two ways to say "none" are one.\<close>

definition buffered :: "'a nci_sar_scheme \<Rightarrow> byte list" where
  "buffered s = (case sar_read_buf s of Some b \<Rightarrow> b | None \<Rightarrow> [])"

definition norm_buf :: "'a nci_sar_scheme \<Rightarrow> 'a nci_sar_scheme" where
  "norm_buf s = s\<lparr>sar_read_buf := Some (buffered s)\<rparr>"

lemma client_read_loop:
  assumes "client_read_buf_free cl" and "\<not> packet_complete (buffered s)"
  shows "norm_buf (nci_sar_hal_client_read cl bytes s) =
    (case sar_read_loop cl (buffered s @ bytes) s of (r, s1) \<Rightarrow> s1\<lparr>sar_read_buf := Some r\<rparr>)"
proof (cases "in_pending (sar_read_buf s)")
  case True
  then obtain b where b: "sar_read_buf s = Some b" by (auto simp: in_pending_def split: option.splits)
  obtain r s1 where l: "sar_read_loop cl (b @ bytes) s = (r, s1)" by force
  show ?thesis
    using True b l assms(2) by (cases "bytes = []")
      (auto simp: nci_sar_hal_client_read_def norm_buf_def buffered_def Let_def read_loop_incomplete)
next
  case False
  then have b: "buffered s = []" by (auto simp: in_pending_def buffered_def split: option.splits)
  obtain r s1 where l: "sar_read_loop cl bytes s = (r, s1)" by force
  have k: "sar_read_buf s1 = sar_read_buf s" by (rule read_loop_keeps_buf [OF assms(1) l])
  have bl: "buffered s1 = []" using k b by (simp add: buffered_def)
  have i: "sar_read_loop cl r s1 = (r, s1)" by (rule read_loop_incomplete [OF read_loop_rest [OF l]])
  show ?thesis
    using False l b bl i by (auto simp: nci_sar_hal_client_read_def Let_def buffered_def norm_buf_def)
qed

lemma norm_buf_id: "norm_buf s = s\<lparr>sar_read_buf := Some b\<rparr> \<Longrightarrow> buffered s = b"
proof -
  assume "norm_buf s = s\<lparr>sar_read_buf := Some b\<rparr>"
  then have "sar_read_buf (norm_buf s) = Some b" by simp
  then show ?thesis by (simp add: norm_buf_def)
qed

lemma norm_buf_buffered [simp]: "buffered (norm_buf s) = buffered s" "norm_buf (norm_buf s) = norm_buf s"
  by (simp_all add: norm_buf_def buffered_def)

lemma client_read_norm:
  assumes "client_read_buf_free cl" and "\<not> packet_complete (buffered s)"
  shows "norm_buf (nci_sar_hal_client_read cl bytes (norm_buf s)) = norm_buf (nci_sar_hal_client_read cl bytes s)"
proof -
  have "norm_buf (nci_sar_hal_client_read cl bytes (norm_buf s)) =
    (case sar_read_loop cl (buffered s @ bytes) (norm_buf s) of (r, s1) \<Rightarrow> s1\<lparr>sar_read_buf := Some r\<rparr>)"
    using client_read_loop [OF assms(1), of "norm_buf s" bytes] assms(2) by simp
  then show ?thesis
    using client_read_loop [OF assms, of bytes]
    by (simp add: norm_buf_def [of s] read_loop_read_buf [OF assms(1)] split: prod.splits)
qed

lemma client_read_incomplete:
  assumes "client_read_buf_free cl" and "\<not> packet_complete (buffered s)"
  shows "\<not> packet_complete (buffered (nci_sar_hal_client_read cl bytes s))"
proof -
  obtain r s1 where l: "sar_read_loop cl (buffered s @ bytes) s = (r, s1)" by force
  have "norm_buf (nci_sar_hal_client_read cl bytes s) = s1\<lparr>sar_read_buf := Some r\<rparr>"
    using client_read_loop [OF assms] l by simp
  then have "buffered (norm_buf (nci_sar_hal_client_read cl bytes s)) = r" by (simp add: buffered_def)
  then show ?thesis using read_loop_rest [OF l] by simp
qed

lemma client_read_append:
  assumes "client_read_buf_free cl" and "\<not> packet_complete (buffered s)"
  shows "norm_buf (nci_sar_hal_client_read cl b (nci_sar_hal_client_read cl a s)) = norm_buf (nci_sar_hal_client_read cl (a @ b) s)"
proof -
  let ?t = "nci_sar_hal_client_read cl a s"
  obtain r s1 where l: "sar_read_loop cl (buffered s @ a) s = (r, s1)" by force
  have t: "norm_buf ?t = s1\<lparr>sar_read_buf := Some r\<rparr>" using client_read_loop [OF assms] l by simp
  have "buffered (norm_buf ?t) = r" by (simp add: t buffered_def)
  then have "norm_buf (nci_sar_hal_client_read cl b (norm_buf ?t)) = 
     (case sar_read_loop cl (r @ b) (s1\<lparr>sar_read_buf := Some r\<rparr>) of (r', s2) \<Rightarrow> s2\<lparr>sar_read_buf := Some r'\<rparr>)"
    using client_read_loop [OF assms(1), of "norm_buf ?t" b] read_loop_rest [OF l] t by simp
  also have "\<dots> = (case sar_read_loop cl (r @ b) s1 of (r', s2) \<Rightarrow> s2\<lparr>sar_read_buf := Some r'\<rparr>)"
    by (simp add: read_loop_read_buf [OF assms(1)] split: prod.splits)
  also have "\<dots> = norm_buf (nci_sar_hal_client_read cl (a @ b) s)"
    using client_read_loop [OF assms, of "a @ b"] read_loop_append [of cl "buffered s @ a" b s] l by simp
  finally show ?thesis
    using client_read_norm [OF assms(1) client_read_incomplete [OF assms]] by simp
qed


text \<open>A client that records what it is given, in the extension of the state.\<close>

datatype delivery = DResponse byte byte "byte list" | DNotification byte byte "byte list" | DData byte "byte list" | DError

definition tape :: "delivery \<Rightarrow> delivery list nci_sar_scheme \<Rightarrow> delivery list nci_sar_scheme" where
  "tape d s = nci_sar.more_update (\<lambda>l. l @ [d]) s"

definition tape_client :: "(delivery list nci_sar_scheme) sar_client" where
  "tape_client = \<lparr>fn_error = tape DError, fn_handle_response = (\<lambda>g or p. tape (DResponse g or p)),
     fn_handle_notification = (\<lambda>g or p. tape (DNotification g or p)),
     fn_handle_data_packet = (\<lambda>c p. tape (DData c p)), fn_complete = (\<lambda>_ _ s. s), fn_destroy = (\<lambda>_ s. s),
     hal_answer = (\<lambda>_. True)\<rparr>"

lemma tape_simps [simp]:
  "sar_conn_gen (tape d s) = sar_conn_gen s" "sar_conn (tape d s) = sar_conn s"
  "sar_control_in (tape d s) = sar_control_in s" "sar_read_buf (tape d s) = sar_read_buf s"
  "nci_sar.more (tape d s) = nci_sar.more s @ [d]"
  by (simp_all add: tape_def)

lemma tape_client_read_buf_free: "client_read_buf_free tape_client"
  by (simp add: client_read_buf_free_def read_buf_free_def tape_client_def tape_def)

section \<open>Round trips\<close>

lemma read_from_empty:
  "\<not> in_pending (sar_read_buf s) \<Longrightarrow> sar_read_loop cl bs s = ([], s1) \<Longrightarrow> nci_sar_hal_client_read cl bs s = s1"
  by (simp add: nci_sar_hal_client_read_def)

lemma fragments_byte: "0 < m \<Longrightarrow> m < 256 \<Longrightarrow> \<forall>q \<in> set (sar_fragments m p). length q < 256"
  using sar_fragments_bound by (meson le_less_trans)

lemma fragments_single: "0 < m \<Longrightarrow> (length (sar_fragments m p) = 1) = (length p \<le> m)"
proof -
  assume m: "0 < m"
  have "length (sar_fragments m (drop m p)) \<noteq> 0" by simp
  then show ?thesis using m by (subst sar_fragments.simps) auto
qed

text \<open>
  C4. Round trip of data packets: the frames a transmitter makes of a payload of any
  length, with any limit from 1 to 255, are read back as exactly one packet with the same
  connection and payload; when there are several frames the connection's buffer is out of
  the way during the callback and empty again after it.
\<close>

theorem nci_sar_data_roundtrip:
  assumes "0 < m" and "m < 256" and "cid AND NCI_DATA_CID_MASK = cid"
    and "unat cid < unat (sar_max_logical_conns s)" and "length (sar_conn s) = unat (sar_max_logical_conns s)"
    and "\<not> in_pending (lc_in (sar_conn s ! unat cid))" and "\<not> in_pending (sar_read_buf s)"
  shows "nci_sar_hal_client_read cl (concat (sar_frames cid 0 (sar_fragments m p))) s =
    (if length p \<le> m then fn_handle_data_packet cl cid p s else deliver_data cl cid p s)"
proof -
  have "cid AND NCI_MT_MASK = (cid AND NCI_DATA_CID_MASK) AND NCI_MT_MASK" by (simp add: assms(3))
  then have "cid AND NCI_MT_MASK = NCI_MT_DATA_PKT" by (simp add: and.assoc)
  then show ?thesis
    using data_frames_read [OF fragments_byte [OF assms(1,2)] sar_fragments_nonempty,
      where ?h0.0 = cid and ?h1.0 = 0 and cid = cid and s = s and cl = cl] assms
    by (intro read_from_empty) (simp_all add: fragments_single [OF assms(1), simplified] sar_fragments_concat)
qed

lemma nci_sar_data_roundtrip_witness:
  "nci_sar.more (nci_sar_hal_client_read tape_client (concat (sar_frames 0 0 (sar_fragments 4 [1, 2, 3, 4, 5, 6, 7, 8, 9, 10]))) (nci_sar_new [])) =
    [DData 0 [1, 2, 3, 4, 5, 6, 7, 8, 9, 10]]"
proof -
  have "nci_sar_hal_client_read tape_client (concat (sar_frames 0 0 (sar_fragments 4 [1, 2, 3, 4, 5, 6, 7, 8, 9, 10]))) (nci_sar_new []) =
      deliver_data tape_client 0 [1, 2, 3, 4, 5, 6, 7, 8, 9, 10] (nci_sar_new [])"
    by (subst nci_sar_data_roundtrip) (simp_all add: nci_sar_new_def new_conn_def in_pending_def)
  then show ?thesis
    by (simp add: deliver_data_def tape_client_def upd_conn_def) (simp add: nci_sar_new_def)
qed

lemma control_message_read:
  assumes "\<forall>q \<in> set ps. length q < 256" and "ps \<noteq> []" and "mt = NCI_MT_RSP_PKT \<or> mt = NCI_MT_NTF_PKT"
    and "gid AND NCI_CONTROL_GID_MASK = gid" and "oid AND NCI_CONTROL_OID_MASK = oid"
    and "\<not> in_pending (sar_control_in s)" and "\<not> in_pending (sar_read_buf s)"
  shows "nci_sar_hal_client_read cl (concat (sar_frames (mt OR gid) oid ps)) s =
    (if length ps = 1 then nci_sar_hal_handle_control_packet cl mt gid oid (concat ps) s
     else deliver_control cl mt gid oid (concat ps) s)"
proof -
  have g: "gid AND NCI_MT_MASK = 0"
    using arg_cong [OF assms(4), of "\<lambda>x. x AND NCI_MT_MASK"] by (simp add: and.assoc)
  have "mt = (mt OR gid) AND NCI_MT_MASK" and "gid = (mt OR gid) AND NCI_CONTROL_GID_MASK"
    using assms(3) by (auto simp: bit.conj_disj_distrib2 g assms(4))
  then show ?thesis
    using control_frames_read [OF assms(1,2) _ assms(3,6), of "mt OR gid" gid oid oid cl] assms
    by (intro read_from_empty) simp_all
qed

text \<open>
  C12. Reassembly of control messages: the frames of a response or a notification, cut
  anywhere into parts of at most 255 bytes, are delivered as one message with the
  message's MT, GID and OID and the concatenated payload.
\<close>

theorem nci_sar_control_reassembly:
  assumes "\<forall>q \<in> set ps. length q < 256" and "ps \<noteq> []" and "mt = NCI_MT_RSP_PKT \<or> mt = NCI_MT_NTF_PKT"
    and "gid AND NCI_CONTROL_GID_MASK = gid" and "oid AND NCI_CONTROL_OID_MASK = oid"
    and "\<not> in_pending (sar_control_in s)" and "\<not> in_pending (sar_read_buf s)"
  shows "nci_sar_hal_client_read cl (concat (sar_frames (mt OR gid) oid ps)) s =
    (if length ps = 1 then nci_sar_hal_handle_control_packet cl mt gid oid (concat ps) s
     else deliver_control cl mt gid oid (concat ps) s)"
  by (rule control_message_read [OF assms])

lemma nci_sar_control_reassembly_witness:
  "nci_sar.more (nci_sar_hal_client_read tape_client (concat (sar_frames (NCI_MT_NTF_PKT OR 1) 5 [[1, 2], [], [3]])) (nci_sar_new [])) =
    [DNotification 1 5 [1, 2, 3]]"
  by (subst nci_sar_control_reassembly)
    (simp_all add: nci_sar_new_def in_pending_def deliver_control_def nci_sar_hal_handle_control_packet_def tape_client_def)

text \<open>
  C13. The transport may cut the byte stream anywhere: handing the bytes over in chunks has
  the effect of handing them over at once (up to an empty read buffer being allocated or
  not), for every client whose callbacks leave the read buffer alone.
\<close>

theorem nci_sar_hal_client_read_chunks:
  assumes "client_read_buf_free cl" and "\<not> packet_complete (buffered s)"
  shows "norm_buf (fold (nci_sar_hal_client_read cl) chunks s) = norm_buf (nci_sar_hal_client_read cl (concat chunks) s)"
  using assms(2)
proof (induction chunks arbitrary: s)
  case Nil
  then show ?case
    by (simp add: client_read_loop [OF assms(1)] read_loop_incomplete) (simp add: norm_buf_def)
next
  case (Cons c cs)
  show ?case
    using Cons.IH [OF client_read_incomplete [OF assms(1) Cons.prems]]
      client_read_append [OF assms(1) Cons.prems, of "concat cs" c] by simp
qed


lemma nci_sar_hal_client_read_chunks_witness:
  "nci_sar.more (fold (nci_sar_hal_client_read tape_client) [[0x60], [7, 1, 9, 0x40, 1], [0]] (nci_sar_new [])) =
    [DNotification 0 7 [9], DResponse 0 1 []]"
proof -
  have "norm_buf (fold (nci_sar_hal_client_read tape_client) [[0x60], [7, 1, 9, 0x40, 1], [0]] (nci_sar_new [])) =
      norm_buf (nci_sar_hal_client_read tape_client (concat [[0x60], [7, 1, 9, 0x40, 1], [0]]) (nci_sar_new []))"
    by (rule nci_sar_hal_client_read_chunks [OF tape_client_read_buf_free])
      (simp add: packet_complete_def buffered_def nci_sar_new_def)
  then have "nci_sar.more (norm_buf (fold (nci_sar_hal_client_read tape_client) [[0x60], [7, 1, 9, 0x40, 1], [0]] (nci_sar_new []))) =
      nci_sar.more (norm_buf (nci_sar_hal_client_read tape_client (concat [[0x60], [7, 1, 9, 0x40, 1], [0]]) (nci_sar_new [])))"
    by (rule arg_cong)
  also have "\<dots> = [DNotification 0 7 [9], DResponse 0 1 []]"
    by (simp add: nci_sar_hal_client_read_def sar_read_loop.simps packet_complete_def nci_sar_new_def in_pending_def
        nci_sar_hal_handle_segment_def nci_sar_hal_handle_control_segment_def nci_sar_hal_handle_control_packet_def
        Let_def tape_client_def norm_buf_def)
  finally show ?thesis by (simp add: norm_buf_def)
qed

end
