(* ===== verification/Sar_Invariant.thy ===== *)
theory Sar_Invariant
  imports Sar_Reassembly
begin

text \<open>
  The invariant of \<open>src/nci_sar.c\<close> and its preservation by every operation, whatever the
  client's callbacks do as long as they keep it too (the locale \<open>sar_callbacks\<close>).
\<close>

section \<open>The invariant\<close>

definition packet_ok :: "queue_ref \<Rightarrow> packet_out \<Rightarrow> bool" where
  "packet_ok q p \<longleftrightarrow> pos_ok p \<and> po_id p \<noteq> 0 \<and>
     (case q of
        QCmd \<Rightarrow> po_conn p = None \<and> po_hdr0 p AND NCI_MT_MASK = NCI_MT_CMD_PKT
      | QConn i \<Rightarrow> (\<exists>g. po_conn p = Some (g, i)) \<and> po_hdr0 p AND NCI_MT_MASK = NCI_MT_DATA_PKT)"

definition queue_inv :: "nat \<Rightarrow> queue_ref \<Rightarrow> out_queue \<Rightarrow> bool" where
  "queue_inv next r q \<longleftrightarrow> queue_weak q \<and> (\<forall>p \<in> set (q_first q). packet_ok r p \<and> po_addr p < next)"

definition in_ok :: "byte list option \<Rightarrow> bool" where
  "in_ok x \<longleftrightarrow> (in_pending x \<longrightarrow> 3 \<le> length (the x))"

text \<open>The packet being written: its queue has it no longer and has a valid last pointer.\<close>

definition writing_ok :: "nat \<Rightarrow> logical_conn list \<Rightarrow> packet_out \<Rightarrow> bool" where
  "writing_ok next conns w \<longleftrightarrow> po_addr w < next \<and>
     (case po_conn w of
        None \<Rightarrow> packet_ok QCmd w
      | Some (g, i) \<Rightarrow> packet_ok (QConn i) w \<and>
          (i < length conns \<longrightarrow> queue_ok (lc_out (conns ! i)) \<and> po_addr w \<notin> set (addrs (lc_out (conns ! i)))))"

definition conns_ok :: "nat \<Rightarrow> logical_conn list \<Rightarrow> bool" where
  "conns_ok next conns \<longleftrightarrow> (\<forall>i < length conns. queue_inv next (QConn i) (lc_out (conns ! i)) \<and> in_ok (lc_in (conns ! i)))"

definition sar_ok :: "'a nci_sar_scheme \<Rightarrow> bool" where
  "sar_ok s \<longleftrightarrow>
     sar_max_logical_conns s \<noteq> 0 \<and> length (sar_conn s) = unat (sar_max_logical_conns s) \<and>
     SAR_MIN_CONTROL_PAYLOAD_LIMIT \<le> sar_control_payload_limit s \<and> SAR_MIN_DATA_PAYLOAD_LIMIT \<le> sar_data_payload_limit s \<and>
     (sar_write_pending s \<longrightarrow> sar_writing s \<noteq> None) \<and>
     queue_inv (sar_next_addr s) QCmd (sar_cmd s) \<and> queue_ok (sar_cmd s) \<and>
     conns_ok (sar_next_addr s) (sar_conn s) \<and>
     (\<forall>w. sar_writing s = Some w \<longrightarrow> writing_ok (sar_next_addr s) (sar_conn s) w) \<and>
     in_ok (sar_control_in s) \<and> \<not> packet_complete (buffered s)"

lemma sar_okI [intro?]:
  assumes "sar_max_logical_conns s \<noteq> 0" "length (sar_conn s) = unat (sar_max_logical_conns s)"
    "SAR_MIN_CONTROL_PAYLOAD_LIMIT \<le> sar_control_payload_limit s" "SAR_MIN_DATA_PAYLOAD_LIMIT \<le> sar_data_payload_limit s"
    "sar_write_pending s \<longrightarrow> sar_writing s \<noteq> None" "queue_inv (sar_next_addr s) QCmd (sar_cmd s)" "queue_ok (sar_cmd s)"
    "conns_ok (sar_next_addr s) (sar_conn s)"
    "\<And>w. sar_writing s = Some w \<Longrightarrow> writing_ok (sar_next_addr s) (sar_conn s) w"
    "in_ok (sar_control_in s)" "\<not> packet_complete (buffered s)"
  shows "sar_ok s"
  using assms by (simp add: sar_ok_def)

text \<open>The part of the state that belongs to this component.\<close>

abbreviation sar_core :: "'a nci_sar_scheme \<Rightarrow> nci_sar" where
  "sar_core s \<equiv> nci_sar.truncate s"

lemma sar_ok_core: "sar_ok (sar_core s) = sar_ok s"
  by (simp add: sar_ok_def buffered_def nci_sar.defs)

lemma sar_ok_cong: "sar_core s = sar_core t \<Longrightarrow> sar_ok s = sar_ok t"
  by (metis sar_ok_core)

section \<open>Pieces that run no callback\<close>

named_theorems sar_keep \<open>operations keep the invariant\<close>

lemma sar_ok_ignored [sar_keep]:
  "sar_ok s \<Longrightarrow> sar_ok (s\<lparr>sar_hal := x1\<rparr>)" "sar_ok s \<Longrightarrow> sar_ok (s\<lparr>sar_started := x2\<rparr>)"
  "sar_ok s \<Longrightarrow> sar_ok (s\<lparr>sar_start_write_id := x3\<rparr>)" "sar_ok s \<Longrightarrow> sar_ok (s\<lparr>sar_fault := x4\<rparr>)"
  "sar_ok s \<Longrightarrow> sar_ok (s\<lparr>sar_write_pending := False, sar_writing := None\<rparr>)"
  "sar_ok s \<Longrightarrow> sar_ok (s\<lparr>sar_write_pending := False\<rparr>)"
  by (simp_all add: sar_ok_def buffered_def)

lemma hal_tell_ok [sar_keep]: "sar_ok s \<Longrightarrow> sar_ok (hal_tell c s)"
  by (simp add: hal_tell_def sar_keep)

lemma sar_start_hal_ok [sar_keep]: "sar_ok s \<Longrightarrow> sar_ok (sar_start_hal cl s)"
  by (simp add: sar_start_hal_def Let_def sar_keep)

lemma schedule_write_ok [sar_keep]: "sar_ok s \<Longrightarrow> sar_ok (nci_sar_schedule_write s)"
  by (simp add: nci_sar_schedule_write_def sar_keep)

text \<open>A connection may change anything but the addresses in its queue and the pointers to it.\<close>

lemma upd_conn_ok:
  assumes "sar_ok s"
    and "i < length (sar_conn s) \<Longrightarrow> queue_inv (sar_next_addr s) (QConn i) (lc_out (f (sar_conn s ! i)))"
    and "i < length (sar_conn s) \<Longrightarrow> in_ok (lc_in (f (sar_conn s ! i)))"
    and "\<And>w g. i < length (sar_conn s) \<Longrightarrow> sar_writing s = Some w \<Longrightarrow> po_conn w = Some (g, i) \<Longrightarrow>
           queue_ok (lc_out (f (sar_conn s ! i))) \<and> po_addr w \<notin> set (addrs (lc_out (f (sar_conn s ! i))))"
  shows "sar_ok (upd_conn i f s)"
proof (cases "i < length (sar_conn s)")
  case True
  have c: "conns_ok (sar_next_addr s) ((sar_conn s)[i := f (sar_conn s ! i)])"
    using assms(1-3) True by (auto simp: conns_ok_def sar_ok_def nth_list_update)
  have w: "writing_ok (sar_next_addr s) ((sar_conn s)[i := f (sar_conn s ! i)]) w" if "sar_writing s = Some w" for w
    using assms(1,4) True that by (auto simp: writing_ok_def sar_ok_def nth_list_update split: option.splits)
  show ?thesis
    using assms(1) c w by (simp add: sar_ok_def upd_conn_def buffered_def)
next
  case False
  then have "upd_conn i f s = s" by (simp add: upd_conn_def list_update_beyond)
  then show ?thesis using assms(1) by simp
qed

lemma upd_conn_same_queue:
  assumes "sar_ok s" and "\<And>c. lc_out (f c) = lc_out c"
    and "i < length (sar_conn s) \<Longrightarrow> in_ok (lc_in (f (sar_conn s ! i)))"
  shows "sar_ok (upd_conn i f s)"
  using assms
  by (intro upd_conn_ok) (auto simp: sar_ok_def conns_ok_def writing_ok_def)

lemma conn_in_ok: "sar_ok s \<Longrightarrow> i < length (sar_conn s) \<Longrightarrow> in_ok (lc_in (sar_conn s ! i))"
  by (simp add: sar_ok_def conns_ok_def)

lemma spend_credit_simps [simp]: "lc_out (spend_credit c) = lc_out c" "lc_in (spend_credit c) = lc_in c"
  by (simp_all add: spend_credit_def)

lemma spend_credit_ok [sar_keep]: "sar_ok s \<Longrightarrow> sar_ok (upd_conn i spend_credit s)"
  by (rule upd_conn_same_queue) (simp_all add: conn_in_ok)

lemma take_credits_ok [sar_keep]: "sar_ok s \<Longrightarrow> sar_ok (nci_sar_take_credits cid n s)"
  by (auto simp: nci_sar_take_credits_def Let_def conn_in_ok intro!: schedule_write_ok upd_conn_same_queue)

lemma add_credits_ok [sar_keep]: "sar_ok s \<Longrightarrow> sar_ok (nci_sar_add_credits cid n s)"
  by (simp add: nci_sar_add_credits_def sar_keep)

lemma set_initial_credits_ok [sar_keep]: "sar_ok s \<Longrightarrow> sar_ok (nci_sar_set_initial_credits cid n s)"
  by (auto simp: nci_sar_set_initial_credits_def conn_in_ok intro!: upd_conn_same_queue)

lemma set_max_control_ok [sar_keep]: "sar_ok s \<Longrightarrow> sar_ok (nci_sar_set_max_control_payload_size m s)"
  by (auto simp: nci_sar_set_max_control_payload_size_def sar_ok_def buffered_def)

lemma byte_ge_1: "(m :: byte) \<noteq> 0 \<Longrightarrow> 1 \<le> m"
  by (simp add: word_le_nat_alt unat_gt_0 Suc_leI)

lemma set_max_data_ok [sar_keep]: "sar_ok s \<Longrightarrow> sar_ok (nci_sar_set_max_data_payload_size m s)"
  by (auto simp: nci_sar_set_max_data_payload_size_def sar_ok_def buffered_def byte_ge_1)

lemma new_ok: "sar_ok (nci_sar_new ext)"
  by (simp add: sar_ok_def nci_sar_new_def queue_inv_def conns_ok_def new_conn_def in_ok_def in_pending_def
      packet_complete_def buffered_def queue_ok_weak)

lemma attempt_continue_ok [sar_keep]:
  assumes "sar_ok s" and "\<not> sar_write_pending s"
  shows "sar_ok (sar_attempt_continue s) \<and> \<not> sar_write_pending (sar_attempt_continue s)"
proof -
  have "sar_ok ((upd_conn i (\<lambda>c. c\<lparr>lc_out := queue_put_back w (lc_out c)\<rparr>) s)\<lparr>sar_writing := None\<rparr>)"
    if w: "sar_writing s = Some w" "po_conn w = Some (g, i)" "i < length (sar_conn s)" for w g i
  proof -
    let ?q = "lc_out (sar_conn s ! i)"
    have ok: "packet_ok (QConn i) w" "po_addr w < sar_next_addr s" "queue_ok ?q" "po_addr w \<notin> set (addrs ?q)"
      "queue_inv (sar_next_addr s) (QConn i) ?q"
      using assms(1) w by (auto simp: sar_ok_def writing_ok_def conns_ok_def)
    have q: "queue_inv (sar_next_addr s) (QConn i) (queue_put_back w ?q)"
      using ok by (auto simp: queue_inv_def queue_put_back_weak) (auto simp: queue_put_back_def)
    have "sar_ok (upd_conn i (\<lambda>c. c\<lparr>lc_out := queue_put_back w (lc_out c)\<rparr>) (s\<lparr>sar_writing := None\<rparr>))"
      using assms q by (intro upd_conn_ok) (auto simp: conn_in_ok sar_ok_def buffered_def conns_ok_def)
    moreover have "(upd_conn i f s)\<lparr>sar_writing := None\<rparr> = upd_conn i f (s\<lparr>sar_writing := None\<rparr>)" for f
      by (simp add: upd_conn_def)
    ultimately show ?thesis by simp
  qed
  then show ?thesis
    using assms by (auto simp: sar_attempt_continue_def sar_keep upd_conn_def split: option.splits prod.splits
        intro: spend_credit_ok [unfolded upd_conn_def])
qed

lemma queue_pop_inv:
  assumes "queue_inv next r q" and "q_first q \<noteq> []"
  shows "\<exists>w q'. queue_pop q = (Some w, q') \<and> packet_ok r w \<and> po_addr w < next \<and> queue_inv next r q' \<and> queue_ok q' \<and>
    po_addr w \<notin> set (addrs q')"
proof -
  obtain w rest where q: "q_first q = w # rest" using assms(2) by (cases "q_first q") auto
  have "queue_ok (snd (queue_pop q))" using assms(1) by (simp add: queue_inv_def queue_pop_weak)
  moreover have "po_addr w \<notin> set (map po_addr rest)"
    using assms(1) q by (auto simp: queue_inv_def queue_weak_def queue_ok_def addrs_def)
  ultimately show ?thesis
    using assms(1) q by (auto simp: queue_pop_def queue_inv_def addrs_def queue_ok_weak)
qed

lemma first_ready_Some: "first_ready n cs = Some i \<Longrightarrow> n \<le> i \<and> i < n + length cs \<and> conn_ready (cs ! (i - n))"
proof (induction n cs rule: first_ready.induct)
  case (1 i)
  then show ?case by simp
next
  case (2 n c cs)
  then show ?case by (auto simp: nth_Cons' split: if_splits)
qed

lemma ready_conn_Some: "sar_ready_conn s = Some i \<Longrightarrow> i < length (sar_conn s) \<and> conn_ready (sar_conn s ! i)"
  using first_ready_Some [of 0 "take (unat (sar_max_logical_conns s)) (sar_conn s)" i]
  by (auto simp: sar_ready_conn_def)


lemma sar_ok_parts:
  assumes "sar_ok s"
  shows "queue_inv (sar_next_addr s) QCmd (sar_cmd s)" "queue_ok (sar_cmd s)"
    "i < length (sar_conn s) \<Longrightarrow> queue_inv (sar_next_addr s) (QConn i) (lc_out (sar_conn s ! i))"
    "length (sar_conn s) = unat (sar_max_logical_conns s)"
  using assms by (auto simp: sar_ok_def conns_ok_def)

lemma packet_ok_conn:
  "packet_ok QCmd w \<Longrightarrow> po_conn w = None" "packet_ok (QConn i) w \<Longrightarrow> \<exists>g. po_conn w = Some (g, i)"
  by (simp_all add: packet_ok_def)

lemma attempt_pick_ok [sar_keep]:
  assumes "sar_ok s" and "\<not> sar_write_pending s"
  shows "sar_ok (sar_attempt_pick s) \<and> \<not> sar_write_pending (sar_attempt_pick s)"
proof (cases "sar_writing s")
  case None
  show ?thesis
  proof (cases "q_first (sar_cmd s) = []")
    case False
    obtain w q' where p: "queue_pop (sar_cmd s) = (Some w, q')" "packet_ok QCmd w" "po_addr w < sar_next_addr s"
      "queue_inv (sar_next_addr s) QCmd q'" "queue_ok q'"
      using queue_pop_inv [OF sar_ok_parts(1) [OF assms(1)] False] by auto
    then show ?thesis
      using assms None False
      by (simp add: sar_attempt_pick_def nci_sar_write_queue_def sar_ok_def buffered_def writing_ok_def packet_ok_conn)
  next
    case True
    show ?thesis
    proof (cases "sar_ready_conn s")
      case None
      then show ?thesis
        using assms \<open>sar_writing s = None\<close> True by (simp add: sar_attempt_pick_def nci_sar_write_queue_def)
    next
      case (Some i)
      let ?s1 = "upd_conn i spend_credit s"
      have i: "i < length (sar_conn s)" "q_first (lc_out (sar_conn s ! i)) \<noteq> []"
        using ready_conn_Some [OF Some] by (simp_all add: conn_ready_def)
      obtain w q' g where p: "queue_pop (lc_out (sar_conn s ! i)) = (Some w, q')" "packet_ok (QConn i) w" "po_addr w < sar_next_addr s"
        "queue_inv (sar_next_addr s) (QConn i) q'" "queue_ok q'" "po_addr w \<notin> set (addrs q')" "po_conn w = Some (g, i)"
        using queue_pop_inv [OF sar_ok_parts(3) [OF assms(1) i(1)] i(2)] packet_ok_conn(2) by metis
      let ?s2 = "upd_conn i (\<lambda>c. c\<lparr>lc_out := q'\<rparr>) ?s1"
      have ok1: "sar_ok ?s1" by (rule spend_credit_ok [OF assms(1)])
      have ok2: "sar_ok ?s2"
      proof (rule upd_conn_ok [OF ok1])
        assume "i < length (sar_conn ?s1)"
        show "queue_inv (sar_next_addr ?s1) (QConn i) (lc_out ((sar_conn ?s1 ! i)\<lparr>lc_out := q'\<rparr>))"
          using p(4) by (simp add: upd_conn_def)
        show "in_ok (lc_in ((sar_conn ?s1 ! i)\<lparr>lc_out := q'\<rparr>))"
          using i conn_in_ok [OF assms(1)] by simp
      qed (use \<open>sar_writing s = None\<close> in \<open>simp add: upd_conn_def\<close>)
      have "sar_ok (?s2\<lparr>sar_writing := Some w\<rparr>)"
        using ok2 p i by (auto simp: sar_ok_def buffered_def writing_ok_def upd_conn_def)
      then show ?thesis
        using assms \<open>sar_writing s = None\<close> True Some p i
        by (simp add: sar_attempt_pick_def nci_sar_write_queue_def) (simp add: upd_conn_def)
    qed
  qed
next
  case (Some w)
  then show ?thesis using assms by (simp add: sar_attempt_pick_def)
qed

lemma packet_ok_next: "packet_ok r w \<Longrightarrow> packet_ok r (next_out m w)"
  by (auto simp: packet_ok_def next_out_pos_ok next_out_mt split: queue_ref.splits)

lemma writing_ok_next: "writing_ok next conns w \<Longrightarrow> writing_ok next conns (next_out m w)"
  by (auto simp: writing_ok_def packet_ok_next split: option.splits)

lemma writing_next_ok:
  assumes "sar_ok s" and "sar_writing s = Some w"
  shows "sar_ok (s\<lparr>sar_writing := Some (next_out m w)\<rparr>)"
  using assms by (auto simp: sar_ok_def buffered_def intro: writing_ok_next)

lemma write_pending_ok: "sar_ok s \<Longrightarrow> sar_writing s \<noteq> None \<Longrightarrow> sar_ok (s\<lparr>sar_write_pending := True\<rparr>)"
  by (auto simp: sar_ok_def buffered_def)

lemma queue_inv_mono: "queue_inv n r q \<Longrightarrow> n \<le> m \<Longrightarrow> queue_inv m r q"
  by (auto simp: queue_inv_def dest: order_less_le_trans)

lemma next_addr_ok: "sar_ok s \<Longrightarrow> sar_ok (s\<lparr>sar_last_packet_id := i, sar_next_addr := Suc (sar_next_addr s)\<rparr>)"
  by (auto simp: sar_ok_def buffered_def conns_ok_def writing_ok_def less_Suc_eq split: option.splits intro: queue_inv_mono)

lemma queue_append_inv:
  assumes "queue_inv next r q" and "packet_ok r p" and "po_addr p < next" and "po_addr p \<notin> set (addrs q)"
  shows "queue_inv next r (queue_append p q) \<and> queue_ok (queue_append p q)"
proof (cases "queue_ok q")
  case True
  then show ?thesis
    using assms by (auto simp: queue_inv_def queue_append_chain intro: queue_append_ok)
next
  case False
  then have "q_last q = None" using assms(1) by (simp add: queue_inv_def queue_weak_def)
  then have "queue_append p q = \<lparr>q_first = [p], q_last = Some (po_addr p)\<rparr>"
    by (cases q) (simp add: queue_append_def)
  then have "queue_ok (queue_append p q)" "q_first (queue_append p q) = [p]" by (simp_all add: queue_ok_def addrs_def)
  then show ?thesis using assms by (simp add: queue_inv_def queue_ok_weak)
qed

lemma queue_inv_fresh: "queue_inv next r q \<Longrightarrow> next \<le> a \<Longrightarrow> a \<notin> set (addrs q)"
  by (auto simp: queue_inv_def addrs_def)

lemma queue_append_addrs: "set (addrs (queue_append p q)) \<subseteq> insert (po_addr p) (set (addrs q))"
proof -
  have "set (map po_addr (link_after a p ps)) \<subseteq> insert (po_addr p) (set (map po_addr ps))" for a ps
    by (induction ps) auto
  then show ?thesis by (auto simp: addrs_def queue_append_def split: option.splits)
qed

lemma send_ok:
  assumes "sar_ok s" and "\<And>pid a. pid \<noteq> 0 \<Longrightarrow> packet_ok r \<lparr>po_addr = a, po_conn = conn, po_hdr0 = h0, po_hdr1 = h1, po_hdr2 = 0,
                 po_payload = payload, po_payload_pos = 0, po_complete = complete, po_destroy = destroy, po_id = pid\<rparr>"
  shows "sar_ok (snd (nci_sar_send r conn h0 h1 payload complete destroy s))"
proof -
  define id1 where "id1 = sar_last_packet_id s + 1"
  define pid where "pid = (if id1 = 0 then id1 + 1 else id1)"
  define out where "out = \<lparr>po_addr = sar_next_addr s, po_conn = conn, po_hdr0 = h0, po_hdr1 = h1, po_hdr2 = 0,
                 po_payload = payload, po_payload_pos = 0, po_complete = complete, po_destroy = destroy, po_id = pid\<rparr>"
  define s1 where "s1 = s\<lparr>sar_last_packet_id := pid, sar_next_addr := Suc (sar_next_addr s)\<rparr>"
  have "pid \<noteq> 0" by (simp add: pid_def)
  then have pk: "packet_ok r out" unfolding out_def by (rule assms(2))
  have ok1: "sar_ok s1" unfolding s1_def by (rule next_addr_ok [OF assms(1)])
  have a: "po_addr out = sar_next_addr s" "sar_next_addr s1 = Suc (sar_next_addr s)" "sar_conn s1 = sar_conn s"
    "sar_cmd s1 = sar_cmd s" "sar_writing s1 = sar_writing s"
    by (simp_all add: out_def s1_def)
  have "sar_ok (sar_enqueue r out s1)"
  proof (cases r)
    case QCmd
    have "queue_inv (sar_next_addr s1) QCmd (queue_append out (sar_cmd s1)) \<and> queue_ok (queue_append out (sar_cmd s1))"
      using pk QCmd a queue_inv_fresh [OF sar_ok_parts(1) [OF assms(1)]] sar_ok_parts(1) [OF ok1]
      by (intro queue_append_inv) auto
    then show ?thesis using ok1 QCmd by (simp add: sar_enqueue_def sar_ok_def buffered_def)
  next
    case (QConn i)
    have q: "queue_inv (sar_next_addr s1) (QConn i) (queue_append out (lc_out (sar_conn s1 ! i))) \<and>
        queue_ok (queue_append out (lc_out (sar_conn s1 ! i)))" if i: "i < length (sar_conn s1)"
      using pk QConn a queue_inv_fresh [OF sar_ok_parts(3) [OF assms(1)]] sar_ok_parts(3) [OF ok1 i] i
      by (intro queue_append_inv) auto
    have w: "po_addr w \<notin> set (addrs (queue_append out (lc_out (sar_conn s1 ! i))))"
      if "sar_writing s1 = Some w" "po_conn w = Some (g, i)" "i < length (sar_conn s1)" for w g
      using that assms(1) a queue_append_addrs [of out "lc_out (sar_conn s1 ! i)"]
      by (auto simp: sar_ok_def writing_ok_def)
    show ?thesis
      unfolding QConn sar_enqueue_def queue_ref.case using ok1 q w
      by (intro upd_conn_ok) (auto simp: conn_in_ok)
  qed
  then show ?thesis
    by (simp add: nci_sar_send_def Let_def schedule_write_ok flip: id1_def pid_def out_def s1_def)
qed

lemma send_command_ok [sar_keep]:
  "sar_ok s \<Longrightarrow> sar_ok (snd (nci_sar_send_command gid oid payload complete destroy s))"
  unfolding nci_sar_send_command_def by (rule send_ok) (simp_all add: packet_ok_def pos_ok_def cmd_mt)

lemma send_data_packet_ok [sar_keep]:
  "sar_ok s \<Longrightarrow> sar_ok (snd (nci_sar_send_data_packet cid payload complete destroy s))"
  unfolding nci_sar_send_data_packet_def by (auto simp: packet_ok_def pos_ok_def and.assoc intro!: send_ok)

section \<open>Cancellation\<close>

lemma cancel_queue_inv:
  assumes "queue_inv next r q" and "nci_sar_cancel_queue q pid = Some (x, q')"
  shows "queue_inv next r q' \<and> (queue_ok q \<longrightarrow> queue_ok q') \<and> set (addrs q') \<subseteq> set (addrs q)"
proof (cases "queue_ok q")
  case True
  then show ?thesis
    using nci_sar_cancel_queue_spec [OF True, of pid] assms by (auto simp: queue_inv_def addrs_def)
next
  case False
  then obtain p where "q_first q = [p]" "q_last q = None"
    using assms(1) by (auto simp: queue_inv_def queue_weak_def length_Suc_conv)
  then show ?thesis
    using assms(2) by (auto simp: nci_sar_cancel_queue_def queue_inv_def queue_ok_def addrs_def queue_weak_def split: if_splits)
qed

lemma cancel_conns_Some:
  "cancel_conns n cs pid = Some (x, i, q') \<Longrightarrow>
   n \<le> i \<and> i < n + length cs \<and> nci_sar_cancel_queue (lc_out (cs ! (i - n))) pid = Some (x, q')"
  by (induction n cs pid rule: cancel_conns.induct) (auto simp: nth_Cons' split: option.splits prod.splits)

lemma free_core:
  assumes "\<And>d s. sar_core (fn_destroy cl d s) = sar_core s"
  shows "sar_core (nci_sar_packet_out_free cl p s) = sar_core s"
  using assms by (simp add: nci_sar_packet_out_free_def split: option.split)

section \<open>The client's contract\<close>

text \<open>
  What the component asks of its client: every callback keeps the invariant (it may call
  into the component), and a destroy callback leaves the component alone.
\<close>

locale sar_callbacks =
  fixes cl :: "('a nci_sar_scheme) sar_client"
  assumes error_ok: "sar_ok s \<Longrightarrow> sar_ok (fn_error cl s)"
    and response_ok: "sar_ok s \<Longrightarrow> sar_ok (fn_handle_response cl gid oid p s)"
    and notification_ok: "sar_ok s \<Longrightarrow> sar_ok (fn_handle_notification cl gid oid p s)"
    and data_packet_ok: "sar_ok s \<Longrightarrow> sar_ok (fn_handle_data_packet cl cid p s)"
    and complete_ok: "sar_ok s \<Longrightarrow> sar_ok (fn_complete cl c ok s)"
    and destroy_core: "sar_core (fn_destroy cl d s) = sar_core s"
begin

lemmas free_same = free_core [of cl, OF destroy_core]

lemma free_ok: "sar_ok s \<Longrightarrow> sar_ok (nci_sar_packet_out_free cl p s)"
  using sar_ok_cong [OF free_same] by simp

lemma run_complete_ok: "sar_ok s \<Longrightarrow> sar_ok (run_complete cl p ok s)"
  by (simp add: run_complete_def complete_ok split: option.split)

lemma submit_ok:
  assumes "sar_ok s" and "\<not> sar_write_pending s"
  shows "sar_ok (sar_attempt_submit cl s)"
proof (cases "sar_writing s")
  case None
  then show ?thesis using assms by (simp add: sar_attempt_submit_def)
next
  case (Some w)
  let ?m = "max_payload_for s w"
  let ?s1 = "sar_start_hal cl (s\<lparr>sar_writing := Some (next_out ?m w)\<rparr>)"
  have c: "sar_next_chunk ?m w = (fst (sar_next_chunk ?m w), next_out ?m w)" by (simp add: next_out_def)
  have ok1: "sar_ok ?s1" by (intro sar_start_hal_ok writing_next_ok assms Some)
  have w1: "sar_writing ?s1 = Some (next_out ?m w)" by (simp add: sar_start_hal_def Let_def hal_tell_def)
  have ok2: "sar_ok (hal_tell x (?s1\<lparr>sar_write_pending := True\<rparr>))" for x
    by (intro hal_tell_ok write_pending_ok ok1) (simp add: w1)
  show ?thesis
    unfolding sar_attempt_submit_def Some option.case
    by (subst c, unfold prod.case Let_def)
      (auto intro!: schedule_write_ok error_ok free_ok run_complete_ok sar_ok_ignored(5) ok1 ok2)
qed

lemma attempt_write_ok: "sar_ok s \<Longrightarrow> sar_ok (nci_sar_attempt_write cl s)"
  unfolding nci_sar_attempt_write_def Let_def
  using attempt_continue_ok [of s] attempt_pick_ok [of "sar_attempt_continue s"] submit_ok by simp

lemma start_write_ok: "sar_ok s \<Longrightarrow> sar_ok (nci_sar_start_write cl s)"
  by (simp add: nci_sar_start_write_def attempt_write_ok sar_keep)

lemma write_completed_ok:
  assumes "sar_ok s"
  shows "sar_ok (nci_sar_write_completed cl ok s)"
proof (cases "sar_writing s")
  case None
  then show ?thesis using assms by (simp add: nci_sar_write_completed_def sar_keep)
next
  case (Some w)
  have "sar_ok (s\<lparr>sar_write_pending := False, sar_writing := None\<rparr>)" "sar_ok (s\<lparr>sar_write_pending := False\<rparr>)"
    using assms by (simp_all add: sar_keep)
  then show ?thesis
    unfolding nci_sar_write_completed_def Some option.case Let_def
    by (auto intro!: attempt_write_ok error_ok free_ok run_complete_ok)
qed

lemma cancel_ok:
  assumes "sar_ok s"
  shows "sar_ok (nci_sar_cancel cl pid s)"
proof -
  have "sar_ok (sar_cancel_queued cl pid s)"
  proof (cases "nci_sar_cancel_queue (sar_cmd s) pid")
    case (Some t)
    obtain x q where "t = (x, q)" by (cases t)
    then have "sar_ok (s\<lparr>sar_cmd := q\<rparr>)"
      using assms Some cancel_queue_inv [OF sar_ok_parts(1) [OF assms], of pid x q] sar_ok_parts(2) [OF assms]
      by (simp add: sar_ok_def buffered_def)
    then show ?thesis
      using Some \<open>t = (x, q)\<close> by (simp add: sar_cancel_queued_def free_ok)
  next
    case None
    let ?cs = "take (unat (sar_max_logical_conns s)) (sar_conn s)"
    show ?thesis
    proof (cases "cancel_conns 0 ?cs pid")
      case None
      then show ?thesis using assms \<open>nci_sar_cancel_queue (sar_cmd s) pid = None\<close> by (simp add: sar_cancel_queued_def)
    next
      case (Some t)
      obtain x i q where t: "t = (x, i, q)" by (cases t)
      have i: "i < length (sar_conn s)" and q: "nci_sar_cancel_queue (lc_out (sar_conn s ! i)) pid = Some (x, q)"
        using cancel_conns_Some [OF Some [unfolded t]] by auto
      have qi: "queue_inv (sar_next_addr s) (QConn i) q" "queue_ok (lc_out (sar_conn s ! i)) \<longrightarrow> queue_ok q"
        "set (addrs q) \<subseteq> set (addrs (lc_out (sar_conn s ! i)))"
        using cancel_queue_inv [OF sar_ok_parts(3) [OF assms i] q] by auto
      have "sar_ok (upd_conn i (\<lambda>c. c\<lparr>lc_out := q\<rparr>) s)"
        using assms qi by (intro upd_conn_ok) (auto simp: conn_in_ok sar_ok_def writing_ok_def)
      then show ?thesis
        using \<open>nci_sar_cancel_queue (sar_cmd s) pid = None\<close> Some t by (simp add: sar_cancel_queued_def free_ok)
    qed
  qed
  moreover have "sar_ok (s\<lparr>sar_writing := Some (w\<lparr>po_complete := None\<rparr>)\<rparr>)" if "sar_writing s = Some w" for w
    using assms that
    by (auto simp: sar_ok_def buffered_def writing_ok_def packet_ok_def pos_ok_def split: option.splits)
  ultimately show ?thesis
    using assms by (simp add: nci_sar_cancel_def split: option.split)
qed

end

section \<open>Receiving, configuration and reset\<close>

lemma in_ok_simps [simp]: "in_ok None" "in_ok (Some [])"
  by (auto simp: in_ok_def in_pending_def)

lemma in_ok_long: "3 \<le> length b \<Longrightarrow> in_ok (Some b)"
  by (simp add: in_ok_def)

lemma in_ok_first: "3 \<le> length b \<Longrightarrow> in_ok (Some (take (n + NCI_HDR_SIZE) b))"
  by (simp add: in_ok_long)

lemma in_ok_restore: "in_ok x \<Longrightarrow> in_ok (restore_in x)"
  by (cases x) (simp_all add: restore_in_def)

lemma cmd_empty_ok: "sar_ok s \<Longrightarrow> sar_ok (s\<lparr>sar_cmd := empty_queue\<rparr>)"
  by (simp add: sar_ok_def buffered_def queue_inv_def queue_ok_weak)

lemma in_pending_append: "in_pending x \<Longrightarrow> in_ok x \<Longrightarrow> in_ok (Some (the x @ p))"
  by (auto simp: in_pending_def in_ok_def split: option.splits)

lemma control_in_ok: "sar_ok s \<Longrightarrow> in_ok x \<Longrightarrow> sar_ok (s\<lparr>sar_control_in := x\<rparr>)"
  by (simp add: sar_ok_def buffered_def)

lemma control_in_part: "sar_ok s \<Longrightarrow> in_ok (sar_control_in s)"
  by (simp add: sar_ok_def)

lemma conn_in_set_ok: "sar_ok s \<Longrightarrow> in_ok x \<Longrightarrow> sar_ok (upd_conn i (\<lambda>c. c\<lparr>lc_in := x\<rparr>) s)"
  by (rule upd_conn_same_queue) simp_all

lemma conn_in_restore_ok: "sar_ok s \<Longrightarrow> sar_ok (upd_conn i (\<lambda>c. c\<lparr>lc_in := restore_in (lc_in c)\<rparr>) s)"
  by (rule upd_conn_same_queue) (simp_all add: in_ok_restore conn_in_ok)

lemma packet_length: "packet_complete bs \<Longrightarrow> n = unat (bs ! 2) \<Longrightarrow> length (take (n + NCI_HDR_SIZE) bs) = n + NCI_HDR_SIZE"
  by (simp add: packet_complete_def)

lemma sar_ok_read_buf: "sar_ok s \<Longrightarrow> \<not> packet_complete b \<Longrightarrow> sar_ok (s\<lparr>sar_read_buf := Some b\<rparr>)"
  by (simp add: sar_ok_def buffered_def)

lemma take_credits_conn: "length (sar_conn (nci_sar_take_credits cid n s)) = length (sar_conn s)"
  by (simp add: nci_sar_take_credits_def Let_def nci_sar_schedule_write_def)

context sar_callbacks begin

lemma control_packet_ok: "sar_ok s \<Longrightarrow> sar_ok (nci_sar_hal_handle_control_packet cl mt gid oid p s)"
  by (simp add: nci_sar_hal_handle_control_packet_def response_ok notification_ok)

lemma control_segment_ok:
  assumes "sar_ok s" and "3 \<le> length packet"
  shows "sar_ok (nci_sar_hal_handle_control_segment cl packet s)"
  unfolding nci_sar_hal_handle_control_segment_def Let_def
  using assms in_pending_append [OF _ control_in_part [OF assms(1)]]
  by (auto simp del: append_assoc intro!: control_in_ok control_packet_ok error_ok in_ok_restore control_in_part in_ok_first)

lemma data_segment_ok:
  assumes "sar_ok s" and "3 \<le> length packet"
  shows "sar_ok (nci_sar_hal_handle_data_segment cl packet s)"
proof -
  let ?cid = "packet ! 0 AND NCI_DATA_CID_MASK" and ?cr = "packet ! 1 AND NCI_DATA_CR_MASK"
  let ?s0 = "nci_sar_take_credits ?cid ?cr s"
  have s0: "sar_ok ?s0" by (rule take_credits_ok [OF assms(1)])
  have "in_ok (lc_in (sar_conn ?s0 ! unat ?cid))" if "unat ?cid < unat (sar_max_logical_conns s)"
    using that conn_in_ok [OF s0] sar_ok_parts(4) [OF assms(1)] by (simp add: take_credits_conn)
  then show ?thesis
    unfolding nci_sar_hal_handle_data_segment_def Let_def
    using assms s0
    by (auto intro!: conn_in_set_ok conn_in_restore_ok data_packet_ok error_ok sar_ok_ignored in_ok_first in_pending_append)
qed

lemma segment_ok: "sar_ok s \<Longrightarrow> 3 \<le> length packet \<Longrightarrow> sar_ok (nci_sar_hal_handle_segment cl packet s)"
  by (simp add: nci_sar_hal_handle_segment_def Let_def data_segment_ok control_segment_ok error_ok)

lemma read_loop_ok: "sar_ok s \<Longrightarrow> sar_ok (snd (sar_read_loop cl bs s))"
proof (induction "length bs" arbitrary: bs s rule: less_induct)
  case less
  show ?case
  proof (cases "packet_complete bs")
    case True
    let ?n = "unat (bs ! 2) + NCI_HDR_SIZE"
    have "sar_ok (nci_sar_hal_handle_segment cl (take ?n bs) s)"
      using less.prems packet_length [OF True refl] by (intro segment_ok) simp_all
    then have "sar_ok (snd (sar_read_loop cl (drop ?n bs) (nci_sar_hal_handle_segment cl (take ?n bs) s)))"
      using True by (intro less.hyps) (auto simp: packet_complete_def)
    then show ?thesis using True by (subst sar_read_loop.simps) (simp add: Let_def)
  next
    case False
    then show ?thesis using less.prems by (simp add: read_loop_incomplete)
  qed
qed

lemma client_read_ok:
  assumes "sar_ok s"
  shows "sar_ok (nci_sar_hal_client_read cl bytes s)"
proof -
  obtain bs s1 where l: "(if in_pending (sar_read_buf s) then (bytes, s) else sar_read_loop cl bytes s) = (bs, s1)" by force
  have ok1: "sar_ok s1" using l assms read_loop_ok [OF assms, of bytes] by (auto split: if_splits)
  show ?thesis
    unfolding nci_sar_hal_client_read_def l Let_def
    using ok1 read_loop_ok [OF ok1] by (auto simp: split_beta intro!: sar_ok_read_buf read_loop_rest [OF prod.collapse [symmetric]])
qed

lemma client_error_ok: "sar_ok s \<Longrightarrow> sar_ok (nci_sar_hal_client_error cl s)"
  by (simp add: nci_sar_hal_client_error_def error_ok)

lemma start_ok: "sar_ok s \<Longrightarrow> sar_ok (snd (nci_sar_start cl s))"
  by (simp add: nci_sar_start_def Let_def sar_keep)

text \<open>Freeing a queue leaves the component alone.\<close>

lemma clear_queue_core: "sar_core (nci_sar_clear_queue cl q s) = sar_core s"
proof -
  have "sar_core (fold (nci_sar_packet_out_free cl) ps s) = sar_core s" for ps
    by (induction ps arbitrary: s) (simp_all add: free_same)
  then show ?thesis by (simp add: nci_sar_clear_queue_def)
qed

lemma clear_queue_ok: "sar_ok s \<Longrightarrow> sar_ok (nci_sar_clear_queue cl q s)"
  using sar_ok_cong [OF clear_queue_core] by simp

end

lemma reset_conn_ok: "sar_ok s \<Longrightarrow> sar_writing s = None \<Longrightarrow> sar_ok (upd_conn i reset_conn s)"
  by (rule upd_conn_ok)
    (simp_all add: reset_conn_def queue_inv_def queue_ok_weak, simp add: in_ok_def in_pending_def split: option.split)

lemma core_writing: "sar_core s = sar_core t \<Longrightarrow> sar_writing s = sar_writing t \<and> sar_conn s = sar_conn t \<and>
  sar_max_logical_conns s = sar_max_logical_conns t \<and> sar_cmd s = sar_cmd t \<and> sar_write_pending s = sar_write_pending t \<and>
  sar_started s = sar_started t \<and> sar_start_write_id s = sar_start_write_id t \<and> sar_control_in s = sar_control_in t \<and>
  sar_next_addr s = sar_next_addr t \<and> sar_conn_gen s = sar_conn_gen t \<and> sar_fault s = sar_fault t"
  by (simp add: nci_sar.defs)

context sar_callbacks begin

lemma reset_conns_ok:
  assumes "sar_ok s" and "sar_writing s = None"
  shows "sar_ok (sar_reset_conns cl s) \<and> sar_writing (sar_reset_conns cl s) = None"
proof -
  let ?f = "\<lambda>i s'. upd_conn i reset_conn (nci_sar_clear_queue cl (lc_out (sar_conn s' ! i)) s')"
  have "sar_ok (fold ?f is s) \<and> sar_writing (fold ?f is s) = None" for "is"
    using assms
  proof (induction "is" arbitrary: s)
    case (Cons i "is")
    have w: "sar_writing (nci_sar_clear_queue cl q s) = None" for q
      using Cons.prems(2) core_writing [OF clear_queue_core] by metis
    have "sar_ok (?f i s)" by (intro reset_conn_ok clear_queue_ok Cons.prems w)
    moreover have "sar_writing (?f i s) = None" using w by (simp add: upd_conn_def)
    ultimately show ?case using Cons.IH by simp
  qed simp
  then show ?thesis by (simp add: sar_reset_conns_def)
qed

lemma reset_ok:
  assumes "sar_ok s"
  shows "sar_ok (nci_sar_reset cl s)"
proof -
  have n: "sar_ok (s\<lparr>sar_writing := None, sar_write_pending := False\<rparr>)" if "sar_ok s" for s :: "'a nci_sar_scheme"
    using that by (simp add: sar_ok_def buffered_def)
  define s1 where "s1 = (if sar_writing s \<noteq> None then
                  let s' = s\<lparr>sar_writing := None\<rparr> in
                  if sar_write_pending s' then (hal_tell HalCancelWrite s')\<lparr>sar_write_pending := False\<rparr> else s'
                else s)"
  have s1: "sar_ok s1 \<and> sar_writing s1 = None"
    using assms by (auto simp: s1_def Let_def sar_ok_def buffered_def hal_tell_def)
  define s2 where "s2 = (if sar_started s1 then hal_tell HalStop (s1\<lparr>sar_started := False\<rparr>) else s1)"
  have s2: "sar_ok s2 \<and> sar_writing s2 = None" using s1 by (auto simp: s2_def sar_keep) (auto simp: hal_tell_def)
  define s3 where "s3 = sar_reset_conns cl s2"
  have s3: "sar_ok s3 \<and> sar_writing s3 = None" using s2 by (simp add: s3_def reset_conns_ok)
  define s4 where "s4 = s3\<lparr>sar_control_in := map_option (\<lambda>_. []) (sar_control_in s3)\<rparr>"
  have s4: "sar_ok s4 \<and> sar_writing s4 = None"
    using s3 by (auto simp: s4_def intro!: control_in_ok) (simp add: in_ok_def in_pending_def split: option.split)
  define s5 where "s5 = (nci_sar_clear_queue cl (sar_cmd s4) s4)\<lparr>sar_cmd := empty_queue\<rparr>"
  have s5: "sar_ok s5"
    using s4 by (simp add: s5_def cmd_empty_ok clear_queue_ok)
  define s6 where "s6 = s5\<lparr>sar_start_write_id := False\<rparr>"
  have "sar_ok s6" using s5 by (simp add: s6_def sar_keep)
  moreover have "nci_sar_reset cl s =
     (case sar_writing s of Some out \<Rightarrow> nci_sar_packet_out_free cl out (run_complete cl out False s6) | None \<Rightarrow> s6)"
    unfolding nci_sar_reset_def s6_def s5_def s4_def s3_def s2_def s1_def Let_def by (rule refl)
  ultimately show ?thesis
    by (simp add: free_ok run_complete_ok split: option.split)
qed

lemma set_max_conns_ok:
  assumes "sar_ok s"
  shows "sar_ok (nci_sar_set_max_logical_connections cl m s)"
proof -
  define m' where "m' = (if m = 0 then SAR_DEFAULT_MAX_LOGICAL_CONNECTIONS else m)"
  have m0: "m' \<noteq> 0" by (simp add: m'_def)
  let ?cur = "unat (sar_max_logical_conns s)"
  note ok = assms [unfolded sar_ok_def]
  show ?thesis
  proof (cases "?cur < unat m'")
    case True
    let ?cs = "sar_conn s @ replicate (unat m' - ?cur) new_conn"
    have c: "conns_ok (sar_next_addr s) ?cs"
      using ok by (auto simp: conns_ok_def nth_append new_conn_def queue_inv_def queue_ok_weak)
    have w: "writing_ok (sar_next_addr s) ?cs w" if "sar_writing s = Some w" for w
      using ok that
      by (fastforce simp: writing_ok_def nth_append new_conn_def addrs_def split: option.splits)
    show ?thesis
      using True m0 ok c w
      by (simp add: nci_sar_set_max_logical_connections_def Let_def sar_ok_def buffered_def flip: m'_def)
  next
    case False
    define f where "f = (\<lambda>i s'. nci_sar_clear_queue cl (lc_out (sar_conn s' ! i)) s')"
    have fc: "sar_core (fold f is s) = sar_core s" for "is"
      by (induction "is" arbitrary: s) (simp_all add: f_def clear_queue_core)
    let ?s1 = "fold f [unat m'..<?cur] s"
    have s1: "sar_ok ?s1" using assms sar_ok_cong [OF fc] by simp
    note ok1 = s1 [unfolded sar_ok_def]
    have len: "sar_conn ?s1 = sar_conn s" "sar_max_logical_conns ?s1 = sar_max_logical_conns s"
      using core_writing [OF fc] by auto
    have "sar_ok (?s1\<lparr>sar_conn := take (unat m') (sar_conn ?s1), sar_conn_gen := Suc (sar_conn_gen ?s1),
                 sar_max_logical_conns := m'\<rparr>)" if "unat m' < ?cur"
      using ok1 m0 that len
      by (auto simp: sar_ok_def buffered_def conns_ok_def writing_ok_def split: option.splits)
    then show ?thesis
      using assms False
      by (simp add: nci_sar_set_max_logical_connections_def Let_def flip: m'_def f_def)
  qed
qed

end
end
