(* ===== verification/Sar_Properties.thy ===== *)
theory Sar_Properties
  imports Sar_Invariant
begin

text \<open>
  The events of the component and what holds in every state they reach; flow control,
  reset, and two defects of the transmitter.
\<close>

section \<open>Events\<close>

text \<open>
  Everything that happens to the component: calls of its client, callbacks of the HAL and
  the idle source. A write completion comes only while a write is pending, the idle source
  runs only when it is scheduled.
\<close>

inductive sar_step :: "('a nci_sar_scheme) sar_client \<Rightarrow> 'a nci_sar_scheme \<Rightarrow> 'a nci_sar_scheme \<Rightarrow> bool" for cl where
  send_command: "sar_step cl s (snd (nci_sar_send_command gid oid payload complete destroy s))"
| send_data: "sar_step cl s (snd (nci_sar_send_data_packet cid payload complete destroy s))"
| cancel: "sar_step cl s (nci_sar_cancel cl pid s)"
| idle: "sar_start_write_id s \<Longrightarrow> sar_step cl s (nci_sar_start_write cl s)"
| written: "sar_write_pending s \<Longrightarrow> sar_step cl s (nci_sar_write_completed cl ok s)"
| read: "sar_step cl s (nci_sar_hal_client_read cl bytes s)"
| hal_error: "sar_step cl s (nci_sar_hal_client_error cl s)"
| start: "sar_step cl s (snd (nci_sar_start cl s))"
| reset: "sar_step cl s (nci_sar_reset cl s)"
| max_conns: "sar_step cl s (nci_sar_set_max_logical_connections cl m s)"
| max_control: "sar_step cl s (nci_sar_set_max_control_payload_size m s)"
| max_data: "sar_step cl s (nci_sar_set_max_data_payload_size m s)"
| initial_credits: "sar_step cl s (nci_sar_set_initial_credits cid n s)"
| add_credits: "sar_step cl s (nci_sar_add_credits cid n s)"

inductive_cases sar_stepE: "sar_step cl s t"

context sar_callbacks begin

lemma step_ok: "sar_step cl s t \<Longrightarrow> sar_ok s \<Longrightarrow> sar_ok t"
  by (induction rule: sar_step.induct)
    (simp_all add: sar_keep cancel_ok start_write_ok write_completed_ok client_read_ok client_error_ok start_ok
      reset_ok set_max_conns_ok)

lemma run_ok: "(sar_step cl)\<^sup>*\<^sup>* s t \<Longrightarrow> sar_ok s \<Longrightarrow> sar_ok t"
  by (induction rule: rtranclp_induct) (auto intro: step_ok)

text \<open>The unchecked dereference of \<open>writing\<close> in \<open>nci_sar_write_completed\<close> is safe.\<close>

lemma reachable_writing:
  "(sar_step cl)\<^sup>*\<^sup>* (nci_sar_new ext) s \<Longrightarrow> sar_write_pending s \<Longrightarrow> sar_writing s \<noteq> None"
  using run_ok [OF _ new_ok] by (auto simp: sar_ok_def)

end

section \<open>Credits\<close>

lemma submit_accept_conn:
  assumes "hal_accepts cl"
  shows "sar_conn (sar_attempt_submit cl s) = sar_conn s \<and>
    map_option po_conn (sar_writing (sar_attempt_submit cl s)) = map_option po_conn (sar_writing s)"
proof (cases "sar_writing s")
  case None
  then show ?thesis by (simp add: sar_attempt_submit_def)
next
  case (Some w)
  show ?thesis
    by (simp add: sar_attempt_submit_accept [OF assms Some] submit_state_def Some)
qed

lemma pick_data:
  assumes "sar_ok s" and "sar_writing s = None" and "sar_writing (sar_attempt_pick s) = Some w" and "po_conn w = Some (g, i)"
  shows "q_first (sar_cmd s) = [] \<and> i < length (sar_conn s) \<and> lc_credits (sar_conn s ! i) \<noteq> 0 \<and>
    map lc_credits (sar_conn (sar_attempt_pick s)) = (map lc_credits (sar_conn s))[i := lc_credits (spend_credit (sar_conn s ! i))]"
proof (cases "q_first (sar_cmd s) = []")
  case False
  then obtain w' q' where "queue_pop (sar_cmd s) = (Some w', q')" "packet_ok QCmd w'"
    using queue_pop_inv [OF sar_ok_parts(1) [OF assms(1)]] by auto
  then show ?thesis
    using assms False by (auto simp: sar_attempt_pick_def nci_sar_write_queue_def dest: packet_ok_conn)
next
  case True
  then obtain j where j: "sar_ready_conn s = Some j"
    using assms by (cases "sar_ready_conn s") (auto simp: sar_attempt_pick_def nci_sar_write_queue_def)
  have r: "j < length (sar_conn s)" "q_first (lc_out (sar_conn s ! j)) \<noteq> []" "lc_credits (sar_conn s ! j) \<noteq> 0"
    using ready_conn_Some [OF j] by (auto simp: conn_ready_def)
  obtain w' q' where p: "queue_pop (lc_out (sar_conn s ! j)) = (Some w', q')" "packet_ok (QConn j) w'"
    using queue_pop_inv [OF sar_ok_parts(3) [OF assms(1) r(1)] r(2)] by auto
  have "w' = w" using assms True j p r by (simp add: sar_attempt_pick_def nci_sar_write_queue_def)
  then have "j = i" using p(2) assms(4) by (auto dest: packet_ok_conn)
  then show ?thesis
    using assms True j p r
    by (simp add: sar_attempt_pick_def nci_sar_write_queue_def upd_conn_def map_update)
qed

lemma pick_conn_same:
  assumes "sar_writing s = Some w"
  shows "sar_attempt_pick s = s"
  using assms by (simp add: sar_attempt_pick_def)

text \<open>
  C14. Flow control: a data segment is submitted only if its connection has a credit, it
  costs exactly one (none when the credits are unlimited), no other connection's credits
  change, and a new data packet is never started while a command is waiting.
\<close>

theorem nci_sar_data_credit:
  assumes "hal_accepts cl" and "sar_ok s" and "\<not> sar_write_pending s"
    and "\<not> sar_fault (nci_sar_attempt_write cl s)" and "\<not> sar_fault s"
    and "sar_writing (nci_sar_attempt_write cl s) = Some w" and "po_conn w = Some (g, i)" and "i < length (sar_conn s)"
  shows "lc_credits (sar_conn s ! i) \<noteq> 0 \<and>
    map lc_credits (sar_conn (nci_sar_attempt_write cl s)) =
      (map lc_credits (sar_conn s))[i := (if lc_credits (sar_conn s ! i) = SAR_UNLIMITED_CREDITS
         then SAR_UNLIMITED_CREDITS else lc_credits (sar_conn s ! i) - 1)] \<and>
    (sar_writing s = None \<longrightarrow> q_first (sar_cmd s) = [])"
proof -
  let ?c = "sar_attempt_continue s" and ?p = "sar_attempt_pick (sar_attempt_continue s)"
  have nf: "\<not> sar_fault ?c" using assms(3,4) by (auto simp: nci_sar_attempt_write_def Let_def)
  then have aw: "nci_sar_attempt_write cl s = sar_attempt_submit cl ?p"
    using assms(3) by (simp add: nci_sar_attempt_write_def Let_def)
  obtain w' where w': "sar_writing ?p = Some w'" "po_conn w' = Some (g, i)"
    using submit_accept_conn [OF assms(1), of ?p] assms(6,7) aw by (auto simp: map_option_case split: option.splits)
  have sp: "lc_credits (spend_credit c) = (if lc_credits c = SAR_UNLIMITED_CREDITS then SAR_UNLIMITED_CREDITS else lc_credits c - 1)" for c
    by (simp add: spend_credit_def)
  have conn: "sar_conn (nci_sar_attempt_write cl s) = sar_conn ?p"
    using submit_accept_conn [OF assms(1)] aw by simp
  show ?thesis
  proof (cases "sar_writing s")
    case None
    then have "?c = s" by (simp add: sar_attempt_continue_def)
    then show ?thesis using pick_data [OF assms(2) None] w' conn sp by simp
  next
    case (Some v)
    show ?thesis
    proof (cases "po_conn v")
      case None
      then show ?thesis using Some w' by (simp add: sar_attempt_continue_def sar_attempt_pick_def)
    next
      case (Some gj)
      obtain h j where v: "po_conn v = Some (h, j)" "h = sar_conn_gen s" "j < length (sar_conn s)"
        using nf Some \<open>sar_writing s = Some v\<close> by (cases gj) (auto simp: sar_attempt_continue_def split: if_splits)
      show ?thesis
      proof (cases "lc_credits (sar_conn s ! j) = 0")
        case False
        then have c: "?c = upd_conn j spend_credit s" using v \<open>sar_writing s = Some v\<close> by (simp add: sar_attempt_continue_def)
        then have p: "?p = ?c" by (intro pick_conn_same [of _ v]) (simp add: upd_conn_def \<open>sar_writing s = Some v\<close>)
        then have "i = j" using w' c v \<open>sar_writing s = Some v\<close> by (simp add: upd_conn_def)
        then show ?thesis using False conn p c sp \<open>sar_writing s = Some v\<close> by (simp add: upd_conn_def map_update)
      next
        case True
        then have c: "?c = (upd_conn j (\<lambda>c. c\<lparr>lc_out := queue_put_back v (lc_out c)\<rparr>) s)\<lparr>sar_writing := None\<rparr>"
          using v \<open>sar_writing s = Some v\<close> by (simp add: sar_attempt_continue_def)
        have ok: "sar_ok ?c" using attempt_continue_ok assms by blast
        have m: "map lc_credits (sar_conn ?c) = map lc_credits (sar_conn s)" "length (sar_conn ?c) = length (sar_conn s)"
          by (simp_all add: c upd_conn_def map_update list_update_same_conv v)
        have n: "lc_credits (sar_conn ?c ! i) = lc_credits (sar_conn s ! i)"
          using m assms(8) by (metis nth_map)
        show ?thesis
          using pick_data [OF ok _ w'] conn c m n sp \<open>sar_writing s = Some v\<close> by simp
      qed
    qed
  qed
qed

definition credit_example :: nci_sar where
  "credit_example = snd (nci_sar_send_data_packet 0 (Some [1, 2, 3]) None None (nci_sar_set_initial_credits 0 2 (nci_sar_new ())))"

lemma credit_example_ok: "sar_ok credit_example"
  unfolding credit_example_def by (intro send_data_packet_ok set_initial_credits_ok new_ok)

lemmas sar_eval = nci_sar_send_data_packet_def nci_sar_send_def nci_sar_set_initial_credits_def nci_sar_new_def
  sar_enqueue_def upd_conn_def queue_append_def nci_sar_schedule_write_def nci_sar_can_write_def sar_ready_conn_def
  new_conn_def empty_queue_def conn_ready_def nci_sar_attempt_write_def sar_attempt_continue_def sar_attempt_pick_def
  nci_sar_write_queue_def spend_credit_def queue_pop_def sar_attempt_submit_def sar_next_chunk_def po_remaining_def
  max_payload_for_def sar_start_hal_def hal_tell_def Let_def null_client_def queue_put_back_def

lemma nci_sar_data_credit_witness:
  "map lc_credits (sar_conn (nci_sar_attempt_write null_client credit_example)) = [1]"
proof -
  obtain w where w: "sar_writing (nci_sar_attempt_write null_client credit_example) = Some w" "po_conn w = Some (0, 0)"
    and f: "\<not> sar_fault (nci_sar_attempt_write null_client credit_example)" "\<not> sar_fault credit_example"
      "\<not> sar_write_pending credit_example" "length (sar_conn credit_example) = 1" "lc_credits (sar_conn credit_example ! 0) = 2"
    by (simp add: credit_example_def sar_eval)
  have "map lc_credits (sar_conn credit_example) = [2]" using f by (cases "sar_conn credit_example") auto
  then show ?thesis
    using nci_sar_data_credit [OF null_client_accepts credit_example_ok f(3) f(1,2) w] f by simp
qed

section \<open>A packet that is lost\<close>

text \<open>
  C30. A defect of the queue: when the credits run out while a data packet is half sent and
  nothing else is queued on its connection, the packet goes back to the queue but the
  queue's last pointer stays NULL; the next packet sent on that connection takes its
  place, and the half sent packet is in no queue and not being written: it is never
  finished, completed, cancelled or freed.
\<close>

theorem nci_sar_put_back_lost:
  assumes "sar_ok s" and "\<not> sar_write_pending s" and "\<not> sar_fault s"
    and "sar_writing s = Some w" and "po_conn w = Some (sar_conn_gen s, unat cid)"
    and "unat cid < unat (sar_max_logical_conns s)" and "\<forall>c \<in> set (sar_conn s). lc_credits c = 0"
    and "q_first (sar_cmd s) = []" and "q_first (lc_out (sar_conn s ! unat cid)) = []"
    and "s1 = nci_sar_attempt_write cl s" and "(pid, s2) = nci_sar_send_data_packet cid payload complete destroy s1"
  shows "sar_writing s1 = None \<and> q_first (lc_out (sar_conn s1 ! unat cid)) = [w] \<and> sar_writing s2 = None \<and>
    (\<exists>out. q_first (lc_out (sar_conn s2 ! unat cid)) = [out] \<and> po_id out = pid \<and> po_addr out \<noteq> po_addr w)"
proof -
  let ?i = "unat cid"
  have i: "?i < length (sar_conn s)" using assms(1,6) by (simp add: sar_ok_def)
  have w: "po_addr w < sar_next_addr s" using assms(1,4) by (simp add: sar_ok_def writing_ok_def)
  have q: "q_last (lc_out (sar_conn s ! ?i)) = None"
    using sar_ok_parts(3) [OF assms(1) i] assms(9) by (auto simp: queue_inv_def queue_weak_def queue_ok_def)
  have c: "lc_credits (sar_conn s ! ?i) = 0" using assms(7) i by simp
  define t where "t = (upd_conn ?i (\<lambda>c. c\<lparr>lc_out := queue_put_back w (lc_out c)\<rparr>) s)\<lparr>sar_writing := None\<rparr>"
  have ct: "sar_attempt_continue s = t" using assms(4,5) i c by (simp add: sar_attempt_continue_def t_def)
  have "sar_ready_conn t = None"
  proof (cases "sar_ready_conn t")
    case (Some j)
    then have "j < length (sar_conn s)" "lc_credits (sar_conn t ! j) \<noteq> 0"
      using ready_conn_Some [OF Some] by (auto simp: t_def upd_conn_def conn_ready_def)
    moreover have "lc_credits (sar_conn t ! j) = 0" if "j < length (sar_conn s)" for j
      using assms(7) c that i by (simp add: t_def upd_conn_def nth_list_update)
    ultimately show ?thesis by blast
  qed simp
  moreover have tt: "sar_writing t = None" "sar_cmd t = sar_cmd s" "sar_fault t = sar_fault s"
    by (simp_all add: t_def upd_conn_def)
  ultimately have p: "sar_attempt_pick t = t"
    using assms(8) by (simp add: sar_attempt_pick_def nci_sar_write_queue_def)
  have s1: "s1 = t"
    using assms(2,3) p tt by (simp add: assms(10) nci_sar_attempt_write_def Let_def ct sar_attempt_submit_def)
  have t: "sar_writing t = None" "q_first (lc_out (sar_conn t ! ?i)) = [w]" "q_last (lc_out (sar_conn t ! ?i)) = None"
    "?i < length (sar_conn t)" "sar_next_addr t = sar_next_addr s" "sar_max_logical_conns t = sar_max_logical_conns s"
    using i q assms(9) by (simp_all add: t_def upd_conn_def queue_put_back_def)
  have "\<exists>out. q_first (lc_out (sar_conn s2 ! ?i)) = [out] \<and> po_id out = pid \<and> po_addr out = sar_next_addr s"
    and "sar_writing s2 = None"
    using assms(11) t assms(6) i
    by (auto simp: s1 nci_sar_send_data_packet_def nci_sar_send_def Let_def sar_enqueue_def upd_conn_def queue_append_def
        nci_sar_schedule_write_def)
  then show ?thesis using t w s1 by auto
qed

definition put_back_example :: nci_sar where
  "put_back_example = (let s = snd (nci_sar_send_data_packet 0 (Some [1, 2, 3]) None None
       (nci_sar_set_initial_credits 0 1 (nci_sar_new ())))
     in (nci_sar_attempt_write null_client s)\<lparr>sar_write_pending := False\<rparr>)"

lemma put_back_example_facts:
  "\<exists>w. sar_writing put_back_example = Some w \<and> po_conn w = Some (sar_conn_gen put_back_example, unat (0 :: byte)) \<and>
     \<not> sar_write_pending put_back_example \<and> \<not> sar_fault put_back_example \<and>
     unat (0 :: byte) < unat (sar_max_logical_conns put_back_example) \<and> (\<forall>c \<in> set (sar_conn put_back_example). lc_credits c = 0) \<and>
     q_first (sar_cmd put_back_example) = [] \<and> q_first (lc_out (sar_conn put_back_example ! unat (0 :: byte))) = [] \<and>
     po_payload w = Some [1, 2, 3] \<and> po_payload_pos w = 1"
  by (simp add: put_back_example_def sar_eval)

interpretation null: sar_callbacks null_client
  by unfold_locales (simp_all add: null_client_def)

lemma put_back_example_ok: "sar_ok put_back_example"
  unfolding put_back_example_def Let_def
  by (intro sar_keep null.attempt_write_ok new_ok)

lemma nci_sar_put_back_lost_witness:
  "\<exists>w out. po_payload w = Some [1, 2, 3] \<and> po_payload_pos w = 1 \<and>
     q_first (lc_out (sar_conn (nci_sar_attempt_write null_client put_back_example) ! 0)) = [w] \<and>
     q_first (lc_out (sar_conn (snd (nci_sar_send_data_packet 0 (Some [9]) None None
       (nci_sar_attempt_write null_client put_back_example))) ! 0)) = [out] \<and> po_addr out \<noteq> po_addr w"
proof -
  obtain w where w: "sar_writing put_back_example = Some w" "po_conn w = Some (sar_conn_gen put_back_example, unat (0 :: byte))"
     "\<not> sar_write_pending put_back_example" "\<not> sar_fault put_back_example"
     "unat (0 :: byte) < unat (sar_max_logical_conns put_back_example)" "\<forall>c \<in> set (sar_conn put_back_example). lc_credits c = 0"
     "q_first (sar_cmd put_back_example) = []" "q_first (lc_out (sar_conn put_back_example ! unat (0 :: byte))) = []"
     "po_payload w = Some [1, 2, 3]" "po_payload_pos w = 1"
    using put_back_example_facts by blast
  show ?thesis
    using nci_sar_put_back_lost [OF put_back_example_ok w(3,4,1,2,5-8) refl prod.collapse,
        where cl = null_client and payload = "Some [9]" and complete = None and destroy = None] w(9,10) by auto
qed

section \<open>Reallocation\<close>

lemma clear_core:
  assumes "\<forall>d t. sar_core (fn_destroy cl d t) = sar_core t"
  shows "sar_core (nci_sar_clear_queue cl q t) = sar_core t"
proof -
  have "sar_core (fold (nci_sar_packet_out_free cl) ps t) = sar_core t" for ps
    by (induction ps arbitrary: t) (simp_all add: free_core [OF assms [rule_format]])
  then show ?thesis by (simp add: nci_sar_clear_queue_def)
qed

text \<open>
  C31. A defect of the reconfiguration: if a data packet is being written when the number
  of logical connections changes, the array is reallocated and the packet's pointer into
  it is dangling; the next attempt to write dereferences it.
\<close>

theorem nci_sar_realloc_dangling:
  assumes "sar_writing s = Some w" and "po_conn w = Some (sar_conn_gen s, i)"
    and "m \<noteq> 0" and "m \<noteq> sar_max_logical_conns s" and "\<not> sar_write_pending s"
    and "\<forall>d t. sar_core (fn_destroy cl d t) = sar_core t"
  shows "sar_fault (nci_sar_attempt_write cl (nci_sar_set_max_logical_connections cl m s))"
proof -
  have fc: "sar_core (fold (\<lambda>i s'. nci_sar_clear_queue cl (lc_out (sar_conn s' ! i)) s') is s) = sar_core s" for "is"
    by (induction "is" arbitrary: s) (simp_all add: clear_core [OF assms(6)])
  let ?t = "nci_sar_set_max_logical_connections cl m s"
  have ne: "unat m \<noteq> unat (sar_max_logical_conns s)" using assms(4) by (simp add: word_unat_eq_iff)
  have "sar_writing ?t = Some w \<and> sar_conn_gen ?t = Suc (sar_conn_gen s) \<and> \<not> sar_write_pending ?t"
    using assms core_writing [OF fc] ne by (auto simp: nci_sar_set_max_logical_connections_def Let_def)
  then show ?thesis
    using assms(2) by (simp add: nci_sar_attempt_write_def Let_def sar_attempt_continue_def)
qed

lemma nci_sar_realloc_dangling_witness:
  "sar_fault (nci_sar_attempt_write null_client (nci_sar_set_max_logical_connections null_client 2 put_back_example))"
proof -
  obtain w where "sar_writing put_back_example = Some w" "po_conn w = Some (sar_conn_gen put_back_example, unat (0 :: byte))"
    "\<not> sar_write_pending put_back_example"
    using put_back_example_facts by blast
  note w = this
  show ?thesis
    by (rule nci_sar_realloc_dangling [OF w(1,2) _ _ w(3)]) (simp_all add: put_back_example_def sar_eval)
qed

section \<open>Reset\<close>

lemma reset_conns_core:
  assumes "\<forall>d t. sar_core (fn_destroy cl d t) = sar_core t" and "length (sar_conn s) = unat (sar_max_logical_conns s)"
  shows "sar_core (sar_reset_conns cl s) = (sar_core s)\<lparr>sar_conn := map reset_conn (sar_conn s)\<rparr>"
proof -
  define f where "f = (\<lambda>i s'. upd_conn i reset_conn (nci_sar_clear_queue cl (lc_out (sar_conn s' ! i)) s'))"
  have f1: "sar_core (f i t) = (sar_core t)\<lparr>sar_conn := (sar_conn t)[i := reset_conn (sar_conn t ! i)]\<rparr>" for i t
    using clear_core [OF assms(1), of "lc_out (sar_conn t ! i)" t] by (simp add: f_def upd_conn_def nci_sar.defs)
  have "sar_core (fold f [0..<n] t) = (sar_core t)\<lparr>sar_conn := map reset_conn (take n (sar_conn t)) @ drop n (sar_conn t)\<rparr>"
    if "n \<le> length (sar_conn t)" for n t
    using that
  proof (induction n)
    case 0
    then show ?case by (simp add: nci_sar.defs)
  next
    case (Suc n)
    have c: "sar_conn (fold f [0..<n] t) = map reset_conn (take n (sar_conn t)) @ drop n (sar_conn t)"
      using Suc arg_cong [OF Suc.IH, of sar_conn] by (simp add: nci_sar.defs)
    have "sar_core (fold f [0..<Suc n] t) =
        (sar_core (fold f [0..<n] t))\<lparr>sar_conn := (sar_conn (fold f [0..<n] t))[n := reset_conn (sar_conn (fold f [0..<n] t) ! n)]\<rparr>"
      by (simp add: f1)
    then show ?case using Suc c
      by (simp add: take_Suc_conv_app_nth Cons_nth_drop_Suc [symmetric] list_update_append nth_append)
  qed
  from this [of "unat (sar_max_logical_conns s)" s] show ?thesis using assms(2) by (simp add: sar_reset_conns_def f_def)
qed

text \<open>What reset does to the component, and what it tells the HAL.\<close>

lemma reset_core:
  assumes "sar_ok s" and "\<forall>d t. sar_core (fn_destroy cl d t) = sar_core t"
    and "\<forall>c t. sar_core (fn_complete cl c False t) = sar_core t"
  shows "sar_core (nci_sar_reset cl s) = (sar_core s)\<lparr>
    sar_hal := sar_hal s @ (if sar_write_pending s then [HalCancelWrite] else []) @ (if sar_started s then [HalStop] else []),
    sar_started := False, sar_start_write_id := False, sar_write_pending := False, sar_writing := None, sar_cmd := empty_queue,
    sar_conn := map reset_conn (sar_conn s), sar_control_in := map_option (\<lambda>_. []) (sar_control_in s)\<rparr>"
proof -
  define s1 where "s1 = (if sar_writing s \<noteq> None then
                  let s' = s\<lparr>sar_writing := None\<rparr> in
                  if sar_write_pending s' then (hal_tell HalCancelWrite s')\<lparr>sar_write_pending := False\<rparr> else s'
                else s)"
  have s1: "sar_core s1 = (sar_core s)\<lparr>sar_hal := sar_hal s @ (if sar_write_pending s then [HalCancelWrite] else []),
      sar_write_pending := False, sar_writing := None\<rparr>" "sar_started s1 = sar_started s"
    using assms(1) by (auto simp: s1_def Let_def hal_tell_def sar_ok_def nci_sar.defs)
  define s2 where "s2 = (if sar_started s1 then hal_tell HalStop (s1\<lparr>sar_started := False\<rparr>) else s1)"
  have s2: "sar_core s2 = (sar_core s1)\<lparr>sar_hal := sar_hal s1 @ (if sar_started s then [HalStop] else []), sar_started := False\<rparr>"
    using s1(2) by (simp add: s2_def hal_tell_def nci_sar.defs)
  have same: "sar_conn s2 = sar_conn s" "sar_max_logical_conns s2 = sar_max_logical_conns s"
    using s1 s2 by (simp_all add: nci_sar.defs)
  have s3: "sar_core (sar_reset_conns cl s2) = (sar_core s2)\<lparr>sar_conn := map reset_conn (sar_conn s)\<rparr>"
    using reset_conns_core [OF assms(2), of s2] assms(1) same by (simp add: sar_ok_def)
  define s4 where "s4 = (sar_reset_conns cl s2)\<lparr>sar_control_in := map_option (\<lambda>_. []) (sar_control_in (sar_reset_conns cl s2))\<rparr>"
  have s5: "sar_core (nci_sar_clear_queue cl (sar_cmd s4) s4) = sar_core s4" by (rule clear_core [OF assms(2)])
  define s6 where "s6 = (nci_sar_clear_queue cl (sar_cmd s4) s4)\<lparr>sar_cmd := empty_queue, sar_start_write_id := False\<rparr>"
  have r: "nci_sar_reset cl s =
     (case sar_writing s of Some out \<Rightarrow> nci_sar_packet_out_free cl out (run_complete cl out False s6) | None \<Rightarrow> s6)"
    unfolding nci_sar_reset_def s6_def s4_def s2_def s1_def Let_def by simp
  have "sar_core (nci_sar_reset cl s) = sar_core s6"
    using assms(3) by (simp add: r free_core [OF assms(2) [rule_format]] run_complete_def split: option.split)
  moreover have "sar_core s6 = (sar_core s)\<lparr>
    sar_hal := sar_hal s @ (if sar_write_pending s then [HalCancelWrite] else []) @ (if sar_started s then [HalStop] else []),
    sar_started := False, sar_start_write_id := False, sar_write_pending := False, sar_writing := None, sar_cmd := empty_queue,
    sar_conn := map reset_conn (sar_conn s), sar_control_in := map_option (\<lambda>_. []) (sar_control_in s)\<rparr>"
    using s1 s2 s3 s5 by (simp add: s6_def s4_def nci_sar.defs)
  ultimately show ?thesis by simp
qed

text \<open>
  Reset leaves the component as good as new: nothing is being written or queued, no
  write is pending or scheduled, the HAL is stopped, no connection has credits or a
  partial packet. The packet that was being written is completed with failure, after
  everything else, and none of the queued packets is completed.
\<close>

theorem nci_sar_reset_clears:
  assumes "sar_ok s" and "\<forall>d t. sar_core (fn_destroy cl d t) = sar_core t"
    and "\<forall>c t. sar_core (fn_complete cl c False t) = sar_core t"
  shows "let s' = nci_sar_reset cl s in
    sar_writing s' = None \<and> \<not> sar_write_pending s' \<and> \<not> sar_start_write_id s' \<and> \<not> sar_started s' \<and>
    sar_cmd s' = empty_queue \<and> \<not> in_pending (sar_control_in s') \<and> length (sar_conn s') = length (sar_conn s) \<and>
    (\<forall>c \<in> set (sar_conn s'). lc_out c = empty_queue \<and> lc_credits c = 0 \<and> \<not> in_pending (lc_in c))"
proof -
  have empty: "in_pending (map_option (\<lambda>_. []) x) = False" for x by (simp add: in_pending_def split: option.split)
  show ?thesis
    using reset_core [OF assms] by (auto simp: Let_def reset_conn_def empty nci_sar.defs)
qed

lemma nci_sar_reset_clears_witness:
  "sar_cmd (nci_sar_reset null_client put_back_example) = empty_queue"
proof -
  have c: "\<forall>d t. sar_core (fn_destroy null_client d t) = sar_core t" "\<forall>c t. sar_core (fn_complete null_client c False t) = sar_core t"
    by (simp_all add: null_client_def)
  show ?thesis using nci_sar_reset_clears [OF put_back_example_ok c] by (simp add: Let_def)
qed

section \<open>Reading ends\<close>

text \<open>
  C29. Reading ends, on any bytes and whatever the client does: the bytes are cut into whole
  packets, each as long as its header says, which are handled in order and once, and less
  than a packet is left; there are at most a third as many packets as bytes.
\<close>

theorem sar_read_loop_packets:
  "\<exists>packets rest. sar_read_loop cl bs s = (rest, fold (nci_sar_hal_handle_segment cl) packets s) \<and>
     bs = concat packets @ rest \<and> \<not> packet_complete rest \<and> 3 * length packets \<le> length bs \<and>
     list_all (\<lambda>p. length p = unat (p ! 2) + 3) packets"
proof (induction cl bs s rule: sar_read_loop.induct)
  case (1 cl bs s)
  show ?case
  proof (cases "packet_complete bs")
    case True
    let ?n = "unat (bs ! 2) + NCI_HDR_SIZE"
    obtain ps rest where ih: "sar_read_loop cl (drop ?n bs) (nci_sar_hal_handle_segment cl (take ?n bs) s) =
        (rest, fold (nci_sar_hal_handle_segment cl) ps (nci_sar_hal_handle_segment cl (take ?n bs) s))"
      "drop ?n bs = concat ps @ rest" "\<not> packet_complete rest" "3 * length ps \<le> length (drop ?n bs)"
      "list_all (\<lambda>p. length p = unat (p ! 2) + 3) ps"
      using 1 [OF True refl] by blast
    have "bs = concat (take ?n bs # ps) @ rest" using ih(2) append_take_drop_id [of ?n bs] by simp
    moreover have "sar_read_loop cl bs s = (rest, fold (nci_sar_hal_handle_segment cl) (take ?n bs # ps) s)"
      using True ih(1) by (subst sar_read_loop.simps) (simp add: Let_def)
    moreover have "length (take ?n bs) = unat (take ?n bs ! 2) + 3" "3 + 3 * length ps \<le> length bs"
      using True ih(4) by (auto simp: packet_complete_def)
    ultimately show ?thesis using ih(3,5) by (intro exI [of _ "take ?n bs # ps"] exI [of _ rest]) simp
  next
    case False
    then show ?thesis by (intro exI [of _ "[]"] exI [of _ bs]) (simp add: sar_read_loop.simps)
  qed
qed

end
