(* ===== verification/Sar_Client.thy ===== *)
theory Sar_Client
  imports Sar_Properties
begin

text \<open>
  What the segmentation layer promises its client in return: a property of the client's own
  part of the state (\<open>nci_sar.more\<close>) that all the client's callbacks keep is kept by every
  operation of \<open>src/nci_sar.c\<close>, because the layer changes that part through them only.
\<close>

locale client_invariant =
  fixes cl :: "('a nci_sar_scheme) sar_client" and I :: "'a nci_sar_scheme \<Rightarrow> bool"
  assumes own: "nci_sar.more s = nci_sar.more t \<Longrightarrow> I s \<longleftrightarrow> I t"
    and error: "I s \<Longrightarrow> I (fn_error cl s)"
    and response: "I s \<Longrightarrow> I (fn_handle_response cl gid oid p s)"
    and notification: "I s \<Longrightarrow> I (fn_handle_notification cl gid oid p s)"
    and data_packet: "I s \<Longrightarrow> I (fn_handle_data_packet cl cid p s)"
    and complete: "I s \<Longrightarrow> I (fn_complete cl c ok s)"
    and destroy: "I s \<Longrightarrow> I (fn_destroy cl d s)"
begin

lemma own_fields [simp]:
  "I (s\<lparr>sar_hal := a1\<rparr>) = I s" "I (s\<lparr>sar_started := a2\<rparr>) = I s" "I (s\<lparr>sar_max_logical_conns := a3\<rparr>) = I s"
  "I (s\<lparr>sar_control_payload_limit := a4\<rparr>) = I s" "I (s\<lparr>sar_data_payload_limit := a5\<rparr>) = I s"
  "I (s\<lparr>sar_last_packet_id := a6\<rparr>) = I s" "I (s\<lparr>sar_start_write_id := a7\<rparr>) = I s"
  "I (s\<lparr>sar_write_pending := a8\<rparr>) = I s" "I (s\<lparr>sar_writing := a9\<rparr>) = I s" "I (s\<lparr>sar_cmd := b1\<rparr>) = I s"
  "I (s\<lparr>sar_conn := b2\<rparr>) = I s" "I (s\<lparr>sar_conn_gen := b3\<rparr>) = I s" "I (s\<lparr>sar_control_in := b4\<rparr>) = I s"
  "I (s\<lparr>sar_read_buf := b5\<rparr>) = I s" "I (s\<lparr>sar_next_addr := b6\<rparr>) = I s" "I (s\<lparr>sar_fault := b7\<rparr>) = I s"
  by (rule own, simp)+

lemma basic [simp]: "I (hal_tell c s) = I s" "I (upd_conn i f s) = I s" "I (nci_sar_schedule_write s) = I s"
  "I (sar_start_hal cl s) = I s" "I (sar_attempt_continue s) = I s" "I (sar_enqueue q out s) = I s"
  "I (nci_sar_take_credits cid n s) = I s"
  "I (nci_sar_set_max_control_payload_size m s) = I s" "I (nci_sar_set_max_data_payload_size m s) = I s"
  "I (nci_sar_set_initial_credits cid n s) = I s" "I (nci_sar_add_credits cid n s) = I s"
  by (simp_all add: hal_tell_def upd_conn_def nci_sar_schedule_write_def sar_start_hal_def Let_def sar_attempt_continue_def
      sar_enqueue_def nci_sar_take_credits_def nci_sar_set_max_control_payload_size_def nci_sar_set_max_data_payload_size_def
      nci_sar_set_initial_credits_def nci_sar_add_credits_def split: option.split queue_ref.split prod.split)

lemma pick [simp]: "I (sar_attempt_pick s) = I s"
  by (simp add: sar_attempt_pick_def nci_sar_write_queue_def upd_conn_def split: option.split prod.split queue_ref.split)

lemma sending [simp]: "I (snd (nci_sar_send q c h0 h1 p co de s)) = I s"
  "I (snd (nci_sar_send_command gid oid p co de s)) = I s" "I (snd (nci_sar_send_data_packet cid p co de s)) = I s"
  by (simp_all add: nci_sar_send_command_def nci_sar_send_data_packet_def nci_sar_send_def Let_def)

lemma free: "I s \<Longrightarrow> I (nci_sar_packet_out_free cl p s)"
  by (simp add: nci_sar_packet_out_free_def destroy split: option.split)

lemma run_complete: "I s \<Longrightarrow> I (run_complete cl p ok s)"
  by (simp add: run_complete_def complete split: option.split)

lemma submit: "I s \<Longrightarrow> I (sar_attempt_submit cl s)"
  by (auto simp: sar_attempt_submit_def Let_def split: option.split prod.split intro!: error free run_complete)

lemma attempt_write: "I s \<Longrightarrow> I (nci_sar_attempt_write cl s)"
  by (simp add: nci_sar_attempt_write_def Let_def submit)

lemma written: "I s \<Longrightarrow> I (nci_sar_write_completed cl ok s)"
  by (auto simp: nci_sar_write_completed_def Let_def split: option.split intro!: attempt_write error free run_complete)

lemma start_write: "I s \<Longrightarrow> I (nci_sar_start_write cl s)"
  by (simp add: nci_sar_start_write_def attempt_write)

lemma cancel: "I s \<Longrightarrow> I (nci_sar_cancel cl pid s)"
  by (auto simp: nci_sar_cancel_def sar_cancel_queued_def split: option.split prod.split intro!: free)

lemma control_segment: "I s \<Longrightarrow> I (nci_sar_hal_handle_control_segment cl packet s)"
  by (auto simp: nci_sar_hal_handle_control_segment_def nci_sar_hal_handle_control_packet_def Let_def
      intro!: error response notification)

lemma data_segment: "I s \<Longrightarrow> I (nci_sar_hal_handle_data_segment cl packet s)"
  by (auto simp: nci_sar_hal_handle_data_segment_def Let_def intro!: error data_packet)

lemma segment: "I s \<Longrightarrow> I (nci_sar_hal_handle_segment cl packet s)"
  by (simp add: nci_sar_hal_handle_segment_def Let_def error control_segment data_segment)

lemma read_loop: "I s \<Longrightarrow> I (snd (sar_read_loop cl bs s))"
proof (induction "length bs" arbitrary: bs s rule: less_induct)
  case less
  show ?case
  proof (cases "packet_complete bs")
    case True
    let ?n = "unat (bs ! 2) + NCI_HDR_SIZE"
    have "I (snd (sar_read_loop cl (drop ?n bs) (nci_sar_hal_handle_segment cl (take ?n bs) s)))"
      using True less.prems by (intro less.hyps segment) (auto simp: packet_complete_def)
    then show ?thesis using True by (subst sar_read_loop.simps) (simp add: Let_def)
  qed (use less.prems in \<open>simp add: read_loop_incomplete\<close>)
qed

lemma client_read: "I s \<Longrightarrow> I (nci_sar_hal_client_read cl bytes s)"
  using read_loop [of s bytes] read_loop [of "snd (sar_read_loop cl bytes s)"] read_loop [of s]
  by (auto simp: nci_sar_hal_client_read_def Let_def split_beta)

lemma client_error: "I s \<Longrightarrow> I (nci_sar_hal_client_error cl s)"
  by (simp add: nci_sar_hal_client_error_def error)

lemma start: "I s \<Longrightarrow> I (snd (nci_sar_start cl s))"
  by (simp add: nci_sar_start_def Let_def)

lemma fold_free: "I s \<Longrightarrow> I (fold (nci_sar_packet_out_free cl) ps s)"
  by (induction ps arbitrary: s) (simp_all add: free)

lemma clear_queue: "I s \<Longrightarrow> I (nci_sar_clear_queue cl q s)"
  by (simp add: nci_sar_clear_queue_def fold_free)

lemma fold_conns:
  assumes "\<And>i s. I s \<Longrightarrow> I (f i s)" shows "I s \<Longrightarrow> I (fold f is s)"
  by (induction "is" arbitrary: s) (simp_all add: assms)

lemma reset: "I s \<Longrightarrow> I (nci_sar_reset cl s)"
  by (auto simp: nci_sar_reset_def sar_reset_conns_def Let_def split: option.split
      intro!: free run_complete clear_queue fold_conns)

lemma max_conns: "I s \<Longrightarrow> I (nci_sar_set_max_logical_connections cl m s)"
  by (auto simp: nci_sar_set_max_logical_connections_def Let_def intro!: clear_queue fold_conns)

lemma step: "sar_step cl s t \<Longrightarrow> I s \<Longrightarrow> I t"
  by (induction rule: sar_step.induct)
    (simp_all add: cancel start_write written client_read client_error start reset max_conns)

end
end
