(* ===== verification/Sm_View.thy ===== *)
theory Sm_View
  imports Sm_Spec Nci_Machine Sar_Client
begin

text \<open>
  The refinement of the abstract machine, first half: the fields of the state machine as a
  record of their own (\<open>sm_view\<close>), its operations on that record, and the lemmas that the
  operations of \<open>src/nci_sm.c\<close> act on the view as those do (locale \<open>observing_app\<close>: the
  application may send and cancel data in its handlers, but not switch states there).
\<close>

unbundle bit_operations_syntax

section \<open>The view\<close>

record sm_view =
  v_last :: NCI_STATE
  v_next :: NCI_STATE
  v_then :: "nci_transition option"
  v_going :: "nci_transition option"
  v_active :: "NCI_STATE option"
  v_entering :: nat
  v_pending_next :: bool
  v_pending_last :: bool
  v_current_out :: NCI_STATE
  v_next_out :: NCI_STATE
  v_timed :: bool
  v_timer :: "nci_transition \<Rightarrow> bool"

definition sm_view :: "nci_world \<Rightarrow> sm_view" where
  "sm_view w = \<lparr>v_last = sm_last_state w, v_next = sm_next_state w, v_then = sm_next_transition w,
     v_going = sm_active_transition w, v_active = sm_active_state w, v_entering = sm_entering_state w,
     v_pending_next = sm_pending_next w, v_pending_last = sm_pending_last w,
     v_current_out = core_current_state w, v_next_out = core_next_state w,
     v_timed = (core_cmd_timeout w \<noteq> 0), v_timer = tr_timeout_id w\<rparr>"

lemma sm_view_same [simp]:
  "sm_view (w\<lparr>core_cmd_id := a1\<rparr>) = sm_view w" "sm_view (w\<lparr>core_cmd_timeout_id := a2\<rparr>) = sm_view w"
  "sm_view (w\<lparr>core_rsp_gid := a3\<rparr>) = sm_view w" "sm_view (w\<lparr>core_rsp_oid := a4\<rparr>) = sm_view w"
  "sm_view (w\<lparr>core_rsp_handler := a5\<rparr>) = sm_view w"
  "sm_view (w\<lparr>sm_rf_interfaces := b1\<rparr>) = sm_view w" "sm_view (w\<lparr>sm_max_routing_table_size := b2\<rparr>) = sm_view w"
  "sm_view (w\<lparr>sm_techs := b3\<rparr>) = sm_view w" "sm_view (w\<lparr>sm_version := b4\<rparr>) = sm_view w"
  "sm_view (w\<lparr>sm_nfcc_discovery := b5\<rparr>) = sm_view w" "sm_view (w\<lparr>sm_nfcc_routing := b6\<rparr>) = sm_view w"
  "sm_view (w\<lparr>sm_nfcc_power := b7\<rparr>) = sm_view w" "sm_view (w\<lparr>sm_op_mode := b8\<rparr>) = sm_view w"
  "sm_view (w\<lparr>sm_llc_version := b9\<rparr>) = sm_view w" "sm_view (w\<lparr>sm_llc_wks := c0\<rparr>) = sm_view w"
  "sm_view (w\<lparr>sm_la_nfcid1 := c1\<rparr>) = sm_view w" "sm_view (w\<lparr>sm_li_a_hb := c2\<rparr>) = sm_view w"
  "sm_view (w\<lparr>sm_default_la_nfcid1 := c3\<rparr>) = sm_view w" "sm_view (w\<lparr>sm_default_li_a_hb := c4\<rparr>) = sm_view w"
  "sm_view (w\<lparr>sm_pending_switch := c9\<rparr>) = sm_view w" "sm_view (w\<lparr>st_active := d2\<rparr>) = sm_view w"
  "sm_view (w\<lparr>st_discoveries := d3\<rparr>) = sm_view w"
  "sm_view (w\<lparr>tr_ntf := d5\<rparr>) = sm_view w" "sm_view (w\<lparr>tr_expecting_ntf := d6\<rparr>) = sm_view w"
  "sm_view (w\<lparr>sar_fault := d7\<rparr>) = sm_view w"
  by (simp_all add: sm_view_def)

lemma sm_view_upd [simp]:
  "sm_view (w\<lparr>core_current_state := a7\<rparr>) = (sm_view w)\<lparr>v_current_out := a7\<rparr>"
  "sm_view (w\<lparr>core_next_state := a8\<rparr>) = (sm_view w)\<lparr>v_next_out := a8\<rparr>"
  "sm_view (w\<lparr>sm_last_state := a9\<rparr>) = (sm_view w)\<lparr>v_last := a9\<rparr>"
  "sm_view (w\<lparr>sm_next_state := b0\<rparr>) = (sm_view w)\<lparr>v_next := b0\<rparr>"
  "sm_view (w\<lparr>sm_next_transition := c5\<rparr>) = (sm_view w)\<lparr>v_then := c5\<rparr>"
  "sm_view (w\<lparr>sm_active_transition := c6\<rparr>) = (sm_view w)\<lparr>v_going := c6\<rparr>"
  "sm_view (w\<lparr>sm_active_state := c7\<rparr>) = (sm_view w)\<lparr>v_active := c7\<rparr>"
  "sm_view (w\<lparr>sm_entering_state := c8\<rparr>) = (sm_view w)\<lparr>v_entering := c8\<rparr>"
  "sm_view (w\<lparr>sm_pending_next := d0\<rparr>) = (sm_view w)\<lparr>v_pending_next := d0\<rparr>"
  "sm_view (w\<lparr>sm_pending_last := d1\<rparr>) = (sm_view w)\<lparr>v_pending_last := d1\<rparr>"
  "sm_view (w\<lparr>tr_timeout_id := d4\<rparr>) = (sm_view w)\<lparr>v_timer := d4\<rparr>"
  by (simp_all add: sm_view_def)

text \<open>Reading through the view.\<close>

lemma sm_view_fields:
  "sm_last_state w = v_last (sm_view w)" "sm_next_state w = v_next (sm_view w)"
  "sm_next_transition w = v_then (sm_view w)" "sm_active_transition w = v_going (sm_view w)"
  "sm_active_state w = v_active (sm_view w)" "sm_entering_state w = v_entering (sm_view w)"
  "sm_pending_next w = v_pending_next (sm_view w)" "sm_pending_last w = v_pending_last (sm_view w)"
  "core_current_state w = v_current_out (sm_view w)" "core_next_state w = v_next_out (sm_view w)"
  "(core_cmd_timeout w = 0) = (\<not> v_timed (sm_view w))" "tr_timeout_id w = v_timer (sm_view w)"
  by (simp_all add: sm_view_def)

lemma sm_view_more: "nci_sar.more s = nci_sar.more t \<Longrightarrow> sm_view s = sm_view t"
  by (cases s, cases t) (simp add: sm_view_def nci_world.defs)

section \<open>Operations on the view\<close>

definition v_set_last :: "NCI_STATE \<Rightarrow> sm_view \<Rightarrow> sm_view" where
  "v_set_last s v = (if v_last v \<noteq> s then v\<lparr>v_last := s, v_pending_last := True\<rparr> else v)"

definition v_set_next :: "NCI_STATE \<Rightarrow> sm_view \<Rightarrow> sm_view" where
  "v_set_next s v = (if v_next v \<noteq> s then v\<lparr>v_next := s, v_pending_next := True\<rparr> else v)"

definition v_emit :: "sm_view \<Rightarrow> sm_view" where
  "v_emit v =
     v\<lparr>v_next_out := (if v_pending_next v then v_next v else v_next_out v),
       v_current_out := (if v_pending_last v then v_last v else v_current_out v),
       v_pending_next := False, v_pending_last := False\<rparr>"

definition v_finish :: "sm_view \<Rightarrow> sm_view" where
  "v_finish v = (case v_going v of Some t \<Rightarrow> v\<lparr>v_going := None, v_timer := (v_timer v)(t := False)\<rparr> | None \<Rightarrow> v)"

definition v_start :: "nci_transition \<Rightarrow> sm_view \<Rightarrow> sm_view" where
  "v_start t v =
     (let v1 = (if v_going v \<noteq> Some t then v_finish v else v)
      in v1\<lparr>v_going := Some t, v_active := None, v_timer := (v_timer v1)(t := v_timed v1)\<rparr>)"

definition v_land :: "NCI_STATE \<Rightarrow> sm_view \<Rightarrow> sm_view" where
  "v_land s v =
     (let v1 = v\<lparr>v_active := Some s, v_then := None\<rparr>;
          v2 = (case v_then v of Some t \<Rightarrow> if transition_dest t = s then v1 else v_start t v1 | None \<Rightarrow> v1);
          v3 = v_set_last s v2
      in if v_going v3 = None then v_set_next s v3 else v3)"

definition v_enter :: "NCI_STATE \<Rightarrow> sm_view \<Rightarrow> sm_view" where
  "v_enter s v = v_land s (v_finish v)"

definition v_stall :: "NCI_STATE \<Rightarrow> sm_view \<Rightarrow> sm_view" where
  "v_stall s v = (v_set_next s (v_set_last s (v_finish v)))\<lparr>v_active := Some s\<rparr>"

lemma v_entering_comm:
  "v_finish (v\<lparr>v_entering := n\<rparr>) = (v_finish v)\<lparr>v_entering := n\<rparr>"
  "v_land s (v\<lparr>v_entering := n\<rparr>) = (v_land s v)\<lparr>v_entering := n\<rparr>"
  by (simp_all add: v_finish_def v_land_def v_start_def v_set_last_def v_set_next_def Let_def split: option.split)

lemma v_entering_id [simp]: "v_entering v = n \<Longrightarrow> v\<lparr>v_entering := n\<rparr> = v"
  by auto

lemma v_entering_same [simp]:
  "v_entering (v_finish v) = v_entering v" "v_entering (v_start t v) = v_entering v"
  "v_entering (v_set_last s v) = v_entering v" "v_entering (v_set_next s v) = v_entering v"
  "v_entering (v_emit v) = v_entering v" "v_entering (v_land s v) = v_entering v" "v_entering (v_enter s v) = v_entering v" "v_entering (v_stall s v) = v_entering v"
  by (simp_all add: v_finish_def v_start_def v_set_last_def v_set_next_def v_emit_def v_enter_def v_land_def v_stall_def Let_def split: option.split)

definition v_switch_during :: "nci_transition \<Rightarrow> NCI_STATE \<Rightarrow> sm_view \<Rightarrow> sm_view" where
  "v_switch_during t next v =
     (if transition_dest t = next then v
      else (case nci_state_get_transition (transition_dest t) next of
              Some t' \<Rightarrow> v_set_next next (v\<lparr>v_then := Some t'\<rparr>)
            | None \<Rightarrow> if NCI_IS_INTERNAL_STATE next then v_enter next v else v_stall NCI_STATE_ERROR v))"

definition v_switch_from :: "NCI_STATE \<Rightarrow> sm_view \<Rightarrow> sm_view" where
  "v_switch_from next v =
     (case nci_state_get_transition (v_last v) next of
        Some t \<Rightarrow> v_set_next next (v_start t v)
      | None \<Rightarrow>
          if NCI_IS_INTERNAL_STATE next then v_enter next v
          else let v1 = v_start (case nci_state_get_transition (v_last v) NCI_RFST_IDLE of Some t \<Rightarrow> t | None \<Rightarrow> TReset) v
               in if next = NCI_RFST_IDLE then v_set_next NCI_RFST_IDLE v1
                  else (case nci_state_get_transition NCI_RFST_IDLE next of
                          Some t' \<Rightarrow> v_set_next next (v1\<lparr>v_then := Some t'\<rparr>)
                        | None \<Rightarrow> v_stall NCI_STATE_ERROR (v1\<lparr>v_then := None\<rparr>)))"

definition v_switch :: "NCI_STATE \<Rightarrow> sm_view \<Rightarrow> sm_view" where
  "v_switch next v =
     (if v_next v = next then v
      else v_emit (case v_going v of
                     Some t \<Rightarrow> v_switch_during t next (v\<lparr>v_then := None\<rparr>)
                   | None \<Rightarrow> v_switch_from next (v\<lparr>v_then := None\<rparr>)))"

section \<open>The abstraction and what is always true\<close>

definition v_abs :: "sm_view \<Rightarrow> sm_spec" where
  "v_abs v = (case v_going v of None \<Rightarrow> At (v_last v) | Some t \<Rightarrow> Going (v_last v) t (v_then v) (v_next v))"

text \<open>
  What holds whenever a handler returns, up to the signals not yet emitted (\<open>v_sound\<close>), and
  when they are emitted too (\<open>v_wf\<close>).
\<close>

definition v_sound :: "sm_view \<Rightarrow> bool" where
  "v_sound v \<longleftrightarrow>
     v_entering v = 0 \<and> (v_pending_last v \<or> v_current_out v = v_last v) \<and> (v_pending_next v \<or> v_next_out v = v_next v) \<and>
     (\<forall>t. v_timer v t \<longleftrightarrow> v_timed v \<and> v_going v = Some t) \<and>
     (case v_going v of
        Some t \<Rightarrow> v_active v = None
      | None \<Rightarrow> v_next v = v_last v \<and>
          (v_active v = Some (v_last v) \<or> v_last v = NCI_RFST_W4_ALL_DISCOVERIES \<and> v_active v = Some NCI_RFST_W4_HOST_SELECT) \<and>
          (v_then v = None \<or> v_last v \<in> {NCI_STATE_ERROR, NCI_STATE_STOP}))"

definition v_wf :: "sm_view \<Rightarrow> bool" where
  "v_wf v \<longleftrightarrow> v_sound v \<and> \<not> v_pending_next v \<and> \<not> v_pending_last v"

lemma v_wf_sound: "v_wf v \<Longrightarrow> v_sound v"
  by (simp add: v_wf_def)

lemma v_emit_wf: "v_sound v \<Longrightarrow> v_wf (v_emit v)" and v_emit_abs [simp]: "v_abs (v_emit v) = v_abs v"
  by (auto simp: v_wf_def v_sound_def v_emit_def v_abs_def split: option.splits)

lemma v_then_sound: "v_sound v \<Longrightarrow> v_sound (v\<lparr>v_then := None\<rparr>)"
  by (auto simp: v_sound_def split: option.splits)

lemmas v_defs = v_set_last_def v_set_next_def v_finish_def v_start_def v_land_def v_enter_def v_stall_def Let_def

lemma v_enter_sound:
  assumes "v_sound v"
  shows "v_sound (v_enter s v)"
  using assms by (auto simp: v_sound_def v_defs split: option.splits if_splits)

lemma v_enter_abs:
  assumes "v_sound v" and "v_going v = None \<Longrightarrow> v_then v = None"
  shows "v_abs (v_enter s v) = spec_enter s (v_abs v)"
  using assms by (auto simp: v_sound_def v_abs_def v_defs split: option.splits if_splits)

lemma v_stall_sound:
  assumes "v_sound v" and "s \<in> {NCI_STATE_ERROR, NCI_STATE_STOP}"
  shows "v_sound (v_stall s v)" "v_abs (v_stall s v) = At s"
  using assms by (auto simp: v_sound_def v_abs_def v_defs split: option.splits if_splits)

lemma v_going_sound:
  "v_sound v \<Longrightarrow> v_going v = None \<Longrightarrow> v_sound (v_set_next n ((v_start t v)\<lparr>v_then := th\<rparr>))"
  "v_sound v \<Longrightarrow> v_going v = None \<Longrightarrow> v_sound (v_start t v)"
  "v_sound v \<Longrightarrow> v_going v = Some t \<Longrightarrow> v_sound (v_set_next n (v\<lparr>v_then := th\<rparr>))"
  by (auto simp: v_sound_def v_defs)

lemma v_going_abs:
  "v_going v = None \<Longrightarrow> v_abs (v_set_next n ((v_start t v)\<lparr>v_then := th\<rparr>)) = Going (v_last v) t th n"
  "v_going v = Some t \<Longrightarrow> v_abs (v_set_next n (v\<lparr>v_then := th\<rparr>)) = Going (v_last v) t th n"
  by (auto simp: v_abs_def v_defs)

lemma v_then_id: "v_then v = None \<Longrightarrow> v\<lparr>v_then := None\<rparr> = v"
  by simp

lemma v_start_then [simp]: "v_then (v_start t v) = v_then v" "v_last (v_start t v) = v_last v" "v_going (v_start t v) = Some t"
  "v_next (v_start t v) = v_next v"
  by (simp_all add: v_defs split: option.split)

lemma v_switch_during:
  assumes "v_sound v" and "v_going v = Some t" and "v_then v = None" and "v_next v \<noteq> next"
  shows "v_sound (v_switch_during t next v) \<and> v_abs (v_switch_during t next v) = spec_switch next (v_abs v)"
proof -
  have "v_abs v = Going (v_last v) t None (v_next v)" using assms by (simp add: v_abs_def)
  then show ?thesis
    using assms by (auto simp: v_switch_during_def v_going_sound v_going_abs v_stall_sound v_enter_sound v_enter_abs
        split: option.split)
qed

lemma v_switch_from:
  assumes "v_sound v" and "v_going v = None" and "v_then v = None" and "v_next v \<noteq> next"
  shows "v_sound (v_switch_from next v) \<and> v_abs (v_switch_from next v) = spec_switch next (v_abs v)"
proof -
  have abs: "v_abs v = At (v_last v)" and last: "v_last v \<noteq> next" using assms by (auto simp: v_abs_def v_sound_def)
  have going: "v_sound (v_set_next n (v_start t v)) \<and> v_abs (v_set_next n (v_start t v)) = Going (v_last v) t None n" for n t
    using v_going_sound(1) [OF assms(1,2), where n = n and t = t and th = None]
      v_going_abs(1) [OF assms(2), where n = n and t = t and th = None]
    by (simp add: v_then_id assms(3))
  have st: "v_sound (v_start t v)" for t by (rule v_going_sound(2) [OF assms(1,2)])
  show ?thesis
    using last assms by (simp add: v_switch_from_def abs Let_def going v_going_sound v_going_abs st v_then_id v_stall_sound
        v_enter_sound v_enter_abs split: option.split)
qed

lemma v_switch_sound:
  assumes "v_sound v" shows "v_sound (v_switch next v)" "v_abs (v_switch next v) = spec_switch next (v_abs v)"
proof -
  have "v_sound (v_switch next v) \<and> v_abs (v_switch next v) = spec_switch next (v_abs v)"
  proof (cases "v_next v = next")
    case True
    then show ?thesis using assms by (auto simp: v_switch_def v_abs_def v_sound_def split: option.splits)
  next
    case False
    have "spec_switch next (v_abs (v\<lparr>v_then := None\<rparr>)) = spec_switch next (v_abs v)"
      using False by (simp add: v_abs_def split: option.split)
    then show ?thesis
      using False v_switch_during [of "v\<lparr>v_then := None\<rparr>"] v_switch_from [of "v\<lparr>v_then := None\<rparr>"] v_then_sound [OF assms]
      by (simp add: v_switch_def v_emit_wf v_wf_sound split: option.split)
  qed
  then show "v_sound (v_switch next v)" "v_abs (v_switch next v) = spec_switch next (v_abs v)" by blast+
qed

lemma v_switch_quiet: "v_wf v \<Longrightarrow> v_wf (v_switch next v)"
  using v_switch_sound [OF v_wf_sound] by (auto simp: v_switch_def v_wf_def v_emit_def)

lemma v_reset_wf:
  assumes "v_wf v"
  shows "v_wf (v_emit (v_switch NCI_RFST_IDLE (v_enter NCI_STATE_INIT (v\<lparr>v_then := None\<rparr>))))"
    "v_abs (v_switch NCI_RFST_IDLE (v_enter NCI_STATE_INIT (v\<lparr>v_then := None\<rparr>))) =
      spec_switch NCI_RFST_IDLE (At NCI_STATE_INIT)"
proof -
  let ?v = "v\<lparr>v_then := None\<rparr>"
  have v: "v_sound ?v" by (rule v_then_sound [OF v_wf_sound [OF assms]])
  have "spec_enter NCI_STATE_INIT (v_abs ?v) = At NCI_STATE_INIT" by (simp add: v_abs_def split: option.split)
  then show "v_wf (v_emit (v_switch NCI_RFST_IDLE (v_enter NCI_STATE_INIT ?v)))"
    "v_abs (v_switch NCI_RFST_IDLE (v_enter NCI_STATE_INIT ?v)) = spec_switch NCI_RFST_IDLE (At NCI_STATE_INIT)"
    using v_switch_sound [OF v_enter_sound [OF v]] v_enter_abs [OF v, of NCI_STATE_INIT] by (simp_all add: v_emit_wf)
qed

section \<open>The code acts on the view\<close>

locale observing_app =
  fixes env :: nci_env
  assumes app_more: "nci_sar.more (env_app env e w) = nci_sar.more w"
begin

lemma app_view [simp]: "sm_view (env_app env e w) = sm_view w"
  by (rule sm_view_more) (rule app_more)

end

sublocale observing_app \<subseteq> free_more: client_invariant "free_client env" "\<lambda>w. nci_sar.more w = m" for m
  by unfold_locales (auto simp: free_client_def run_destroy_def nci_core_send_data_msg_destroy_def app_more
      split: sar_destroy.split option.split)

context observing_app begin

lemma cancel_command_view [simp]: "sm_view (nci_core_cancel_command env w) = sm_view w"
  using free_more.cancel [of w "nci_sar.more w"]
  by (simp add: nci_core_cancel_command_def Let_def) (metis free_more.cancel sm_view_more sm_view_same(2))

lemma sar_view [simp]:
  "sm_view (snd (nci_sar_send_command gid oid p co de w)) = sm_view w"
  "sm_view (nci_sar_set_max_logical_connections (free_client env) n w) = sm_view w"
  "sm_view (nci_sar_set_max_control_payload_size b w) = sm_view w"
  "sm_view (nci_sar_set_max_data_payload_size b w) = sm_view w"
  "sm_view (nci_sar_set_initial_credits cid b w) = sm_view w"
  "sm_view (nci_sar_add_credits cid b w) = sm_view w"
  by (rule sm_view_more; simp add: free_more.max_conns)+

lemma io_cancel_view [simp]: "sm_view (nci_core_io_cancel env w) = sm_view w"
  by (simp add: nci_core_io_cancel_def)

end

lemma send_command_id: "fst (nci_sar_send_command gid oid p co de w) \<noteq> 0"
  by (simp add: nci_sar_send_command_def nci_sar_send_def Let_def)

context observing_app begin

lemma send_view [simp]:
  "fst (nci_sm_send_command env gid oid p h w)" "sm_view (snd (nci_sm_send_command env gid oid p h w)) = sm_view w"
proof -
  let ?w = "(nci_core_cancel_command env w)\<lparr>core_rsp_gid := gid, core_rsp_oid := oid, core_rsp_handler := Some h\<rparr>"
  obtain pid w' where send: "nci_sar_send_command gid oid p (Some Core_command_completion) None ?w = (pid, w')" by force
  have "pid \<noteq> 0" "sm_view w' = sm_view w"
    using send_command_id [of gid oid p "Some Core_command_completion" None ?w]
      sar_view(1) [of gid oid p "Some Core_command_completion" None ?w] by (simp_all add: send)
  then show "fst (nci_sm_send_command env gid oid p h w)" "sm_view (snd (nci_sm_send_command env gid oid p h w)) = sm_view w"
    by (simp_all add: nci_sm_send_command_def nci_core_io_send_def Let_def send)
qed

lemma basic_view [simp]:
  "sm_view (nci_sm_set_last_state s w) = v_set_last s (sm_view w)"
  "sm_view (nci_sm_set_next_state s w) = v_set_next s (sm_view w)"
  "sm_view (nci_sm_emit_pending_signals env w) = v_emit (sm_view w)"
  "sm_view (nci_sm_finish_active_transition w) = v_finish (sm_view w)"
  "sm_view (leave_active_state w) = sm_view w"
  by (simp_all add: nci_sm_set_last_state_def nci_sm_set_next_state_def nci_sm_emit_pending_signals_def Let_def
      nci_core_next_state_changed_def nci_core_last_state_changed_def v_set_last_def v_set_next_def v_emit_def
      nci_sm_finish_active_transition_def nci_transition_finished_def nci_transition_default_finished_def
      nci_transition_listen_active_to_idle_reset_def v_finish_def leave_active_state_def nci_state_leave_def
      sm_view_fields split: option.split)

lemma start_view:
  "fst (nci_transition_start env t w)"
  "sm_view (snd (nci_transition_start env t w)) = (sm_view w)\<lparr>v_timer := (v_timer (sm_view w))(t := v_timed (sm_view w))\<rparr>"
  by (cases t; simp add: nci_transition_start_def nci_transition_reset_start_def nci_transition_default_start_def
      and_then_def nci_transition_deactivate_to_idle_def nci_transition_deactivate_to_discovery_def
      nci_transition_listen_active_to_idle_reset_def sm_view_fields)+

lemma start_transition_view [simp]:
  "fst (nci_sm_start_transition env t w)" "sm_view (snd (nci_sm_start_transition env t w)) = v_start t (sm_view w)"
proof -
  let ?w = "(if sm_active_transition w \<noteq> Some t then nci_sm_finish_active_transition w else w)\<lparr>sm_active_transition := Some t\<rparr>"
  obtain w' where st: "nci_transition_start env t ?w = (True, w')"
    using start_view(1) [of t ?w] by (cases "nci_transition_start env t ?w") simp
  show "fst (nci_sm_start_transition env t w)" using st by (simp add: nci_sm_start_transition_def Let_def)
  show "sm_view (snd (nci_sm_start_transition env t w)) = v_start t (sm_view w)"
    using st start_view(2) [of t ?w] by (simp add: nci_sm_start_transition_def v_start_def Let_def sm_view_fields)
qed

lemma start_transition_case [simp]:
  "(case nci_sm_start_transition env t w of (True, w1) \<Rightarrow> f w1 | (False, w1) \<Rightarrow> g w1) =
   f (snd (nci_sm_start_transition env t w))"
  using start_transition_view(1) [of t w] by (cases "nci_sm_start_transition env t w") simp

lemma activate_view:
  assumes "\<And>w. sm_view (entered s p w) = sm_view w"
  shows "sm_view (sm_activate entered s p w) = (sm_view w)\<lparr>v_active := Some s\<rparr>"
  by (simp add: sm_activate_def Let_def assms sm_view_fields)

lemma start_next_view:
  "sm_view (sm_start_next env s w) =
     (let v = (sm_view w)\<lparr>v_then := None\<rparr> in
      case v_then (sm_view w) of Some t \<Rightarrow> if transition_dest t = s then v else v_start t v | None \<Rightarrow> v)"
  by (simp add: sm_start_next_def Let_def sm_view_fields split: option.split)

lemma settle_view:
  "sm_view (sm_settle s w) =
     (let v = v_set_last s (sm_view w) in if v_going v = None then v_set_next s v else v)"
  by (simp add: sm_settle_def Let_def sm_view_fields)

lemma land_view:
  assumes "\<And>w. sm_view (entered s p w) = sm_view w"
  shows "sm_view (sm_settle s (sm_start_next env s (sm_activate entered s p w))) = v_land s (sm_view w)"
  by (simp add: activate_view [of entered, OF assms] start_next_view settle_view v_land_def Let_def cong: if_cong option.case_cong)

lemma enter_internal_view:
  assumes "\<And>w. sm_view (entered s p w) = sm_view w"
  shows "sm_view (nci_sm_enter_state_internal env entered s p w) = v_enter s (sm_view w)"
  by (simp add: nci_sm_enter_state_internal_def land_view [of entered, OF assms] v_enter_def Let_def sm_view_fields v_entering_comm)

lemma entered0_view: "sm_view (nci_state_entered0 env s p w) = sm_view w"
  by (simp add: nci_state_entered0_def nci_state_w4_host_select_entered_def nci_sm_schedule_switch_def
      split: NCI_STATE.split option.split nci_param.split list.split)

lemma entered_view: "s \<noteq> NCI_RFST_W4_ALL_DISCOVERIES \<or> p = None \<Longrightarrow> sm_view (nci_state_entered env s p w) = sm_view w"
  by (auto simp: nci_state_entered_def entered0_view nci_state_w4_all_discoveries_start_def Let_def)

lemma enter_state_view [simp]:
  "s \<noteq> NCI_RFST_W4_ALL_DISCOVERIES \<or> p = None \<Longrightarrow> sm_view (nci_sm_enter_state env s p w) = v_emit (v_enter s (sm_view w))"
  by (simp add: nci_sm_enter_state_def enter_internal_view entered_view)

lemma enter_host_select_view [simp]:
  "sm_view (nci_sm_enter_host_select env ntfs w) = v_emit (v_enter NCI_RFST_W4_HOST_SELECT (sm_view w))"
  by (simp add: nci_sm_enter_host_select_def enter_internal_view entered0_view)

lemma stall_internal_view:
  "sm_view (nci_sm_stall_internal env ty w) =
     v_stall (case ty of NCI_STALL_STOP \<Rightarrow> NCI_STATE_STOP | NCI_STALL_ERROR \<Rightarrow> NCI_STATE_ERROR) (sm_view w)"
  by (simp add: nci_sm_stall_internal_def Let_def v_stall_def sm_view_fields entered_view)

end

context observing_app begin

lemma switch_during_view: "sm_view (switch_during_transition env t next w) = v_switch_during t next (sm_view w)"
  by (simp add: switch_during_transition_def v_switch_during_def Let_def enter_internal_view entered_view
      stall_internal_view split: option.split)

lemma switch_from_view: "sm_view (switch_from_state env next w) = v_switch_from next (sm_view w)"
  by (simp add: switch_from_state_def v_switch_from_def Let_def enter_internal_view entered_view stall_internal_view
      sm_view_fields(1) split: option.split)

lemma switch_internal_view [simp]: "sm_view (nci_sm_switch_internal env next w) = v_switch next (sm_view w)"
  by (simp add: nci_sm_switch_internal_def v_switch_def switch_from_view switch_during_view Let_def sm_view_fields
      split: option.split)

end

end
