(* ===== verification/World_Invariant.thy ===== *)
theory World_Invariant
  imports Nci_Machine
begin

text \<open>
  How a property of the state gets through the whole library. The locale \<open>handler_invariant\<close>
  lists the few basic operations through which the state machine, the states and the
  transitions change anything but their own bookkeeping (\<open>control_same\<close>): sending a command,
  cancelling one, the limits and credits of the segmentation layer, the modes, the signals to
  the application. A property that these keep is kept by every response handler, notification
  handler and switch. \<open>library_invariant\<close> adds the entry points of the segmentation layer and
  the restart: then the property holds in every reachable state.
\<close>

unbundle bit_operations_syntax

section \<open>Bookkeeping\<close>

text \<open>
  Equal but for the fields in which the state machine, the states and the transitions keep
  their places, their pending signals and what the NFCC has told about itself.
\<close>

definition control_same :: "nci_world \<Rightarrow> nci_world \<Rightarrow> bool" where
  "control_same w w' \<longleftrightarrow>
     nci_sar.truncate w = nci_sar.truncate w' \<and> core_cmd_id w = core_cmd_id w' \<and>
     core_cmd_timeout_id w = core_cmd_timeout_id w' \<and> core_rsp_gid w = core_rsp_gid w' \<and>
     core_rsp_oid w = core_rsp_oid w' \<and> core_rsp_handler w = core_rsp_handler w' \<and>
     core_cmd_timeout w = core_cmd_timeout w' \<and> sm_techs w = sm_techs w' \<and> sm_op_mode w = sm_op_mode w' \<and>
     sm_llc_version w = sm_llc_version w' \<and> sm_llc_wks w = sm_llc_wks w' \<and> sm_la_nfcid1 w = sm_la_nfcid1 w' \<and>
     sm_li_a_hb w = sm_li_a_hb w' \<and> sm_default_la_nfcid1 w = sm_default_la_nfcid1 w' \<and>
     sm_default_li_a_hb w = sm_default_li_a_hb w'"

section \<open>What the handlers keep\<close>

locale handler_invariant =
  fixes env :: nci_env and P :: "nci_world \<Rightarrow> bool"
  assumes frame: "control_same w w' \<Longrightarrow> P w = P w'"
    and fault: "P w \<Longrightarrow> P (w\<lparr>sar_fault := True\<rparr>)"
    and app: "P w \<Longrightarrow> P (env_app env e w)"
    and send: "P w \<Longrightarrow> P (snd (nci_sm_send_command env gid oid p h w))"
    and io_cancel: "P w \<Longrightarrow> P (nci_core_io_cancel env w)"
    and completed: "P w \<Longrightarrow> P (w\<lparr>core_cmd_id := 0\<rparr>)"
    and answered: "P w \<Longrightarrow> P (w\<lparr>core_cmd_timeout_id := False, core_cmd_id := 0, core_rsp_handler := None\<rparr>)"
    and control_limit: "P w \<Longrightarrow> P (nci_sar_set_max_control_payload_size b w)"
    and data_limit: "P w \<Longrightarrow> P (nci_sar_set_max_data_payload_size b w)"
    and connections: "P w \<Longrightarrow> P (nci_sar_set_max_logical_connections (free_client env) b w)"
    and initial_credits: "P w \<Longrightarrow> P (nci_sar_set_initial_credits cid b w)"
    and add_credits: "P w \<Longrightarrow> P (nci_sar_add_credits cid b w)"
    and op_mode: "P w \<Longrightarrow> P (w\<lparr>sm_op_mode := m\<rparr>)"
    and techs: "P w \<Longrightarrow> P (w\<lparr>sm_techs := t AND NCI_TECH_ALL\<rparr>)"
begin

lemma control_fields [simp]:
  "P (w\<lparr>core_current_state := a7\<rparr>) = P w" "P (w\<lparr>core_next_state := a8\<rparr>) = P w"
  "P (w\<lparr>sm_last_state := a9\<rparr>) = P w" "P (w\<lparr>sm_next_state := b0\<rparr>) = P w"
  "P (w\<lparr>sm_rf_interfaces := b1\<rparr>) = P w" "P (w\<lparr>sm_max_routing_table_size := b2\<rparr>) = P w"
  "P (w\<lparr>sm_version := b4\<rparr>) = P w" "P (w\<lparr>sm_nfcc_discovery := b5\<rparr>) = P w"
  "P (w\<lparr>sm_nfcc_routing := b6\<rparr>) = P w" "P (w\<lparr>sm_nfcc_power := b7\<rparr>) = P w"
  "P (w\<lparr>sm_next_transition := c5\<rparr>) = P w" "P (w\<lparr>sm_active_transition := c6\<rparr>) = P w"
  "P (w\<lparr>sm_active_state := c7\<rparr>) = P w" "P (w\<lparr>sm_entering_state := c8\<rparr>) = P w"
  "P (w\<lparr>sm_pending_switch := c9\<rparr>) = P w" "P (w\<lparr>sm_pending_next := d0\<rparr>) = P w"
  "P (w\<lparr>sm_pending_last := d1\<rparr>) = P w" "P (w\<lparr>st_active := d2\<rparr>) = P w"
  "P (w\<lparr>st_discoveries := d3\<rparr>) = P w" "P (w\<lparr>tr_timeout_id := d4\<rparr>) = P w"
  "P (w\<lparr>tr_ntf := d5\<rparr>) = P w" "P (w\<lparr>tr_expecting_ntf := d6\<rparr>) = P w"
  by (rule frame, simp add: control_same_def nci_sar.defs)+

lemmas basic_keep [simp] = fault completed answered

lemma if_keep: "(b \<Longrightarrow> P s) \<Longrightarrow> (\<not> b \<Longrightarrow> P t) \<Longrightarrow> P (if b then s else t)"
  by simp

lemma emit_keep: "P w \<Longrightarrow> P (nci_sm_emit_pending_signals env w)"
  by (simp add: nci_sm_emit_pending_signals_def nci_core_next_state_changed_def nci_core_last_state_changed_def Let_def app)

lemma set_states_keep: "P (nci_sm_set_last_state s w) = P w" "P (nci_sm_set_next_state s w) = P w"
  by (simp_all add: nci_sm_set_last_state_def nci_sm_set_next_state_def)

lemma finish_leave_keep: "P (nci_sm_finish_active_transition w) = P w" "P (leave_active_state w) = P w"
  by (simp_all add: nci_sm_finish_active_transition_def nci_transition_finished_def nci_transition_default_finished_def
      nci_transition_listen_active_to_idle_reset_def leave_active_state_def nci_state_leave_def Let_def split: option.split)

lemma transition_start_keep: "P w \<Longrightarrow> P (snd (nci_transition_start env t w))"
  by (cases t) (simp_all add: nci_transition_start_def nci_transition_reset_start_def nci_transition_default_start_def
      and_then_def nci_transition_deactivate_to_idle_def nci_transition_deactivate_to_discovery_def send
      nci_transition_listen_active_to_idle_reset_def)

lemma start_transition_keep: "P w \<Longrightarrow> P (snd (nci_sm_start_transition env t w))"
  using transition_start_keep [of "(if sm_active_transition w \<noteq> Some t then nci_sm_finish_active_transition w else w)\<lparr>sm_active_transition := Some t\<rparr>" t]
  by (simp add: nci_sm_start_transition_def Let_def finish_leave_keep split: prod.split bool.split)
    (auto simp: finish_leave_keep split: if_splits)

lemma start_next_keep: "P w \<Longrightarrow> P (sm_start_next env s w)"
  by (auto simp: sm_start_next_def Let_def intro!: start_transition_keep split: option.split)

lemma settle_keep: "P (sm_settle s w) = P w"
  by (simp add: sm_settle_def Let_def set_states_keep)

lemma enter_internal_keep:
  assumes "\<And>s p w. P w \<Longrightarrow> P (entered s p w)" and "P w"
  shows "P (nci_sm_enter_state_internal env entered s p w)"
  by (simp add: nci_sm_enter_state_internal_def Let_def settle_keep)
    (rule start_next_keep, simp add: sm_activate_def Let_def assms finish_leave_keep)

lemma entered0_keep: "P w \<Longrightarrow> P (nci_state_entered0 env s p w)"
  by (auto simp: nci_state_entered0_def nci_state_w4_host_select_entered_def nci_sm_schedule_switch_def
      intro!: data_limit send split: NCI_STATE.split option.split nci_param.split list.split)

lemma with_copies_keep:
  assumes "\<And>c w. P w \<Longrightarrow> P (f c w)" and "P w" shows "P (with_copies env ntfs f w)"
  using assms by (auto simp: with_copies_def split: option.split prod.split)

lemma handle_discovery_keep: "P w \<Longrightarrow> P (nci_state_w4_all_discoveries_handle_discovery env ntf w)"
  unfolding nci_state_w4_all_discoveries_handle_discovery_def Let_def
  by (intro with_copies_keep if_keep) (auto simp: nci_sm_enter_host_select_def intro!: emit_keep enter_internal_keep entered0_keep)

lemma entered_keep: "P w \<Longrightarrow> P (nci_state_entered env s p w)"
  by (auto simp: nci_state_entered_def nci_state_w4_all_discoveries_start_def Let_def handle_discovery_keep entered0_keep
      split: option.split nci_param.split)

lemma enter_state_keep: "P w \<Longrightarrow> P (nci_sm_enter_state env s p w)"
  unfolding nci_sm_enter_state_def by (intro emit_keep enter_internal_keep entered_keep)

lemma stall_internal_keep: "P w \<Longrightarrow> P (nci_sm_stall_internal env ty w)"
  by (auto simp: nci_sm_stall_internal_def Let_def set_states_keep finish_leave_keep intro!: entered_keep io_cancel)

lemma stall_keep: "P w \<Longrightarrow> P (nci_sm_stall env ty w)"
  by (simp add: nci_sm_stall_def emit_keep stall_internal_keep)

lemma switch_during_keep: "P w \<Longrightarrow> P (switch_during_transition env t next w)"
  by (auto simp: switch_during_transition_def Let_def set_states_keep intro!: enter_internal_keep entered_keep stall_internal_keep
      split: option.split)

lemma switch_from_keep: "P w \<Longrightarrow> P (switch_from_state env next w)"
  using start_transition_keep [of w]
  by (auto simp: switch_from_state_def Let_def set_states_keep intro!: enter_internal_keep entered_keep stall_internal_keep
      split: option.split prod.split bool.split) (metis snd_conv)+

lemma switch_internal_keep: "P w \<Longrightarrow> P (nci_sm_switch_internal env next w)"
  by (auto simp: nci_sm_switch_internal_def Let_def intro!: emit_keep switch_during_keep switch_from_keep split: option.split)

lemma switch_to_keep: "P w \<Longrightarrow> P (nci_sm_switch_to env s w)"
  by (auto simp: nci_sm_switch_to_def nci_sm_schedule_switch_def Let_def intro!: switch_internal_keep)

lemma switch_proc_keep: "P w \<Longrightarrow> P (nci_sm_switch_proc env w)"
  by (auto simp: nci_sm_switch_proc_def intro!: switch_internal_keep split: option.split)

lemma sm_reset_keep: "P w \<Longrightarrow> P (nci_sm_reset env w)"
  unfolding nci_sm_reset_def by (intro emit_keep switch_internal_keep enter_internal_keep entered_keep) simp_all

lemma modes_keep:
  "P w \<Longrightarrow> P (nci_sm_set_op_mode env m w)" "P w \<Longrightarrow> P (snd (nci_sm_set_tech env tech w))"
  by (auto simp: nci_sm_set_op_mode_def nci_sm_set_tech_def nci_sm_restart_def Let_def
      intro!: switch_to_keep op_mode techs)

lemma intf_activated_keep: "P w \<Longrightarrow> P (nci_sm_intf_activated env ntf w)"
  by (simp add: nci_sm_intf_activated_def app data_limit initial_credits)

lemma credit_entries_keep: "P w \<Longrightarrow> P (add_credit_entries n bs w)"
  by (induction n bs w rule: add_credit_entries.induct) (simp_all add: add_credits)

lemma credits_ntf_keep: "P w \<Longrightarrow> P (nci_sm_handle_conn_credits_ntf env p w)"
  by (auto simp: nci_sm_handle_conn_credits_ntf_def intro!: credit_entries_keep stall_keep split: list.split)

lemma deactivate_ntf_keep: "P w \<Longrightarrow> P (nci_sm_handle_rf_deactivate_ntf env p w)"
  by (auto simp: nci_sm_handle_rf_deactivate_ntf_def intro!: enter_state_keep stall_keep
      split: option.split NCI_DEACTIVATION_TYPE.split)

lemma finish_keep: "P w \<Longrightarrow> P (nci_transition_finish env t w)"
  by (simp add: nci_transition_finish_def enter_state_keep)

lemma when_active_keep:
  assumes "\<And>w. P w \<Longrightarrow> P (f w)" and "P w" shows "P (when_active t st f w)"
  using assms by (simp add: when_active_def)

lemma routing_keep: "P w \<Longrightarrow> P (nci_transition_idle_to_discover_map env w)"
  "P w \<Longrightarrow> P (nci_transition_idle_to_discovery_discover env w)"
  "P w \<Longrightarrow> P (nci_transition_idle_to_discovery_set_routing env es h w)"
  "P w \<Longrightarrow> P (nci_transition_idle_to_discovery_configure_routing env w)"
  "P w \<Longrightarrow> P (nci_transition_idle_to_discovery_set_config env fl a b c d e w)"
  by (simp_all add: nci_transition_idle_to_discover_map_def nci_transition_idle_to_discovery_discover_def
      nci_transition_idle_to_discovery_set_routing_def nci_transition_idle_to_discovery_configure_routing_def
      nci_transition_idle_to_discovery_set_config_def Let_def send)

lemma init_done_keep: "P w \<Longrightarrow> P (init_done env a b w)"
  unfolding init_done_def nci_transition_reset_set_config_def
  by (intro send data_limit control_limit connections)

lemma rsp_keep: "P w \<Longrightarrow> P (run_rsp env h st p w)"
  unfolding run_rsp_def run_rsp_defs nci_transition_error_def Let_def
  by (cases h)
    (auto intro!: when_active_keep enter_state_keep stall_keep finish_keep routing_keep init_done_keep send
      simp: nci_transition_deactivate_to_idle_def split: prod.split)

lemma intf_ntf_keep:
  assumes "\<And>ok ntf w. P w \<Longrightarrow> P (f ok ntf w)" and "P w"
  shows "P (with_intf_activated p f w)"
  using assms by (auto simp: with_intf_activated_def split: option.split prod.split)

lemma default_ntf_keep: "P w \<Longrightarrow> P (nci_state_default_handle_ntf env gid oid p w)"
  by (simp add: nci_state_default_handle_ntf_def credits_ntf_keep)

lemma interface_error_keep:
  "P w \<Longrightarrow> P (snd (nci_state_poll_active_interface_error_ntf env p w))"
  "P w \<Longrightarrow> P (snd (nci_state_listen_active_interface_error_ntf env p w))"
  by (simp_all add: nci_state_poll_active_interface_error_ntf_def nci_state_listen_active_interface_error_ntf_def switch_to_keep)

lemma case_handled_keep:
  "P (snd r) \<Longrightarrow> (\<And>w. P w \<Longrightarrow> P (f w)) \<Longrightarrow>
   P (case r of (True, w) \<Rightarrow> w | (False, w) \<Rightarrow> f w)"
  by (auto split: prod.split bool.split)

lemma state_ntf_keep: "P w \<Longrightarrow> P (nci_state_handle_ntf env s gid oid p w)"
proof (cases s)
  case NCI_RFST_DISCOVERY
  then show "P w \<Longrightarrow> ?thesis"
    by (auto simp: nci_state_handle_ntf_def nci_state_discovery_handle_ntf_def nci_state_discovery_discover_ntf_def
        nci_state_discovery_intf_activated_ntf_def Let_def
        intro!: if_keep default_ntf_keep with_copies_keep intf_ntf_keep enter_state_keep intf_activated_keep switch_to_keep split: option.split)
next
  case NCI_RFST_W4_ALL_DISCOVERIES
  then show "P w \<Longrightarrow> ?thesis"
    by (auto simp: nci_state_handle_ntf_def nci_state_w4_all_discoveries_handle_ntf_def
        nci_state_w4_all_discoveries_discover_ntf_def intro!: default_ntf_keep handle_discovery_keep split: option.split)
next
  case NCI_RFST_W4_HOST_SELECT
  then show "P w \<Longrightarrow> ?thesis"
    by (auto simp: nci_state_handle_ntf_def nci_state_w4_host_select_handle_ntf_def Let_def
        nci_state_w4_host_select_handle_intf_activated_ntf_def nci_state_w4_host_select_generic_error_ntf_def
        intro!: if_keep default_ntf_keep intf_ntf_keep enter_state_keep intf_activated_keep switch_to_keep)
next
  case NCI_RFST_POLL_ACTIVE
  then show "P w \<Longrightarrow> ?thesis"
    by (auto simp: nci_state_handle_ntf_def nci_state_poll_active_handle_ntf_def
        intro!: if_keep case_handled_keep interface_error_keep default_ntf_keep deactivate_ntf_keep)
next
  case NCI_RFST_LISTEN_ACTIVE
  then show "P w \<Longrightarrow> ?thesis"
    by (auto simp: nci_state_handle_ntf_def nci_state_listen_active_handle_ntf_def nci_state_listen_active_rf_deactivate_ntf_def
        intro!: if_keep case_handled_keep interface_error_keep default_ntf_keep enter_state_keep stall_keep
        split: option.split NCI_DEACTIVATION_TYPE.split)
next
  case NCI_RFST_LISTEN_SLEEP
  then show "P w \<Longrightarrow> ?thesis"
    by (auto simp: nci_state_handle_ntf_def nci_state_listen_sleep_handle_ntf_def nci_state_listen_sleep_rf_deactivate_ntf_def
        nci_state_listen_sleep_intf_activated_ntf_def
        intro!: if_keep intf_ntf_keep default_ntf_keep enter_state_keep stall_keep intf_activated_keep
        split: option.split NCI_DEACTIVATION_TYPE.split)
qed (simp_all add: nci_state_handle_ntf_def default_ntf_keep)

lemma transition_ntf_keep: "P w \<Longrightarrow> P (nci_transition_handle_ntf env t gid oid p w)"
  by (cases t)
    (auto simp: nci_transition_handle_ntf_def nci_transition_default_handle_ntf_def nci_transition_reset_handle_ntf_def
      nci_transition_listen_active_to_idle_handle_ntf_def nci_transition_error_def
      intro!: credits_ntf_keep deactivate_ntf_keep send finish_keep stall_keep split: option.split)

lemma ntf_keep: "P w \<Longrightarrow> P (nci_sm_handle_ntf env gid oid p w)"
  by (simp add: nci_sm_handle_ntf_def transition_ntf_keep state_ntf_keep split: option.split)

lemma completion_keep: "P w \<Longrightarrow> P (run_completion env c ok w)"
  by (auto simp: run_completion_def nci_core_command_completion_def nci_core_send_data_msg_complete_def Let_def
      intro!: stall_keep app split: sar_completion.split option.split)

lemma response_keep: "P w \<Longrightarrow> P (nci_core_sar_handle_response env gid oid p w)"
  by (auto simp: nci_core_sar_handle_response_def intro!: rsp_keep split: option.split)


lemma destroy_keep: "P w \<Longrightarrow> P (run_destroy env d w)"
  by (simp add: run_destroy_def nci_core_send_data_msg_destroy_def app split: sar_destroy.split option.split)

lemma callbacks_keep:
  "P w \<Longrightarrow> P (fn_error (core_client env) w)" "P w \<Longrightarrow> P (fn_handle_response (core_client env) gid oid p w)"
  "P w \<Longrightarrow> P (fn_handle_notification (core_client env) gid oid p w)"
  "P w \<Longrightarrow> P (fn_handle_data_packet (core_client env) cid p w)"
  "P w \<Longrightarrow> P (fn_complete (core_client env) c ok w)" "P w \<Longrightarrow> P (fn_destroy (core_client env) de w)"
  by (simp_all add: core_client_def nci_core_sar_error_def nci_core_sar_handle_notification_def
      nci_core_sar_handle_data_packet_def stall_keep response_keep ntf_keep app completion_keep destroy_keep)

end

section \<open>What every entry into the library keeps\<close>

locale library_invariant = handler_invariant +
  assumes start_write: "P w \<Longrightarrow> P (nci_sar_start_write (core_client env) w)"
    and written: "P w \<Longrightarrow> P (nci_sar_write_completed (core_client env) ok w)"
    and read: "P w \<Longrightarrow> P (nci_sar_hal_client_read (core_client env) bytes w)"
    and hal_error: "P w \<Longrightarrow> P (nci_sar_hal_client_error (core_client env) w)"
    and cancel: "P w \<Longrightarrow> P (nci_sar_cancel (core_client env) pid w)"
    and send_data: "P w \<Longrightarrow> P (snd (nci_sar_send_data_packet cid payload complete destroy w))"
    and expired: "P w \<Longrightarrow> P ((nci_sar_cancel (core_client env) (core_cmd_id w) (w\<lparr>core_cmd_timeout_id := False\<rparr>))
      \<lparr>core_cmd_id := 0, core_rsp_handler := None\<rparr>)"
    and restart: "P w \<Longrightarrow> P (nci_core_restart_internal env w)"
    and param_set: "P w \<Longrightarrow> core_param_typed x \<Longrightarrow> P (core_param_set x w)"
    and param_reset: "P w \<Longrightarrow> P (core_param_reset k w)"
    and new: "P (nci_core_new (\<lambda>w. w))"
    and configured: "hex2bin_ok lib \<Longrightarrow> P (nci_core_new (nci_sm_parse_config lib))"
begin

lemma params_fold_keep:
  "P w \<Longrightarrow> P (fold core_param_reset ks w)" "P w \<Longrightarrow> list_all core_param_typed ps \<Longrightarrow> P (fold core_param_set ps w)"
  by (induction ks arbitrary: w, simp_all add: param_reset) (induction ps arbitrary: w, simp_all add: param_set)

lemma app_fold_keep: "P w \<Longrightarrow> P (fold (\<lambda>k. env_app env (SigParamChanged k)) ks w)"
  by (induction ks arbitrary: w) (simp_all add: app)

lemma params_keep:
  "P w \<Longrightarrow> P (nci_core_reset_param env key w)"
  "P w \<Longrightarrow> list_all core_param_typed (case ps of Some l \<Rightarrow> l | None \<Rightarrow> []) \<Longrightarrow> P (nci_core_set_params env ps reset w)"
  by (auto simp: nci_core_reset_param_def nci_core_set_params_def Let_def
      intro!: restart app app_fold_keep params_fold_keep param_reset split: option.split)

lemma command_timeout_keep:
  assumes "P w" shows "P (nci_core_command_timeout env w)"
proof -
  let ?w = "(nci_sar_cancel (core_client env) (core_cmd_id w) (w\<lparr>core_cmd_timeout_id := False\<rparr>))\<lparr>core_cmd_id := 0\<rparr>"
  have "P (?w\<lparr>core_rsp_handler := None\<rparr>)" using expired [OF assms] by simp
  moreover have "w\<lparr>core_rsp_handler := None\<rparr> = w" if "core_rsp_handler w = None" for w :: nci_world using that by simp
  ultimately have "P (case core_rsp_handler ?w of
      Some h \<Rightarrow> run_rsp env h NCI_REQUEST_TIMEOUT [] (?w\<lparr>core_rsp_handler := None\<rparr>) | None \<Rightarrow> ?w)"
    by (cases "core_rsp_handler ?w") (metis option.simps(4), simp add: rsp_keep)
  then show ?thesis unfolding nci_core_command_timeout_def Let_def by (intro stall_keep) (simp cong: option.case_cong)
qed

lemma step_keep: "core_step env w w' \<Longrightarrow> P w \<Longrightarrow> P w'"
  by (induction rule: core_step.induct)
    (simp_all add: start_write written read hal_error cancel command_timeout_keep nci_transition_timeout_def stall_keep
      switch_proc_keep nci_core_restart_def restart nci_core_set_state_def switch_to_keep nci_core_set_op_mode_def
      nci_core_set_tech_def modes_keep params_keep nci_core_send_data_msg_def send_data nci_core_cancel_def)

lemma reachable_keep: "core_reachable env w \<Longrightarrow> P w"
  by (induction rule: core_reachable.induct) (simp_all add: new configured step_keep)

end

end
