(* ===== verification/World_Sar.thy ===== *)
theory World_Sar
  imports World_Invariant Sar_Client
begin

text \<open>
  The segmentation layer stays sound (\<open>sar_ok\<close>, theory \<open>Sar_Invariant\<close>) under everything the
  core and the state machine do with it, for every application whose handlers keep it sound
  themselves (the locale \<open>sar_app\<close>): \<open>sar_ok\<close> is a \<open>handler_invariant\<close>, so the core and the
  state machine are the client that \<open>sar_callbacks\<close> asks for, and the facts of that locale
  make it a \<open>library_invariant\<close>.
\<close>

unbundle bit_operations_syntax

lemma sar_ok_fields [simp]:
  "sar_ok (w\<lparr>core_cmd_id := a1\<rparr>) = sar_ok w" "sar_ok (w\<lparr>core_cmd_timeout_id := a2\<rparr>) = sar_ok w"
  "sar_ok (w\<lparr>core_rsp_gid := a3\<rparr>) = sar_ok w" "sar_ok (w\<lparr>core_rsp_oid := a4\<rparr>) = sar_ok w"
  "sar_ok (w\<lparr>core_rsp_handler := a5\<rparr>) = sar_ok w" "sar_ok (w\<lparr>core_cmd_timeout := a6\<rparr>) = sar_ok w"
  "sar_ok (w\<lparr>core_current_state := a7\<rparr>) = sar_ok w" "sar_ok (w\<lparr>core_next_state := a8\<rparr>) = sar_ok w"
  "sar_ok (w\<lparr>sm_last_state := a9\<rparr>) = sar_ok w" "sar_ok (w\<lparr>sm_next_state := b0\<rparr>) = sar_ok w"
  "sar_ok (w\<lparr>sm_rf_interfaces := b1\<rparr>) = sar_ok w" "sar_ok (w\<lparr>sm_max_routing_table_size := b2\<rparr>) = sar_ok w"
  "sar_ok (w\<lparr>sm_techs := b3\<rparr>) = sar_ok w" "sar_ok (w\<lparr>sm_version := b4\<rparr>) = sar_ok w"
  "sar_ok (w\<lparr>sm_nfcc_discovery := b5\<rparr>) = sar_ok w" "sar_ok (w\<lparr>sm_nfcc_routing := b6\<rparr>) = sar_ok w"
  "sar_ok (w\<lparr>sm_nfcc_power := b7\<rparr>) = sar_ok w" "sar_ok (w\<lparr>sm_op_mode := b8\<rparr>) = sar_ok w"
  "sar_ok (w\<lparr>sm_llc_version := b9\<rparr>) = sar_ok w" "sar_ok (w\<lparr>sm_llc_wks := c0\<rparr>) = sar_ok w"
  "sar_ok (w\<lparr>sm_la_nfcid1 := c1\<rparr>) = sar_ok w" "sar_ok (w\<lparr>sm_li_a_hb := c2\<rparr>) = sar_ok w"
  "sar_ok (w\<lparr>sm_default_la_nfcid1 := c3\<rparr>) = sar_ok w" "sar_ok (w\<lparr>sm_default_li_a_hb := c4\<rparr>) = sar_ok w"
  "sar_ok (w\<lparr>sm_next_transition := c5\<rparr>) = sar_ok w" "sar_ok (w\<lparr>sm_active_transition := c6\<rparr>) = sar_ok w"
  "sar_ok (w\<lparr>sm_active_state := c7\<rparr>) = sar_ok w" "sar_ok (w\<lparr>sm_entering_state := c8\<rparr>) = sar_ok w"
  "sar_ok (w\<lparr>sm_pending_switch := c9\<rparr>) = sar_ok w" "sar_ok (w\<lparr>sm_pending_next := d0\<rparr>) = sar_ok w"
  "sar_ok (w\<lparr>sm_pending_last := d1\<rparr>) = sar_ok w" "sar_ok (w\<lparr>st_active := d2\<rparr>) = sar_ok w"
  "sar_ok (w\<lparr>st_discoveries := d3\<rparr>) = sar_ok w" "sar_ok (w\<lparr>tr_timeout_id := d4\<rparr>) = sar_ok w"
  "sar_ok (w\<lparr>tr_ntf := d5\<rparr>) = sar_ok w" "sar_ok (w\<lparr>tr_expecting_ntf := d6\<rparr>) = sar_ok w"
  "sar_ok (w\<lparr>sar_fault := d7\<rparr>) = sar_ok w"
  by (simp_all add: sar_ok_def buffered_def)

lemma param_ok: "sar_ok (core_param_reset k w) = sar_ok w" "sar_ok (core_param_set p w) = sar_ok w"
  by (simp_all add: core_param_reset_def core_param_set_def nci_sm_set_la_nfcid1_def nci_sm_set_li_a_hb_def Let_def
      split: NCI_CORE_PARAM.split core_param.split option.split)

lemma core_new_ok: "sar_ok (nci_core_new (\<lambda>w. w))" "sar_ok (nci_core_new (nci_sm_parse_config lib))"
proof -
  have init: "sar_ok nci_sm_object_init" by (simp add: nci_sm_object_init_def new_ok)
  have config: "sar_ok (nci_sm_parse_config lib nci_sm_object_init)"
    by (simp add: nci_sm_parse_config_def config_li_a_hb_def config_la_nfcid1_def config_techs_def Let_def init
        split: option.split)
  show "sar_ok (nci_core_new (\<lambda>w. w))" "sar_ok (nci_core_new (nci_sm_parse_config lib))"
    by (simp_all add: nci_core_new_def param_keys_def Let_def param_ok init config)
qed

locale sar_app =
  fixes env :: nci_env
  assumes app_ok: "sar_ok w \<Longrightarrow> sar_ok (env_app env e w)"
    and app_destroy_core: "sar_core (env_app env (AppSendDestroy d) w) = sar_core w"
begin

lemma destroy_same: "sar_core (run_destroy env d w) = sar_core w"
  by (simp add: run_destroy_def nci_core_send_data_msg_destroy_def app_destroy_core split: sar_destroy.split option.split)

end

sublocale sar_app \<subseteq> free: sar_callbacks "free_client env"
  by unfold_locales (simp_all add: free_client_def destroy_same)

context sar_app begin

lemma cancel_command_ok: "sar_ok w \<Longrightarrow> sar_ok (nci_core_cancel_command env w)"
  by (simp add: nci_core_cancel_command_def Let_def free.cancel_ok)

lemma io_cancel_ok: "sar_ok w \<Longrightarrow> sar_ok (nci_core_io_cancel env w)"
  by (simp add: nci_core_io_cancel_def cancel_command_ok)

lemma sm_send_ok:
  assumes "sar_ok w" shows "sar_ok (snd (nci_sm_send_command env gid oid p h w))"
proof -
  let ?w = "(nci_core_cancel_command env w)\<lparr>core_rsp_gid := gid, core_rsp_oid := oid, core_rsp_handler := Some h\<rparr>"
  obtain pid w' where send: "nci_sar_send_command gid oid p (Some Core_command_completion) None ?w = (pid, w')"
    by force
  have "sar_ok w'" using send_command_ok [of ?w gid oid p] send assms by (simp add: cancel_command_ok) (metis snd_conv)
  then show ?thesis by (simp add: nci_sm_send_command_def nci_core_io_send_def Let_def send)
qed

end

lemma sar_ok_frame:
  assumes "control_same w w'" shows "sar_ok w = sar_ok w'"
proof -
  have "sar_ok w = sar_ok (nci_sar.extend (nci_sar.truncate w) (nci_sar.more w'))" for w w' :: nci_world
    by (simp add: sar_ok_def buffered_def nci_sar.defs)
  then show ?thesis using assms unfolding control_same_def by metis
qed

sublocale sar_app \<subseteq> handlers: handler_invariant env sar_ok
  by unfold_locales
    (rule sar_ok_frame | simp add: app_ok sm_send_ok io_cancel_ok sar_keep set_max_data_ok set_max_control_ok
      free.set_max_conns_ok add_credits_ok)+

sublocale sar_app \<subseteq> core: sar_callbacks "core_client env"
proof unfold_locales
  show "sar_core (fn_destroy (core_client env) d w) = sar_core w" for d w by (simp add: core_client_def destroy_same)
qed (rule handlers.callbacks_keep, assumption)+

context sar_app begin

lemma restart_ok: "sar_ok w \<Longrightarrow> sar_ok (nci_core_restart_internal env w)"
  unfolding nci_core_restart_internal_def by (intro handlers.sm_reset_keep core.reset_ok cancel_command_ok)

end

sublocale sar_app \<subseteq> library: library_invariant env sar_ok
  by unfold_locales
    (simp_all add: core.start_write_ok core.write_completed_ok core.client_read_ok core.client_error_ok core.cancel_ok
      send_data_packet_ok restart_ok param_ok core_new_ok)

context sar_app begin

lemma reachable_ok: "core_reachable env w \<Longrightarrow> sar_ok w"
  by (rule library.reachable_keep)

end

section \<open>An application that answers\<close>

text \<open>
  It sends every data packet back on its connection, asks for a completion, and sends another
  message when the interface is activated.
\<close>

definition echo_app :: "app_event \<Rightarrow> nci_world \<Rightarrow> nci_world" where
  "echo_app e w =
     (case e of
        SigDataPacket cid p \<Rightarrow> snd (nci_core_send_data_msg cid (Some p) (Some 1) (Some 2) w)
      | SigIntfActivated ntf \<Rightarrow> snd (nci_core_send_data_msg 0 (Some [0x30, 0x00]) None None w)
      | _ \<Rightarrow> w)"

definition echo_env :: nci_env where
  "echo_env = \<lparr>env_hal = (\<lambda>_. True), env_app = echo_app, env_sizeof_ntf = 48, env_sizeof_mode_param = 32,
     env_insert_sorted = (\<lambda>cmp xs x. takeWhile (\<lambda>y. cmp y x < 0) xs @ x # dropWhile (\<lambda>y. cmp y x < 0) xs)\<rparr>"

interpretation echo: sar_app echo_env
  by unfold_locales (auto simp: echo_env_def echo_app_def nci_core_send_data_msg_def intro!: send_data_packet_ok
      split: app_event.split)

section \<open>The property\<close>

text \<open>
  C6. In every reachable state of the library the segmentation layer is sound: its queues are
  well formed and hold each packet once, the packet being written exists whenever a write is
  pending and is in no queue, positions are within the payloads, the numbers of connections
  and the limits are the negotiated ones, partial packets have their headers. This holds for
  any HAL and any application whose handlers keep the layer sound, for instance by sending
  and cancelling; its destroy functions must not touch it.
\<close>

theorem core_sar_sound:
  assumes "\<And>e w. sar_ok w \<Longrightarrow> sar_ok (env_app env e w)"
    and "\<And>d w. sar_core (env_app env (AppSendDestroy d) w) = sar_core w"
    and "core_reachable env w"
  shows "sar_ok w"
  by (rule sar_app.reachable_ok [OF sar_app.intro assms(3)]) (rule assms(1), assumption, rule assms(2))

lemma core_sar_sound_witness:
  "sar_ok (nci_sar_hal_client_read (core_client echo_env) [0x00, 0x00, 0x01, 0xaa] (nci_core_new (\<lambda>w. w)))"
proof (rule core_sar_sound [of echo_env])
  show "core_reachable echo_env (nci_sar_hal_client_read (core_client echo_env) [0x00, 0x00, 0x01, 0xaa] (nci_core_new (\<lambda>w. w)))"
    by (rule core_reachable.step [OF core_reachable.new core_step.read])
qed (rule echo.app_ok echo.app_destroy_core, assumption?)+

end
