(* ===== verification/Sm_Invariant.thy ===== *)
theory Sm_Invariant
  imports Sm_View World_Sar
begin

text \<open>
  The refinement of the abstract machine, second half: every handler of the library, run in a
  sound state, leaves a sound state that the abstract machine reaches by its own steps.
\<close>

unbundle bit_operations_syntax

section \<open>Sound states\<close>

definition sm_wf :: "nci_world \<Rightarrow> bool" where
  "sm_wf w \<longleftrightarrow> v_wf (sm_view w)"

definition sm_abs :: "nci_world \<Rightarrow> sm_spec" where
  "sm_abs w = v_abs (sm_view w)"

text \<open>The states that refine something the abstract machine can reach from \<open>a\<close>.\<close>

definition sm_from :: "sm_spec \<Rightarrow> nci_world \<Rightarrow> bool" where
  "sm_from a w \<longleftrightarrow> sm_wf w \<and> spec_step\<^sup>*\<^sup>* a (sm_abs w)"

lemma sm_from_view: "sm_view w = sm_view w' \<Longrightarrow> sm_from a w = sm_from a w'"
  by (simp add: sm_from_def sm_wf_def sm_abs_def)

lemma sm_from_step:
  assumes "sm_from a w" and "spec_step (sm_abs w) b" and "sm_wf w'" and "sm_abs w' = b" shows "sm_from a w'"
  using assms by (auto simp: sm_from_def)

lemma sm_abs_going: "sm_active_transition w = Some t \<Longrightarrow> sm_abs w = Going (sm_last_state w) t (sm_next_transition w) (sm_next_state w)"
  and sm_abs_at: "sm_active_transition w = None \<Longrightarrow> sm_abs w = At (sm_last_state w)"
  by (simp_all add: sm_abs_def v_abs_def sm_view_fields)

context observing_app begin

lemma from_enter:
  assumes "sm_from a w" and "spec_step (sm_abs w) (spec_enter s (sm_abs w))"
    and "sm_active_transition w = None \<Longrightarrow> sm_last_state w \<notin> {NCI_STATE_ERROR, NCI_STATE_STOP}"
    and "s \<noteq> NCI_RFST_W4_ALL_DISCOVERIES \<or> p = None"
  shows "sm_from a (nci_sm_enter_state env s p w)"
proof (rule sm_from_step [OF assms(1,2)])
  have wf: "v_wf (sm_view w)" using assms(1) by (simp add: sm_from_def sm_wf_def)
  moreover have "v_then (sm_view w) = None" if "v_going (sm_view w) = None"
    using wf assms(3) that by (auto simp: v_wf_def v_sound_def sm_view_fields)
  ultimately show "sm_wf (nci_sm_enter_state env s p w)" "sm_abs (nci_sm_enter_state env s p w) = spec_enter s (sm_abs w)"
    using assms(4) by (simp_all add: sm_wf_def sm_abs_def v_emit_wf v_enter_sound v_wf_sound v_enter_abs)
qed

lemma from_notify:
  assumes "sm_from a w" and "sm_active_transition w = None" and "sm_last_state w = s0" and "(s0, s) \<in> set rf_edges"
    and "s \<noteq> NCI_RFST_W4_ALL_DISCOVERIES"
  shows "sm_from a (nci_sm_enter_state env s p w)"
  using assms spec_step.notify [of s0 s] by (intro from_enter) (auto simp: sm_abs_at rf_edges_def)

lemma from_finish: "sm_from a w \<Longrightarrow> sm_from a (nci_transition_finish env t w)"
  using spec_step.complete
  by (auto simp: nci_transition_finish_def nci_sm_active_transition_def sm_abs_going intro!: from_enter)

lemma from_deactivated:
  assumes "sm_from a w" and "sm_active_transition w = Some t" and "t \<in> {TDeactivateToDiscovery, TPollActiveToIdle}"
    and "s \<in> {NCI_RFST_IDLE, NCI_RFST_DISCOVERY}"
  shows "sm_from a (nci_sm_enter_state env s p w)"
  using assms spec_step.deactivated by (intro from_enter) (auto simp: sm_abs_going)

lemma from_stall [intro]: "sm_from a w \<Longrightarrow> sm_from a (nci_sm_error env w)"
  by (rule sm_from_step [OF _ spec_step.fail])
    (simp_all add: sm_from_def sm_wf_def sm_abs_def nci_sm_stall_def stall_internal_view v_emit_wf v_stall_sound v_wf_sound)

lemma from_switch_internal: "sm_from a w \<Longrightarrow> sm_from a (nci_sm_switch_internal env s w)"
  by (rule sm_from_step [OF _ spec_step.switch]) (simp_all add: sm_from_def sm_wf_def sm_abs_def v_switch_quiet v_switch_sound v_wf_sound)

lemma from_switch_to: "sm_from a w \<Longrightarrow> sm_from a (nci_sm_switch_to env s w)"
  using from_switch_internal [of a "w\<lparr>sm_pending_switch := None\<rparr>" s]
  by (simp add: nci_sm_switch_to_def nci_sm_schedule_switch_def sm_from_view [of "w\<lparr>sm_pending_switch := None\<rparr>" w] Let_def
      sm_from_view [of "w\<lparr>sm_pending_switch := Some s\<rparr>" w])

lemma from_reset: "sm_from a w \<Longrightarrow> sm_from a (nci_sm_reset env w)"
  by (rule sm_from_step [OF _ spec_step.reset])
    (simp_all add: sm_from_def sm_wf_def sm_abs_def nci_sm_reset_def enter_internal_view entered_view v_reset_wf
      del: spec_switch.simps)

lemma from_view_keep:
  assumes "sm_from a w" and "sm_view w' = sm_view w" shows "sm_from a w'"
  using assms sm_from_view by blast

section \<open>Response handlers\<close>

lemma more_views [simp]:
  "sm_view (snd (nci_transition_deactivate_to_idle env h w)) = sm_view w"
  "sm_view (nci_transition_idle_to_discover_map env w) = sm_view w"
  "sm_view (nci_transition_idle_to_discovery_discover env w) = sm_view w"
  "sm_view (nci_transition_idle_to_discovery_set_routing env es h w) = sm_view w"
  "sm_view (nci_transition_idle_to_discovery_configure_routing env w) = sm_view w"
  "sm_view (nci_transition_idle_to_discovery_set_config env fl x b c d e w) = sm_view w"
  "sm_view (init_done env n m w) = sm_view w"
  by (simp_all add: nci_transition_idle_to_discover_map_def nci_transition_idle_to_discovery_discover_def
      nci_transition_idle_to_discovery_set_routing_def nci_transition_idle_to_discovery_configure_routing_def
      nci_transition_idle_to_discovery_set_config_def init_done_def nci_transition_reset_set_config_def
      nci_transition_deactivate_to_idle_def Let_def)

lemma from_fields [simp]:
  "sm_from a (w\<lparr>tr_expecting_ntf := x\<rparr>) = sm_from a w" "sm_from a (w\<lparr>tr_ntf := n\<rparr>) = sm_from a w"
  "sm_from a (w\<lparr>sar_fault := f\<rparr>) = sm_from a w" "sm_from a (w\<lparr>sm_version := ve\<rparr>) = sm_from a w"
  by (rule sm_from_view, simp)+

lemma from_views:
  "sm_from a w \<Longrightarrow> sm_from a (snd (nci_sm_send_command env gid oid p h w))"
  "sm_from a w \<Longrightarrow> sm_from a (snd (nci_transition_deactivate_to_idle env h w))"
  "sm_from a w \<Longrightarrow> sm_from a (nci_transition_idle_to_discover_map env w)"
  "sm_from a w \<Longrightarrow> sm_from a (nci_transition_idle_to_discovery_discover env w)"
  "sm_from a w \<Longrightarrow> sm_from a (nci_transition_idle_to_discovery_set_routing env es h w)"
  "sm_from a w \<Longrightarrow> sm_from a (nci_transition_idle_to_discovery_configure_routing env w)"
  "sm_from a w \<Longrightarrow> sm_from a (nci_transition_idle_to_discovery_set_config env fl x b c d e w)"
  by (rule from_view_keep, assumption, simp)+

lemma from_init_done:
  "sm_from a w \<Longrightarrow> sm_from a (init_done env n m (w\<lparr>sm_rf_interfaces := i, sm_nfcc_discovery := d, sm_nfcc_routing := r,
     sm_nfcc_power := p, sm_max_routing_table_size := z\<rparr>))"
  by (rule from_view_keep, assumption) simp

lemma from_when_active:
  assumes "sm_from a w" and "\<And>w. sm_from a w \<Longrightarrow> sm_active_transition w = Some t \<Longrightarrow> sm_from a (f w)"
  shows "sm_from a (when_active t st f w)"
  using assms by (simp add: when_active_def nci_sm_active_transition_def)

lemma from_rsp: "sm_from a w \<Longrightarrow> sm_from a (run_rsp env h st p w)"
  unfolding run_rsp_def run_rsp_defs nci_transition_error_def Let_def
  by (cases h; simp split del: if_split; (rule from_when_active, assumption)?)
    (auto intro: from_finish from_deactivated from_views from_init_done split: prod.split)

section \<open>Notifications\<close>

lemma credit_entries_view [simp]: "sm_view (add_credit_entries n bs w) = sm_view w"
  by (induction n bs w rule: add_credit_entries.induct) simp_all

lemma from_credits: "sm_from a w \<Longrightarrow> sm_from a (nci_sm_handle_conn_credits_ntf env p w)"
  by (auto simp: nci_sm_handle_conn_credits_ntf_def intro: from_view_keep split: list.split)

lemma from_default_ntf: "sm_from a w \<Longrightarrow> sm_from a (nci_state_default_handle_ntf env gid oid p w)"
  by (simp add: nci_state_default_handle_ntf_def from_credits)

lemma from_intf_activated: "sm_from a w \<Longrightarrow> sm_from a (nci_sm_intf_activated env ntf w)"
  by (erule from_view_keep) (simp add: nci_sm_intf_activated_def)

lemma from_with_intf:
  assumes "sm_from a w" and "\<And>ok ntf. sm_from a (f ok ntf w)" shows "sm_from a (with_intf_activated p f w)"
  using assms by (auto simp: with_intf_activated_def split: option.split prod.split)

lemma from_copies:
  assumes "sm_from a w" and "\<And>c. sm_from a (f c w)" shows "sm_from a (with_copies env ntfs f w)"
  using assms by (auto simp: with_copies_def split: option.split prod.split)

lemma from_interface_error:
  "sm_from a w \<Longrightarrow> sm_from a (snd (nci_state_poll_active_interface_error_ntf env p w))"
  "sm_from a w \<Longrightarrow> sm_from a (snd (nci_state_listen_active_interface_error_ntf env p w))"
  by (simp_all add: nci_state_poll_active_interface_error_ntf_def nci_state_listen_active_interface_error_ntf_def from_switch_to)

lemma from_handled:
  "sm_from a (snd r) \<Longrightarrow> (\<And>w. sm_from a w \<Longrightarrow> sm_from a (f w)) \<Longrightarrow>
   sm_from a (case r of (True, w) \<Rightarrow> w | (False, w) \<Rightarrow> f w)"
  by (auto split: prod.split bool.split)

lemma from_host_select:
  assumes "sm_from a w" and "sm_active_transition w = None" and "sm_last_state w = NCI_RFST_W4_ALL_DISCOVERIES"
  shows "sm_from a (nci_sm_enter_host_select env ntfs w)"
proof -
  have "sm_view (nci_sm_enter_host_select env ntfs w) = sm_view (nci_sm_enter_state env NCI_RFST_W4_HOST_SELECT None w)"
    by simp
  moreover have "sm_from a (nci_sm_enter_state env NCI_RFST_W4_HOST_SELECT None w)"
    using assms by (intro from_notify) (simp_all add: rf_edges_def)
  ultimately show ?thesis using sm_from_view by blast
qed

lemma handle_discovery_view:
  "sm_view (nci_state_w4_all_discoveries_handle_discovery env ntf w) \<in>
     {sm_view w, v_emit (v_enter NCI_RFST_W4_HOST_SELECT (sm_view w))}"
  by (auto simp: nci_state_w4_all_discoveries_handle_discovery_def with_copies_def Let_def split: option.split prod.split)

lemma from_handle_discovery:
  assumes "sm_from a w" and "sm_active_transition w = None" and "sm_last_state w = NCI_RFST_W4_ALL_DISCOVERIES"
  shows "sm_from a (nci_state_w4_all_discoveries_handle_discovery env ntf w)"
  using handle_discovery_view [of ntf w] from_view_keep [OF assms(1)] from_view_keep [OF from_host_select [OF assms]]
  by (auto simp del: enter_host_select_view simp flip: enter_host_select_view)

end

section \<open>Entering \<open>RFST_W4_ALL_DISCOVERIES\<close>, which may nest\<close>

text \<open>Entering from rest, written out.\<close>

definition v_placed :: "NCI_STATE \<Rightarrow> sm_view \<Rightarrow> sm_view" where
  "v_placed s v = v\<lparr>v_active := Some s, v_last := s, v_next := s, v_current_out := s, v_next_out := s\<rparr>"

lemma v_enter_rest:
  assumes "v_going v = None" and "v_then v = None" and "\<not> v_pending_last v" and "\<not> v_pending_next v"
    and "v_last v \<noteq> s" and "v_next v \<noteq> s"
  shows "v_emit (v_enter s v) = v_placed s v"
  using assms by (simp add: v_emit_def v_defs v_placed_def)

context observing_app begin

lemma w4_all_view:
  assumes "v_wf (sm_view w)" and "sm_active_transition w = None" and "sm_last_state w = NCI_RFST_DISCOVERY"
  shows "\<exists>x w'. sm_view (nci_sm_enter_state env NCI_RFST_W4_ALL_DISCOVERIES p w) =
      (v_placed NCI_RFST_W4_ALL_DISCOVERIES (sm_view w))\<lparr>v_active := Some x\<rparr> \<and>
      x \<in> {NCI_RFST_W4_ALL_DISCOVERIES, NCI_RFST_W4_HOST_SELECT} \<and>
      v_active (sm_view (nci_state_entered env NCI_RFST_W4_ALL_DISCOVERIES p w')) = Some x \<and> v_then (sm_view w') = None"
proof -
  let ?s = NCI_RFST_W4_ALL_DISCOVERIES
  let ?w = "nci_sm_finish_active_transition (w\<lparr>sm_entering_state := sm_entering_state w + 1\<rparr>)"
  define u where "u = sm_activate (nci_state_entered env) ?s p ?w"
  obtain v where v: "sm_view w = v" by simp
  let ?v = "v\<lparr>v_entering := Suc 0, v_active := Some ?s\<rparr>"
  have rest: "v_entering v = 0" "v_going v = None" "v_then v = None" "v_last v = NCI_RFST_DISCOVERY" "v_next v = NCI_RFST_DISCOVERY"
    "v_active v = Some NCI_RFST_DISCOVERY" "\<not> v_pending_last v" "\<not> v_pending_next v"
    "v_current_out v = NCI_RFST_DISCOVERY" "v_next_out v = NCI_RFST_DISCOVERY"
    using assms by (auto simp: v_wf_def v_sound_def sm_view_fields v)
  have entered: "sm_view (nci_state_entered env ?s p w') \<in> {sm_view w', v_emit (v_enter NCI_RFST_W4_HOST_SELECT (sm_view w'))}" for w'
    using handle_discovery_view [of _ "w'\<lparr>st_discoveries := []\<rparr>"]
    by (auto simp: nci_state_entered_def nci_state_w4_all_discoveries_start_def Let_def split: option.split nci_param.split)
  have u: "sm_view u = ?v \<or> sm_view u = v_placed NCI_RFST_W4_HOST_SELECT ?v"
    using entered [of "(leave_active_state ?w)\<lparr>sm_active_state := Some ?s\<rparr>"] rest
    by (simp add: u_def sm_activate_def Let_def sm_view_fields v_finish_def v v_enter_rest)
  then have q: "v_going (sm_view u) = None" "v_then (sm_view u) = None" "v_entering (sm_view u) = Suc 0"
    using rest by (auto simp: v_placed_def)
  have "sm_view (sm_start_next env ?s u) = sm_view u"
    using q v_then_id [OF q(2)] by (simp add: start_next_view Let_def)
  then have settle: "sm_view (sm_settle ?s (sm_start_next env ?s u)) = v_set_next ?s (v_set_last ?s (sm_view u))"
    using q(1) by (simp add: settle_view Let_def v_set_last_def)
  define z where "z = sm_settle ?s (sm_start_next env ?s u)"
  have internal: "nci_sm_enter_state_internal env (nci_state_entered env) ?s p w = z\<lparr>sm_entering_state := sm_entering_state z - 1\<rparr>"
    by (simp only: nci_sm_enter_state_internal_def Let_def u_def z_def)
  have "sm_entering_state z - 1 = 0" using q(3) by (simp add: sm_view_fields(6) z_def settle)
  then have "sm_view (nci_sm_enter_state env ?s p w) = v_emit ((v_set_next ?s (v_set_last ?s (sm_view u)))\<lparr>v_entering := 0\<rparr>)"
    by (simp add: nci_sm_enter_state_def internal settle z_def)
  moreover have "v_emit ((v_set_next ?s (v_set_last ?s (sm_view u)))\<lparr>v_entering := 0\<rparr>) =
      (v_placed ?s v)\<lparr>v_active := v_active (sm_view u)\<rparr>"
    using u rest by (cases v, elim disjE) (simp_all add: v_emit_def v_set_last_def v_set_next_def v_placed_def)
  ultimately have placed: "sm_view (nci_sm_enter_state env ?s p w) = (v_placed ?s (sm_view w))\<lparr>v_active := v_active (sm_view u)\<rparr>"
    by (simp add: v)
  have active: "v_active (sm_view u) =
      v_active (sm_view (nci_state_entered env ?s p ((leave_active_state ?w)\<lparr>sm_active_state := Some ?s\<rparr>)))"
    "v_then (sm_view ((leave_active_state ?w)\<lparr>sm_active_state := Some ?s\<rparr>)) = None"
    using rest by (simp_all add: u_def sm_activate_def Let_def sm_view_fields v_finish_def v)
  from u show ?thesis
  proof
    assume "sm_view u = ?v"
    then have "v_active (sm_view u) = Some ?s" by simp
    then show ?thesis using placed active by force
  next
    assume "sm_view u = v_placed NCI_RFST_W4_HOST_SELECT ?v"
    then have "v_active (sm_view u) = Some NCI_RFST_W4_HOST_SELECT" by (simp add: v_placed_def)
    then show ?thesis using placed active by force
  qed
qed

lemma from_w4_all:
  assumes "sm_from a w" and "sm_active_transition w = None" and "sm_last_state w = NCI_RFST_DISCOVERY"
  shows "sm_from a (nci_sm_enter_state env NCI_RFST_W4_ALL_DISCOVERIES p w)"
proof (rule sm_from_step [OF assms(1)])
  show "spec_step (sm_abs w) (At NCI_RFST_W4_ALL_DISCOVERIES)"
    using spec_step.notify [of NCI_RFST_DISCOVERY NCI_RFST_W4_ALL_DISCOVERIES] assms by (simp add: sm_abs_at rf_edges_def)
  have wf: "v_wf (sm_view w)" using assms(1) by (simp add: sm_from_def sm_wf_def)
  obtain x where x: "sm_view (nci_sm_enter_state env NCI_RFST_W4_ALL_DISCOVERIES p w) =
      (v_placed NCI_RFST_W4_ALL_DISCOVERIES (sm_view w))\<lparr>v_active := Some x\<rparr>"
    "x \<in> {NCI_RFST_W4_ALL_DISCOVERIES, NCI_RFST_W4_HOST_SELECT}"
    using w4_all_view [OF wf assms(2,3)] by blast
  then show "sm_wf (nci_sm_enter_state env NCI_RFST_W4_ALL_DISCOVERIES p w)"
    "sm_abs (nci_sm_enter_state env NCI_RFST_W4_ALL_DISCOVERIES p w) = At NCI_RFST_W4_ALL_DISCOVERIES"
    using wf assms(2,3) by (auto simp: sm_wf_def sm_abs_def v_wf_def v_sound_def v_abs_def v_placed_def sm_view_fields)
qed

lemma from_state_ntf:
  assumes "sm_from a w" and "sm_active_transition w = None"
  shows "sm_from a (nci_state_handle_ntf env (sm_last_state w) gid oid p w)"
proof (cases "sm_last_state w")
  case NCI_RFST_DISCOVERY
  then show ?thesis
    using assms from_notify [OF assms NCI_RFST_DISCOVERY]
    by (auto simp: nci_state_handle_ntf_def nci_state_discovery_handle_ntf_def nci_state_discovery_discover_ntf_def
        nci_state_discovery_intf_activated_ntf_def Let_def rf_edges_def
        intro!: from_default_ntf from_copies from_with_intf from_intf_activated from_switch_to from_w4_all split: option.split)
next
  case NCI_RFST_W4_ALL_DISCOVERIES
  then show ?thesis
    using assms by (auto simp: nci_state_handle_ntf_def nci_state_w4_all_discoveries_handle_ntf_def
        nci_state_w4_all_discoveries_discover_ntf_def intro!: from_default_ntf from_handle_discovery split: option.split)
next
  case NCI_RFST_W4_HOST_SELECT
  then show ?thesis
    using assms from_notify [OF assms NCI_RFST_W4_HOST_SELECT]
    by (auto simp: nci_state_handle_ntf_def nci_state_w4_host_select_handle_ntf_def Let_def rf_edges_def
        nci_state_w4_host_select_handle_intf_activated_ntf_def nci_state_w4_host_select_generic_error_ntf_def
        intro!: from_default_ntf from_with_intf from_intf_activated from_switch_to)
next
  case NCI_RFST_POLL_ACTIVE
  then show ?thesis
    using assms from_notify [OF assms NCI_RFST_POLL_ACTIVE]
    by (auto simp: nci_state_handle_ntf_def nci_state_poll_active_handle_ntf_def nci_sm_handle_rf_deactivate_ntf_def rf_edges_def
        intro!: from_handled from_interface_error from_default_ntf split: option.split NCI_DEACTIVATION_TYPE.split)
next
  case NCI_RFST_LISTEN_ACTIVE
  then show ?thesis
    using assms from_notify [OF assms NCI_RFST_LISTEN_ACTIVE]
    by (auto simp: nci_state_handle_ntf_def nci_state_listen_active_handle_ntf_def nci_state_listen_active_rf_deactivate_ntf_def
        rf_edges_def intro!: from_handled from_interface_error from_default_ntf split: option.split NCI_DEACTIVATION_TYPE.split)
next
  case NCI_RFST_LISTEN_SLEEP
  then show ?thesis
    using assms from_notify [OF assms NCI_RFST_LISTEN_SLEEP]
    by (auto simp: nci_state_handle_ntf_def nci_state_listen_sleep_handle_ntf_def nci_state_listen_sleep_rf_deactivate_ntf_def
        nci_state_listen_sleep_intf_activated_ntf_def rf_edges_def
        intro!: from_with_intf from_default_ntf from_intf_activated split: option.split NCI_DEACTIVATION_TYPE.split)
qed (use assms in \<open>simp_all add: nci_state_handle_ntf_def from_default_ntf\<close>)

lemma from_transition_ntf:
  assumes "sm_from a w" and "sm_active_transition w = Some t"
  shows "sm_from a (nci_transition_handle_ntf env t gid oid p w)"
proof -
  have deact: "sm_from a (nci_sm_handle_rf_deactivate_ntf env p w)" if "t = TDeactivateToDiscovery \<or> t = TPollActiveToIdle"
    using from_deactivated [OF assms] that from_stall [OF assms(1)]
    by (auto simp: nci_sm_handle_rf_deactivate_ntf_def split: option.split NCI_DEACTIVATION_TYPE.split)
  show ?thesis
    using assms deact
    by (cases t)
      (auto simp: nci_transition_handle_ntf_def nci_transition_default_handle_ntf_def nci_transition_reset_handle_ntf_def
        nci_transition_listen_active_to_idle_handle_ntf_def nci_transition_error_def
        intro!: from_credits from_finish from_views split: option.split)
qed

lemma from_ntf: "sm_from a w \<Longrightarrow> sm_from a (nci_sm_handle_ntf env gid oid p w)"
  by (simp add: nci_sm_handle_ntf_def from_transition_ntf from_state_ntf split: option.split)

lemma from_destroy: "sm_from a w \<Longrightarrow> sm_from a (run_destroy env d w)"
  by (erule from_view_keep) (simp add: run_destroy_def nci_core_send_data_msg_destroy_def split: sar_destroy.split option.split)

lemma from_app: "sm_from a w \<Longrightarrow> sm_from a (env_app env e w)"
  by (erule from_view_keep) simp

lemma from_core_fields [simp]:
  "sm_from a (w\<lparr>core_cmd_id := x1\<rparr>) = sm_from a w" "sm_from a (w\<lparr>core_cmd_timeout_id := x2\<rparr>) = sm_from a w"
  "sm_from a (w\<lparr>core_rsp_handler := x3\<rparr>) = sm_from a w" "sm_from a (w\<lparr>sm_pending_switch := x4\<rparr>) = sm_from a w"
  by (rule sm_from_view, simp)+

lemma from_completion: "sm_from a w \<Longrightarrow> sm_from a (run_completion env c ok w)"
  by (auto simp: run_completion_def nci_core_command_completion_def nci_core_send_data_msg_complete_def Let_def
      intro: from_app split: sar_completion.split option.split)

lemma from_response: "sm_from a w \<Longrightarrow> sm_from a (nci_core_sar_handle_response env gid oid p w)"
  by (auto simp: nci_core_sar_handle_response_def intro: from_rsp split: option.split)

end

sublocale observing_app \<subseteq> machine: client_invariant "core_client env" "sm_from a" for a
  by unfold_locales
    (auto simp: core_client_def nci_core_sar_error_def nci_core_sar_handle_notification_def
      nci_core_sar_handle_data_packet_def from_response from_ntf from_app from_completion from_destroy
      dest: sm_view_more sm_from_view)

section \<open>Steps of the library\<close>

context observing_app begin

text \<open>The timer that has fired belongs to the active transition, which stalling stops anyway.\<close>

lemma from_transition_timeout:
  assumes "sm_from a w" and "tr_timeout_id w t" shows "sm_from a (nci_transition_timeout env t w)"
proof -
  let ?w = "w\<lparr>tr_timeout_id := (tr_timeout_id w)(t := False)\<rparr>"
  have "v_going (sm_view w) = Some t" using assms by (simp add: sm_from_def sm_wf_def v_wf_def v_sound_def sm_view_fields)
  then have "v_finish (sm_view ?w) = v_finish (sm_view w)" by (simp add: v_finish_def sm_view_fields)
  then have "sm_view (nci_sm_error env ?w) = sm_view (nci_sm_error env w)"
    by (simp add: nci_sm_stall_def stall_internal_view v_stall_def)
  then show ?thesis using from_stall [OF assms(1)] sm_from_view unfolding nci_transition_timeout_def by blast
qed

lemma from_command_timeout: "sm_from a w \<Longrightarrow> sm_from a (nci_core_command_timeout env w)"
  by (auto simp: nci_core_command_timeout_def Let_def intro!: from_stall from_rsp machine.cancel split: option.split)

lemma from_restart: "sm_from a w \<Longrightarrow> sm_from a (nci_core_restart_internal env w)"
  unfolding nci_core_restart_internal_def by (intro from_reset machine.reset) (erule from_view_keep, simp)

lemma from_modes:
  "sm_from a w \<Longrightarrow> sm_from a (nci_sm_set_op_mode env m w)" "sm_from a w \<Longrightarrow> sm_from a (snd (nci_sm_set_tech env tech w))"
  by (auto simp: nci_sm_set_op_mode_def nci_sm_set_tech_def nci_sm_restart_def Let_def intro!: from_switch_to
      intro: from_view_keep)

lemma param_view [simp]: "sm_view (core_param_reset k w) = sm_view w" "sm_view (core_param_set x w) = sm_view w"
  by (simp_all add: core_param_reset_def core_param_set_def nci_sm_set_la_nfcid1_def nci_sm_set_li_a_hb_def Let_def
      split: NCI_CORE_PARAM.split core_param.split option.split)

lemma param_fold_view [simp]: "sm_view (fold core_param_reset ks w) = sm_view w" "sm_view (fold core_param_set ps w) = sm_view w"
  "sm_view (fold (\<lambda>k. env_app env (SigParamChanged k)) ks w) = sm_view w"
  by (induction ks arbitrary: w, simp_all) (induction ps arbitrary: w, simp_all)

lemma from_params:
  "sm_from a w \<Longrightarrow> sm_from a (nci_core_reset_param env key w)" "sm_from a w \<Longrightarrow> sm_from a (nci_core_set_params env ps reset w)"
  by (auto simp: nci_core_reset_param_def nci_core_set_params_def Let_def intro!: from_restart intro: from_view_keep
      split: option.split)

lemma from_core_step: "core_step env w w' \<Longrightarrow> sm_from a w \<Longrightarrow> sm_from a w'"
  by (induction rule: core_step.induct)
    (auto simp: nci_sm_switch_proc_def nci_core_restart_def nci_core_set_state_def
      nci_core_set_op_mode_def nci_core_set_tech_def nci_core_send_data_msg_def nci_core_cancel_def
      intro!: machine.start_write machine.written machine.client_read machine.client_error machine.cancel
        from_command_timeout from_transition_timeout from_stall from_switch_internal from_restart from_switch_to from_modes from_params)

lemma new_wf: "sm_wf (nci_core_new (\<lambda>w. w))" "sm_wf (nci_core_new (nci_sm_parse_config lib))"
proof -
  have parts: "sm_view (config_li_a_hb lib w) = sm_view w" "sm_view (config_la_nfcid1 lib w) = sm_view w"
    "sm_view (config_techs lib w) = sm_view w" for w
    by (simp_all add: config_li_a_hb_def config_la_nfcid1_def config_techs_def Let_def split: option.split)
  have config: "sm_view (nci_sm_parse_config lib w) = sm_view w" for w by (simp add: nci_sm_parse_config_def parts)
  have init: "sm_view nci_sm_object_init =
      \<lparr>v_last = NCI_STATE_INIT, v_next = NCI_STATE_INIT, v_then = None, v_going = None, v_active = Some NCI_STATE_INIT,
       v_entering = 0, v_pending_next = False, v_pending_last = False, v_current_out = NCI_STATE_INIT,
       v_next_out = NCI_STATE_INIT, v_timed = True, v_timer = (\<lambda>_. False)\<rparr>"
    by (simp add: sm_view_def nci_sm_object_init_def nci_world.defs nci_sar_new_def)
  show "sm_wf (nci_core_new (\<lambda>w. w))" "sm_wf (nci_core_new (nci_sm_parse_config lib))"
    by (simp_all add: sm_wf_def nci_core_new_def Let_def sm_view_fields config init v_wf_def v_sound_def)
qed

lemma reachable_wf: "core_reachable env w \<Longrightarrow> sm_wf w"
proof (induction rule: core_reachable.induct)
  case (step w w')
  then show ?case using from_core_step [of w w' "sm_abs w"] by (simp add: sm_from_def)
qed (simp_all add: new_wf)

end

text \<open>The application that answers (theory \<open>World_Sar\<close>) only sends.\<close>

lemma send_more: "nci_sar.more (snd (nci_core_send_data_msg cid p c d w)) = nci_sar.more w"
  by (simp add: nci_core_send_data_msg_def nci_sar_send_data_packet_def nci_sar_send_def nci_sar_schedule_write_def
      sar_enqueue_def upd_conn_def Let_def split: queue_ref.split)

interpretation echo_observing: observing_app echo_env
  by unfold_locales (simp add: echo_env_def echo_app_def send_more split: app_event.split)

end
