(* ===== verification/Sm_Properties.thy ===== *)
theory Sm_Properties
  imports Sm_Invariant
begin

text \<open>
  The properties of the state machine as a whole: it refines the abstract machine, its state
  is settled between two events, and where requests and endpoints get lost.
\<close>

unbundle bit_operations_syntax

lemma sm_wf_facts:
  assumes "sm_wf w"
  shows "core_current_state w = sm_last_state w" "core_next_state w = sm_next_state w" "sm_entering_state w = 0"
    "sm_active_transition w = None \<Longrightarrow> sm_next_state w = sm_last_state w"
    "tr_timeout_id w t \<Longrightarrow> sm_active_transition w = Some t"
    "sm_active_transition w = Some t \<Longrightarrow> sm_active_state w = None"
    "sm_abs w = At s \<Longrightarrow> sm_active_transition w = None \<and> sm_last_state w = s"
  using assms by (auto simp: sm_wf_def v_wf_def v_sound_def sm_view_fields sm_abs_def v_abs_def split: option.splits)


text \<open>
  C7. Between two events the application sees the true state (\<open>current_state\<close> and \<open>next_state\<close>
  are those of the state machine), a state is active or a transition, never both, without a
  transition the next state is the current one, and only the active transition's timer runs.
\<close>

theorem core_states_settled:
  assumes "\<And>e w. nci_sar.more (env_app env e w) = nci_sar.more w" and "core_reachable env w"
  shows "core_current_state w = sm_last_state w \<and> core_next_state w = sm_next_state w \<and>
    (sm_active_transition w = None \<longleftrightarrow> sm_active_state w \<noteq> None) \<and>
    (sm_active_transition w = None \<longrightarrow> sm_next_state w = sm_last_state w) \<and>
    (\<forall>t. tr_timeout_id w t \<longrightarrow> sm_active_transition w = Some t)"
proof -
  have app: "observing_app env" by (rule observing_app.intro) (rule assms(1))
  show ?thesis using observing_app.reachable_wf [OF app assms(2)]
    by (auto simp: sm_wf_def v_wf_def v_sound_def sm_view_fields split: option.splits)
qed

context observing_app begin

lemma switch_to_abs:
  assumes "sm_wf w"
  shows "sm_wf (nci_sm_switch_to env s w)" "sm_abs (nci_sm_switch_to env s w) = spec_switch s (sm_abs w)"
  using assms sm_wf_facts(3) [OF assms]
  by (simp_all add: nci_sm_switch_to_def Let_def sm_wf_def sm_abs_def v_switch_quiet v_switch_sound v_wf_sound)

lemma finish_abs:
  assumes "sm_wf w" and "sm_active_transition w = Some t"
  shows "sm_wf (nci_transition_finish env t w)"
    "sm_abs (nci_transition_finish env t w) = spec_enter (transition_dest t) (sm_abs w)"
proof -
  have "transition_dest t \<noteq> NCI_RFST_W4_ALL_DISCOVERIES" by (cases t) (simp_all add: transition_dest_def)
  moreover have "v_going (sm_view w) = Some t" using assms(2) by (simp add: sm_view_fields)
  ultimately show "sm_wf (nci_transition_finish env t w)"
    "sm_abs (nci_transition_finish env t w) = spec_enter (transition_dest t) (sm_abs w)"
    using assms v_enter_abs [of "sm_view w" "transition_dest t"]
    by (simp_all add: nci_transition_finish_def nci_sm_active_transition_def sm_wf_def sm_abs_def v_emit_wf
        v_enter_sound v_wf_sound)
qed

lemma restart_abs:
  assumes "sm_wf w"
  shows "sm_wf (nci_core_restart env w)" "sm_abs (nci_core_restart env w) = Going NCI_STATE_INIT TReset None NCI_RFST_IDLE"
proof -
  let ?w = "nci_sar_reset (core_client env) (nci_core_cancel_command env w)"
  have "sm_from (sm_abs w) ?w"
    by (rule machine.reset, rule from_view_keep [of _ w]) (use assms in \<open>simp_all add: sm_from_def\<close>)
  then have wf: "v_wf (sm_view ?w)" by (simp add: sm_from_def sm_wf_def)
  have "spec_switch NCI_RFST_IDLE (At NCI_STATE_INIT) = Going NCI_STATE_INIT TReset None NCI_RFST_IDLE"
    by (simp add: nci_state_get_transition_def sm_transitions_def NCI_IS_INTERNAL_STATE_iff)
  then show "sm_wf (nci_core_restart env w)" "sm_abs (nci_core_restart env w) = Going NCI_STATE_INIT TReset None NCI_RFST_IDLE"
    using v_reset_wf [OF wf]
    by (simp_all add: nci_core_restart_def nci_core_restart_internal_def nci_sm_reset_def sm_wf_def sm_abs_def
        enter_internal_view entered_view del: spec_switch.simps)
qed

end

text \<open>
  C10. \<open>nci_core_set_state\<close> and \<open>nci_core_restart\<close> implement the abstract switch and reset
  exactly: at rest a direct transition is taken if there is one, otherwise the way through
  \<open>RFST_IDLE\<close> (or a reset), during a transition the rest of the way is replaced.
\<close>

theorem nci_core_set_state_refines:
  assumes "\<And>e w. nci_sar.more (env_app env e w) = nci_sar.more w" and "core_reachable env w"
  shows "sm_abs (nci_core_set_state env s w) = spec_switch s (sm_abs w) \<and>
    sm_abs (nci_core_restart env w) = Going NCI_STATE_INIT TReset None NCI_RFST_IDLE"
proof -
  have app: "observing_app env" by (rule observing_app.intro) (rule assms(1))
  note wf = observing_app.reachable_wf [OF app assms(2)]
  show ?thesis
    by (simp add: nci_core_set_state_def observing_app.switch_to_abs(2) [OF app wf] observing_app.restart_abs(2) [OF app wf])
qed

text \<open>
  C23. Switching back to the destination of the transition that is under way cancels what was
  to follow but not the next state: it still names the state given up, so asking for that
  state again does nothing, and the machine stays at the destination.
\<close>

theorem switch_back_loses_request:
  assumes "\<And>e w. nci_sar.more (env_app env e w) = nci_sar.more w" and "sm_wf w"
    and "sm_abs w = Going from t (Some t') target" and "target \<noteq> transition_dest t"
  shows "sm_abs (nci_transition_finish env t (nci_core_set_state env target (nci_core_set_state env (transition_dest t) w))) =
    At (transition_dest t)"
proof -
  have app: "observing_app env" by (rule observing_app.intro) (rule assms(1))
  let ?w1 = "nci_core_set_state env (transition_dest t) w"
  let ?w2 = "nci_core_set_state env target ?w1"
  note sw = observing_app.switch_to_abs [OF app, folded nci_core_set_state_def]
  have "sm_abs ?w1 = Going from t None target" using assms sw(2) [OF assms(2)] by simp
  then have w2: "sm_abs ?w2 = Going from t None target" "sm_wf ?w2" using sw [OF sw(1) [OF assms(2)]] by simp_all
  then have "sm_active_transition ?w2 = Some t" by (simp add: sm_abs_def v_abs_def sm_view_fields split: option.splits)
  then show ?thesis using observing_app.finish_abs(2) [OF app w2(2)] w2(1) by simp
qed

lemma new_abs: "sm_abs (nci_core_new (\<lambda>w. w)) = At NCI_STATE_INIT"
proof -
  have "sm_view nci_sm_object_init =
      \<lparr>v_last = NCI_STATE_INIT, v_next = NCI_STATE_INIT, v_then = None, v_going = None, v_active = Some NCI_STATE_INIT,
       v_entering = 0, v_pending_next = False, v_pending_last = False, v_current_out = NCI_STATE_INIT,
       v_next_out = NCI_STATE_INIT, v_timed = True, v_timer = (\<lambda>_. False)\<rparr>"
    by (simp add: sm_view_def nci_sm_object_init_def nci_world.defs nci_sar_new_def)
  then show ?thesis by (simp add: sm_abs_def v_abs_def nci_core_new_def Let_def echo_observing.param_fold_view(1))
qed

lemma to_discovery: "spec_switch NCI_RFST_DISCOVERY (At NCI_STATE_INIT) =
    Going NCI_STATE_INIT TReset (Some TIdleToDiscovery) NCI_RFST_DISCOVERY"
  by (simp add: nci_state_get_transition_def sm_transitions_def transition_dest_def NCI_IS_INTERNAL_STATE_iff)

lemma echo_more: "nci_sar.more (env_app echo_env e w) = nci_sar.more w"
  by (rule echo_observing.app_more)

lemma switch_back_loses_request_witness:
  "sm_abs (nci_transition_finish echo_env TReset (nci_core_set_state echo_env NCI_RFST_DISCOVERY
     (nci_core_set_state echo_env NCI_RFST_IDLE (nci_core_set_state echo_env NCI_RFST_DISCOVERY (nci_core_new (\<lambda>w. w)))))) =
   At NCI_RFST_IDLE"
proof -
  let ?w = "nci_core_set_state echo_env NCI_RFST_DISCOVERY (nci_core_new (\<lambda>w. w))"
  note sw = echo_observing.switch_to_abs [OF echo_observing.new_wf(1), folded nci_core_set_state_def]
  have "sm_abs ?w = Going NCI_STATE_INIT TReset (Some TIdleToDiscovery) NCI_RFST_DISCOVERY"
    by (simp only: sw(2) new_abs to_discovery)
  from switch_back_loses_request [OF echo_more sw(1) this] show ?thesis by (simp add: transition_dest_def)
qed


lemma core_states_settled_witness:
  "core_current_state (nci_core_new (\<lambda>w. w)) = NCI_STATE_INIT \<and> core_next_state (nci_core_new (\<lambda>w. w)) = NCI_STATE_INIT"
  using core_states_settled [OF echo_more core_reachable.new] sm_wf_facts(7) [OF echo_observing.new_wf(1) new_abs] by simp

lemma nci_core_set_state_refines_witness:
  "sm_abs (nci_core_set_state echo_env NCI_RFST_DISCOVERY (nci_core_new (\<lambda>w. w))) =
    Going NCI_STATE_INIT TReset (Some TIdleToDiscovery) NCI_RFST_DISCOVERY"
  using nci_core_set_state_refines [OF echo_more core_reachable.new] by (simp only: new_abs to_discovery)

section \<open>One endpoint announced\<close>

lemma copies_single:
  assumes "ntf_tag_ok ntf"
  shows "\<exists>c. (\<forall>f w. with_copies env [ntf] f w = f [c] w) \<and> dn_last c = dn_last ntf \<and> ntf_tag_ok c"
proof -
  obtain copies sz where c: "nci_discovery_ntf_copy_array (env_sizeof_ntf env) (env_sizeof_mode_param env) [ntf] = Some (Some copies, sz, sz)"
    "list_all2 (\<lambda>d s. d = s \<or> d = s\<lparr>dn_param := None\<rparr>) copies [ntf]"
    using copy_array_fits [of "[ntf]" "env_sizeof_ntf env" "env_sizeof_mode_param env"] assms by auto
  then obtain x where "copies = [x]" "x = ntf \<or> x = ntf\<lparr>dn_param := None\<rparr>" by (auto simp: list_all2_Cons2)
  then show ?thesis using c(1) assms by (intro exI [of _ x]) (auto simp: with_copies_def ntf_tag_ok_def)
qed

context observing_app begin

lemma entered_last_discovery:
  assumes "ntf_tag_ok c" and "dn_last c" and "v_then (sm_view w) = None"
  shows "v_active (sm_view (nci_state_entered env NCI_RFST_W4_ALL_DISCOVERIES (Some (ParamW4AllDiscoveries c)) w)) =
    Some NCI_RFST_W4_HOST_SELECT"
proof -
  obtain c1 where c1: "with_copies env [c] f w = f [c1] w" "ntf_tag_ok c1" for f w using copies_single [OF assms(1)] by metis
  obtain c2 where c2: "with_copies env [c1] f w = f [c2] w" for f w using copies_single [OF c1(2)] by metis
  show ?thesis
    using assms(2,3)
    by (simp add: nci_state_entered_def nci_state_w4_all_discoveries_start_def Let_def
        nci_state_w4_all_discoveries_handle_discovery_def c1(1) c2 v_emit_def v_defs split: option.split)
qed

end

text \<open>
  C20. An endpoint announced by a single \<open>RF_DISCOVER_NTF\<close> (one that says it is the last) is
  never activated: entering \<open>RFST_W4_ALL_DISCOVERIES\<close> enters \<open>RFST_W4_HOST_SELECT\<close> from
  inside, which selects it, but then the outer entry takes the machine back to
  \<open>RFST_W4_ALL_DISCOVERIES\<close> with the inner state object active; there
  \<open>RF_INTF_ACTIVATED_NTF\<close> is ignored.
\<close>

theorem single_discovery_lost:
  assumes "\<And>e w. nci_sar.more (env_app env e w) = nci_sar.more w" and "sm_wf w" and "sm_abs w = At NCI_RFST_DISCOVERY"
    and "nci_parse_discover_ntf True payload = Some (Some ntf)" and "dn_last ntf"
  shows "let w1 = nci_sm_handle_ntf env NCI_GID_RF NCI_OID_RF_DISCOVER payload w in
    core_current_state w1 = NCI_RFST_W4_ALL_DISCOVERIES \<and> sm_active_state w1 = Some NCI_RFST_W4_HOST_SELECT \<and>
    nci_sm_handle_ntf env NCI_GID_RF NCI_OID_RF_INTF_ACTIVATED activated w1 = w1"
proof -
  have app: "observing_app env" by (rule observing_app.intro) (rule assms(1))
  have rest: "sm_active_transition w = None" "sm_last_state w = NCI_RFST_DISCOVERY" "v_wf (sm_view w)"
    using sm_wf_facts(7) [OF assms(2,3)] assms(2) by (simp_all add: sm_wf_def)
  obtain c where c: "\<And>f w. with_copies env [ntf] f w = f [c] w" "dn_last c" "ntf_tag_ok c"
    using copies_single [OF nci_parse_discover_ntf_tag [OF assms(4)], of env] assms(5) by auto
  let ?p = "Some (ParamW4AllDiscoveries c)"
  let ?w1 = "nci_sm_enter_state env NCI_RFST_W4_ALL_DISCOVERIES ?p w"
  have w1: "nci_sm_handle_ntf env NCI_GID_RF NCI_OID_RF_DISCOVER payload w = ?w1"
    using rest by (simp add: nci_sm_handle_ntf_def nci_state_handle_ntf_def nci_state_discovery_handle_ntf_def
        nci_state_discovery_discover_ntf_def assms(4) c(1))
  have "sm_view ?w1 = (v_placed NCI_RFST_W4_ALL_DISCOVERIES (sm_view w))\<lparr>v_active := Some NCI_RFST_W4_HOST_SELECT\<rparr>"
    using observing_app.w4_all_view [OF app rest(3,1,2), of ?p] observing_app.entered_last_discovery [OF app c(3,2)] by auto
  then have "core_current_state ?w1 = NCI_RFST_W4_ALL_DISCOVERIES" "sm_active_state ?w1 = Some NCI_RFST_W4_HOST_SELECT"
    "sm_active_transition ?w1 = None" "sm_last_state ?w1 = NCI_RFST_W4_ALL_DISCOVERIES"
    using rest(1) by (simp_all add: sm_view_fields v_placed_def)
  then show ?thesis
    unfolding w1 Let_def
    by (simp add: nci_sm_handle_ntf_def nci_state_handle_ntf_def nci_state_w4_all_discoveries_handle_ntf_def
        nci_state_default_handle_ntf_def)
qed

text \<open>A state at rest in \<open>RFST_DISCOVERY\<close>.\<close>

definition discovery_world :: nci_world where
  "discovery_world = nci_sm_enter_state echo_env NCI_RFST_DISCOVERY None (nci_core_new (\<lambda>w. w))"

lemma discovery_world_facts: "sm_wf discovery_world" "sm_abs discovery_world = At NCI_RFST_DISCOVERY"
proof -
  have v: "v_wf (sm_view (nci_core_new (\<lambda>w. w)))" using echo_observing.new_wf(1) by (simp add: sm_wf_def)
  have "v_then (sm_view (nci_core_new (\<lambda>w. w))) = None" using v new_abs
    by (auto simp: v_wf_def v_sound_def sm_abs_def v_abs_def split: option.splits)
  then show "sm_wf discovery_world" "sm_abs discovery_world = At NCI_RFST_DISCOVERY"
    using v v_enter_abs [OF v_wf_sound [OF v], of NCI_RFST_DISCOVERY] new_abs
    by (simp_all add: discovery_world_def sm_wf_def sm_abs_def v_emit_wf v_enter_sound v_wf_sound)
qed

text \<open>One NFC-A endpoint with ISO-DEP, announced by one notification of type 0.\<close>

lemma single_discovery_lost_witness:
  "let w1 = nci_sm_handle_ntf echo_env NCI_GID_RF NCI_OID_RF_DISCOVER [1, 4, 0, 0, 0] discovery_world in
    core_current_state w1 = NCI_RFST_W4_ALL_DISCOVERIES \<and> sm_active_state w1 = Some NCI_RFST_W4_HOST_SELECT \<and>
    nci_sm_handle_ntf echo_env NCI_GID_RF NCI_OID_RF_INTF_ACTIVATED [1, 2, 4, 0, 255, 1, 0, 0, 0, 0, 0] w1 = w1"
  by (rule single_discovery_lost [OF echo_more discovery_world_facts])
    (simp add: nci_parse_discover_ntf_def mem_simps, simp)

end
