(* ===== verification/Discovery_Properties.thy ===== *)
theory Discovery_Properties
  imports Discovery_Cmds
begin

text \<open>
  What the commands of the transition to \<open>RFST_DISCOVERY\<close> say: which technologies are
  configured, that each of them has a protocol mapping, what the routing table gets, and
  that the configuration written is the one a second look accepts.
\<close>

unbundle bit_operations_syntax

section \<open>Masks\<close>

lemma any_bit_not: 
  assumes "t AND t' = 0" shows "any_bit (x AND NOT t) t' = any_bit x t'"
proof -
  have "(x AND NOT t) AND t' = x AND t'"
  proof (rule bit_eqI)
    fix n assume "possible_bit TYPE(32 word) n"
    moreover have "\<not> (bit t n \<and> bit t' n)" using assms by (metis bit_0_eq bit_and_iff bot_apply bot_bool_def)
    ultimately show "bit ((x AND NOT t) AND t') n = bit (x AND t') n" by (auto simp: bit_simps)
  qed
  then show ?thesis by (simp add: any_bit_def)
qed

lemma any_bit_0 [simp]: "\<not> any_bit 0 t"
  by (simp add: any_bit_def)


lemma any_bit_exp: "any_bit x (2 ^ n) \<longleftrightarrow> bit x n"
  by (simp add: any_bit_def and_exp_eq_0_iff_not_bit)

lemma any_bit_single:
  "any_bit x 1 \<longleftrightarrow> bit x 0" "any_bit x 2 \<longleftrightarrow> bit x 1" "any_bit x 4 \<longleftrightarrow> bit x 2" "any_bit x 8 \<longleftrightarrow> bit x 3"
  "any_bit x 16 \<longleftrightarrow> bit x 4" "any_bit x 64 \<longleftrightarrow> bit x 6" "any_bit x 256 \<longleftrightarrow> bit x 8" "any_bit x 512 \<longleftrightarrow> bit x 9"
  "any_bit x 1024 \<longleftrightarrow> bit x 10" "any_bit x 2048 \<longleftrightarrow> bit x 11" "any_bit x 4096 \<longleftrightarrow> bit x 12"
  "any_bit x 16384 \<longleftrightarrow> bit x 14"
  by (simp_all flip: any_bit_exp)

lemma any_bit_or: "any_bit x (a OR b) \<longleftrightarrow> any_bit x a \<or> any_bit x b"
  by (auto simp: any_bit_def bit_eq_iff bit_simps)

lemma any_bit_masks:
  "any_bit x NCI_TECH_A_POLL \<longleftrightarrow> bit x 0 \<or> bit x 1"
  "any_bit x NCI_TECH_F_POLL \<longleftrightarrow> bit x 8 \<or> bit x 9"
  "any_bit x NCI_TECH_A_LISTEN \<longleftrightarrow> bit x 2 \<or> bit x 3"
  "any_bit x NCI_TECH_F_LISTEN \<longleftrightarrow> bit x 10 \<or> bit x 11"
  "any_bit x NCI_TECH_B \<longleftrightarrow> bit x 4 \<or> bit x 6"
  "any_bit x NCI_TECH_A \<longleftrightarrow> bit x 0 \<or> bit x 1 \<or> bit x 2 \<or> bit x 3"
  "any_bit x NCI_TECH_F \<longleftrightarrow> bit x 8 \<or> bit x 9 \<or> bit x 10 \<or> bit x 11"
  using any_bit_or [of x 1 2] any_bit_or [of x 256 512] any_bit_or [of x 4 8] any_bit_or [of x 1024 2048]
    any_bit_or [of x 16 64] any_bit_or [of x 3 12] any_bit_or [of x 768 3072]
  by (simp_all add: any_bit_single)


section \<open>\<open>RF_DISCOVER\<close>\<close>

fun disjoint_masks :: "u32 list \<Rightarrow> bool" where
 "disjoint_masks [] \<longleftrightarrow> True"
| "disjoint_masks (t # ts) \<longleftrightarrow> list_all (\<lambda>t'. t AND t' = 0) ts \<and> disjoint_masks ts"

lemma discover_loop_filter:
  assumes "disjoint_masks (map fst tms)" and "cmd \<noteq> []"
  shows "discover_loop tms techs cmd =
     bump 0 (of_nat (length (filter (\<lambda>tm. any_bit techs (fst tm)) tms))) cmd @
     concat (map (\<lambda>tm. [snd tm, 1]) (filter (\<lambda>tm. any_bit techs (fst tm)) tms))"
  using assms
proof (induction tms techs cmd rule: discover_loop.induct)
  case (1 techs cmd)
  then show ?case by (cases cmd) (simp_all add: bump_def)
next
  case (2 t m tms techs cmd)
  have f: "filter (\<lambda>tm. any_bit (techs AND NOT t) (fst tm)) tms = filter (\<lambda>tm. any_bit techs (fst tm)) tms"
    using 2(3) by (auto simp: list_all_iff any_bit_not intro!: filter_cong)
  obtain c cs where c: "cmd = c # cs" using 2(4) by (cases cmd) auto
  show ?case
    using 2 f c by (cases "techs = 0") (simp_all add: bump_def algebra_simps)
qed


text \<open>Which technologies an operation mode calls for (the table in the comments of the C file).\<close>

definition wanted_tech :: "NCI_OP_MODE \<Rightarrow> NCI_TECH \<Rightarrow> bool" where
  "wanted_tech op t \<longleftrightarrow>
     (bit op 0 \<and> t \<in> {NCI_TECH_A_POLL_PASSIVE, NCI_TECH_A_POLL_ACTIVE, NCI_TECH_B_POLL,
                     NCI_TECH_F_POLL_PASSIVE, NCI_TECH_F_POLL_ACTIVE, NCI_TECH_V_POLL}) \<or>
     (bit op 1 \<and> bit op 3 \<and> t \<in> {NCI_TECH_A_POLL_PASSIVE, NCI_TECH_A_POLL_ACTIVE,
                     NCI_TECH_F_POLL_PASSIVE, NCI_TECH_F_POLL_ACTIVE}) \<or>
     (bit op 1 \<and> bit op 4 \<and> t \<in> {NCI_TECH_A_LISTEN_PASSIVE, NCI_TECH_A_LISTEN_ACTIVE,
                     NCI_TECH_F_LISTEN_PASSIVE, NCI_TECH_F_LISTEN_ACTIVE}) \<or>
     (bit op 2 \<and> t \<in> {NCI_TECH_A_LISTEN_PASSIVE, NCI_TECH_B_LISTEN})"

lemma discover_techs_wanted:
  assumes "(t, m) \<in> set tech_modes"
  shows "any_bit (discover_techs op AND techs) t \<longleftrightarrow> any_bit techs t \<and> wanted_tech op t"
proof -
  have t: "t \<in> {0x2, 0x1, 0x10, 0x200, 0x100, 0x8, 0x4, 0x40, 0x800, 0x400, 0x1000, 0x4000}"
    using assms by (auto simp: tech_modes_def)
  show ?thesis
    using t by (elim insertE) (simp_all add: any_bit_single bit_and_iff discover_techs_def wanted_tech_def Let_def bit_or_iff)
qed

definition configured_modes :: "nci_world \<Rightarrow> NCI_MODE list" where
  "configured_modes w =
     map snd (filter (\<lambda>(t, m). any_bit (sm_techs w) t \<and> wanted_tech (sm_op_mode w) t) tech_modes)"

text \<open>
  C25. \<open>RF_DISCOVER_CMD\<close> lists exactly the technologies that are enabled and that the
  operation mode calls for, once each, in the order of the table, every period, and its
  first byte counts them.
\<close>

theorem discover_cmd_configurations:
  "discover_cmd w = of_nat (length (configured_modes w)) # concat (map (\<lambda>m. [m, 1]) (configured_modes w))"
proof -
  let ?techs = "discover_techs (sm_op_mode w) AND sm_techs w"
  have "filter (\<lambda>tm. any_bit ?techs (fst tm)) tech_modes =
      filter (\<lambda>(t, m). any_bit (sm_techs w) t \<and> wanted_tech (sm_op_mode w) t) tech_modes"
    using discover_techs_wanted by (auto intro!: filter_cong)
  moreover have "disjoint_masks (map fst tech_modes)" by (simp add: tech_modes_def)
  ultimately show ?thesis
    unfolding discover_cmd_def configured_modes_def
    by (subst discover_loop_filter) (simp_all add: bump_def comp_def)
qed

section \<open>\<open>RF_SET_LISTEN_MODE_ROUTING\<close>\<close>

definition routing_entry :: "byte \<Rightarrow> byte \<Rightarrow> byte list" where
  "routing_entry type val = [type, 3, NCI_NFCEE_ID_DH, NCI_ROUTING_ENTRY_POWER_ON, val]"

definition routing_payload :: "byte list list \<Rightarrow> byte list" where
  "routing_payload es = [0x00, of_nat (length es)] @ concat es"

definition entry_when :: "bool \<Rightarrow> 'a \<Rightarrow> 'a list" where
  "entry_when c e = (if c then [e] else [])"

text \<open>The entries the configuration calls for, in the order of their priority.\<close>

definition protocol_candidates :: "nci_world \<Rightarrow> byte list list" where
  "protocol_candidates w =
     (let op = sm_op_mode w; techs = sm_techs w in
      entry_when (any_bit op NFC_OP_MODE_PEER \<and> any_bit op (NFC_OP_MODE_POLL OR NFC_OP_MODE_LISTEN) \<and>
          any_bit techs (NCI_TECH_A OR NCI_TECH_F)) (routing_entry NCI_ROUTING_ENTRY_TYPE_PROTOCOL NCI_PROTOCOL_NFC_DEP) @
      entry_when ((op AND (NFC_OP_MODE_CE OR NFC_OP_MODE_RW)) AND (techs AND (NCI_TECH_A OR NCI_TECH_B)) \<noteq> 0)
        (routing_entry NCI_ROUTING_ENTRY_TYPE_PROTOCOL NCI_PROTOCOL_ISO_DEP))"

definition tech_candidates :: "nci_world \<Rightarrow> byte list list" where
  "tech_candidates w =
     (let op = sm_op_mode w; techs = sm_techs w in
      entry_when (any_bit techs NCI_TECH_F_LISTEN \<and> any_bit op (NFC_OP_MODE_RW OR NFC_OP_MODE_PEER))
        (routing_entry NCI_ROUTING_ENTRY_TYPE_TECHNOLOGY NCI_RF_TECHNOLOGY_F) @
      entry_when (any_bit techs NCI_TECH_B) (routing_entry NCI_ROUTING_ENTRY_TYPE_TECHNOLOGY NCI_RF_TECHNOLOGY_B) @
      entry_when (any_bit techs NCI_TECH_A) (routing_entry NCI_ROUTING_ENTRY_TYPE_TECHNOLOGY NCI_RF_TECHNOLOGY_A))"

definition fitting :: "nat \<Rightarrow> byte list list \<Rightarrow> byte list list" where
  "fitting m es = take (m div 5 + 1) es"


definition five :: "byte list list \<Rightarrow> bool" where
  "five es \<longleftrightarrow> (\<forall>e \<in> set es. length e = 5 \<and> e ! 1 = 3)"

lemma five_simps [simp]: "five []" "five (es @ fs) \<longleftrightarrow> five es \<and> five fs"
  "five (entry_when c e) \<longleftrightarrow> (c \<longrightarrow> length e = 5 \<and> e ! 1 = 3)" "five es \<Longrightarrow> five (take n es)"
  by (auto simp: five_def entry_when_def dest: in_set_takeD)

lemma length_five: "five es \<Longrightarrow> length (concat es) = 5 * length es"
  by (induction es) (simp_all add: five_def)

lemma length_fitting: "five es \<Longrightarrow> length (concat (fitting m es)) = 5 * min (length es) (m div 5 + 1)"
  by (simp add: fitting_def length_five)

definition routing_cmd :: "nci_world \<Rightarrow> byte list list \<Rightarrow> byte list" where
  "routing_cmd w es = routing_payload (fitting (sm_max_routing_table_size w) es)"

lemma add_routing_entry_cmd:
  assumes "five es" "length e = 5" "e ! 1 = 3"
  shows "nci_transition_idle_to_discovery_add_routing_entry w (routing_cmd w es) e = routing_cmd w (es @ [e])"
proof -
  define m where "m = sm_max_routing_table_size w"
  have l: "length (routing_payload (fitting m es)) = 2 + 5 * min (length es) (m div 5 + 1)"
    using assms(1) by (simp add: routing_payload_def length_fitting)
  show ?thesis
  proof (cases "length es \<le> m div 5")
    case True
    then have "5 * length es \<le> m" and f: "fitting m es = es" "fitting m (es @ [e]) = es @ [e]"
      by (auto simp: fitting_def)
    then show ?thesis using l True assms(2,3)
      unfolding nci_transition_idle_to_discovery_add_routing_entry_def Let_def routing_cmd_def m_def [symmetric]
      by (simp add: routing_payload_def bump_def)
  next
    case False
    then have "\<not> 5 * (m div 5 + 1) \<le> m" and f: "fitting m (es @ [e]) = fitting m es"
      by (auto simp: fitting_def)
    then show ?thesis using l False
      unfolding nci_transition_idle_to_discovery_add_routing_entry_def Let_def routing_cmd_def m_def [symmetric]
      by simp
  qed
qed

lemma add_when:
  assumes "five es" "length e = 5" "e ! 1 = 3"
  shows "(if c then nci_transition_idle_to_discovery_add_routing_entry w (routing_cmd w es) e else routing_cmd w es)
    = routing_cmd w (es @ entry_when c e)"
  using add_routing_entry_cmd [OF assms] by (simp add: entry_when_def)

lemma tech_routing_entries:
  "five es \<Longrightarrow> nci_transition_idle_to_discovery_tech_routing_entries w (routing_cmd w es) =
    routing_cmd w (es @ tech_candidates w)"
  unfolding nci_transition_idle_to_discovery_tech_routing_entries_def tech_candidates_def Let_def routing_entry_def
  by (simp add: add_when del: append_assoc add: append_assoc [symmetric] cong: if_cong split del: if_split)

lemma protocol_routing_entries:
  "five es \<Longrightarrow> nci_transition_idle_to_discovery_protocol_routing_entries w (routing_cmd w es) =
    routing_cmd w (es @ protocol_candidates w)"
  unfolding nci_transition_idle_to_discovery_protocol_routing_entries_def protocol_candidates_def Let_def routing_entry_def
  by (simp add: add_when del: append_assoc add: append_assoc [symmetric] cong: if_cong split del: if_split)

lemma five_candidates [simp]: "five (protocol_candidates w)" "five (tech_candidates w)"
  by (simp_all add: protocol_candidates_def tech_candidates_def Let_def routing_entry_def)

lemma routing_cmd_Nil: "[0x00, 0x00] = routing_cmd w []"
  by (simp add: routing_cmd_def routing_payload_def fitting_def)

lemma set_routing_cmds:
  "nci_transition_idle_to_discovery_protocol_routing_entries w [0x00, 0x00] = routing_cmd w (protocol_candidates w)"
  "nci_transition_idle_to_discovery_tech_routing_entries w [0x00, 0x00] = routing_cmd w (tech_candidates w)"
  "nci_transition_idle_to_discovery_mixed_routing_entries w [0x00, 0x00] =
     routing_cmd w (protocol_candidates w @ tech_candidates w)"
  unfolding routing_cmd_Nil [of w] nci_transition_idle_to_discovery_mixed_routing_entries_def
  by (simp_all add: tech_routing_entries protocol_routing_entries)

lemma routing_overflow:
  "five es \<Longrightarrow> length (fitting m es) < length es \<Longrightarrow> m < length (concat (fitting m es))"
  by (simp add: length_fitting) (simp add: fitting_def)

text \<open>
  C27. Entries are left out of the routing table only after the table has been overfilled:
  whichever kind of routing is configured, if an entry was dropped then those that were
  sent take more bytes than the NFCC's Max Routing Table Size.
\<close>

theorem routing_table_exceeded:
  assumes "(entries, candidates) \<in>
      {(nci_transition_idle_to_discovery_protocol_routing_entries, protocol_candidates),
       (nci_transition_idle_to_discovery_tech_routing_entries, tech_candidates),
       (nci_transition_idle_to_discovery_mixed_routing_entries, \<lambda>w. protocol_candidates w @ tech_candidates w)}"
    and "cmd = entries w [0x00, 0x00]" and "unat (cmd ! 1) < length (candidates w)"
  shows "sm_max_routing_table_size w < length (drop 2 cmd)"
proof -
  let ?m = "sm_max_routing_table_size w"
  have five: "five (candidates w)" using assms(1) by auto
  have cmd: "cmd = routing_cmd w (candidates w)" using assms(1,2) set_routing_cmds by auto
  have "length (candidates w) \<le> 5"
    using assms(1) by (auto simp: protocol_candidates_def tech_candidates_def entry_when_def Let_def)
  then have "unat (cmd ! 1) = length (fitting ?m (candidates w))"
    by (simp add: cmd routing_cmd_def routing_payload_def fitting_def unat_of_nat_byte min_def del: of_nat_Suc)
  then show ?thesis
    using routing_overflow [OF five, of ?m] assms(3) by (simp add: cmd routing_cmd_def routing_payload_def)
qed

definition routing_example :: nci_world where
  "routing_example =
     nci_sm_object_init\<lparr>sm_op_mode := NFC_OP_MODE_CE, sm_techs := NCI_TECH_A OR NCI_TECH_B, sm_max_routing_table_size := 4\<rparr>"

lemma routing_table_exceeded_witness:
  "4 < length (drop 2 (nci_transition_idle_to_discovery_mixed_routing_entries routing_example [0x00, 0x00]))"
proof -
  let ?e = nci_transition_idle_to_discovery_mixed_routing_entries
  have "?e routing_example [0x00, 0x00] = [0, 1, 1, 3, 0, 1, 4]"
    by (simp add: nci_transition_idle_to_discovery_mixed_routing_entries_def routing_example_def Let_def
      nci_transition_idle_to_discovery_protocol_routing_entries_def any_bit_def bump_def
      nci_transition_idle_to_discovery_tech_routing_entries_def nci_transition_idle_to_discovery_add_routing_entry_def)
  then show ?thesis
    using routing_table_exceeded [of ?e "\<lambda>w. protocol_candidates w @ tech_candidates w" _ routing_example]
    by (simp add: protocol_candidates_def tech_candidates_def entry_when_def any_bit_def Let_def routing_example_def)
qed


section \<open>\<open>RF_DISCOVER_MAP\<close>\<close>

definition discover_map_entries :: "nci_world \<Rightarrow> byte list list" where
  "discover_map_entries w =
     (let op = sm_op_mode w; techs = sm_techs w;
          rw = any_bit op NFC_OP_MODE_RW; peer = any_bit op NFC_OP_MODE_PEER in
      entry_when (rw \<and> any_bit techs NCI_TECH_A_POLL) [NCI_PROTOCOL_T1T, NCI_DISCOVER_MAP_MODE_POLL, NCI_RF_INTERFACE_FRAME] @
      entry_when (rw \<and> any_bit techs NCI_TECH_A_POLL) [NCI_PROTOCOL_T2T, NCI_DISCOVER_MAP_MODE_POLL, NCI_RF_INTERFACE_FRAME] @
      entry_when (rw \<and> any_bit techs NCI_TECH_F_POLL) [NCI_PROTOCOL_T3T, NCI_DISCOVER_MAP_MODE_POLL, NCI_RF_INTERFACE_FRAME] @
      entry_when (rw \<and> any_bit techs NCI_TECH_V_POLL) [NCI_PROTOCOL_T5T, NCI_DISCOVER_MAP_MODE_POLL, NCI_RF_INTERFACE_FRAME] @
      entry_when (rw \<and> any_bit techs (NCI_TECH_A_POLL OR NCI_TECH_B_POLL))
        [NCI_PROTOCOL_ISO_DEP, NCI_DISCOVER_MAP_MODE_POLL, NCI_RF_INTERFACE_ISO_DEP] @
      entry_when (peer \<and> any_bit op NFC_OP_MODE_POLL \<and> any_bit techs (NCI_TECH_A_POLL OR NCI_TECH_F_POLL))
        [NCI_PROTOCOL_NFC_DEP, NCI_DISCOVER_MAP_MODE_POLL, NCI_RF_INTERFACE_NFC_DEP] @
      entry_when (peer \<and> any_bit op NFC_OP_MODE_LISTEN \<and> any_bit techs (NCI_TECH_A_LISTEN OR NCI_TECH_F_LISTEN))
        [NCI_PROTOCOL_NFC_DEP, NCI_DISCOVER_MAP_MODE_LISTEN, NCI_RF_INTERFACE_NFC_DEP] @
      entry_when (any_bit op NFC_OP_MODE_CE \<and> any_bit techs (NCI_TECH_A_LISTEN OR NCI_TECH_B_LISTEN))
        [NCI_PROTOCOL_ISO_DEP, NCI_DISCOVER_MAP_MODE_LISTEN, NCI_RF_INTERFACE_ISO_DEP])"

definition map_payload :: "byte list list \<Rightarrow> byte list" where
  "map_payload es = of_nat (length es) # concat es"

lemma map_when_payload:
  "map_when c 1 e (map_payload es) = map_payload (es @ entry_when c e)"
  "map_when c 2 (e1 @ e2) (map_payload es) = map_payload (es @ entry_when c e1 @ entry_when c e2)"
  by (simp_all add: map_when_def map_payload_def bump_def entry_when_def)

lemma discover_map_cmd_payload: "discover_map_cmd w = map_payload (discover_map_entries w)"
proof -
  have n: "[0x00] = map_payload []" by (simp add: map_payload_def)
  have two: "[NCI_PROTOCOL_T1T, NCI_DISCOVER_MAP_MODE_POLL, NCI_RF_INTERFACE_FRAME,
     NCI_PROTOCOL_T2T, NCI_DISCOVER_MAP_MODE_POLL, NCI_RF_INTERFACE_FRAME] =
     [NCI_PROTOCOL_T1T, NCI_DISCOVER_MAP_MODE_POLL, NCI_RF_INTERFACE_FRAME] @
     [NCI_PROTOCOL_T2T, NCI_DISCOVER_MAP_MODE_POLL, NCI_RF_INTERFACE_FRAME]" by simp
  show ?thesis
    unfolding discover_map_cmd_def discover_map_entries_def Let_def two n map_when_payload append_assoc
    by (simp only: append_Nil)
qed


lemma in_entry_when: "x \<in> set (entry_when c e) \<longleftrightarrow> c \<and> x = e"
  "map f (entry_when c e) = entry_when c (f e)" "distinct (entry_when c e)"
  by (auto simp: entry_when_def)

lemma entries_ok:
  "\<forall>e \<in> set (discover_map_entries w). length e = 3"
  "distinct (map (take 2) (discover_map_entries w))"
  by (auto simp: discover_map_entries_def Let_def in_entry_when)


lemma any_bit_mixed_masks:
  "any_bit x (NCI_TECH_A_POLL OR NCI_TECH_B_POLL) \<longleftrightarrow> bit x 0 \<or> bit x 1 \<or> bit x 4"
  "any_bit x (NCI_TECH_A_POLL OR NCI_TECH_F_POLL) \<longleftrightarrow> bit x 0 \<or> bit x 1 \<or> bit x 8 \<or> bit x 9"
  "any_bit x (NCI_TECH_A_LISTEN OR NCI_TECH_F_LISTEN) \<longleftrightarrow> bit x 2 \<or> bit x 3 \<or> bit x 10 \<or> bit x 11"
  "any_bit x (NCI_TECH_A_LISTEN OR NCI_TECH_B_LISTEN) \<longleftrightarrow> bit x 2 \<or> bit x 3 \<or> bit x 6"
  unfolding any_bit_or any_bit_masks any_bit_single by auto

lemma discover_map_entry:
  "bit (sm_op_mode w) 0 \<Longrightarrow> bit (sm_techs w) 0 \<or> bit (sm_techs w) 1 \<Longrightarrow>
     [NCI_PROTOCOL_T2T, NCI_DISCOVER_MAP_MODE_POLL, NCI_RF_INTERFACE_FRAME] \<in> set (discover_map_entries w)"
  "bit (sm_op_mode w) 0 \<Longrightarrow> bit (sm_techs w) 8 \<or> bit (sm_techs w) 9 \<Longrightarrow>
     [NCI_PROTOCOL_T3T, NCI_DISCOVER_MAP_MODE_POLL, NCI_RF_INTERFACE_FRAME] \<in> set (discover_map_entries w)"
  "bit (sm_op_mode w) 0 \<Longrightarrow> bit (sm_techs w) 12 \<Longrightarrow>
     [NCI_PROTOCOL_T5T, NCI_DISCOVER_MAP_MODE_POLL, NCI_RF_INTERFACE_FRAME] \<in> set (discover_map_entries w)"
  "bit (sm_op_mode w) 0 \<Longrightarrow> bit (sm_techs w) 4 \<Longrightarrow>
     [NCI_PROTOCOL_ISO_DEP, NCI_DISCOVER_MAP_MODE_POLL, NCI_RF_INTERFACE_ISO_DEP] \<in> set (discover_map_entries w)"
  "bit (sm_op_mode w) 1 \<Longrightarrow> bit (sm_op_mode w) 3 \<Longrightarrow>
     bit (sm_techs w) 0 \<or> bit (sm_techs w) 1 \<or> bit (sm_techs w) 8 \<or> bit (sm_techs w) 9 \<Longrightarrow>
     [NCI_PROTOCOL_NFC_DEP, NCI_DISCOVER_MAP_MODE_POLL, NCI_RF_INTERFACE_NFC_DEP] \<in> set (discover_map_entries w)"
  "bit (sm_op_mode w) 1 \<Longrightarrow> bit (sm_op_mode w) 4 \<Longrightarrow>
     bit (sm_techs w) 2 \<or> bit (sm_techs w) 3 \<or> bit (sm_techs w) 10 \<or> bit (sm_techs w) 11 \<Longrightarrow>
     [NCI_PROTOCOL_NFC_DEP, NCI_DISCOVER_MAP_MODE_LISTEN, NCI_RF_INTERFACE_NFC_DEP] \<in> set (discover_map_entries w)"
  "bit (sm_op_mode w) 2 \<Longrightarrow> bit (sm_techs w) 2 \<or> bit (sm_techs w) 3 \<or> bit (sm_techs w) 6 \<Longrightarrow>
     [NCI_PROTOCOL_ISO_DEP, NCI_DISCOVER_MAP_MODE_LISTEN, NCI_RF_INTERFACE_ISO_DEP] \<in> set (discover_map_entries w)"
  unfolding discover_map_entries_def Let_def set_append Un_iff in_entry_when any_bit_mixed_masks any_bit_masks any_bit_single
  by simp_all


lemma wanted_tech_simps:
  "wanted_tech op NCI_TECH_A_POLL_PASSIVE \<longleftrightarrow> bit op 0 \<or> bit op 1 \<and> bit op 3"
  "wanted_tech op NCI_TECH_A_POLL_ACTIVE \<longleftrightarrow> bit op 0 \<or> bit op 1 \<and> bit op 3"
  "wanted_tech op NCI_TECH_F_POLL_PASSIVE \<longleftrightarrow> bit op 0 \<or> bit op 1 \<and> bit op 3"
  "wanted_tech op NCI_TECH_F_POLL_ACTIVE \<longleftrightarrow> bit op 0 \<or> bit op 1 \<and> bit op 3"
  "wanted_tech op NCI_TECH_B_POLL \<longleftrightarrow> bit op 0"
  "wanted_tech op NCI_TECH_V_POLL \<longleftrightarrow> bit op 0"
  "wanted_tech op NCI_TECH_A_LISTEN_PASSIVE \<longleftrightarrow> bit op 1 \<and> bit op 4 \<or> bit op 2"
  "wanted_tech op NCI_TECH_A_LISTEN_ACTIVE \<longleftrightarrow> bit op 1 \<and> bit op 4"
  "wanted_tech op NCI_TECH_F_LISTEN_PASSIVE \<longleftrightarrow> bit op 1 \<and> bit op 4"
  "wanted_tech op NCI_TECH_F_LISTEN_ACTIVE \<longleftrightarrow> bit op 1 \<and> bit op 4"
  "wanted_tech op NCI_TECH_B_LISTEN \<longleftrightarrow> bit op 2"
  "wanted_tech op NCI_TECH_V_LISTEN \<longleftrightarrow> False"
  by (simp_all add: wanted_tech_def)

lemma discovered_poll_mapped:
  assumes "t \<in> {NCI_TECH_A_POLL_PASSIVE, NCI_TECH_A_POLL_ACTIVE, NCI_TECH_F_POLL_PASSIVE, NCI_TECH_F_POLL_ACTIVE,
      NCI_TECH_B_POLL, NCI_TECH_V_POLL}"
    and "any_bit (sm_techs w) t" and "wanted_tech (sm_op_mode w) t"
  shows "\<exists>p i. [p, NCI_DISCOVER_MAP_MODE_POLL, i] \<in> set (discover_map_entries w)"
  using assms discover_map_entry(1-5) [of w]
  by (elim insertE emptyE) (simp only: wanted_tech_simps any_bit_single; blast)+

lemma discovered_listen_mapped:
  assumes "t \<in> {NCI_TECH_A_LISTEN_PASSIVE, NCI_TECH_A_LISTEN_ACTIVE, NCI_TECH_F_LISTEN_PASSIVE, NCI_TECH_F_LISTEN_ACTIVE,
      NCI_TECH_B_LISTEN, NCI_TECH_V_LISTEN}"
    and "any_bit (sm_techs w) t" and "wanted_tech (sm_op_mode w) t"
  shows "\<exists>p i. [p, NCI_DISCOVER_MAP_MODE_LISTEN, i] \<in> set (discover_map_entries w)"
  using assms discover_map_entry(6-7) [of w]
  by (elim insertE emptyE) (simp only: wanted_tech_simps any_bit_single; blast)+


definition poll_techs :: "NCI_TECH set" where
  "poll_techs = {NCI_TECH_A_POLL_PASSIVE, NCI_TECH_A_POLL_ACTIVE, NCI_TECH_F_POLL_PASSIVE, NCI_TECH_F_POLL_ACTIVE,
      NCI_TECH_B_POLL, NCI_TECH_V_POLL}"
definition listen_techs :: "NCI_TECH set" where
  "listen_techs = {NCI_TECH_A_LISTEN_PASSIVE, NCI_TECH_A_LISTEN_ACTIVE, NCI_TECH_F_LISTEN_PASSIVE, NCI_TECH_F_LISTEN_ACTIVE,
      NCI_TECH_B_LISTEN, NCI_TECH_V_LISTEN}"

lemma tech_modes_directions:
  "list_all (\<lambda>(t, m). if nci_listen_mode m then t \<in> listen_techs else t \<in> poll_techs) tech_modes"
  by (simp add: tech_modes_def nci_listen_mode_def listen_techs_def poll_techs_def)

lemma discovered_mode_mapped:
  assumes "(t, m) \<in> set tech_modes" and "any_bit (sm_techs w) t" and "wanted_tech (sm_op_mode w) t"
  shows "\<exists>p i. [p, if nci_listen_mode m then NCI_DISCOVER_MAP_MODE_LISTEN else NCI_DISCOVER_MAP_MODE_POLL, i]
    \<in> set (discover_map_entries w)"
proof -
  have "if nci_listen_mode m then t \<in> listen_techs else t \<in> poll_techs"
    using tech_modes_directions assms(1) by (auto simp: list_all_iff)
  then show ?thesis
    using discovered_poll_mapped [OF _ assms(2,3), folded poll_techs_def] discovered_listen_mapped [OF _ assms(2,3), folded listen_techs_def]
    by simp
qed

text \<open>
  C26. \<open>RF_DISCOVER_MAP_CMD\<close> is a counted list of three-byte entries with at most one entry
  per protocol and mode, and every RF technology and mode that \<open>RF_DISCOVER_CMD\<close> will then
  configure is served by an entry of the same direction (poll or listen).
\<close>

theorem discover_map_covers_discover:
  "discover_map_cmd w = map_payload (discover_map_entries w) \<and>
   (\<forall>e \<in> set (discover_map_entries w). length e = 3) \<and> distinct (map (take 2) (discover_map_entries w)) \<and>
   (\<forall>m \<in> set (configured_modes w). \<exists>p i.
      [p, if nci_listen_mode m then NCI_DISCOVER_MAP_MODE_LISTEN else NCI_DISCOVER_MAP_MODE_POLL, i]
        \<in> set (discover_map_entries w))"
proof (intro conjI ballI)
  fix m
  assume "m \<in> set (configured_modes w)"
  then obtain t where "(t, m) \<in> set tech_modes" "any_bit (sm_techs w) t" "wanted_tech (sm_op_mode w) t"
    by (auto simp: configured_modes_def)
  then show "\<exists>p i. [p, if nci_listen_mode m then NCI_DISCOVER_MAP_MODE_LISTEN else NCI_DISCOVER_MAP_MODE_POLL, i]
      \<in> set (discover_map_entries w)"
    by (rule discovered_mode_mapped)
qed (use discover_map_cmd_payload entries_ok in auto)

lemma discover_map_covers_discover_witness:
  "\<exists>p i. [p, NCI_DISCOVER_MAP_MODE_POLL, i] \<in> set (discover_map_entries nci_sm_object_init)"
proof -
  have "(NCI_TECH_A_POLL_PASSIVE, NCI_MODE_PASSIVE_POLL_A) \<in> set tech_modes" by (simp add: tech_modes_def)
  moreover have "any_bit (sm_techs nci_sm_object_init) NCI_TECH_A_POLL_PASSIVE" by (simp add: any_bit_def)
  moreover have "wanted_tech (sm_op_mode nci_sm_object_init) NCI_TECH_A_POLL_PASSIVE"
    by (simp add: wanted_tech_simps flip: any_bit_single) (simp add: any_bit_def)
  ultimately have m: "NCI_MODE_PASSIVE_POLL_A \<in> set (configured_modes nci_sm_object_init)"
    unfolding configured_modes_def by force
  have "\<forall>m \<in> set (configured_modes nci_sm_object_init). \<exists>p i.
      [p, if nci_listen_mode m then NCI_DISCOVER_MAP_MODE_LISTEN else NCI_DISCOVER_MAP_MODE_POLL, i]
        \<in> set (discover_map_entries nci_sm_object_init)"
    using discover_map_covers_discover [of nci_sm_object_init] by (elim conjE)
  from bspec [OF this m] show ?thesis by (simp add: nci_listen_mode_def)
qed

section \<open>\<open>CORE_GET_CONFIG\<close> and \<open>CORE_SET_CONFIG\<close>\<close>

definition cfg_ok :: "nci_world \<Rightarrow> bool" where
  "cfg_ok w \<longleftrightarrow> wf_nfcid1 (sm_la_nfcid1 w) \<and> wf_hb (sm_li_a_hb w)"

definition param_when :: "bool \<Rightarrow> byte \<Rightarrow> byte list \<Rightarrow> (byte \<times> byte list) list" where
  "param_when c pid val = (if c then [(pid, val)] else [])"

text \<open>What the payload writes, as parameters.\<close>

definition config_params :: "u32 \<Rightarrow> byte \<Rightarrow> NciNfcid1 \<Rightarrow> NciAtsHb \<Rightarrow> byte \<Rightarrow> byte \<Rightarrow> (byte \<times> byte list) list" where
  "config_params f sens nfcid1 hb sel lf =
     param_when (any_bit f CORE_SET_CONFIG_LA_SENS_RES_1) NCI_CONFIG_LA_SENS_RES_1 [sens] @
     param_when (any_bit f CORE_SET_CONFIG_LA_SEL_INFO) NCI_CONFIG_LA_SEL_INFO [sel] @
     param_when (any_bit f CORE_SET_CONFIG_LA_NFCID1) NCI_CONFIG_LA_NFCID1
       (take (unat (nfcid1_len nfcid1)) (nfcid1_bytes nfcid1)) @
     param_when (any_bit f CORE_SET_CONFIG_LF_PROTOCOL_TYPE) NCI_CONFIG_LF_PROTOCOL_TYPE [lf] @
     param_when (any_bit f CORE_SET_CONFIG_LI_A_HB) NCI_CONFIG_LI_A_HIST_BY (take (unat (hb_len hb)) (hb_bytes hb))"

definition pack :: "(byte \<times> byte list) list \<Rightarrow> byte list" where
  "pack ps = of_nat (length ps) # tlv_encode ps"

lemma tlv_encode_append: "tlv_encode (ps @ qs) = tlv_encode ps @ tlv_encode qs"
  by (induction ps rule: tlv_encode.induct) simp_all

lemma config_when_pack:
  "unat len \<le> length val \<Longrightarrow>
    config_when c pid len val (pack ps) = pack (ps @ param_when c pid (take (unat len) val))"
  by (simp add: config_when_def bump_def tlv_encode_append min_absorb2 pack_def param_when_def)

lemma set_config_cmd_pack:
  assumes "unat (nfcid1_len nfcid1) \<le> length (nfcid1_bytes nfcid1)" "unat (hb_len hb) \<le> length (hb_bytes hb)"
  shows "set_config_cmd f sens nfcid1 hb sel lf = pack (config_params f sens nfcid1 hb sel lf)"
proof -
  have "[0x00] = pack []" by (simp add: pack_def)
  then show ?thesis using assms
    by (simp add: set_config_cmd_def Let_def config_when_pack config_params_def)
qed

lemma find_pack:
  assumes "tlv_ok ps" "length ps < 256"
  shows "nci_parse_find_config_param (unat (of_nat (length ps) :: byte)) (tlv_encode ps) pid = map_of ps pid"
  using find_config_param_tlv [OF assms(1) le_refl, of "[]"] assms(2) by (simp add: unat_of_nat_byte)

lemma byte_ok_written:
  assumes "nci_transition_idle_to_discovery_config_byte_ok n ps pid e msk = (False, e')"
    and "e AND msk = e" and "nci_parse_find_config_param n' ps' pid = Some [e']"
  shows "fst (nci_transition_idle_to_discovery_config_byte_ok n' ps' pid e msk)"
proof -
  have "e' AND msk = e"
    using assms(1,2) by (auto simp: nci_transition_idle_to_discovery_config_byte_ok_def Let_def
      word_bw_assocs bit.conj_disj_distrib2 word_and_not word_bw_lcs(1) split: prod.splits if_splits)
  moreover have "ucast (ucast e' :: u32) = e'" by (rule bit_eqI) (simp add: bit_simps)
  ultimately show ?thesis
    using assms(3) by (simp add: nci_transition_idle_to_discovery_config_byte_ok_def nci_parse_config_param_uint_def Let_def)
qed

lemma byte_ok_kept:
  "nci_parse_find_config_param n' ps' pid = nci_parse_find_config_param n ps pid \<Longrightarrow>
    nci_transition_idle_to_discovery_config_byte_ok n' ps' pid e msk =
    nci_transition_idle_to_discovery_config_byte_ok n ps pid e msk"
  by (simp add: nci_transition_idle_to_discovery_config_byte_ok_def nci_parse_config_param_uint_def)


lemma nfcid1_ok_written:
  assumes "wf_nfcid1 x" "nfcid1_len x \<noteq> 0"
    and "nci_parse_find_config_param n ps pid = Some (take (unat (nfcid1_len x)) (nfcid1_bytes x))"
  shows "nci_transition_idle_to_discovery_config_nfcid1_ok n ps pid x"
proof -
  have l: "unat (nfcid1_len x) \<in> {4, 7, 10}" "length (nfcid1_bytes x) = 10"
    using assms(1,2) by (auto simp: wf_nfcid1_def unat_eq_0)
  then have "length (take (unat (nfcid1_len x)) (nfcid1_bytes x)) = unat (nfcid1_len x)" by auto
  then show ?thesis using assms(3) l
    by (auto simp: nci_transition_idle_to_discovery_config_nfcid1_ok_def nci_parse_config_param_nfcid1_def
        nci_nfcid1_equal_def nci_nfcid1_dynamic_def memcmp_eq_def fill_array_def nth_append)
qed

lemma hb_ok_written:
  "wf_hb hb \<Longrightarrow> nci_parse_find_config_param n ps pid = Some (take (unat (hb_len hb)) (hb_bytes hb)) \<Longrightarrow>
    nci_transition_idle_to_discovery_hb_ok n ps pid hb"
  by (auto simp: nci_transition_idle_to_discovery_hb_ok_def wf_hb_def memcmp_eq_def)

lemma nfcid1_expected_wf:
  assumes "wf_nfcid1 (sm_la_nfcid1 w)"
  shows "wf_nfcid1 (nci_transition_idle_to_discovery_la_nfcid1_expected w)"
    "nfcid1_len (nci_transition_idle_to_discovery_la_nfcid1_expected w) \<noteq> 0"
  using assms by (auto simp: nci_transition_idle_to_discovery_la_nfcid1_expected_def wf_nfcid1_def Let_def)

definition config_flags :: "bool \<Rightarrow> bool \<Rightarrow> bool \<Rightarrow> bool \<Rightarrow> bool \<Rightarrow> u32" where
  "config_flags a b c d e =
    (if a then CORE_SET_CONFIG_LA_SENS_RES_1 else 0) + (if b then CORE_SET_CONFIG_LA_SEL_INFO else 0) +
    (if c then CORE_SET_CONFIG_LA_NFCID1 else 0) + (if d then CORE_SET_CONFIG_LF_PROTOCOL_TYPE else 0) +
    (if e then CORE_SET_CONFIG_LI_A_HB else 0)"

lemma any_bit_config_flags [simp]:
  "any_bit (config_flags a b c d e) CORE_SET_CONFIG_LA_SENS_RES_1 = a"
  "any_bit (config_flags a b c d e) CORE_SET_CONFIG_LA_SEL_INFO = b"
  "any_bit (config_flags a b c d e) CORE_SET_CONFIG_LA_NFCID1 = c"
  "any_bit (config_flags a b c d e) CORE_SET_CONFIG_LF_PROTOCOL_TYPE = d"
  "any_bit (config_flags a b c d e) CORE_SET_CONFIG_LI_A_HB = e"
  by (cases a; cases b; cases c; cases d; cases e; simp add: config_flags_def any_bit_def)+

lemma config_flags_0 [simp]: "config_flags a b c d e = 0 \<longleftrightarrow> \<not> a \<and> \<not> b \<and> \<not> c \<and> \<not> d \<and> \<not> e"
  by (cases a; cases b; cases c; cases d; cases e; simp add: config_flags_def)

lemma get_config_flags_ok:
  assumes "tlv_ok ps" "length ps < 256"
  shows "get_config_flags (NCI_STATUS_OK # pack ps) w =
    (let n = unat (of_nat (length ps) :: byte); params = tlv_encode ps;
         sens = nci_transition_idle_to_discovery_config_byte_ok n params NCI_CONFIG_LA_SENS_RES_1
                  (nci_transition_idle_to_discovery_la_sens_res_1_expected w) NCI_LA_SENS_RES_NFCID1_LEN_MASK;
         sel = nci_transition_idle_to_discovery_config_byte_ok n params NCI_CONFIG_LA_SEL_INFO
                 (nci_transition_idle_to_discovery_la_sel_info_expected w) (NCI_LA_SEL_INFO_ISO_DEP OR NCI_LA_SEL_INFO_NFC_DEP);
         lf = nci_transition_idle_to_discovery_config_byte_ok n params NCI_CONFIG_LF_PROTOCOL_TYPE
                (nci_transition_idle_to_discovery_lf_protocol_type_expected w) NCI_LF_PROTOCOL_TYPE_NFC_DEP
     in (config_flags (\<not> fst sens) (\<not> fst sel)
           (\<not> nci_transition_idle_to_discovery_config_nfcid1_ok n params NCI_CONFIG_LA_NFCID1
                (nci_transition_idle_to_discovery_la_nfcid1_expected w))
           (\<not> fst lf) (\<not> nci_transition_idle_to_discovery_hb_ok n params NCI_CONFIG_LI_A_HIST_BY (sm_li_a_hb w)),
         snd sens, snd sel, snd lf))"
  unfolding get_config_flags_def pack_def Let_def
  by (simp add: config_flags_def split: prod.split)

lemma expected_bits:
  "nci_transition_idle_to_discovery_la_sens_res_1_expected w AND NCI_LA_SENS_RES_NFCID1_LEN_MASK =
    nci_transition_idle_to_discovery_la_sens_res_1_expected w"
  "nci_transition_idle_to_discovery_la_sel_info_expected w AND (NCI_LA_SEL_INFO_ISO_DEP OR NCI_LA_SEL_INFO_NFC_DEP) =
    nci_transition_idle_to_discovery_la_sel_info_expected w"
  "nci_transition_idle_to_discovery_lf_protocol_type_expected w AND NCI_LF_PROTOCOL_TYPE_NFC_DEP =
    nci_transition_idle_to_discovery_lf_protocol_type_expected w"
  by (simp_all add: nci_transition_idle_to_discovery_la_sens_res_1_expected_def Let_def
    nci_transition_idle_to_discovery_la_sel_info_expected_def nci_transition_idle_to_discovery_lf_protocol_type_expected_def)

definition stored :: "(byte \<times> byte list) list \<Rightarrow> byte \<Rightarrow> byte list option" where
  "stored ps pid = nci_parse_find_config_param (unat (of_nat (length ps) :: byte)) (tlv_encode ps) pid"

lemma byte_ok_again:
  assumes "r = nci_transition_idle_to_discovery_config_byte_ok (unat (of_nat (length ps) :: byte)) (tlv_encode ps) pid e msk"
    and "e AND msk = e"
    and "stored ps' pid = (if fst r then stored ps pid else Some [snd r])"
  shows "fst (nci_transition_idle_to_discovery_config_byte_ok (unat (of_nat (length ps') :: byte)) (tlv_encode ps') pid e msk)"
proof (cases "fst r")
  case True
  then show ?thesis using assms byte_ok_kept by (metis stored_def)
next
  case False
  then show ?thesis using assms byte_ok_written by (metis prod.collapse stored_def)
qed

lemma get_config_flags_settled:
  assumes "cfg_ok w"
    and "tlv_ok ps" "length ps < 256" "tlv_ok ps'" "length ps' < 256"
    and "get_config_flags (NCI_STATUS_OK # pack ps) w = (f, sens, sel, lf)"
    and "map_of ps' = map_of ps ++ map_of (config_params f sens
           (nci_transition_idle_to_discovery_la_nfcid1_expected w) (sm_li_a_hb w) sel lf)"
  shows "fst (get_config_flags (NCI_STATUS_OK # pack ps') w) = 0"
proof -
  have found: "stored ps = map_of ps" "stored ps' = map_of ps'"
    using find_pack assms(2-5) by (auto simp: stored_def)
  define n where "n = unat (of_nat (length ps) :: byte)"
  define rsens where "rsens = nci_transition_idle_to_discovery_config_byte_ok n (tlv_encode ps) NCI_CONFIG_LA_SENS_RES_1
                  (nci_transition_idle_to_discovery_la_sens_res_1_expected w) NCI_LA_SENS_RES_NFCID1_LEN_MASK"
  define rsel where "rsel = nci_transition_idle_to_discovery_config_byte_ok n (tlv_encode ps) NCI_CONFIG_LA_SEL_INFO
                 (nci_transition_idle_to_discovery_la_sel_info_expected w) (NCI_LA_SEL_INFO_ISO_DEP OR NCI_LA_SEL_INFO_NFC_DEP)"
  define rlf where "rlf = nci_transition_idle_to_discovery_config_byte_ok n (tlv_encode ps) NCI_CONFIG_LF_PROTOCOL_TYPE
                (nci_transition_idle_to_discovery_lf_protocol_type_expected w) NCI_LF_PROTOCOL_TYPE_NFC_DEP"
  define x where "x = nci_transition_idle_to_discovery_la_nfcid1_expected w"
  define i where "i = nci_transition_idle_to_discovery_config_nfcid1_ok n (tlv_encode ps) NCI_CONFIG_LA_NFCID1 x"
  define h where "h = nci_transition_idle_to_discovery_hb_ok n (tlv_encode ps) NCI_CONFIG_LI_A_HIST_BY (sm_li_a_hb w)"
  note r = rsens_def rsel_def rlf_def i_def h_def
  have f: "f = config_flags (\<not> fst rsens) (\<not> fst rsel) (\<not> i) (\<not> fst rlf) (\<not> h)"
    "sens = snd rsens" "sel = snd rsel" "lf = snd rlf"
    using assms(6) get_config_flags_ok [OF assms(2,3), of w] by (simp_all add: r n_def x_def Let_def)
  note ev = f found assms(7) config_params_def param_when_def map_add_def
  have 1: "stored ps' NCI_CONFIG_LA_SENS_RES_1 = (if fst rsens then stored ps NCI_CONFIG_LA_SENS_RES_1 else Some [snd rsens])"
    by (simp add: ev)
  have 2: "stored ps' NCI_CONFIG_LA_SEL_INFO = (if fst rsel then stored ps NCI_CONFIG_LA_SEL_INFO else Some [snd rsel])"
    by (simp add: ev)
  have 3: "stored ps' NCI_CONFIG_LF_PROTOCOL_TYPE = (if fst rlf then stored ps NCI_CONFIG_LF_PROTOCOL_TYPE else Some [snd rlf])"
    by (simp add: ev)
  have 4: "stored ps' NCI_CONFIG_LA_NFCID1 = (if i then stored ps NCI_CONFIG_LA_NFCID1
      else Some (take (unat (nfcid1_len x)) (nfcid1_bytes x)))"
    by (simp add: ev x_def)
  have 5: "stored ps' NCI_CONFIG_LI_A_HIST_BY = (if h then stored ps NCI_CONFIG_LI_A_HIST_BY
      else Some (take (unat (hb_len (sm_li_a_hb w))) (hb_bytes (sm_li_a_hb w))))"
    by (simp add: ev)
  define n' where "n' = unat (of_nat (length ps') :: byte)"
  have "nci_transition_idle_to_discovery_config_nfcid1_ok n' (tlv_encode ps') NCI_CONFIG_LA_NFCID1 x"
  proof (cases i)
    case True
    then show ?thesis using 4
      by (simp add: i_def stored_def n_def n'_def nci_transition_idle_to_discovery_config_nfcid1_ok_def nci_parse_config_param_nfcid1_def)
  next
    case False
    then show ?thesis using 4 nfcid1_ok_written nfcid1_expected_wf assms(1)
      by (auto simp: stored_def n'_def x_def cfg_ok_def)
  qed
  moreover have "nci_transition_idle_to_discovery_hb_ok n' (tlv_encode ps') NCI_CONFIG_LI_A_HIST_BY (sm_li_a_hb w)"
  proof (cases h)
    case True
    then show ?thesis using 5 by (simp add: h_def stored_def n_def n'_def nci_transition_idle_to_discovery_hb_ok_def)
  next
    case False
    then show ?thesis using 5 hb_ok_written assms(1) by (auto simp: stored_def n'_def cfg_ok_def)
  qed
  ultimately show ?thesis
    using byte_ok_again [OF rsens_def [unfolded n_def] expected_bits(1) 1]
      byte_ok_again [OF rsel_def [unfolded n_def] expected_bits(2) 2]
      byte_ok_again [OF rlf_def [unfolded n_def] expected_bits(3) 3]
    by (simp add: get_config_flags_ok [OF assms(4,5)] Let_def n'_def x_def)
qed


text \<open>
  C17. The configuration converges. If the NFCC reports the parameters \<open>ps\<close>, the transition
  answers with a \<open>CORE_SET_CONFIG\<close> of some parameters and values; once the NFCC reports
  the same list with those values stored in it, the next pass through the transition finds
  nothing to write and goes straight to the routing.
\<close>

theorem configuration_settles:
  assumes "cfg_ok w"
    and "tlv_ok ps" "length ps < 256" "tlv_ok ps'" "length ps' < 256"
    and "get_config_flags (NCI_STATUS_OK # pack ps) w = (f, sens, sel, lf)"
    and "map_of ps' = map_of ps ++ map_of (config_params f sens
           (nci_transition_idle_to_discovery_la_nfcid1_expected w) (sm_li_a_hb w) sel lf)"
  shows "fst (get_config_flags (NCI_STATUS_OK # pack ps') w) = 0"
  using assms by (rule get_config_flags_settled)

lemmas config_eval = get_config_flags_def pack_def nci_transition_idle_to_discovery_config_byte_ok_def
  nci_parse_config_param_uint_def nci_transition_idle_to_discovery_la_sens_res_1_expected_def
  nci_transition_idle_to_discovery_la_sel_info_expected_def nci_transition_idle_to_discovery_lf_protocol_type_expected_def
  nci_transition_idle_to_discovery_la_nfcid1_expected_def nci_transition_idle_to_discovery_config_nfcid1_ok_def
  nci_parse_config_param_nfcid1_def nci_transition_idle_to_discovery_hb_ok_def any_bit_def all_bits_def

lemma configuration_settles_witness:
  "fst (get_config_flags (NCI_STATUS_OK # pack [(NCI_CONFIG_LA_SENS_RES_1, [0x04]), (NCI_CONFIG_LA_SEL_INFO, [0]),
     (NCI_CONFIG_LA_NFCID1, [8, 0, 0, 0]), (NCI_CONFIG_LF_PROTOCOL_TYPE, [0])]) nci_sm_object_init) = 0"
proof -
  let ?ps = "[(NCI_CONFIG_LA_SENS_RES_1, [0x44 :: byte])]"
  let ?ps' = "[(NCI_CONFIG_LA_SENS_RES_1, [0x04]), (NCI_CONFIG_LA_SEL_INFO, [0]),
     (NCI_CONFIG_LA_NFCID1, [8, 0, 0, 0]), (NCI_CONFIG_LF_PROTOCOL_TYPE, [0 :: byte])]"
  have zero_id: "nfcid1_len zero_nfcid1 = 0" "replicate 3 (0 :: byte) = [0, 0, 0]"
    by (simp_all add: zero_nfcid1_def eval_nat_numeral)
  have "get_config_flags (NCI_STATUS_OK # pack ?ps) nci_sm_object_init = (0x0f, 0x04, 0, 0)"
    by (simp add: config_eval zero_nfcid1_def zero_hb_def Let_def)
  from configuration_settles [OF _ _ _ _ _ this, of ?ps'] show ?thesis
    by (simp add: cfg_ok_def tlv_ok_def config_params_def param_when_def any_bit_def zero_id
      nci_transition_idle_to_discovery_la_nfcid1_expected_def fun_eq_iff)
qed

text \<open>
  C24. \<open>CORE_SET_CONFIG_CMD\<close> round trip: reading the payload that is sent with the parser of
  the library finds, under each identifier, exactly the value that was to be written if its
  flag is set, and nothing otherwise.
\<close>

theorem set_config_cmd_roundtrip:
  assumes "wf_nfcid1 nfcid1" and "wf_hb hb"
  shows "nci_parse_find_config_param (unat (hd (set_config_cmd f sens nfcid1 hb sel lf)))
      (tl (set_config_cmd f sens nfcid1 hb sel lf)) pid =
    (if pid = NCI_CONFIG_LA_SENS_RES_1 \<and> any_bit f CORE_SET_CONFIG_LA_SENS_RES_1 then Some [sens]
     else if pid = NCI_CONFIG_LA_SEL_INFO \<and> any_bit f CORE_SET_CONFIG_LA_SEL_INFO then Some [sel]
     else if pid = NCI_CONFIG_LA_NFCID1 \<and> any_bit f CORE_SET_CONFIG_LA_NFCID1
       then Some (take (unat (nfcid1_len nfcid1)) (nfcid1_bytes nfcid1))
     else if pid = NCI_CONFIG_LF_PROTOCOL_TYPE \<and> any_bit f CORE_SET_CONFIG_LF_PROTOCOL_TYPE then Some [lf]
     else if pid = NCI_CONFIG_LI_A_HIST_BY \<and> any_bit f CORE_SET_CONFIG_LI_A_HB
       then Some (take (unat (hb_len hb)) (hb_bytes hb))
     else None)"
proof -
  let ?ps = "config_params f sens nfcid1 hb sel lf"
  have len: "length ?ps < 256" by (simp add: config_params_def param_when_def)
  have ok: "tlv_ok ?ps"
    using assms by (auto simp: tlv_ok_def config_params_def param_when_def wf_nfcid1_def wf_hb_def)
  have "set_config_cmd f sens nfcid1 hb sel lf = pack ?ps"
    using assms by (intro set_config_cmd_pack) (auto simp: wf_nfcid1_def wf_hb_def)
  then have "nci_parse_find_config_param (unat (hd (set_config_cmd f sens nfcid1 hb sel lf)))
      (tl (set_config_cmd f sens nfcid1 hb sel lf)) pid = map_of ?ps pid"
    using find_pack [OF ok len] by (simp add: pack_def)
  then show ?thesis by (simp add: config_params_def param_when_def)
qed

lemma set_config_cmd_roundtrip_witness:
  "nci_parse_find_config_param (unat (hd (set_config_cmd 0x14 0 zero_nfcid1 zero_hb 0 0)))
     (tl (set_config_cmd 0x14 0 zero_nfcid1 zero_hb 0 0)) NCI_CONFIG_LI_A_HIST_BY = Some []"
  using set_config_cmd_roundtrip [OF wf_zero, of "0x14" 0 0 0 NCI_CONFIG_LI_A_HIST_BY]
  by (simp add: any_bit_def zero_hb_def)

end
