(* ===== verification/Reset_Properties.thy ===== *)
theory Reset_Properties
  imports Sm_Properties Discovery_Properties
begin

text \<open>
  The reset: which response the command channel awaits, how the responses of the NFCC take
  the library from any state to \<open>RFST_IDLE\<close>, and what the payloads exchanged mean.
\<close>

unbundle bit_operations_syntax

section \<open>The response that is awaited\<close>

definition rsp_awaited :: "nci_world \<Rightarrow> (rsp_handler \<times> byte \<times> byte) option" where
  "rsp_awaited w = map_option (\<lambda>h. (h, core_rsp_gid w, core_rsp_oid w)) (core_rsp_handler w)"

lemma rsp_awaited_more: "nci_sar.more s = nci_sar.more t \<Longrightarrow> rsp_awaited s = rsp_awaited t"
  by (cases s, cases t) (simp add: rsp_awaited_def nci_world.defs)

lemma rsp_awaited_fields [simp]:
  "rsp_awaited (w\<lparr>core_current_state := a1\<rparr>) = rsp_awaited w" "rsp_awaited (w\<lparr>core_next_state := a2\<rparr>) = rsp_awaited w"
  "rsp_awaited (w\<lparr>sm_pending_next := a3\<rparr>) = rsp_awaited w" "rsp_awaited (w\<lparr>sm_pending_last := a4\<rparr>) = rsp_awaited w"
  "rsp_awaited (w\<lparr>sm_next_state := a5\<rparr>) = rsp_awaited w" "rsp_awaited (w\<lparr>sm_last_state := a6\<rparr>) = rsp_awaited w"
  "rsp_awaited (w\<lparr>sm_active_state := a7\<rparr>) = rsp_awaited w" "rsp_awaited (w\<lparr>st_active := a8\<rparr>) = rsp_awaited w"
  "rsp_awaited (w\<lparr>st_discoveries := a9\<rparr>) = rsp_awaited w"
  by (simp_all add: rsp_awaited_def)

lemma handle_response_awaited:
  assumes "rsp_awaited w = Some (h, gid, oid)"
  shows "nci_core_sar_handle_response env gid oid p w =
    run_rsp env h NCI_REQUEST_SUCCESS p (w\<lparr>core_cmd_timeout_id := False, core_cmd_id := 0, core_rsp_handler := None\<rparr>)"
  using assms by (auto simp: rsp_awaited_def nci_core_sar_handle_response_def)

lemma send_awaits: "rsp_awaited (snd (nci_sm_send_command env gid oid p h w)) = Some (h, gid, oid)"
proof -
  let ?w = "(nci_core_cancel_command env w)\<lparr>core_rsp_gid := gid, core_rsp_oid := oid, core_rsp_handler := Some h\<rparr>"
  obtain pid w' where send: "nci_sar_send_command gid oid p (Some Core_command_completion) None ?w = (pid, w')" by force
  have "nci_sar.more w' = nci_sar.more ?w"
    using send by (auto simp: nci_sar_send_command_def nci_sar_send_def nci_sar_schedule_write_def sar_enqueue_def Let_def)
  then have "rsp_awaited w' = rsp_awaited ?w" by (rule rsp_awaited_more)
  moreover have "pid \<noteq> 0" using send_command_id [of gid oid p "Some Core_command_completion" None ?w] send by simp
  ultimately show ?thesis by (simp add: nci_sm_send_command_def nci_core_io_send_def Let_def send rsp_awaited_def)
qed

text \<open>A \<open>CORE_INIT_RSP\<close> of NCI 1.x: the status and the length match the number of RF interfaces.\<close>

definition init_rsp_v1_ok :: "byte list \<Rightarrow> bool" where
  "init_rsp_v1_ok pkt \<longleftrightarrow> length pkt \<ge> 17 \<and> pkt ! 0 = NCI_STATUS_OK \<and> length pkt = unat (pkt ! 5) + 17"

context observing_app begin

lemma app_awaited [simp]: "rsp_awaited (env_app env e w) = rsp_awaited w"
  by (rule rsp_awaited_more) (rule app_more)

lemma emit_awaited [simp]: "rsp_awaited (nci_sm_emit_pending_signals env w) = rsp_awaited w"
  by (simp add: nci_sm_emit_pending_signals_def nci_core_next_state_changed_def nci_core_last_state_changed_def Let_def)

lemma leave_awaited [simp]: "rsp_awaited (leave_active_state w) = rsp_awaited w"
  by (simp add: leave_active_state_def nci_state_leave_def Let_def split: option.split)

lemma reset_awaits: "rsp_awaited (snd (nci_sm_start_transition env TReset w)) = Some (nci_transition_reset_rsp, NCI_GID_CORE, NCI_OID_CORE_RESET)"
proof -
  let ?w = "(if sm_active_transition w \<noteq> Some TReset then nci_sm_finish_active_transition w else w)\<lparr>sm_active_transition := Some TReset\<rparr>"
  obtain w' where st: "nci_transition_start env TReset ?w = (True, w')"
    using start_view(1) [of TReset ?w] by (cases "nci_transition_start env TReset ?w") simp
  then have "w' = snd (nci_transition_start env TReset ?w)" by simp
  then have "rsp_awaited w' = Some (nci_transition_reset_rsp, NCI_GID_CORE, NCI_OID_CORE_RESET)"
    by (simp add: nci_transition_start_def nci_transition_reset_start_def nci_transition_default_start_def send_awaits)
  then show ?thesis using st by (simp add: nci_sm_start_transition_def Let_def)
qed

lemma restart_awaits: "sm_wf w \<Longrightarrow> rsp_awaited (nci_core_restart env w) = Some (nci_transition_reset_rsp, NCI_GID_CORE, NCI_OID_CORE_RESET)"
proof -
  assume wf: "sm_wf w"
  let ?w0 = "nci_sar_reset (core_client env) (nci_core_cancel_command env w)"
  define w1 where "w1 = nci_sm_enter_state_internal env (nci_state_entered env) NCI_STATE_INIT None (?w0\<lparr>sm_pending_switch := None, sm_next_transition := None\<rparr>)"
  have view: "sm_view w1 = v_enter NCI_STATE_INIT ((sm_view ?w0)\<lparr>v_then := None\<rparr>)"
    by (simp add: w1_def enter_internal_view entered_view)
  have at: "sm_next_state w1 = NCI_STATE_INIT" "sm_last_state w1 = NCI_STATE_INIT" "sm_active_transition w1 = None"
    unfolding sm_view_fields view by (simp_all add: v_defs split: option.split)
  have tr: "nci_state_get_transition NCI_STATE_INIT NCI_RFST_IDLE = None" "\<not> NCI_IS_INTERNAL_STATE NCI_RFST_IDLE"
    by (simp_all add: nci_state_get_transition_def sm_transitions_def NCI_IS_INTERNAL_STATE_iff)
  show ?thesis
    using at tr
    by (simp add: nci_core_restart_def nci_core_restart_internal_def nci_sm_reset_def nci_sm_switch_internal_def
        switch_from_state_def w1_def [symmetric] Let_def nci_sm_set_next_state_def reset_awaits)
qed

lemma resetting_active: "sm_abs w = Going s t th n \<Longrightarrow> sm_active_transition w = Some t"
  by (simp add: sm_abs_def v_abs_def sm_view_fields split: option.splits)

text \<open>The state of the library while it resets, waiting for a response.\<close>

definition resetting :: "rsp_handler \<Rightarrow> byte \<Rightarrow> nci_world \<Rightarrow> bool" where
  "resetting h oid w \<longleftrightarrow>
     sm_wf w \<and> sm_abs w = Going NCI_STATE_INIT TReset None NCI_RFST_IDLE \<and> rsp_awaited w = Some (h, NCI_GID_CORE, oid)"

lemma resettingI:
  assumes "resetting h oid w" and "sm_view w' = sm_view w" and "rsp_awaited w' = Some (h', NCI_GID_CORE, oid')"
  shows "resetting h' oid' w'"
  using assms by (simp add: resetting_def sm_wf_def sm_abs_def)

lemma resetting_response:
  assumes "resetting h oid w"
  shows "nci_core_sar_handle_response env NCI_GID_CORE oid p w =
    run_rsp env h NCI_REQUEST_SUCCESS p (w\<lparr>core_cmd_timeout_id := False, core_cmd_id := 0, core_rsp_handler := None\<rparr>)"
  using assms by (simp add: resetting_def handle_response_awaited)

lemma resetting_when_active:
  assumes "resetting h oid w"
  shows "when_active TReset NCI_REQUEST_SUCCESS f (w\<lparr>core_cmd_timeout_id := b, core_cmd_id := i, core_rsp_handler := None\<rparr>) =
    f (w\<lparr>core_cmd_timeout_id := b, core_cmd_id := i, core_rsp_handler := None\<rparr>)"
  using assms resetting_active by (simp add: resetting_def when_active_def nci_sm_active_transition_def)

lemma resetting_start: "sm_wf w \<Longrightarrow> resetting nci_transition_reset_rsp NCI_OID_CORE_RESET (nci_core_restart env w)"
  by (simp add: resetting_def restart_abs restart_awaits)

lemma resetting_reset_v1:
  assumes "resetting nci_transition_reset_rsp NCI_OID_CORE_RESET w"
  shows "resetting nci_transition_reset_init_v1_rsp NCI_OID_CORE_INIT
    (nci_core_sar_handle_response env NCI_GID_CORE NCI_OID_CORE_RESET [NCI_STATUS_OK, v, c] w)"
  by (rule resettingI [OF assms])
    (simp_all add: resetting_response [OF assms] run_rsp_def run_reset_rsp_def resetting_when_active [OF assms] Let_def send_awaits)

lemma init_done_awaits: "rsp_awaited (init_done env a b w) = Some (nci_transition_reset_set_config_rsp, NCI_GID_CORE, NCI_OID_CORE_SET_CONFIG)"
  by (simp add: init_done_def nci_transition_reset_set_config_def send_awaits)

lemma resetting_init_v1:
  assumes "resetting nci_transition_reset_init_v1_rsp NCI_OID_CORE_INIT w" and "init_rsp_v1_ok pkt"
  shows "resetting nci_transition_reset_set_config_rsp NCI_OID_CORE_SET_CONFIG
    (nci_core_sar_handle_response env NCI_GID_CORE NCI_OID_CORE_INIT pkt w)"
  using assms(2)
  by (intro resettingI [OF assms(1)])
    (simp_all add: resetting_response [OF assms(1)] run_rsp_def run_reset_init_v1_rsp_def init_rsp_v1_ok_def
      resetting_when_active [OF assms(1)] Let_def init_done_awaits)

lemma resetting_set_config:
  assumes "resetting nci_transition_reset_set_config_rsp NCI_OID_CORE_SET_CONFIG w"
  shows "sm_wf (nci_core_sar_handle_response env NCI_GID_CORE NCI_OID_CORE_SET_CONFIG p w) \<and>
    sm_abs (nci_core_sar_handle_response env NCI_GID_CORE NCI_OID_CORE_SET_CONFIG p w) = At NCI_RFST_IDLE"
proof -
  let ?w = "w\<lparr>core_cmd_timeout_id := False, core_cmd_id := 0, core_rsp_handler := None\<rparr>"
  have w: "sm_wf ?w" "sm_abs ?w = Going NCI_STATE_INIT TReset None NCI_RFST_IDLE"
    using assms by (simp_all add: resetting_def sm_wf_def sm_abs_def)
  then show ?thesis
    using finish_abs [OF w(1) resetting_active [OF w(2)]]
    by (simp add: resetting_response [OF assms] run_rsp_def run_reset_set_config_rsp_def resetting_when_active [OF assms]
        transition_dest_def)
qed

end

text \<open>
  C11. A restart reaches \<open>RFST_IDLE\<close> from any state, provided the NFCC answers: once it has
  answered \<open>CORE_RESET_CMD\<close> and \<open>CORE_INIT_CMD\<close> successfully in the format of NCI 1.x and
  \<open>CORE_SET_CONFIG_CMD\<close> in any way, the library is at rest in \<open>RFST_IDLE\<close> and says so.
\<close>

theorem restart_reaches_idle:
  assumes "\<And>e w. nci_sar.more (env_app env e w) = nci_sar.more w" and "core_reachable env w" and "init_rsp_v1_ok pkt"
  shows "let w1 = nci_core_restart env w;
             w2 = nci_core_sar_handle_response env NCI_GID_CORE NCI_OID_CORE_RESET [NCI_STATUS_OK, version, status] w1;
             w3 = nci_core_sar_handle_response env NCI_GID_CORE NCI_OID_CORE_INIT pkt w2;
             w4 = nci_core_sar_handle_response env NCI_GID_CORE NCI_OID_CORE_SET_CONFIG answer w3
         in sm_active_transition w4 = None \<and> core_current_state w4 = NCI_RFST_IDLE \<and> core_next_state w4 = NCI_RFST_IDLE"
proof -
  have app: "observing_app env" by (rule observing_app.intro) (rule assms(1))
  note start = observing_app.resetting_start [OF app observing_app.reachable_wf [OF app assms(2)]]
  note idle = observing_app.resetting_set_config [OF app observing_app.resetting_init_v1 [OF app
        observing_app.resetting_reset_v1 [OF app start] assms(3)]]
  note facts = sm_wf_facts [OF idle [THEN conjunct1]]
  show ?thesis
    using idle [THEN conjunct2, THEN facts(7)] unfolding Let_def by (auto simp: facts(1,2) facts(4))
qed

definition init_v1_example :: "byte list" where
  "init_v1_example = [0x00, 0x02, 0x0e, 0x02, 0x00, 0x03, 0x00, 0x01, 0x02, 0x02, 0x00, 0x02, 0xff, 0x00, 0x0c, 0x08, 0x04, 0x00, 0x00, 0x00]"

lemma restart_reaches_idle_witness:
  "let w1 = nci_core_restart echo_env (nci_core_new (\<lambda>w. w));
       w2 = nci_core_sar_handle_response echo_env NCI_GID_CORE NCI_OID_CORE_RESET [NCI_STATUS_OK, 0x10, 0x00] w1;
       w3 = nci_core_sar_handle_response echo_env NCI_GID_CORE NCI_OID_CORE_INIT init_v1_example w2;
       w4 = nci_core_sar_handle_response echo_env NCI_GID_CORE NCI_OID_CORE_SET_CONFIG [0x00] w3
   in sm_active_transition w4 = None \<and> core_current_state w4 = NCI_RFST_IDLE \<and> core_next_state w4 = NCI_RFST_IDLE"
  by (rule restart_reaches_idle [OF echo_more core_reachable.new]) (simp add: init_rsp_v1_ok_def init_v1_example_def)

section \<open>Payloads\<close>

definition reset_params :: "nci_world \<Rightarrow> (byte \<times> byte list) list" where
  "reset_params w =
     [(NCI_CONFIG_TOTAL_DURATION, [0xf4, 0x01]), (NCI_CONFIG_PA_BAIL_OUT, [0x00]), (NCI_CONFIG_PB_BAIL_OUT, [0x00]),
      (NCI_CONFIG_LN_ATR_RES_CONFIG, [0x30]), (NCI_CONFIG_PN_ATR_REQ_CONFIG, [0x30]),
      (NCI_CONFIG_LN_ATR_RES_GEN_BYTES, llcp_general_bytes w), (NCI_CONFIG_PN_ATR_REQ_GEN_BYTES, llcp_general_bytes w)]"

definition llcp_params :: "nci_world \<Rightarrow> (byte \<times> byte list) list" where
  "llcp_params w =
     [(1, [sm_llc_version w]), (2, [0x07, 0xff]), (3, [ucast (drop_bit 8 (sm_llc_wks w)), ucast (sm_llc_wks w)]),
      (4, [0x64]), (7, [0x03])]"

text \<open>
  C39. The payload of the \<open>CORE_SET_CONFIG_CMD\<close> that ends a reset is well formed: reading it back
  finds exactly the seven parameters, the general bytes for both roles of NFC-DEP being the
  LLCP magic and a TLV list in which LLCP finds the version and the well-known services that
  the application has set.
\<close>

theorem reset_set_config_roundtrip:
  "nci_parse_find_config_param (unat (hd (reset_set_config_cmd w))) (tl (reset_set_config_cmd w)) pid =
     map_of (reset_params w) pid \<and>
   take 3 (llcp_general_bytes w) = [0x46, 0x66, 0x6d] \<and>
   nci_parse_find_config_param 5 (drop 3 (llcp_general_bytes w)) lpid = map_of (llcp_params w) lpid"
proof -
  have gb: "llcp_general_bytes w = [0x46, 0x66, 0x6d] @ tlv_encode (llcp_params w)"
    by (simp add: llcp_general_bytes_def llcp_params_def)
  have len: "length (llcp_general_bytes w) = 20" by (simp add: llcp_general_bytes_def)
  have cmd: "reset_set_config_cmd w = pack (reset_params w)"
    by (simp add: reset_set_config_cmd_def reset_params_def pack_def len Let_def)
  have ok: "tlv_ok (reset_params w)" "length (reset_params w) < 256"
    by (simp_all add: tlv_ok_def reset_params_def len)
  have "tlv_ok (llcp_params w)" by (simp add: tlv_ok_def llcp_params_def)
  then have "nci_parse_find_config_param 5 (tlv_encode (llcp_params w)) lpid = map_of (llcp_params w) lpid"
    using find_config_param_tlv [of "llcp_params w" 5 "[]" lpid] by (simp add: llcp_params_def)
  then show ?thesis using find_pack [OF ok] gb unfolding cmd by (simp add: pack_def)
qed

text \<open>\<open>CORE_INIT_RSP\<close> of NCI 2.x with the interfaces \<open>xs\<close>, each with its extensions.\<close>

fun v2_interfaces_enc :: "(byte \<times> byte list) list \<Rightarrow> byte list" where
  "v2_interfaces_enc [] = []"
| "v2_interfaces_enc ((i, exts) # xs) = i # of_nat (length exts) # exts @ v2_interfaces_enc xs"

lemma v2_interfaces_enc:
  assumes "tlv_ok xs" shows "v2_interfaces (length xs) (v2_interfaces_enc xs @ junk) = map fst xs"
  using assms by (induction xs rule: v2_interfaces_enc.induct) (auto simp: tlv_ok_def unat_of_nat_byte)

lemma v2_interfaces_enc_length: "2 * length xs \<le> length (v2_interfaces_enc xs)"
  by (induction xs rule: v2_interfaces_enc.induct) simp_all

definition init_view :: "nci_world \<Rightarrow> byte list option \<times> byte \<times> byte \<times> byte \<times> nat" where
  "init_view w = (sm_rf_interfaces w, sm_nfcc_discovery w, sm_nfcc_routing w, sm_nfcc_power w, sm_max_routing_table_size w)"

lemma init_view_more: "nci_sar.more s = nci_sar.more t \<Longrightarrow> init_view s = init_view t"
  by (cases s, cases t) (simp add: init_view_def nci_world.defs)

lemma init_view_fields [simp]:
  "init_view (w\<lparr>core_cmd_id := a1\<rparr>) = init_view w" "init_view (w\<lparr>core_cmd_timeout_id := a2\<rparr>) = init_view w"
  "init_view (w\<lparr>core_rsp_gid := a3\<rparr>) = init_view w" "init_view (w\<lparr>core_rsp_oid := a4\<rparr>) = init_view w"
  "init_view (w\<lparr>core_rsp_handler := a5\<rparr>) = init_view w"
  by (simp_all add: init_view_def)

context observing_app begin

lemma sm_send_init_view: "init_view (snd (nci_sm_send_command env gid oid p h w)) = init_view w"
proof -
  let ?w = "(nci_core_cancel_command env w)\<lparr>core_rsp_gid := gid, core_rsp_oid := oid, core_rsp_handler := Some h\<rparr>"
  obtain pid w' where send: "nci_sar_send_command gid oid p (Some Core_command_completion) None ?w = (pid, w')" by force
  have "nci_sar.more w' = nci_sar.more ?w"
    using send by (auto simp: nci_sar_send_command_def nci_sar_send_def nci_sar_schedule_write_def sar_enqueue_def Let_def)
  then have "init_view w' = init_view ?w" by (rule init_view_more)
  moreover have "init_view (nci_core_cancel_command env w) = init_view w"
    using free_more.cancel [of "w\<lparr>core_cmd_timeout_id := False\<rparr>" _ "core_cmd_id w"]
    by (simp add: nci_core_cancel_command_def Let_def) (metis init_view_fields(2) init_view_more)
  ultimately show ?thesis by (simp add: nci_sm_send_command_def nci_core_io_send_def Let_def send)
qed

lemma init_done_init_view: "init_view (init_done env a b w) = init_view w"
  unfolding init_done_def nci_transition_reset_set_config_def sm_send_init_view
  by (rule init_view_more) (simp add: free_more.max_conns)

end

text \<open>
  C19. The response to \<open>CORE_INIT_CMD\<close> of NCI 2.x is taken apart correctly: the features, the size
  of the routing table (little endian), and of each RF interface the number, however many
  extensions follow it.
\<close>

theorem init_v2_roundtrip:
  assumes "\<And>e w. nci_sar.more (env_app env e w) = nci_sar.more w" and "sm_active_transition w = Some TReset"
    and "tlv_ok xs" and "xs \<noteq> []" and "length xs < 256" and "rts < 65536"
  shows "init_view (run_reset_init_v2_rsp env NCI_REQUEST_SUCCESS
      ([NCI_STATUS_OK, disc, rout, pwr, rfu, conns, of_nat (rts mod 256), of_nat (rts div 256), ctl, hci, credits, v0, v1,
        of_nat (length xs)] @ v2_interfaces_enc xs) w) =
    (Some (map fst xs), disc, rout, pwr, rts)"
proof -
  have app: "observing_app env" by (rule observing_app.intro) (rule assms(1))
  have n: "unat (of_nat (length xs) :: byte) = length xs" using assms(5) by (rule unat_of_nat_byte)
  have size: "unat (of_nat (rts div 256) :: byte) * 256 + unat (of_nat (rts mod 256) :: byte) = rts"
    using assms(6) by (simp add: unat_of_nat_byte)
  define hd14 where "hd14 = [NCI_STATUS_OK, disc, rout, pwr, rfu, conns, of_nat (rts mod 256), of_nat (rts div 256), ctl, hci,
      credits, v0, v1, of_nat (length xs) :: byte]"
  define pkt where "pkt = hd14 @ v2_interfaces_enc xs"
  have fields: "pkt ! 0 = NCI_STATUS_OK" "pkt ! 1 = disc" "pkt ! 2 = rout" "pkt ! 3 = pwr" "pkt ! 6 = of_nat (rts mod 256)"
    "pkt ! 7 = of_nat (rts div 256)" "pkt ! 13 = of_nat (length xs)" "drop 14 pkt = v2_interfaces_enc xs"
    "14 + 2 * length xs \<le> length pkt"
    using v2_interfaces_enc_length [of xs] by (simp_all add: pkt_def hd14_def)
  have "v2_interfaces (length xs) (drop 14 pkt) = map fst xs" using v2_interfaces_enc [OF assms(3), of "[]"] fields(8) by simp
  then have "init_view (run_reset_init_v2_rsp env NCI_REQUEST_SUCCESS pkt w) = (Some (map fst xs), disc, rout, pwr, rts)"
    using assms(2,4) fields n size
    by (simp add: run_reset_init_v2_rsp_def when_active_def nci_sm_active_transition_def Let_def
        observing_app.init_done_init_view [OF app]) (simp add: init_view_def)
  then show ?thesis by (simp add: pkt_def hd14_def)
qed

lemma init_v2_roundtrip_witness:
  "init_view (run_reset_init_v2_rsp echo_env NCI_REQUEST_SUCCESS
      ([NCI_STATUS_OK, 0x00, 0x0e, 0x02, 0x00, 0x03, of_nat (514 mod 256), of_nat (514 div 256), 0xff, 0x00, 0x00, 0x00, 0x01,
        of_nat (length [(0x01 :: byte, [0x05 :: byte]), (0x02, [])])] @ v2_interfaces_enc [(0x01, [0x05]), (0x02, [])])
      (nci_sm_object_init\<lparr>sm_active_transition := Some TReset\<rparr>)) =
    (Some [0x01, 0x02], 0x00, 0x0e, 0x02, 514)"
  using init_v2_roundtrip [OF echo_more, of "nci_sm_object_init\<lparr>sm_active_transition := Some TReset\<rparr>" "[(0x01, [0x05]), (0x02, [])]" 514
      "0x00" "0x0e" "0x02" "0x00" "0x03" "0xff" "0x00" "0x00" "0x00" "0x01"]
  by (simp add: tlv_ok_def)

end
