(* ===== verification/Core_Properties.thy ===== *)
theory Core_Properties
  imports Reset_Properties "HOL-Library.Multiset"
begin

text \<open>
  What the library does on the way: which endpoint it selects, the credits it is given, and
  when new parameters restart it.
\<close>

unbundle bit_operations_syntax

section \<open>Selecting an endpoint\<close>

text \<open>What the order of the endpoints means: a rank of the protocol, then the discovery identifier.\<close>

definition host_rank :: "NciDiscoveryNtf \<Rightarrow> nat" where
  "host_rank ntf =
     (if dn_protocol ntf = NCI_PROTOCOL_NFC_DEP then 0 else if dn_protocol ntf = NCI_PROTOCOL_ISO_DEP then 1
      else if dn_protocol ntf = NCI_PROTOCOL_T2T then 2 else 3)"

definition host_key :: "NciDiscoveryNtf \<Rightarrow> nat" where
  "host_key ntf = host_rank ntf * 256 + unat (dn_discovery_id ntf)"

lemma host_sort_rank:
  "nci_state_w4_host_select_sort a b =
     (if host_rank a = host_rank b then int (unat (dn_discovery_id a)) - int (unat (dn_discovery_id b))
      else if host_rank a < host_rank b then -1 else 1)"
  unfolding nci_state_w4_host_select_sort_def host_rank_def host_select_order.simps uint_nat
  by (simp split: if_split)

lemma host_sort_key:
  "nci_state_w4_host_select_sort a b \<le> 0 \<longleftrightarrow> host_key a \<le> host_key b"
  "nci_state_w4_host_select_sort a b < 0 \<longleftrightarrow> host_key a < host_key b"
proof -
  have "uint x \<le> uint y \<longleftrightarrow> unat x \<le> unat y" "uint x < uint y \<longleftrightarrow> unat x < unat y" for x y :: byte
    by (simp_all add: word_le_def [symmetric] word_less_def [symmetric] word_le_nat_alt word_less_nat_alt)
  then show "nci_state_w4_host_select_sort a b \<le> 0 \<longleftrightarrow> host_key a \<le> host_key b"
    "nci_state_w4_host_select_sort a b < 0 \<longleftrightarrow> host_key a < host_key b"
    using unat_byte_less [of "dn_discovery_id a"] unat_byte_less [of "dn_discovery_id b"]
    unfolding host_sort_rank host_key_def by auto
qed

text \<open>What is relied on of \<open>g_slist_insert_sorted\<close>: inserting into a sorted list keeps it sorted.\<close>

definition insert_sorted_ok :: "nci_env \<Rightarrow> bool" where
  "insert_sorted_ok env \<longleftrightarrow>
     (\<forall>xs x. sorted_wrt (\<lambda>a b. nci_state_w4_host_select_sort a b \<le> 0) xs \<longrightarrow>
        mset (env_insert_sorted env nci_state_w4_host_select_sort xs x) = add_mset x (mset xs) \<and>
        sorted_wrt (\<lambda>a b. nci_state_w4_host_select_sort a b \<le> 0) (env_insert_sorted env nci_state_w4_host_select_sort xs x))"

lemma candidates_sorted:
  assumes "insert_sorted_ok env"
  shows "mset (host_select_candidates env w ntfs) = mset (filter (\<lambda>n. nci_sm_supports_protocol w (dn_protocol n)) ntfs) \<and>
    sorted_wrt (\<lambda>a b. nci_state_w4_host_select_sort a b \<le> 0) (host_select_candidates env w ntfs)"
  using assms by (induction ntfs rule: rev_induct) (auto simp: host_select_candidates_def insert_sorted_ok_def)

text \<open>
  C18. Of the endpoints announced, the one selected is the best supported: NFC-DEP before
  ISO-DEP before Type 2 tags before the others, and of these the first announced identifier;
  only if none is supported nothing is selected and discovery is started again.
\<close>

theorem host_select_best:
  assumes "insert_sorted_ok env"
  shows "(\<exists>best \<in> set ntfs. nci_sm_supports_protocol w (dn_protocol best) \<and>
      Ball (set (filter (\<lambda>n. nci_sm_supports_protocol w (dn_protocol n)) ntfs)) (\<lambda>n. host_key best \<le> host_key n) \<and>
      nci_state_w4_host_select_entered env (Some (ParamW4HostSelect ntfs)) w =
        snd (nci_sm_send_command env NCI_GID_RF NCI_OID_RF_DISCOVER_SELECT (Some (host_select_cmd best)) nci_state_w4_host_select_rsp w)) \<or>
    filter (\<lambda>n. nci_sm_supports_protocol w (dn_protocol n)) ntfs = [] \<and>
      nci_state_w4_host_select_entered env (Some (ParamW4HostSelect ntfs)) w = nci_sm_schedule_switch NCI_RFST_DISCOVERY w"
proof (cases "host_select_candidates env w ntfs")
  case Nil
  then show ?thesis
    using candidates_sorted [OF assms, of w ntfs] by (auto simp: nci_state_w4_host_select_entered_def)
next
  case (Cons best others)
  then have m: "set (filter (\<lambda>n. nci_sm_supports_protocol w (dn_protocol n)) ntfs) = insert best (set others)"
    using candidates_sorted [OF assms, of w ntfs] by (metis list.simps(15) set_mset_mset)
  have "\<forall>n \<in> set others. host_key best \<le> host_key n"
    using candidates_sorted [OF assms, of w ntfs] Cons by (simp add: host_sort_key)
  then show ?thesis using m Cons by (intro disjI1 bexI [of _ best]) (auto simp: nci_state_w4_host_select_entered_def)
qed

lemma echo_insert: "insert_sorted_ok echo_env"
proof -
  have "sorted_wrt (\<lambda>a b. host_key a \<le> host_key b) (takeWhile (\<lambda>y. host_key y < host_key x) xs @ x # dropWhile (\<lambda>y. host_key y < host_key x) xs)"
    if "sorted_wrt (\<lambda>a b. host_key a \<le> host_key b) xs" for xs x
    using that by (induction xs) (auto dest: set_takeWhileD set_dropWhileD)
  moreover have "mset (takeWhile P xs) + mset (dropWhile P xs) = mset xs" for P and xs :: "NciDiscoveryNtf list"
    by (metis mset_append takeWhile_dropWhile_id)
  ultimately show ?thesis by (simp add: insert_sorted_ok_def echo_env_def host_sort_key)
qed

text \<open>A Type 2 tag and an ISO-DEP card, announced in this order, with reading enabled.\<close>

definition tag_ntf :: NciDiscoveryNtf where
  "tag_ntf = \<lparr>dn_discovery_id = 1, dn_protocol = NCI_PROTOCOL_T2T, dn_mode = NCI_MODE_PASSIVE_POLL_A,
     dn_param_bytes = [], dn_param = None, dn_last = False\<rparr>"

definition card_ntf :: NciDiscoveryNtf where
  "card_ntf = tag_ntf\<lparr>dn_discovery_id := 2, dn_protocol := NCI_PROTOCOL_ISO_DEP, dn_last := True\<rparr>"

lemma host_select_best_witness:
  "nci_state_w4_host_select_entered echo_env (Some (ParamW4HostSelect [tag_ntf, card_ntf])) nci_sm_object_init =
    snd (nci_sm_send_command echo_env NCI_GID_RF NCI_OID_RF_DISCOVER_SELECT (Some [2, NCI_PROTOCOL_ISO_DEP, NCI_RF_INTERFACE_ISO_DEP])
      nci_state_w4_host_select_rsp nci_sm_object_init)"
proof -
  have ok: "nci_sm_supports_protocol nci_sm_object_init (dn_protocol n)" if "n \<in> {tag_ntf, card_ntf}" for n
    using that by (auto simp: nci_sm_supports_protocol_def tag_ntf_def card_ntf_def any_bit_def)
  have "\<not> host_key tag_ntf \<le> host_key card_ntf" by (simp add: host_key_def host_rank_def tag_ntf_def card_ntf_def)
  moreover have "host_select_cmd card_ntf = [2, NCI_PROTOCOL_ISO_DEP, NCI_RF_INTERFACE_ISO_DEP]"
    by (simp add: host_select_cmd_def tag_ntf_def card_ntf_def)
  ultimately show ?thesis
    using host_select_best [OF echo_insert, of "[tag_ntf, card_ntf]" nci_sm_object_init] ok by auto
qed

section \<open>Credits and parameters\<close>

text \<open>The entries of \<open>CORE_CONN_CREDITS_NTF\<close>: connection and credits.\<close>

fun credits_enc :: "(byte \<times> byte) list \<Rightarrow> byte list" where
  "credits_enc [] = []"
| "credits_enc ((cid, credits) # ps) = cid # credits # credits_enc ps"

lemma credits_enc_length: "length (credits_enc ps) = 2 * length ps"
  by (induction ps rule: credits_enc.induct) simp_all

lemma add_credit_entries_enc:
  "add_credit_entries (length ps) (credits_enc ps @ junk) w = fold (\<lambda>(cid, credits). nci_sar_add_credits cid credits) ps w"
  by (induction ps arbitrary: w rule: credits_enc.induct) simp_all

text \<open>
  \<open>CORE_CONN_CREDITS_NTF\<close> adds the credits of each of its entries to its connection, in
  order, ignoring what follows; one that is shorter than its entries stops the library with
  an error instead.
\<close>

theorem conn_credits_ntf:
  assumes "\<And>e w. nci_sar.more (env_app env e w) = nci_sar.more w" and "sm_wf w" and "length ps < 256"
  shows "nci_sm_handle_conn_credits_ntf env (of_nat (length ps) # credits_enc ps @ junk) w =
      fold (\<lambda>(cid, credits). nci_sar_add_credits cid credits) ps w \<and>
    (\<forall>n < Suc (2 * length ps). sm_abs (nci_sm_handle_conn_credits_ntf env (take n (of_nat (length ps) # credits_enc ps)) w) =
       At NCI_STATE_ERROR)"
proof -
  have app: "observing_app env" by (rule observing_app.intro) (rule assms(1))
  have len: "unat (of_nat (length ps) :: byte) = length ps" using assms(3) by (rule unat_of_nat_byte)
  have err: "sm_abs (nci_sm_error env w) = At NCI_STATE_ERROR"
    using assms(2) observing_app.stall_internal_view [OF app]
    by (simp add: sm_abs_def sm_wf_def nci_sm_stall_def observing_app.basic_view [OF app] v_stall_sound v_wf_sound)
  have "nci_sm_handle_conn_credits_ntf env (take n (of_nat (length ps) # credits_enc ps)) w = nci_sm_error env w"
    if "n < Suc (2 * length ps)" for n
    using that by (cases n) (simp_all add: nci_sm_handle_conn_credits_ntf_def len credits_enc_length)
  then show ?thesis
    by (simp add: nci_sm_handle_conn_credits_ntf_def len credits_enc_length add_credit_entries_enc err)
qed

lemma conn_credits_ntf_witness:
  "nci_sm_handle_conn_credits_ntf echo_env [2, 0, 1, 3, 4] (nci_core_new (\<lambda>w. w)) =
    nci_sar_add_credits 3 4 (nci_sar_add_credits 0 1 (nci_core_new (\<lambda>w. w)))"
  using conn_credits_ntf [OF echo_more echo_observing.new_wf(1), of "[(0, 1), (3, 4)]" "[]"] by simp



end
