(* ===== verification/Sar_Incoming.thy ===== *)
theory Sar_Incoming
  imports World_Invariant Sm_View
begin

text \<open>
  What the library does while it handles a message leaves the bytes alone that the
  segmentation layer is still putting together: the buffer of the transport
  (\<open>sar_read_buf\<close>) and the unfinished control message (\<open>sar_control_in\<close>). A restart empties
  the second one only.
\<close>

unbundle bit_operations_syntax

section \<open>What the handlers leave alone\<close>

definition incoming :: "byte list option \<Rightarrow> byte list option \<Rightarrow> nci_world \<Rightarrow> bool" where
  "incoming r c w \<longleftrightarrow> sar_read_buf w = r \<and> sar_control_in w = c"

locale polite_app = observing_app +
  assumes app_incoming: "incoming r c w \<Longrightarrow> incoming r c (env_app env e w)"
begin

lemma incoming_destroy: "incoming r c w \<Longrightarrow> incoming r c (run_destroy env d w)"
  by (simp add: run_destroy_def nci_core_send_data_msg_destroy_def app_incoming split: sar_destroy.split option.split)

lemma incoming_fields [simp]:
  "incoming r c (w\<lparr>core_cmd_id := a1\<rparr>) = incoming r c w" "incoming r c (w\<lparr>core_cmd_timeout_id := a2\<rparr>) = incoming r c w"
  "incoming r c (w\<lparr>core_rsp_gid := a3\<rparr>) = incoming r c w" "incoming r c (w\<lparr>core_rsp_oid := a4\<rparr>) = incoming r c w"
  "incoming r c (w\<lparr>core_rsp_handler := a5\<rparr>) = incoming r c w" "incoming r c (w\<lparr>sm_op_mode := a6\<rparr>) = incoming r c w"
  "incoming r c (w\<lparr>sm_techs := a7\<rparr>) = incoming r c w" "incoming r c (w\<lparr>sar_fault := a8\<rparr>) = incoming r c w"
  "incoming r c (w\<lparr>sar_cmd := a9\<rparr>) = incoming r c w" "incoming r c (upd_conn i f w) = incoming r c w"
  "incoming r c (w\<lparr>sar_start_write_id := b1\<rparr>) = incoming r c w" "incoming r c (w\<lparr>sar_writing := b2\<rparr>) = incoming r c w"
  "incoming r c (w\<lparr>sar_write_pending := b3\<rparr>) = incoming r c w" "incoming r c (w\<lparr>sar_started := b4\<rparr>) = incoming r c w"
  "incoming r c (hal_tell x w) = incoming r c w" "incoming r c (w\<lparr>sar_conn := b5\<rparr>) = incoming r c w"
  "incoming r c (w\<lparr>sar_conn_gen := b6\<rparr>) = incoming r c w" "incoming r c (w\<lparr>sar_max_logical_conns := b7\<rparr>) = incoming r c w"
  by (simp_all add: incoming_def upd_conn_def hal_tell_def)

lemma incoming_free:
  assumes "fn_destroy cl = run_destroy env"
  shows "incoming r c w \<Longrightarrow> incoming r c (nci_sar_packet_out_free cl p w)"
    "incoming r c w \<Longrightarrow> incoming r c (nci_sar_clear_queue cl q w)"
proof -
  show free: "incoming r c w \<Longrightarrow> incoming r c (nci_sar_packet_out_free cl p w)" for p w
    by (simp add: nci_sar_packet_out_free_def assms incoming_destroy split: option.split)
  show "incoming r c w \<Longrightarrow> incoming r c (nci_sar_clear_queue cl q w)"
  proof -
    have "incoming r c w \<Longrightarrow> incoming r c (fold (nci_sar_packet_out_free cl) ps w)" for ps
      by (induction ps arbitrary: w) (simp_all add: free)
    then show "incoming r c w \<Longrightarrow> incoming r c (nci_sar_clear_queue cl q w)" by (simp add: nci_sar_clear_queue_def)
  qed
qed

lemma incoming_cancel: "incoming r c w \<Longrightarrow> incoming r c (nci_sar_cancel (free_client env) pid w)"
  by (auto simp: nci_sar_cancel_def sar_cancel_queued_def free_client_def split: option.split prod.split
      intro!: incoming_free)

lemma incoming_cancel_command: "incoming r c w \<Longrightarrow> incoming r c (nci_core_cancel_command env w)"
  by (simp add: nci_core_cancel_command_def Let_def incoming_cancel)

lemma incoming_send:
  assumes "incoming r c w" shows "incoming r c (snd (nci_sm_send_command env gid oid p h w))"
proof -
  let ?w = "(nci_core_cancel_command env w)\<lparr>core_rsp_gid := gid, core_rsp_oid := oid, core_rsp_handler := Some h\<rparr>"
  obtain pid w' where send: "nci_sar_send_command gid oid p (Some Core_command_completion) None ?w = (pid, w')" by force
  have "incoming r c w'" using assms send incoming_cancel_command [of r c w]
    by (auto simp: nci_sar_send_command_def nci_sar_send_def nci_sar_schedule_write_def sar_enqueue_def Let_def incoming_def)
  then show ?thesis by (simp add: nci_sm_send_command_def nci_core_io_send_def Let_def send)
qed

lemma incoming_fold: "(\<And>i w. incoming r c w \<Longrightarrow> incoming r c (f i w)) \<Longrightarrow> incoming r c w \<Longrightarrow> incoming r c (fold f js w)"
  by (induction js arbitrary: w) simp_all

lemma incoming_connections: "incoming r c w \<Longrightarrow> incoming r c (nci_sar_set_max_logical_connections (free_client env) b w)"
  by (auto simp: nci_sar_set_max_logical_connections_def Let_def free_client_def intro!: incoming_fold incoming_free)

end

lemma incoming_frame: "control_same w w' \<Longrightarrow> incoming r c w = incoming r c w'"
  unfolding control_same_def incoming_def
  using arg_cong [of "nci_sar.truncate w" "nci_sar.truncate w'" sar_read_buf]
    arg_cong [of "nci_sar.truncate w" "nci_sar.truncate w'" sar_control_in] by (simp add: nci_sar.defs)

sublocale polite_app \<subseteq> incoming: handler_invariant env "incoming r c" for r c
  by unfold_locales
    (rule incoming_frame, assumption |
     simp add: app_incoming incoming_send nci_core_io_cancel_def incoming_cancel_command incoming_connections |
     simp add: incoming_def nci_sar_set_max_control_payload_size_def nci_sar_set_max_data_payload_size_def
       nci_sar_set_initial_credits_def nci_sar_add_credits_def nci_sar_take_credits_def nci_sar_schedule_write_def
       upd_conn_def Let_def)+

section \<open>Restarting\<close>

context polite_app begin

lemma core_destroy: "fn_destroy (core_client env) = run_destroy env"
  by (simp add: core_client_def)

lemma incoming_complete: "incoming r c w \<Longrightarrow> incoming r c (run_complete (core_client env) p ok w)"
  using incoming.callbacks_keep(5) by (simp add: run_complete_def split: option.split)

text \<open>
  A reset empties the message that is being put together, but not the buffer with the
  bytes of an unfinished packet.
\<close>

lemma incoming_reset:
  assumes "incoming r c w"
  shows "incoming r (map_option (\<lambda>_. []) c) (nci_sar_reset (core_client env) w)"
proof -
  have conns: "incoming r c (sar_reset_conns (core_client env) w)" if "incoming r c w" for w
    unfolding sar_reset_conns_def using that
    by (auto intro!: incoming_fold incoming_free [OF core_destroy])
  define w2 where "w2 = (let s1 = (if sar_writing w \<noteq> None then
      let s' = w\<lparr>sar_writing := None\<rparr> in
      if sar_write_pending s' then (hal_tell HalCancelWrite s')\<lparr>sar_write_pending := False\<rparr> else s' else w)
    in if sar_started s1 then hal_tell HalStop (s1\<lparr>sar_started := False\<rparr>) else s1)"
  have "incoming r c w2" using assms by (simp add: w2_def Let_def)
  then have "incoming r (map_option (\<lambda>_. []) c) ((sar_reset_conns (core_client env) w2)\<lparr>sar_control_in :=
      map_option (\<lambda>_. []) (sar_control_in (sar_reset_conns (core_client env) w2))\<rparr>)"
    using conns [of w2] by (simp add: incoming_def)
  then show ?thesis
    unfolding nci_sar_reset_def Let_def w2_def [unfolded Let_def, symmetric]
    by (auto intro!: incoming_free [OF core_destroy] incoming_complete split: option.split)
qed

lemma incoming_restart:
  assumes "incoming r c w" shows "incoming r (map_option (\<lambda>_. []) c) (nci_core_restart env w)"
  unfolding nci_core_restart_def nci_core_restart_internal_def
  by (intro incoming.sm_reset_keep incoming_reset incoming_cancel_command assms)

end

end
