(* ===== verification/Cmd_Invariant.thy ===== *)
theory Cmd_Invariant
  imports World_Invariant Sm_Invariant
begin

text \<open>
  The command channel (\<open>src/nci_core.c\<close>): a response is awaited exactly while the command timer
  runs. Between the two halves of a restart the first may hold without the second
  (\<open>cmd_sound\<close>), whenever a handler has returned both do (\<open>cmd_guarded\<close>).
\<close>

unbundle bit_operations_syntax

section \<open>The two properties\<close>

definition cmd_sound :: "nci_world \<Rightarrow> bool" where
  "cmd_sound w \<longleftrightarrow> core_cmd_timeout w \<noteq> 0 \<and> (core_cmd_timeout_id w \<longrightarrow> core_rsp_handler w \<noteq> None) \<and>
     (core_cmd_id w \<noteq> 0 \<longrightarrow> core_rsp_handler w \<noteq> None)"

definition cmd_guarded :: "nci_world \<Rightarrow> bool" where
  "cmd_guarded w \<longleftrightarrow> cmd_sound w \<and> (core_rsp_handler w \<noteq> None \<longrightarrow> core_cmd_timeout_id w)"

lemma cmd_more:
  assumes "nci_sar.more s = nci_sar.more (t :: nci_world)"
  shows "core_cmd_timeout s = core_cmd_timeout t" "core_cmd_timeout_id s = core_cmd_timeout_id t"
    "core_rsp_handler s = core_rsp_handler t" "core_cmd_id s = core_cmd_id t"
    "cmd_sound s = cmd_sound t" "cmd_guarded s = cmd_guarded t"
proof -
  show "core_cmd_timeout s = core_cmd_timeout t" "core_cmd_timeout_id s = core_cmd_timeout_id t"
    "core_rsp_handler s = core_rsp_handler t" "core_cmd_id s = core_cmd_id t"
    using assms by (cases s; cases t; simp add: nci_world.defs)+
  then show "cmd_sound s = cmd_sound t" "cmd_guarded s = cmd_guarded t"
    by (simp_all add: cmd_sound_def cmd_guarded_def)
qed

lemma cmd_keep:
  "nci_sar.more s = nci_sar.more (t :: nci_world) \<Longrightarrow> cmd_sound t \<Longrightarrow> cmd_sound s"
  "nci_sar.more s = nci_sar.more t \<Longrightarrow> cmd_guarded t \<Longrightarrow> cmd_guarded s"
  using cmd_more(5,6) by blast+

lemma cmd_frame: "control_same w w' \<Longrightarrow> cmd_sound w = cmd_sound w'" "control_same w w' \<Longrightarrow> cmd_guarded w = cmd_guarded w'"
  by (simp_all add: control_same_def cmd_sound_def cmd_guarded_def)

section \<open>Sending and cancelling\<close>

lemma send_command_more: "nci_sar.more (snd (nci_sar_send_command gid oid p co de w)) = nci_sar.more w"
  by (simp add: nci_sar_send_command_def nci_sar_send_def nci_sar_schedule_write_def sar_enqueue_def upd_conn_def Let_def
      split: queue_ref.split)

context observing_app begin

lemma cancel_command_cmd:
  "core_cmd_timeout (nci_core_cancel_command env w) = core_cmd_timeout w"
  "\<not> core_cmd_timeout_id (nci_core_cancel_command env w)" "core_cmd_id (nci_core_cancel_command env w) = 0"
  "core_rsp_handler (nci_core_cancel_command env w) = (if core_cmd_id w \<noteq> 0 then None else core_rsp_handler w)"
proof -
  let ?c = "nci_sar_cancel (free_client env) (core_cmd_id w) (w\<lparr>core_cmd_timeout_id := False\<rparr>)"
  have "nci_sar.more ?c = nci_sar.more (w\<lparr>core_cmd_timeout_id := False\<rparr>)" by (rule free_more.cancel) simp
  then show "core_cmd_timeout (nci_core_cancel_command env w) = core_cmd_timeout w"
    "\<not> core_cmd_timeout_id (nci_core_cancel_command env w)" "core_cmd_id (nci_core_cancel_command env w) = 0"
    "core_rsp_handler (nci_core_cancel_command env w) = (if core_cmd_id w \<noteq> 0 then None else core_rsp_handler w)"
    by (auto simp: nci_core_cancel_command_def Let_def dest: cmd_more)
qed

text \<open>Whatever was before, sending a command leaves the channel guarded.\<close>

lemma send_guarded:
  assumes "core_cmd_timeout w \<noteq> 0" shows "cmd_guarded (snd (nci_sm_send_command env gid oid p h w))"
proof -
  let ?w = "(nci_core_cancel_command env w)\<lparr>core_rsp_gid := gid, core_rsp_oid := oid, core_rsp_handler := Some h\<rparr>"
  obtain pid w' where send: "nci_sar_send_command gid oid p (Some Core_command_completion) None ?w = (pid, w')" by force
  have "pid \<noteq> 0" "nci_sar.more w' = nci_sar.more ?w"
    using send_command_id [of gid oid p "Some Core_command_completion" None ?w]
      send_command_more [of gid oid p "Some Core_command_completion" None ?w] by (simp_all add: send)
  then show ?thesis
    using assms by (simp add: nci_sm_send_command_def nci_core_io_send_def Let_def send cmd_guarded_def cmd_sound_def
        cancel_command_cmd cmd_more [of w' ?w])
qed

lemma guarded_sound: "cmd_guarded w \<Longrightarrow> cmd_sound w" "cmd_sound w \<Longrightarrow> core_cmd_timeout w \<noteq> 0"
  by (simp_all add: cmd_guarded_def cmd_sound_def)

lemma io_cancel_cmd:
  "cmd_sound w \<Longrightarrow> cmd_guarded (nci_core_io_cancel env w)"
  by (simp add: nci_core_io_cancel_def cmd_guarded_def cmd_sound_def cancel_command_cmd)

lemma sar_cmd:
  "nci_sar.more (nci_sar_set_max_control_payload_size b w) = nci_sar.more w"
  "nci_sar.more (nci_sar_set_max_data_payload_size b w) = nci_sar.more w"
  "nci_sar.more (nci_sar_set_max_logical_connections (free_client env) b w) = nci_sar.more w"
  "nci_sar.more (nci_sar_set_initial_credits cid b w) = nci_sar.more w"
  "nci_sar.more (nci_sar_add_credits cid b w) = nci_sar.more w"
  by (simp_all add: free_more.max_conns)

end

sublocale observing_app \<subseteq> sound: handler_invariant env cmd_sound
proof unfold_locales
  fix w w' gid oid p h b cid m t e
  show "control_same w w' \<Longrightarrow> cmd_sound w = cmd_sound w'" by (rule cmd_frame)
  assume w: "cmd_sound w"
  show "cmd_sound (w\<lparr>sar_fault := True\<rparr>)" "cmd_sound (w\<lparr>core_cmd_id := 0\<rparr>)" "cmd_sound (w\<lparr>sm_op_mode := m\<rparr>)"
    "cmd_sound (w\<lparr>core_cmd_timeout_id := False, core_cmd_id := 0, core_rsp_handler := None\<rparr>)"
    "cmd_sound (w\<lparr>sm_techs := t AND NCI_TECH_ALL\<rparr>)" using w by (simp_all add: cmd_sound_def)
  show "cmd_sound (env_app env e w)" by (rule cmd_keep(1) [OF app_more w])
  show "cmd_sound (snd (nci_sm_send_command env gid oid p h w))" by (rule guarded_sound(1) [OF send_guarded [OF guarded_sound(2) [OF w]]])
  show "cmd_sound (nci_core_io_cancel env w)" by (rule guarded_sound(1) [OF io_cancel_cmd [OF w]])
  show "cmd_sound (nci_sar_set_max_control_payload_size b w)" "cmd_sound (nci_sar_set_max_data_payload_size b w)"
    "cmd_sound (nci_sar_set_max_logical_connections (free_client env) b w)" "cmd_sound (nci_sar_set_initial_credits cid b w)"
    "cmd_sound (nci_sar_add_credits cid b w)" by (rule cmd_keep(1), rule sar_cmd, rule w)+
qed

sublocale observing_app \<subseteq> guarded: handler_invariant env cmd_guarded
proof unfold_locales
  fix w w' gid oid p h b cid m t e
  show "control_same w w' \<Longrightarrow> cmd_guarded w = cmd_guarded w'" by (rule cmd_frame)
  assume w: "cmd_guarded w"
  show "cmd_guarded (w\<lparr>sar_fault := True\<rparr>)" "cmd_guarded (w\<lparr>core_cmd_id := 0\<rparr>)" "cmd_guarded (w\<lparr>sm_op_mode := m\<rparr>)"
    "cmd_guarded (w\<lparr>core_cmd_timeout_id := False, core_cmd_id := 0, core_rsp_handler := None\<rparr>)"
    "cmd_guarded (w\<lparr>sm_techs := t AND NCI_TECH_ALL\<rparr>)" using w by (simp_all add: cmd_guarded_def cmd_sound_def)
  show "cmd_guarded (env_app env e w)" by (rule cmd_keep(2) [OF app_more w])
  show "cmd_guarded (snd (nci_sm_send_command env gid oid p h w))"
    by (rule send_guarded [OF guarded_sound(2) [OF guarded_sound(1) [OF w]]])
  show "cmd_guarded (nci_core_io_cancel env w)" by (rule io_cancel_cmd [OF guarded_sound(1) [OF w]])
  show "cmd_guarded (nci_sar_set_max_control_payload_size b w)" "cmd_guarded (nci_sar_set_max_data_payload_size b w)"
    "cmd_guarded (nci_sar_set_max_logical_connections (free_client env) b w)" "cmd_guarded (nci_sar_set_initial_credits cid b w)"
    "cmd_guarded (nci_sar_add_credits cid b w)" by (rule cmd_keep(2), rule sar_cmd, rule w)+
qed

sublocale observing_app \<subseteq> sound_client: client_invariant "core_client env" cmd_sound
  by unfold_locales (rule cmd_more, assumption | rule sound.callbacks_keep, assumption)+

sublocale observing_app \<subseteq> guarded_client: client_invariant "core_client env" cmd_guarded
  by unfold_locales (rule cmd_more, assumption | rule guarded.callbacks_keep, assumption)+

section \<open>Restarting\<close>

context observing_app begin

lemma transition_start_guarded:
  assumes "cmd_sound w" shows "cmd_guarded (snd (nci_transition_start env t w))"
  using guarded_sound(2) [OF assms]
  by (cases t) (auto simp: nci_transition_start_def nci_transition_reset_start_def nci_transition_default_start_def
      and_then_def nci_transition_deactivate_to_idle_def nci_transition_deactivate_to_discovery_def
      nci_transition_listen_active_to_idle_reset_def intro!: send_guarded)

lemma start_transition_guarded:
  assumes "cmd_sound w" shows "cmd_guarded (snd (nci_sm_start_transition env t w))"
proof -
  let ?w = "(if sm_active_transition w \<noteq> Some t then nci_sm_finish_active_transition w else w)\<lparr>sm_active_transition := Some t\<rparr>"
  obtain w' where st: "nci_transition_start env t ?w = (True, w')"
    using start_view(1) [of t ?w] by (cases "nci_transition_start env t ?w") simp
  have "cmd_sound ?w" using assms by (simp add: sound.finish_leave_keep)
  then have "cmd_guarded w'" using transition_start_guarded [of ?w t] st by simp
  then show ?thesis by (simp add: nci_sm_start_transition_def Let_def st guarded.finish_leave_keep)
qed

lemma sm_reset_guarded:
  assumes "cmd_sound w" shows "cmd_guarded (nci_sm_reset env w)"
proof -
  let ?w = "w\<lparr>sm_pending_switch := None, sm_next_transition := None\<rparr>"
  define u where "u = nci_sm_enter_state_internal env (nci_state_entered env) NCI_STATE_INIT None ?w"
  have u: "cmd_sound u" unfolding u_def
    by (rule sound.enter_internal_keep) (simp_all add: sound.entered_keep assms)
  have "sm_view u = v_enter NCI_STATE_INIT (sm_view ?w)"
    unfolding u_def by (rule enter_internal_view) (simp add: entered_view)
  then have at: "sm_last_state u = NCI_STATE_INIT" "sm_next_state u = NCI_STATE_INIT" "sm_active_transition u = None"
    by (simp_all add: sm_view_fields v_defs split: option.split)
  have "nci_state_get_transition NCI_STATE_INIT NCI_RFST_IDLE = None"
    by (simp add: nci_state_get_transition_def sm_transitions_def)
  then have "cmd_guarded (nci_sm_switch_internal env NCI_RFST_IDLE u)"
    using start_transition_guarded [of "u\<lparr>sm_next_transition := None\<rparr>" TReset] u
    by (auto simp: nci_sm_switch_internal_def at switch_from_state_def NCI_IS_INTERNAL_STATE_iff Let_def
        guarded.set_states_keep intro!: guarded.emit_keep)
  then show ?thesis by (simp add: nci_sm_reset_def u_def guarded.emit_keep)
qed

lemma restart_guarded:
  assumes "cmd_sound w" shows "cmd_guarded (nci_core_restart_internal env w)"
proof -
  have "cmd_sound (nci_core_cancel_command env w)"
    using assms by (simp add: cmd_sound_def cancel_command_cmd)
  then show ?thesis unfolding nci_core_restart_internal_def by (intro sm_reset_guarded sound_client.reset)
qed

lemma expired_guarded:
  assumes "cmd_guarded w"
  shows "cmd_guarded ((nci_sar_cancel (core_client env) pid (w\<lparr>core_cmd_timeout_id := False\<rparr>))
    \<lparr>core_cmd_id := 0, core_rsp_handler := None\<rparr>)"
proof -
  let ?c = "nci_sar_cancel (core_client env) pid (w\<lparr>core_cmd_timeout_id := False\<rparr>)"
  have "nci_sar.more ?c = nci_sar.more (w\<lparr>core_cmd_timeout_id := False\<rparr>)"
    unfolding cancel_client [symmetric] by (rule free_more.cancel) simp
  note same = cmd_more(1) [OF this] cmd_more(2) [OF this]
  show ?thesis using assms by (simp add: cmd_guarded_def cmd_sound_def same)
qed

end

lemma param_cmd: "cmd_guarded (core_param_set x w) = cmd_guarded w" "cmd_guarded (core_param_reset k w) = cmd_guarded w"
  by (simp_all add: cmd_guarded_def cmd_sound_def core_param_reset_def core_param_set_def nci_sm_set_la_nfcid1_def
      nci_sm_set_li_a_hb_def Let_def split: NCI_CORE_PARAM.split core_param.split option.split)

lemma new_cmd: "cmd_guarded (nci_core_new (\<lambda>w. w))" "cmd_guarded (nci_core_new (nci_sm_parse_config lib))"
proof -
  have parts: "cmd_guarded (config_li_a_hb lib w) = cmd_guarded w" "cmd_guarded (config_la_nfcid1 lib w) = cmd_guarded w"
    "cmd_guarded (config_techs lib w) = cmd_guarded w" for w
    by (simp_all add: cmd_guarded_def cmd_sound_def config_li_a_hb_def config_la_nfcid1_def config_techs_def Let_def
        split: option.split)
  have init: "cmd_guarded nci_sm_object_init" "cmd_guarded (nci_sm_parse_config lib nci_sm_object_init)"
    unfolding nci_sm_parse_config_def parts by (simp_all add: cmd_guarded_def cmd_sound_def)
  have out: "cmd_guarded (w\<lparr>core_current_state := a, core_next_state := b\<rparr>) = cmd_guarded w" for a b w
    by (simp add: cmd_guarded_def cmd_sound_def)
  show "cmd_guarded (nci_core_new (\<lambda>w. w))" "cmd_guarded (nci_core_new (nci_sm_parse_config lib))"
    by (simp_all add: nci_core_new_def param_keys_def Let_def param_cmd out init)
qed

sublocale observing_app \<subseteq> guarded_library: library_invariant env cmd_guarded
  by unfold_locales
    (simp_all add: guarded_client.start_write guarded_client.written guarded_client.client_read guarded_client.client_error
      guarded_client.cancel expired_guarded restart_guarded [OF guarded_sound(1)]
      param_cmd new_cmd)

end
