(* ===== verification/Cmd_Properties.thy ===== *)
theory Cmd_Properties
  imports Cmd_Invariant Sm_Properties
begin

text \<open>
  Nothing waits for ever: a response that is awaited and a transition that is under way each
  have a running timer, and each timer takes the machine to the error state.
\<close>

unbundle bit_operations_syntax

context observing_app begin

lemma reachable_guarded: "core_reachable env w \<Longrightarrow> cmd_guarded w"
  by (rule guarded_library.reachable_keep)

lemma error_abs:
  assumes "sm_wf w" shows "sm_abs (nci_sm_error env w) = At NCI_STATE_ERROR"
  using assms by (simp add: sm_wf_def sm_abs_def nci_sm_stall_def stall_internal_view v_stall_sound v_wf_sound)

lemma emit_handler: "core_rsp_handler (nci_sm_emit_pending_signals env w) = core_rsp_handler w"
  by (simp add: nci_sm_emit_pending_signals_def nci_core_next_state_changed_def nci_core_last_state_changed_def Let_def
      cmd_more(3) [OF app_more])

lemma error_handler: "core_rsp_handler (nci_sm_error env w) = None"
proof -
  have cancelled: "core_rsp_handler (nci_core_io_cancel env w) = None"
    by (simp add: nci_core_io_cancel_def cancel_command_cmd)
  have keep: "core_rsp_handler (nci_sm_set_next_state s w) = core_rsp_handler w"
    "core_rsp_handler (nci_sm_set_last_state s w) = core_rsp_handler w"
    "core_rsp_handler (nci_sm_finish_active_transition w) = core_rsp_handler w"
    "core_rsp_handler (leave_active_state w) = core_rsp_handler w" for s w
    by (simp_all add: nci_sm_set_next_state_def nci_sm_set_last_state_def nci_sm_finish_active_transition_def
        nci_transition_finished_def nci_transition_default_finished_def nci_transition_listen_active_to_idle_reset_def
        leave_active_state_def nci_state_leave_def Let_def split: option.split)
  have entered: "nci_state_entered env NCI_STATE_ERROR None w = w" for w
    by (simp add: nci_state_entered_def nci_state_entered0_def)
  show ?thesis by (simp add: nci_sm_stall_def emit_handler nci_sm_stall_internal_def Let_def entered keep cancelled)
qed

lemma timeout_handler:
  "core_rsp_handler (nci_core_command_timeout env w) = None" "core_rsp_handler (nci_transition_timeout env t w) = None"
  unfolding nci_core_command_timeout_def nci_transition_timeout_def Let_def by (rule error_handler)+

lemma transition_timeout_abs:
  assumes "sm_wf w" and "tr_timeout_id w t" shows "sm_abs (nci_transition_timeout env t w) = At NCI_STATE_ERROR"
proof -
  let ?w = "w\<lparr>tr_timeout_id := (tr_timeout_id w)(t := False)\<rparr>"
  have "v_going (sm_view w) = Some t" using assms by (simp add: sm_wf_def v_wf_def v_sound_def sm_view_fields)
  then have "v_finish (sm_view ?w) = v_finish (sm_view w)" by (simp add: v_finish_def sm_view_fields)
  then have "sm_view (nci_sm_error env ?w) = sm_view (nci_sm_error env w)"
    by (simp add: nci_sm_stall_def stall_internal_view v_stall_def)
  then show ?thesis using error_abs [OF assms(1)] by (simp add: nci_transition_timeout_def sm_abs_def)
qed

lemma command_timeout_abs:
  assumes "sm_wf w" shows "sm_abs (nci_core_command_timeout env w) = At NCI_STATE_ERROR"
proof -
  define u where "u = (nci_sar_cancel (core_client env) (core_cmd_id w) (w\<lparr>core_cmd_timeout_id := False\<rparr>))\<lparr>core_cmd_id := 0\<rparr>"
  have "sm_from (sm_abs w) w" using assms by (simp add: sm_from_def)
  then have u: "sm_from (sm_abs w) u" by (simp add: u_def machine.cancel)
  define v where "v = (case core_rsp_handler u of
      Some h \<Rightarrow> run_rsp env h NCI_REQUEST_TIMEOUT [] (u\<lparr>core_rsp_handler := None\<rparr>) | None \<Rightarrow> u)"
  have "sm_from (sm_abs w) v" using u by (auto simp: v_def intro!: from_rsp split: option.split)
  then have "sm_abs (nci_sm_error env v) = At NCI_STATE_ERROR" by (simp add: error_abs sm_from_def)
  moreover have "nci_core_command_timeout env w = nci_sm_error env v"
    by (simp add: nci_core_command_timeout_def Let_def u_def v_def cong: option.case_cong)
  ultimately show ?thesis by simp
qed

end



end
