(* ===== verification/Boot_Properties.thy ===== *)
theory Boot_Properties
  imports Reset_Properties Sar_Incoming Cmd_Properties
begin

text \<open>
  From a restart to \<open>RFST_DISCOVERY\<close>, from the bytes of the transport up: an NFCC of either
  version of the protocol that answers every command, its messages cut into segments in any
  way, brings the library there. The number of answers is bounded by the rank of the response
  that is awaited.
\<close>

unbundle bit_operations_syntax

section \<open>The NFCC\<close>

text \<open>What it answers to a command and what it announces after a reset, each cut into segments.\<close>

record nfcc =
  nf_rsp :: "byte \<Rightarrow> byte \<Rightarrow> byte list list"
  nf_reset_ntf :: "byte list list"

definition nfcc_answer :: "nci_env \<Rightarrow> nfcc \<Rightarrow> nci_world \<Rightarrow> nci_world" where
  "nfcc_answer env nf w =
     (case rsp_awaited w of
        Some (h, gid, oid) \<Rightarrow>
          nci_sar_hal_client_read (core_client env) (concat (sar_frames (NCI_MT_RSP_PKT OR gid) oid (nf_rsp nf gid oid))) w
      | None \<Rightarrow>
          if sm_active_transition w = Some TReset
          then nci_sar_hal_client_read (core_client env)
                 (concat (sar_frames (NCI_MT_NTF_PKT OR NCI_GID_CORE) NCI_OID_CORE_RESET (nf_reset_ntf nf))) w
          else w)"

definition parts_ok :: "byte list list \<Rightarrow> bool" where
  "parts_ok ps \<longleftrightarrow> ps \<noteq> [] \<and> (\<forall>q \<in> set ps. length q < 256)"

definition init_rsp_v2_ok :: "byte list \<Rightarrow> bool" where
  "init_rsp_v2_ok pkt \<longleftrightarrow> length pkt \<ge> 14 \<and> pkt ! 0 = NCI_STATUS_OK \<and> length pkt \<ge> 2 * unat (pkt ! 13) + 14"

text \<open>NCI 1.x and NCI 2.x reset differently; two commands of the way to discovery must succeed.\<close>

definition nfcc_v1 :: "nfcc \<Rightarrow> bool" where
  "nfcc_v1 nf \<longleftrightarrow>
     (\<exists>v c. concat (nf_rsp nf NCI_GID_CORE NCI_OID_CORE_RESET) = [NCI_STATUS_OK, v, c]) \<and>
     init_rsp_v1_ok (concat (nf_rsp nf NCI_GID_CORE NCI_OID_CORE_INIT))"

definition nfcc_v2 :: "nfcc \<Rightarrow> bool" where
  "nfcc_v2 nf \<longleftrightarrow>
     concat (nf_rsp nf NCI_GID_CORE NCI_OID_CORE_RESET) = [NCI_STATUS_OK] \<and>
     (let ntf = concat (nf_reset_ntf nf) in length ntf \<ge> 5 \<and> 5 + unat (ntf ! 4) \<le> length ntf) \<and>
     init_rsp_v2_ok (concat (nf_rsp nf NCI_GID_CORE NCI_OID_CORE_INIT))"

definition nfcc_ok :: "nfcc \<Rightarrow> bool" where
  "nfcc_ok nf \<longleftrightarrow>
     (\<forall>gid oid. parts_ok (nf_rsp nf gid oid)) \<and> parts_ok (nf_reset_ntf nf) \<and> (nfcc_v1 nf \<or> nfcc_v2 nf) \<and>
     status_ok (concat (nf_rsp nf NCI_GID_RF NCI_OID_RF_DISCOVER_MAP)) \<and>
     status_ok (concat (nf_rsp nf NCI_GID_RF NCI_OID_RF_DISCOVER))"

section \<open>What the way depends on\<close>

definition boot_same :: "nci_world \<Rightarrow> nci_world \<Rightarrow> bool" where
  "boot_same a b \<longleftrightarrow> sm_view a = sm_view b \<and> rsp_awaited a = rsp_awaited b \<and> sm_version a = sm_version b"

lemma boot_same_more: "nci_sar.more a = nci_sar.more b \<Longrightarrow> boot_same a b"
  by (cases a, cases b) (simp add: boot_same_def sm_view_def rsp_awaited_def nci_world.defs)

definition incoming_clean :: "nci_world \<Rightarrow> bool" where
  "incoming_clean w \<longleftrightarrow> \<not> in_pending (sar_control_in w) \<and> \<not> in_pending (sar_read_buf w)"

lemma incoming_cleanE: "incoming_clean w \<Longrightarrow> (\<And>r c. incoming r c w \<Longrightarrow> \<not> in_pending r \<Longrightarrow> \<not> in_pending c \<Longrightarrow> Q) \<Longrightarrow> Q"
  by (simp add: incoming_clean_def incoming_def)

lemma incoming_cleanI: "incoming r c w \<Longrightarrow> \<not> in_pending r \<Longrightarrow> \<not> in_pending c \<Longrightarrow> incoming_clean w"
  by (simp add: incoming_clean_def incoming_def)

lemma boot_same_fields [simp]:
  "boot_same (w\<lparr>sar_control_in := x\<rparr>) v = boot_same w v"
  by (simp add: boot_same_def sm_view_def rsp_awaited_def)

section \<open>The effect of a message\<close>

context polite_app begin

lemma message_effect:
  assumes "parts_ok ps" and "mt = NCI_MT_RSP_PKT \<or> mt = NCI_MT_NTF_PKT" and "gid AND NCI_CONTROL_GID_MASK = gid"
    and "oid AND NCI_CONTROL_OID_MASK = oid" and "incoming_clean w"
    and keep: "\<And>r c u. incoming r c u \<Longrightarrow> incoming r c (nci_sar_hal_handle_control_packet (core_client env) mt gid oid (concat ps) u)"
  obtains u where "nci_sar.more u = nci_sar.more w" and "incoming_clean u"
    and "boot_same (nci_sar_hal_client_read (core_client env) (concat (sar_frames (mt OR gid) oid ps)) w)
      (nci_sar_hal_handle_control_packet (core_client env) mt gid oid (concat ps) u)"
    and "incoming_clean (nci_sar_hal_client_read (core_client env) (concat (sar_frames (mt OR gid) oid ps)) w)"
proof -
  let ?h = "nci_sar_hal_handle_control_packet (core_client env) mt gid oid (concat ps)"
  let ?read = "nci_sar_hal_client_read (core_client env) (concat (sar_frames (mt OR gid) oid ps)) w"
  have read: "?read = (if length ps = 1 then ?h w else deliver_control (core_client env) mt gid oid (concat ps) w)"
    using assms(1,5) by (intro control_message_read assms(2-4)) (simp_all add: parts_ok_def incoming_clean_def)
  have clean: "incoming_clean (?h u)" if "incoming_clean u" for u
    using that by (elim incoming_cleanE) (intro incoming_cleanI keep)
  show thesis
  proof (cases "length ps = 1")
    case True
    then show ?thesis using that [of w] read clean [OF assms(5)] assms(5) by (simp add: boot_same_def)
  next
    case False
    let ?u = "w\<lparr>sar_control_in := None\<rparr>"
    have u: "incoming_clean ?u" using assms(5) by (simp add: incoming_clean_def in_pending_def)
    have "?read = (?h ?u)\<lparr>sar_control_in := restore_in (sar_control_in (?h ?u))\<rparr>"
      using False by (simp add: read deliver_control_def Let_def)
    moreover have "in_pending (restore_in x) = in_pending x" for x by (simp add: in_pending_def restore_in_def split: option.split)
    ultimately show ?thesis using that [OF _ u] clean [OF u] by (simp add: boot_same_def sm_view_def rsp_awaited_def incoming_clean_def)
  qed
qed

lemma control_packet_keep:
  "mt = NCI_MT_RSP_PKT \<or> mt = NCI_MT_NTF_PKT \<Longrightarrow> incoming r c u \<Longrightarrow>
   incoming r c (nci_sar_hal_handle_control_packet (core_client env) mt gid oid p u)"
  using incoming.callbacks_keep(2,3) by (auto simp: nci_sar_hal_handle_control_packet_def)

text \<open>An answer to the awaited response runs its handler in a state like the present one.\<close>

lemma answer_response:
  assumes "nfcc_ok nf" and "rsp_awaited w = Some (h, gid, oid)" and "incoming_clean w"
    and "gid AND NCI_CONTROL_GID_MASK = gid" and "oid AND NCI_CONTROL_OID_MASK = oid"
  obtains v where "sm_view v = sm_view w" and "sm_version v = sm_version w" and "rsp_awaited v = None"
    and "boot_same (nfcc_answer env nf w) (run_rsp env h NCI_REQUEST_SUCCESS (concat (nf_rsp nf gid oid)) v)"
    and "incoming_clean (nfcc_answer env nf w)"
proof -
  have "parts_ok (nf_rsp nf gid oid)" using assms(1) by (simp add: nfcc_ok_def)
  then obtain u where more: "nci_sar.more u = nci_sar.more w"
    and same: "boot_same (nfcc_answer env nf w)
      (nci_sar_hal_handle_control_packet (core_client env) NCI_MT_RSP_PKT gid oid (concat (nf_rsp nf gid oid)) u)"
    and clean: "incoming_clean (nfcc_answer env nf w)"
    using message_effect [of "nf_rsp nf gid oid" NCI_MT_RSP_PKT gid oid w, OF _ disjI1 [OF refl] assms(4,5,3)
        control_packet_keep [OF disjI1 [OF refl]]] assms(2)
    by (auto simp: nfcc_answer_def)
  let ?v = "u\<lparr>core_cmd_timeout_id := False, core_cmd_id := 0, core_rsp_handler := None\<rparr>"
  have "rsp_awaited u = Some (h, gid, oid)" "sm_view u = sm_view w" "sm_version u = sm_version w"
    using boot_same_more [OF more] assms(2) by (simp_all add: boot_same_def)
  then show thesis
    using same clean by (intro that [of ?v])
      (simp_all add: nci_sar_hal_handle_control_packet_def core_client_def handle_response_awaited rsp_awaited_def)
qed

end

section \<open>The responses on the way\<close>

definition rsp_ids :: "rsp_handler \<Rightarrow> byte \<times> byte" where
  "rsp_ids h =
     (case h of
        nci_transition_reset_rsp \<Rightarrow> (NCI_GID_CORE, NCI_OID_CORE_RESET)
      | nci_transition_reset_init_v1_rsp \<Rightarrow> (NCI_GID_CORE, NCI_OID_CORE_INIT)
      | nci_transition_reset_init_v2_rsp \<Rightarrow> (NCI_GID_CORE, NCI_OID_CORE_INIT)
      | nci_transition_reset_set_config_rsp \<Rightarrow> (NCI_GID_CORE, NCI_OID_CORE_SET_CONFIG)
      | nci_transition_idle_to_discovery_get_config_rsp \<Rightarrow> (NCI_GID_CORE, NCI_OID_CORE_GET_CONFIG)
      | nci_transition_idle_to_discovery_set_config_rsp \<Rightarrow> (NCI_GID_CORE, NCI_OID_CORE_SET_CONFIG)
      | nci_transition_idle_to_discover_map_rsp \<Rightarrow> (NCI_GID_RF, NCI_OID_RF_DISCOVER_MAP)
      | nci_transition_idle_to_discovery_discover_rsp \<Rightarrow> (NCI_GID_RF, NCI_OID_RF_DISCOVER)
      | _ \<Rightarrow> (NCI_GID_RF, NCI_OID_RF_SET_LISTEN_MODE_ROUTING))"

text \<open>How many answers are left at most when this response is awaited.\<close>

definition boot_rank :: "rsp_handler \<Rightarrow> nat" where
  "boot_rank h =
     (case h of
        nci_transition_reset_rsp \<Rightarrow> 11
      | nci_transition_reset_init_v1_rsp \<Rightarrow> 9
      | nci_transition_reset_init_v2_rsp \<Rightarrow> 9
      | nci_transition_reset_set_config_rsp \<Rightarrow> 8
      | nci_transition_idle_to_discovery_get_config_rsp \<Rightarrow> 7
      | nci_transition_idle_to_discovery_set_config_rsp \<Rightarrow> 6
      | nci_transition_idle_to_discovery_set_mixed_routing_rsp \<Rightarrow> 5
      | nci_transition_idle_to_discovery_set_protocol_routing_rsp \<Rightarrow> 4
      | nci_transition_idle_to_discovery_set_tech_routing_rsp \<Rightarrow> 3
      | nci_transition_idle_to_discovery_last_protocol_routing_rsp \<Rightarrow> 3
      | nci_transition_idle_to_discover_map_rsp \<Rightarrow> 2
      | nci_transition_idle_to_discovery_discover_rsp \<Rightarrow> 1
      | _ \<Rightarrow> 0)"

text \<open>The handler awaited next, its response having this number of answers left at most.\<close>

definition awaits_below :: "nat \<Rightarrow> nci_world \<Rightarrow> bool" where
  "awaits_below n w \<longleftrightarrow> (\<exists>h. rsp_awaited w = Some (h, rsp_ids h) \<and> 0 < boot_rank h \<and> boot_rank h < n)"

lemma awaits_belowI: "rsp_awaited w = Some (h, rsp_ids h) \<Longrightarrow> 0 < boot_rank h \<Longrightarrow> boot_rank h < n \<Longrightarrow> awaits_below n w"
  by (auto simp: awaits_below_def)

lemma awaits_below_send:
  "rsp_ids h = (gid, oid) \<Longrightarrow> 0 < boot_rank h \<Longrightarrow> boot_rank h < n \<Longrightarrow> awaits_below n (snd (nci_sm_send_command env gid oid p h w))"
  by (rule awaits_belowI [of _ h]) (simp_all add: send_awaits)

lemma routing_awaits:
  "2 < n \<Longrightarrow> awaits_below n (nci_transition_idle_to_discover_map env w)"
  "1 < n \<Longrightarrow> awaits_below n (nci_transition_idle_to_discovery_discover env w)"
  "h \<in> {nci_transition_idle_to_discovery_set_mixed_routing_rsp, nci_transition_idle_to_discovery_set_protocol_routing_rsp,
     nci_transition_idle_to_discovery_set_tech_routing_rsp, nci_transition_idle_to_discovery_last_protocol_routing_rsp} \<Longrightarrow>
   boot_rank h < n \<Longrightarrow> awaits_below n (nci_transition_idle_to_discovery_set_routing env es h w)"
  "5 < n \<Longrightarrow> awaits_below n (nci_transition_idle_to_discovery_configure_routing env w)"
  "6 < n \<Longrightarrow> awaits_below n (nci_transition_idle_to_discovery_set_config env fl x b c d e w)"
proof -
  show map: "2 < n \<Longrightarrow> awaits_below n (nci_transition_idle_to_discover_map env w)" for w
    unfolding nci_transition_idle_to_discover_map_def by (rule awaits_below_send) (simp_all add: rsp_ids_def boot_rank_def)
  show "1 < n \<Longrightarrow> awaits_below n (nci_transition_idle_to_discovery_discover env w)"
    unfolding nci_transition_idle_to_discovery_discover_def by (rule awaits_below_send) (simp_all add: rsp_ids_def boot_rank_def)
  show routing: "h \<in> {nci_transition_idle_to_discovery_set_mixed_routing_rsp, nci_transition_idle_to_discovery_set_protocol_routing_rsp,
     nci_transition_idle_to_discovery_set_tech_routing_rsp, nci_transition_idle_to_discovery_last_protocol_routing_rsp} \<Longrightarrow>
     boot_rank h < n \<Longrightarrow> awaits_below n (nci_transition_idle_to_discovery_set_routing env es h w)" for h es
    unfolding nci_transition_idle_to_discovery_set_routing_def
    by (rule awaits_below_send) (auto simp: rsp_ids_def boot_rank_def)
  show "5 < n \<Longrightarrow> awaits_below n (nci_transition_idle_to_discovery_configure_routing env w)"
    unfolding nci_transition_idle_to_discovery_configure_routing_def Let_def
    by (auto intro!: map routing simp: boot_rank_def)
  show "6 < n \<Longrightarrow> awaits_below n (nci_transition_idle_to_discovery_set_config env fl x b c d e w)"
    unfolding nci_transition_idle_to_discovery_set_config_def by (rule awaits_below_send) (simp_all add: rsp_ids_def boot_rank_def)
qed

definition discovery_rsps :: "rsp_handler list" where
  "discovery_rsps =
     [nci_transition_idle_to_discovery_get_config_rsp, nci_transition_idle_to_discovery_set_config_rsp,
      nci_transition_idle_to_discovery_set_mixed_routing_rsp, nci_transition_idle_to_discovery_set_protocol_routing_rsp,
      nci_transition_idle_to_discovery_set_tech_routing_rsp, nci_transition_idle_to_discovery_last_protocol_routing_rsp,
      nci_transition_idle_to_discover_map_rsp]"

context observing_app begin

lemma discovery_rsp:
  assumes "h \<in> set discovery_rsps" and "sm_active_transition v = Some TIdleToDiscovery"
    and "h = nci_transition_idle_to_discover_map_rsp \<Longrightarrow> status_ok p"
  shows "sm_view (run_rsp env h NCI_REQUEST_SUCCESS p v) = sm_view v"
    and "awaits_below (boot_rank h) (run_rsp env h NCI_REQUEST_SUCCESS p v)"
  using assms
  by (auto simp: discovery_rsps_def run_rsp_def run_rsp_defs when_active_def nci_sm_active_transition_def boot_rank_def
      intro!: routing_awaits split: prod.split)

lemma reset_rsp_v1:
  assumes "sm_active_transition v = Some TReset"
  shows "sm_view (run_rsp env nci_transition_reset_rsp NCI_REQUEST_SUCCESS [NCI_STATUS_OK, x, y] v) = sm_view v"
    "rsp_awaited (run_rsp env nci_transition_reset_rsp NCI_REQUEST_SUCCESS [NCI_STATUS_OK, x, y] v) =
      Some (nci_transition_reset_init_v1_rsp, rsp_ids nci_transition_reset_init_v1_rsp)"
  using assms by (simp_all add: run_rsp_def run_reset_rsp_def when_active_def nci_sm_active_transition_def Let_def send_awaits rsp_ids_def)

lemma reset_rsp_v2:
  assumes "sm_active_transition v = Some TReset" and "rsp_awaited v = None"
  shows "sm_view (run_rsp env nci_transition_reset_rsp NCI_REQUEST_SUCCESS [NCI_STATUS_OK] v) = sm_view v"
    "rsp_awaited (run_rsp env nci_transition_reset_rsp NCI_REQUEST_SUCCESS [NCI_STATUS_OK] v) = None"
    "sm_version (run_rsp env nci_transition_reset_rsp NCI_REQUEST_SUCCESS [NCI_STATUS_OK] v) = NCI_INTERFACE_VERSION_2"
  using assms by (simp_all add: run_rsp_def run_reset_rsp_def when_active_def nci_sm_active_transition_def Let_def)
    (simp add: rsp_awaited_def)

lemma reset_ntf_v2:
  assumes "sm_active_transition u = Some TReset" and "sm_version u = NCI_INTERFACE_VERSION_2"
    and "length ntf \<ge> 5 \<and> 5 + unat (ntf ! 4) \<le> length ntf"
  shows "sm_view (nci_core_sar_handle_notification env NCI_GID_CORE NCI_OID_CORE_RESET ntf u) = sm_view u"
    "rsp_awaited (nci_core_sar_handle_notification env NCI_GID_CORE NCI_OID_CORE_RESET ntf u) =
      Some (nci_transition_reset_init_v2_rsp, rsp_ids nci_transition_reset_init_v2_rsp)"
  using assms by (simp_all add: nci_core_sar_handle_notification_def nci_sm_handle_ntf_def nci_transition_handle_ntf_def
      nci_transition_reset_handle_ntf_def send_awaits rsp_ids_def)

lemma init_rsp:
  assumes "sm_active_transition v = Some TReset"
    and "h = nci_transition_reset_init_v1_rsp \<and> init_rsp_v1_ok p \<or> h = nci_transition_reset_init_v2_rsp \<and> init_rsp_v2_ok p"
  shows "sm_view (run_rsp env h NCI_REQUEST_SUCCESS p v) = sm_view v"
    "rsp_awaited (run_rsp env h NCI_REQUEST_SUCCESS p v) =
      Some (nci_transition_reset_set_config_rsp, rsp_ids nci_transition_reset_set_config_rsp)"
  using assms by (auto simp: run_rsp_def run_reset_init_v1_rsp_def run_reset_init_v2_rsp_def init_rsp_v1_ok_def init_rsp_v2_ok_def
      when_active_def nci_sm_active_transition_def Let_def init_done_awaits rsp_ids_def)

section \<open>Arriving\<close>

lemma finish_awaited: "rsp_awaited (nci_sm_finish_active_transition w) = rsp_awaited w"
  by (simp add: nci_sm_finish_active_transition_def nci_transition_finished_def nci_transition_default_finished_def
      nci_transition_listen_active_to_idle_reset_def rsp_awaited_def split: option.split)

lemma entering_awaited: "rsp_awaited (w\<lparr>sm_entering_state := n\<rparr>) = rsp_awaited w"
  by (simp add: rsp_awaited_def)

lemma start_discovery_awaits:
  "rsp_awaited (snd (nci_sm_start_transition env TIdleToDiscovery w)) =
    Some (nci_transition_idle_to_discovery_get_config_rsp, rsp_ids nci_transition_idle_to_discovery_get_config_rsp)"
proof -
  let ?w = "(if sm_active_transition w \<noteq> Some TIdleToDiscovery then nci_sm_finish_active_transition w else w)
    \<lparr>sm_active_transition := Some TIdleToDiscovery\<rparr>"
  obtain w' where st: "nci_transition_start env TIdleToDiscovery ?w = (True, w')"
    using start_view(1) [of TIdleToDiscovery ?w] by (cases "nci_transition_start env TIdleToDiscovery ?w") simp
  then have "w' = snd (nci_transition_start env TIdleToDiscovery ?w)" by simp
  then have "rsp_awaited w' = Some (nci_transition_idle_to_discovery_get_config_rsp, rsp_ids nci_transition_idle_to_discovery_get_config_rsp)"
    by (simp add: nci_transition_start_def nci_transition_default_start_def and_then_def send_awaits rsp_ids_def)
  then show ?thesis using st by (simp add: nci_sm_start_transition_def Let_def)
qed

text \<open>The reset is over and discovery was asked for: the next transition starts at once.\<close>

lemma idle_starts_discovery:
  assumes "sm_wf w" and "sm_abs w = Going s TReset (Some TIdleToDiscovery) n"
  shows "sm_wf (nci_transition_finish env TReset w)"
    "sm_abs (nci_transition_finish env TReset w) = Going NCI_RFST_IDLE TIdleToDiscovery None n"
    "rsp_awaited (nci_transition_finish env TReset w) =
      Some (nci_transition_idle_to_discovery_get_config_rsp, rsp_ids nci_transition_idle_to_discovery_get_config_rsp)"
proof -
  have active: "sm_active_transition w = Some TReset" by (rule resetting_active [OF assms(2)])
  show "sm_wf (nci_transition_finish env TReset w)" by (rule finish_abs(1) [OF assms(1) active])
  show "sm_abs (nci_transition_finish env TReset w) = Going NCI_RFST_IDLE TIdleToDiscovery None n"
    using finish_abs(2) [OF assms(1) active] by (simp add: assms(2) transition_dest_def)
  let ?a = "sm_activate (nci_state_entered env) NCI_RFST_IDLE None
      (nci_sm_finish_active_transition (w\<lparr>sm_entering_state := sm_entering_state w + 1\<rparr>))"
  have "sm_view ?a = (v_finish ((sm_view w)\<lparr>v_entering := v_entering (sm_view w) + 1\<rparr>))\<lparr>v_active := Some NCI_RFST_IDLE\<rparr>"
    by (subst activate_view) (simp_all add: entered_view sm_view_fields)
  then have "sm_next_transition ?a = Some TIdleToDiscovery"
    using assms(2) by (simp add: sm_view_fields sm_abs_def v_abs_def v_finish_def split: option.splits)
  then have "rsp_awaited (sm_settle NCI_RFST_IDLE (sm_start_next env NCI_RFST_IDLE ?a)) =
      Some (nci_transition_idle_to_discovery_get_config_rsp, rsp_ids nci_transition_idle_to_discovery_get_config_rsp)"
    by (simp add: sm_start_next_def transition_dest_def sm_settle_def nci_sm_set_last_state_def nci_sm_set_next_state_def Let_def
        start_discovery_awaits)
  then show "rsp_awaited (nci_transition_finish env TReset w) =
      Some (nci_transition_idle_to_discovery_get_config_rsp, rsp_ids nci_transition_idle_to_discovery_get_config_rsp)"
    using active by (simp add: nci_transition_finish_def nci_sm_active_transition_def nci_sm_enter_state_def
        nci_sm_enter_state_internal_def Let_def transition_dest_def entering_awaited)
qed

text \<open>Asking for discovery while the reset runs: it follows the reset.\<close>

lemma set_state_discovery:
  assumes "sm_wf w" and "sm_abs w = Going NCI_STATE_INIT TReset None NCI_RFST_IDLE"
  shows "sm_wf (nci_core_set_state env NCI_RFST_DISCOVERY w)"
    "sm_abs (nci_core_set_state env NCI_RFST_DISCOVERY w) = Going NCI_STATE_INIT TReset (Some TIdleToDiscovery) NCI_RFST_DISCOVERY"
    "rsp_awaited (nci_core_set_state env NCI_RFST_DISCOVERY w) = rsp_awaited w"
proof -
  have edge: "nci_state_get_transition NCI_RFST_IDLE NCI_RFST_DISCOVERY = Some TIdleToDiscovery"
    by (simp add: nci_state_get_transition_def sm_transitions_def transition_dest_def)
  show "sm_wf (nci_core_set_state env NCI_RFST_DISCOVERY w)"
    "sm_abs (nci_core_set_state env NCI_RFST_DISCOVERY w) = Going NCI_STATE_INIT TReset (Some TIdleToDiscovery) NCI_RFST_DISCOVERY"
    by (simp_all add: nci_core_set_state_def switch_to_abs [OF assms(1)] assms(2) transition_dest_def edge)
  have "rsp_awaited (w\<lparr>sm_next_transition := x\<rparr>) = rsp_awaited w" for x w by (simp add: rsp_awaited_def)
  moreover have "rsp_awaited (w\<lparr>sm_pending_switch := x\<rparr>) = rsp_awaited w" for x w by (simp add: rsp_awaited_def)
  ultimately show "rsp_awaited (nci_core_set_state env NCI_RFST_DISCOVERY w) = rsp_awaited w"
    using resetting_active [OF assms(2)] sm_wf_facts(3) [OF assms(1)]
    by (simp add: nci_core_set_state_def nci_sm_switch_to_def nci_sm_switch_internal_def switch_during_transition_def
        Let_def transition_dest_def edge nci_sm_set_next_state_def)
qed

end

section \<open>The way, stage by stage\<close>

text \<open>
  A stage is the number of answers left at most: 0 at the end, 10 when an NFCC of version 2
  has yet to announce the end of its reset, otherwise the rank of the awaited response.
\<close>

definition boot_reset_rsps :: "rsp_handler list" where
  "boot_reset_rsps =
     [nci_transition_reset_rsp, nci_transition_reset_init_v1_rsp, nci_transition_reset_init_v2_rsp,
      nci_transition_reset_set_config_rsp]"

definition boot_going :: "rsp_handler \<Rightarrow> nci_world \<Rightarrow> bool" where
  "boot_going h w \<longleftrightarrow>
     (if h \<in> set boot_reset_rsps then sm_abs w = Going NCI_STATE_INIT TReset (Some TIdleToDiscovery) NCI_RFST_DISCOVERY
      else sm_abs w = Going NCI_RFST_IDLE TIdleToDiscovery None NCI_RFST_DISCOVERY)"

definition boot_stage :: "nfcc \<Rightarrow> nat \<Rightarrow> nci_world \<Rightarrow> bool" where
  "boot_stage nf n w \<longleftrightarrow> sm_wf w \<and> incoming_clean w \<and>
     (if n = 0 then sm_abs w = At NCI_RFST_DISCOVERY
      else if n = 10
      then boot_going nci_transition_reset_rsp w \<and> rsp_awaited w = None \<and> sm_version w = NCI_INTERFACE_VERSION_2 \<and> nfcc_v2 nf
      else \<exists>h. rsp_awaited w = Some (h, rsp_ids h) \<and> boot_rank h = n \<and> boot_going h w \<and>
             (h = nci_transition_reset_init_v1_rsp \<longrightarrow> nfcc_v1 nf) \<and> (h = nci_transition_reset_init_v2_rsp \<longrightarrow> nfcc_v2 nf))"

lemma boot_stageI:
  assumes "rsp_awaited w = Some (h, rsp_ids h)" and "boot_rank h \<noteq> 0" and "sm_wf w" and "incoming_clean w" and "boot_going h w"
    and "h = nci_transition_reset_init_v1_rsp \<Longrightarrow> nfcc_v1 nf" and "h = nci_transition_reset_init_v2_rsp \<Longrightarrow> nfcc_v2 nf"
  shows "boot_stage nf (boot_rank h) w"
proof -
  have "boot_rank h \<noteq> 10" by (simp add: boot_rank_def split: rsp_handler.split)
  then show ?thesis using assms by (simp add: boot_stage_def)
qed

lemma boot_same_stage:
  "boot_same a b \<Longrightarrow> sm_wf a = sm_wf b \<and> boot_going h a = boot_going h b \<and> rsp_awaited a = rsp_awaited b \<and> sm_version a = sm_version b \<and> sm_abs a = sm_abs b"
  by (simp add: boot_same_def sm_wf_def sm_abs_def boot_going_def)

lemma rsp_ids_masked:
  "fst (rsp_ids h) AND NCI_CONTROL_GID_MASK = fst (rsp_ids h)" "snd (rsp_ids h) AND NCI_CONTROL_OID_MASK = snd (rsp_ids h)"
  by (cases h; simp add: rsp_ids_def)+

lemma going_view: "sm_view v = sm_view w \<Longrightarrow> boot_going h v = boot_going h w" "sm_view v = sm_view w \<Longrightarrow> sm_wf v = sm_wf w"
  by (simp_all add: boot_going_def sm_abs_def sm_wf_def)

lemma boot_handlers:
  "boot_rank h \<noteq> 0 \<Longrightarrow> h \<in> set discovery_rsps \<or> h \<in> set boot_reset_rsps \<or> h = nci_transition_idle_to_discovery_discover_rsp"
  by (cases h) (simp_all add: boot_rank_def discovery_rsps_def boot_reset_rsps_def)

text \<open>The next response of the same transition is awaited.\<close>

lemma stage_next:
  assumes "sm_wf v" and "boot_going h v" and "boot_same w' v'" and "sm_view v' = sm_view v" and "incoming_clean w'"
    and "rsp_awaited v' = Some (h', rsp_ids h')" and "boot_rank h' \<noteq> 0" and "boot_rank h' < boot_rank h"
    and "h' \<in> set boot_reset_rsps \<longleftrightarrow> h \<in> set boot_reset_rsps"
    and "h' = nci_transition_reset_init_v1_rsp \<Longrightarrow> nfcc_v1 nf" and "h' = nci_transition_reset_init_v2_rsp \<Longrightarrow> nfcc_v2 nf"
  shows "\<exists>m < boot_rank h. boot_stage nf m w'"
proof -
  have "boot_going h' v'" using assms(2,9) going_view(1) [OF assms(4), of h'] by (simp add: boot_going_def)
  then have "boot_stage nf (boot_rank h') w'"
    using assms boot_same_stage [OF assms(3)] going_view(2) [OF assms(4)] by (intro boot_stageI) simp_all
  then show ?thesis using assms(8) by blast
qed

context polite_app begin

lemma stage_response:
  assumes "boot_rank h \<noteq> 0" and "sm_wf v" and "boot_going h v" and "rsp_awaited v = None" and "nfcc_ok nf"
    and init: "h = nci_transition_reset_init_v1_rsp \<Longrightarrow> nfcc_v1 nf" "h = nci_transition_reset_init_v2_rsp \<Longrightarrow> nfcc_v2 nf"
    and p: "p = concat (nf_rsp nf (fst (rsp_ids h)) (snd (rsp_ids h)))"
    and same: "boot_same w' (run_rsp env h NCI_REQUEST_SUCCESS p v)" and "incoming_clean w'"
  shows "\<exists>m < boot_rank h. boot_stage nf m w'"
proof -
  let ?v = "run_rsp env h NCI_REQUEST_SUCCESS p v"
  note facts = boot_same_stage [OF same]
  have going: "sm_active_transition v = Some (if h \<in> set boot_reset_rsps then TReset else TIdleToDiscovery)"
    using assms(3) by (simp add: boot_going_def resetting_active split: if_splits)
  note next_rsp = stage_next [OF assms(2,3) same _ assms(10), where nf = nf]
  consider (disc) "h \<in> set discovery_rsps" | (reset) "h = nci_transition_reset_rsp"
    | (init) "h = nci_transition_reset_init_v1_rsp \<or> h = nci_transition_reset_init_v2_rsp"
    | (config) "h = nci_transition_reset_set_config_rsp" | (last) "h = nci_transition_idle_to_discovery_discover_rsp"
    using boot_handlers [OF assms(1)] by (auto simp: boot_reset_rsps_def)
  then show ?thesis
  proof cases
    case disc
    then have act: "sm_active_transition v = Some TIdleToDiscovery" and nr: "h \<notin> set boot_reset_rsps"
      using going by (auto simp: discovery_rsps_def boot_reset_rsps_def)
    have ok: "status_ok p" if "h = nci_transition_idle_to_discover_map_rsp"
      using assms(5) by (simp add: that p nfcc_ok_def rsp_ids_def)
    note d = discovery_rsp [OF disc act ok]
    from d(2) obtain h' where h': "rsp_awaited ?v = Some (h', rsp_ids h')" "0 < boot_rank h'" "boot_rank h' < boot_rank h"
      by (auto simp: awaits_below_def)
    have "boot_rank h \<le> 7" using disc by (auto simp: discovery_rsps_def boot_rank_def)
    then have "boot_rank h' < 7" using h' by simp
    then have "h' \<notin> set boot_reset_rsps" by (auto simp: boot_reset_rsps_def boot_rank_def)
    then show ?thesis using nr h' d(1) by (intro next_rsp [where h' = "h'"]) (auto simp: boot_reset_rsps_def)
  next
    case reset
    then have act: "sm_active_transition v = Some TReset" using going by (simp add: boot_reset_rsps_def)
    show ?thesis
    proof (cases "nfcc_v1 nf")
      case True
      then obtain x y where "p = [NCI_STATUS_OK, x, y]" by (auto simp: p reset nfcc_v1_def rsp_ids_def)
      then show ?thesis using reset_rsp_v1 [OF act, of x y] True reset
        by (intro next_rsp [where h' = nci_transition_reset_init_v1_rsp]) (simp_all add: boot_rank_def boot_reset_rsps_def)
    next
      case False
      then have v2: "nfcc_v2 nf" using assms(5) by (simp add: nfcc_ok_def)
      then have "p = [NCI_STATUS_OK]" by (simp add: p reset nfcc_v2_def rsp_ids_def)
      note r = reset_rsp_v2 [OF act assms(4), folded this, folded reset]
      have "boot_stage nf 10 w'"
        using r facts v2 assms(2,3,10) going_view [OF r(1)] by (simp add: boot_stage_def reset)
      then show ?thesis by (intro exI [of _ 10]) (simp add: reset boot_rank_def)
    qed
  next
    case init
    then have act: "sm_active_transition v = Some TReset" using going by (auto simp: boot_reset_rsps_def)
    have "h = nci_transition_reset_init_v1_rsp \<and> init_rsp_v1_ok p \<or> h = nci_transition_reset_init_v2_rsp \<and> init_rsp_v2_ok p"
      using init assms(6,7) by (auto simp: p nfcc_v1_def nfcc_v2_def rsp_ids_def)
    note r = init_rsp [OF act this]
    show ?thesis using init r by (intro next_rsp [where h' = nci_transition_reset_set_config_rsp]) (auto simp: boot_rank_def boot_reset_rsps_def)
  next
    case config
    then have act: "sm_active_transition v = Some TReset" and abs: "sm_abs v = Going NCI_STATE_INIT TReset (Some TIdleToDiscovery) NCI_RFST_DISCOVERY"
      using going assms(3) by (simp_all add: boot_reset_rsps_def boot_going_def)
    have run: "?v = nci_transition_finish env TReset v"
      using act by (simp add: config run_rsp_def run_reset_set_config_rsp_def when_active_def nci_sm_active_transition_def)
    note r = idle_starts_discovery [OF assms(2) abs, folded run]
    let ?h = "nci_transition_idle_to_discovery_get_config_rsp"
    have "boot_stage nf (boot_rank ?h) w'"
      using r facts assms(10) by (intro boot_stageI) (simp_all add: boot_rank_def boot_going_def boot_reset_rsps_def)
    then show ?thesis by (intro exI [of _ "boot_rank ?h"]) (simp add: config boot_rank_def)
  next
    case last
    then have act: "sm_active_transition v = Some TIdleToDiscovery" and abs: "sm_abs v = Going NCI_RFST_IDLE TIdleToDiscovery None NCI_RFST_DISCOVERY"
      using going assms(3) by (simp_all add: boot_reset_rsps_def boot_going_def)
    have "status_ok p" using assms(5) by (simp add: last p nfcc_ok_def rsp_ids_def)
    then have run: "?v = nci_transition_finish env TIdleToDiscovery v"
      using act by (simp add: last run_rsp_def run_rsp_defs when_active_def nci_sm_active_transition_def)
    note r = finish_abs [OF assms(2) act, folded run]
    have "boot_stage nf 0 w'" using r facts assms(10) abs by (simp add: boot_stage_def transition_dest_def)
    then show ?thesis by (intro exI [of _ 0]) (simp add: last boot_rank_def)
  qed
qed

text \<open>Every message leads to a later stage.\<close>

lemma answer_notification:
  assumes "nfcc_ok nf" and "boot_stage nf 10 w"
  shows "\<exists>m < 10. boot_stage nf m (nfcc_answer env nf w)"
proof -
  have w: "sm_wf w" "incoming_clean w" "boot_going nci_transition_reset_rsp w" "rsp_awaited w = None"
    "sm_version w = NCI_INTERFACE_VERSION_2" "nfcc_v2 nf"
    using assms(2) by (simp_all add: boot_stage_def)
  then have act: "sm_active_transition w = Some TReset" by (simp add: boot_going_def boot_reset_rsps_def resetting_active)
  have ids: "NCI_GID_CORE AND NCI_CONTROL_GID_MASK = NCI_GID_CORE" "NCI_OID_CORE_RESET AND NCI_CONTROL_OID_MASK = NCI_OID_CORE_RESET"
    by simp_all
  have "parts_ok (nf_reset_ntf nf)" using assms(1) by (simp add: nfcc_ok_def)
  then obtain u where more: "nci_sar.more u = nci_sar.more w"
    and same: "boot_same (nfcc_answer env nf w)
      (nci_sar_hal_handle_control_packet (core_client env) NCI_MT_NTF_PKT NCI_GID_CORE NCI_OID_CORE_RESET (concat (nf_reset_ntf nf)) u)"
    and clean: "incoming_clean (nfcc_answer env nf w)"
    using message_effect [of "nf_reset_ntf nf" NCI_MT_NTF_PKT NCI_GID_CORE NCI_OID_CORE_RESET w, OF _ disjI2 [OF refl] ids w(2)
        control_packet_keep [OF disjI2 [OF refl]]] w(4) act
    by (auto simp: nfcc_answer_def)
  have u: "sm_view u = sm_view w" "sm_version u = NCI_INTERFACE_VERSION_2"
    using boot_same_more [OF more] w(5) by (simp_all add: boot_same_def)
  have "sm_active_transition u = Some TReset" using u(1) act by (simp add: sm_view_fields)
  note r = reset_ntf_v2 [OF this u(2), of "concat (nf_reset_ntf nf)"]
  have ntf: "let ntf = concat (nf_reset_ntf nf) in length ntf \<ge> 5 \<and> 5 + unat (ntf ! 4) \<le> length ntf"
    using w(6) by (simp add: nfcc_v2_def)
  let ?u = "nci_core_sar_handle_notification env NCI_GID_CORE NCI_OID_CORE_RESET (concat (nf_reset_ntf nf)) u"
  have "boot_same (nfcc_answer env nf w) ?u" using same by (simp add: nci_sar_hal_handle_control_packet_def core_client_def)
  moreover have "sm_view ?u = sm_view w" using r(1) ntf u(1) by (simp add: Let_def)
  moreover have "rsp_awaited ?u = Some (nci_transition_reset_init_v2_rsp, rsp_ids nci_transition_reset_init_v2_rsp)"
    using r(2) ntf by (simp add: Let_def)
  ultimately have "sm_view (nfcc_answer env nf w) = sm_view w"
    "rsp_awaited (nfcc_answer env nf w) = Some (nci_transition_reset_init_v2_rsp, rsp_ids nci_transition_reset_init_v2_rsp)"
    by (simp_all add: boot_same_def)
  moreover from this(1) have "sm_wf (nfcc_answer env nf w)" "boot_going nci_transition_reset_init_v2_rsp (nfcc_answer env nf w)"
    using w(1,3) by (simp_all add: boot_going_def boot_reset_rsps_def sm_abs_def sm_wf_def)
  ultimately have "boot_stage nf (boot_rank nci_transition_reset_init_v2_rsp) (nfcc_answer env nf w)"
    using clean w(6) by (intro boot_stageI) (simp_all add: boot_rank_def)
  then show ?thesis by (intro exI [of _ "boot_rank nci_transition_reset_init_v2_rsp"]) (simp add: boot_rank_def)
qed

lemma answer_stage:
  assumes "nfcc_ok nf" and "boot_stage nf n w" and "n \<noteq> 0"
  shows "\<exists>m < n. boot_stage nf m (nfcc_answer env nf w)"
proof (cases "n = 10")
  case False
  then obtain h where h: "rsp_awaited w = Some (h, fst (rsp_ids h), snd (rsp_ids h))" "boot_rank h = n" "boot_going h w"
    "sm_wf w" "incoming_clean w" "h = nci_transition_reset_init_v1_rsp \<Longrightarrow> nfcc_v1 nf" "h = nci_transition_reset_init_v2_rsp \<Longrightarrow> nfcc_v2 nf"
    using assms by (auto simp: boot_stage_def)
  obtain v where v: "sm_view v = sm_view w" "rsp_awaited v = None"
    "boot_same (nfcc_answer env nf w)
      (run_rsp env h NCI_REQUEST_SUCCESS (concat (nf_rsp nf (fst (rsp_ids h)) (snd (rsp_ids h)))) v)"
    "incoming_clean (nfcc_answer env nf w)"
    using answer_response [OF assms(1) h(1,5) rsp_ids_masked] by blast
  show ?thesis
    using stage_response [OF _ _ _ v(2) assms(1) _ _ refl v(3,4)] h going_view [OF v(1)] assms(3) by auto
next
  case True
  then show ?thesis using answer_notification assms by simp
qed

lemma stages_end:
  assumes "nfcc_ok nf" and "boot_stage nf n w"
  shows "\<exists>k \<le> n. boot_stage nf 0 ((nfcc_answer env nf ^^ k) w)"
  using assms(2)
proof (induction n arbitrary: w rule: less_induct)
  case (less n)
  show ?case
  proof (cases "n = 0")
    case True
    then show ?thesis using less.prems by auto
  next
    case False
    obtain m where m: "m < n" "boot_stage nf m (nfcc_answer env nf w)" using answer_stage [OF assms(1) less.prems False] by blast
    obtain k where "k \<le> m" "boot_stage nf 0 ((nfcc_answer env nf ^^ k) (nfcc_answer env nf w))" using less.IH [OF m] by blast
    then show ?thesis using m(1) by (intro exI [of _ "Suc k"]) (simp add: funpow_Suc_right del: funpow.simps)
  qed
qed

lemma restart_stage:
  assumes "sm_wf w" and "\<not> in_pending (sar_read_buf w)"
  shows "boot_stage nf 11 (nci_core_set_state env NCI_RFST_DISCOVERY (nci_core_restart env w))"
proof -
  note start = set_state_discovery [OF restart_abs [OF assms(1)]]
  have "incoming (sar_read_buf w) (map_option (\<lambda>_. []) (sar_control_in w)) (nci_core_restart env w)"
    by (rule incoming_restart) (simp add: incoming_def)
  then have "incoming (sar_read_buf w) (map_option (\<lambda>_. []) (sar_control_in w))
      (nci_core_set_state env NCI_RFST_DISCOVERY (nci_core_restart env w))"
    unfolding nci_core_set_state_def by (rule incoming.switch_to_keep)
  then have "incoming_clean (nci_core_set_state env NCI_RFST_DISCOVERY (nci_core_restart env w))"
    by (rule incoming_cleanI) (use assms(2) in \<open>simp_all add: in_pending_def split: option.split\<close>)
  then have "boot_stage nf (boot_rank nci_transition_reset_rsp) (nci_core_set_state env NCI_RFST_DISCOVERY (nci_core_restart env w))"
    using start restart_awaits [OF assms(1)]
    by (intro boot_stageI) (simp_all add: boot_rank_def boot_going_def boot_reset_rsps_def rsp_ids_def)
  then show ?thesis by (simp add: boot_rank_def)
qed

end

section \<open>Arrival\<close>


lemma send_data_incoming: "incoming r c w \<Longrightarrow> incoming r c (snd (nci_sar_send_data_packet cid p co de w))"
  by (auto simp: nci_sar_send_data_packet_def nci_sar_send_def nci_sar_schedule_write_def sar_enqueue_def Let_def incoming_def
      upd_conn_def)

interpretation echo_polite: polite_app echo_env
  by unfold_locales (auto simp: echo_more echo_env_def echo_app_def nci_core_send_data_msg_def send_data_incoming split: app_event.split)

text \<open>An NFCC of version 2 whose notification and \<open>CORE_INIT_RSP\<close> come in two segments each.\<close>

definition nfcc_example :: nfcc where
  "nfcc_example =
     \<lparr>nf_rsp = (\<lambda>gid oid. if gid = NCI_GID_CORE \<and> oid = NCI_OID_CORE_INIT
        then [[0, 0, 0x0e, 2, 0, 3, 2, 2, 0xff, 0], [0, 0, 1, 1, 1, 0]] else [[NCI_STATUS_OK]]),
      nf_reset_ntf = [[2, 1, 0x20], [0, 0]]\<rparr>"

lemma new_read_buf: "sar_read_buf (nci_core_new (\<lambda>w. w)) = None"
proof -
  have "sar_read_buf (fold core_param_reset ks w) = sar_read_buf w" for ks w
    by (induction ks arbitrary: w) (simp_all add: core_param_reset_def core_param_set_def nci_sm_set_la_nfcid1_def
      nci_sm_set_li_a_hb_def Let_def split: NCI_CORE_PARAM.split)
  then show ?thesis by (simp add: nci_core_new_def Let_def nci_sm_object_init_def nci_sar_new_def)
qed


section \<open>A restart in the middle of a packet\<close>

text \<open>
  C22. \<open>nci_sar_reset\<close> leaves \<open>read_buf\<close> as it is. If the transport had delivered the beginning of
  a packet, what the NFCC answers to the reset is taken for the rest of it: as long as the
  bytes do not complete that packet they are only collected, no handler sees them, and the
  library goes on waiting for the response that it has been given.
\<close>

theorem restart_keeps_unfinished_packet:
  assumes "\<And>e w. nci_sar.more (env_app env e w) = nci_sar.more w"
    and "\<And>e w. sar_read_buf (env_app env e w) = sar_read_buf w" and "\<And>e w. sar_control_in (env_app env e w) = sar_control_in w"
    and "core_reachable env w" and "sar_read_buf w = Some r" and "r \<noteq> []" and "\<not> packet_complete (r @ answer)"
  shows "let w1 = nci_core_restart env w
         in nci_sar_hal_client_read (core_client env) answer w1 = w1\<lparr>sar_read_buf := Some (r @ answer)\<rparr> \<and>
            rsp_awaited w1 = Some (nci_transition_reset_rsp, NCI_GID_CORE, NCI_OID_CORE_RESET)"
proof -
  have app: "polite_app env" by unfold_locales (simp_all add: assms(1-3) incoming_def)
  note observing = polite_app.axioms(1) [OF app]
  let ?w = "nci_core_restart env w"
  have "incoming (Some r) (sar_control_in w) w" using assms(5) by (simp add: incoming_def)
  then have buf: "sar_read_buf ?w = Some r" using polite_app.incoming_restart [OF app] by (simp add: incoming_def)
  have "?w = ?w\<lparr>sar_read_buf := Some (r @ [])\<rparr>" using buf by simp
  then have "nci_sar_hal_client_read (core_client env) answer ?w = ?w\<lparr>sar_read_buf := Some (r @ answer)\<rparr>"
    using buf assms(6) by (cases "answer = []") (simp_all add: nci_sar_hal_client_read_def in_pending_def read_loop_incomplete [OF assms(7)])
  then show ?thesis
    using observing_app.restart_awaits [OF observing observing_app.reachable_wf [OF observing assms(4)]] by (simp add: Let_def)
qed

text \<open>A notification broken off after two bytes, then the complete response to the reset.\<close>

lemma restart_keeps_unfinished_packet_witness:
  "let w1 = nci_core_restart echo_env (nci_sar_hal_client_read (core_client echo_env) [0x60, 0x06] (nci_core_new (\<lambda>w. w)))
   in nci_sar_hal_client_read (core_client echo_env) [0x40, 0x00, 0x03, 0x00, 0x10, 0x01] w1 =
        w1\<lparr>sar_read_buf := Some ([0x60, 0x06] @ [0x40, 0x00, 0x03, 0x00, 0x10, 0x01])\<rparr> \<and>
      rsp_awaited w1 = Some (nci_transition_reset_rsp, NCI_GID_CORE, NCI_OID_CORE_RESET)"
proof (rule restart_keeps_unfinished_packet [OF echo_more])
  have incomplete: "\<not> packet_complete [0x60, 0x06]" by (simp add: packet_complete_def)
  show "sar_read_buf (nci_sar_hal_client_read (core_client echo_env) [0x60, 0x06] (nci_core_new (\<lambda>w. w))) = Some [0x60, 0x06]"
    by (simp add: nci_sar_hal_client_read_def new_read_buf in_pending_def read_loop_incomplete [OF incomplete])
  show "\<not> packet_complete ([0x60, 0x06] @ [0x40, 0x00, 0x03, 0x00, 0x10, 0x01])" by (simp add: packet_complete_def)
qed (use echo_polite.app_incoming in \<open>simp_all add: incoming_def core_reachable.step [OF core_reachable.new core_step.read]\<close>)

end
