(* ===== verification/Param_Invariant.thy ===== *)
theory Param_Invariant
  imports Sm_Invariant
begin

text \<open>
  The parameters of the library stay within their types: NFCID1 in Listen A mode has one of the
  lengths of the standard, the historical bytes fit their array, the Well-Known Services list
  has the bit of the LLC Link Management, the technologies are known ones. This holds for
  every application whose handlers keep it, those included that switch states and set
  parameters inside their handlers (\<open>nested_env\<close>).
\<close>

unbundle bit_operations_syntax

definition params_wf :: "nci_world \<Rightarrow> bool" where
  "params_wf w \<longleftrightarrow> wf_nfcid1 (sm_la_nfcid1 w) \<and> wf_nfcid1 (sm_default_la_nfcid1 w) \<and> wf_hb (sm_li_a_hb w) \<and>
     wf_hb (sm_default_li_a_hb w) \<and> odd (sm_llc_wks w) \<and> sm_techs w AND NCI_TECH_ALL = sm_techs w"

lemma params_more:
  assumes "nci_sar.more s = nci_sar.more (t :: nci_world)" shows "params_wf s = params_wf t"
  using assms by (cases s; cases t) (simp add: nci_world.defs params_wf_def)

lemma params_frame: "control_same w w' \<Longrightarrow> params_wf w = params_wf w'"
  by (simp add: control_same_def params_wf_def)

section \<open>Setting parameters\<close>

lemma set_la_nfcid1_wf:
  assumes "wf_nfcid1 (sm_la_nfcid1 w)" and "wf_nfcid1 (sm_default_la_nfcid1 w)"
    and "case x of Some y \<Rightarrow> length (nfcid1_bytes y) = 10 | None \<Rightarrow> True"
  shows "wf_nfcid1 (sm_la_nfcid1 (nci_sm_set_la_nfcid1 x w))"
  using assms by (auto simp: nci_sm_set_la_nfcid1_def wf_nfcid1_def Let_def split: option.splits)

lemma set_li_a_hb_wf:
  assumes "wf_hb (sm_li_a_hb w)" and "wf_hb (sm_default_li_a_hb w)"
    and "case x of Some y \<Rightarrow> length (hb_bytes y) = 15 | None \<Rightarrow> True"
  shows "wf_hb (sm_li_a_hb (nci_sm_set_li_a_hb x w))"
proof -
  have "unat (of_nat (min n 15) :: byte) = min n 15" for n by (rule unat_of_nat_byte) simp
  then show ?thesis using assms by (auto simp: nci_sm_set_li_a_hb_def wf_hb_def Let_def split: option.splits)
qed

lemma set_param_others:
  "sm_default_la_nfcid1 (nci_sm_set_la_nfcid1 x w) = sm_default_la_nfcid1 w" "sm_li_a_hb (nci_sm_set_la_nfcid1 x w) = sm_li_a_hb w"
  "sm_default_li_a_hb (nci_sm_set_la_nfcid1 x w) = sm_default_li_a_hb w" "sm_llc_wks (nci_sm_set_la_nfcid1 x w) = sm_llc_wks w"
  "sm_techs (nci_sm_set_la_nfcid1 x w) = sm_techs w"
  "sm_default_la_nfcid1 (nci_sm_set_li_a_hb y w) = sm_default_la_nfcid1 w" "sm_la_nfcid1 (nci_sm_set_li_a_hb y w) = sm_la_nfcid1 w"
  "sm_default_li_a_hb (nci_sm_set_li_a_hb y w) = sm_default_li_a_hb w" "sm_llc_wks (nci_sm_set_li_a_hb y w) = sm_llc_wks w"
  "sm_techs (nci_sm_set_li_a_hb y w) = sm_techs w"
  by (simp_all add: nci_sm_set_la_nfcid1_def nci_sm_set_li_a_hb_def Let_def split: option.split)

lemma params_set: "params_wf w \<Longrightarrow> core_param_typed x \<Longrightarrow> params_wf (core_param_set x w)"
  by (cases x) (simp_all add: core_param_set_def params_wf_def core_param_typed_def set_param_others set_la_nfcid1_wf
      set_li_a_hb_wf even_or_iff)

lemma params_reset: "params_wf w \<Longrightarrow> params_wf (core_param_reset k w)"
  by (cases k) (simp_all add: core_param_reset_def core_param_set_def params_wf_def set_param_others set_la_nfcid1_wf
      set_li_a_hb_wf even_or_iff)

section \<open>The configuration file\<close>

lemma masked_or: "(a :: 'a::len word) AND m = a \<Longrightarrow> b AND m = b \<Longrightarrow> (a OR b) AND m = a OR b"
  by (simp add: bit.conj_disj_distrib2)

lemma tech_option_masked: "tech_option lib s AND NCI_TECH_ALL = tech_option lib s"
proof (cases "filter (\<lambda>opt. cfg_same lib s (fst opt)) nci_tech_options")
  case (Cons opt opts)
  have "\<forall>opt \<in> set nci_tech_options. snd opt AND NCI_TECH_ALL = snd opt" by (simp add: nci_tech_options_def)
  moreover have "opt \<in> set nci_tech_options" using Cons by (metis filter_eq_ConsD in_set_conv_decomp)
  ultimately show ?thesis using Cons by (simp add: tech_option_def)
qed (simp add: tech_option_def)

lemma techs_masked:
  "t AND NCI_TECH_ALL = t \<Longrightarrow>
   fold (\<lambda>val techs. techs OR tech_option lib (f val)) ss t AND NCI_TECH_ALL = fold (\<lambda>val techs. techs OR tech_option lib (f val)) ss t"
  by (induction ss arbitrary: t) (simp_all add: masked_or tech_option_masked)

lemma config_la_nfcid1_wf:
  assumes "hex2bin_ok lib" and "wf_nfcid1 (sm_la_nfcid1 w)" and "wf_nfcid1 (sm_default_la_nfcid1 w)"
  shows "wf_nfcid1 (sm_la_nfcid1 (config_la_nfcid1 lib w)) \<and> wf_nfcid1 (sm_default_la_nfcid1 (config_la_nfcid1 lib w))"
proof (cases "cfg_string lib ''LA_NFCID1''")
  case (Some sval0)
  let ?s = "cfg_strip lib sval0"
  show ?thesis
  proof (cases "length ?s = 8 \<or> length ?s = 14 \<or> length ?s = 20")
    case len: True
    show ?thesis
    proof (cases "cfg_hex2bin lib ?s")
      case bytes: (Some bytes)
      then have "length bytes = 4 \<or> length bytes = 7 \<or> length bytes = 10" "length ?s = 2 * length bytes"
        using len assms(1) by (auto simp: hex2bin_ok_def)
      moreover have "?s \<noteq> []" using len by auto
      ultimately show ?thesis using Some len bytes assms(3)
        by (elim disjE) (simp_all add: config_la_nfcid1_def Let_def wf_nfcid1_def)
    qed (use Some len assms in \<open>auto simp: config_la_nfcid1_def Let_def\<close>)
  qed (use Some assms in \<open>simp add: config_la_nfcid1_def Let_def\<close>)
qed (use assms in \<open>simp add: config_la_nfcid1_def\<close>)

lemma config_li_a_hb_wf:
  assumes "hex2bin_ok lib" and "wf_hb (sm_default_li_a_hb w)"
  shows "wf_hb (sm_default_li_a_hb (config_li_a_hb lib w))"
proof -
  have "unat (of_nat (length bytes) :: byte) = length bytes" if "length bytes \<le> 15" for bytes :: "byte list"
    using that by (intro unat_of_nat_byte) simp
  then have "wf_hb \<lparr>hb_len = of_nat (length s div 2), hb_bytes = xs\<rparr>"
    if "cfg_hex2bin lib s = Some bytes" "length s \<le> 30" "length xs = 15" for s bytes xs
    using that assms(1) by (auto simp: wf_hb_def hex2bin_ok_def)
  moreover have "length s = 2 * length bytes" if "cfg_hex2bin lib s = Some bytes" for s bytes
    using that assms(1) by (auto simp: hex2bin_ok_def)
  ultimately show ?thesis using assms(2) by (auto simp: config_li_a_hb_def Let_def wf_hb_def split: option.split)
qed

lemma config_others:
  "sm_la_nfcid1 (config_techs lib w) = sm_la_nfcid1 w" "sm_default_la_nfcid1 (config_techs lib w) = sm_default_la_nfcid1 w"
  "sm_li_a_hb (config_techs lib w) = sm_li_a_hb w" "sm_default_li_a_hb (config_techs lib w) = sm_default_li_a_hb w"
  "sm_li_a_hb (config_la_nfcid1 lib w) = sm_li_a_hb w" "sm_default_li_a_hb (config_la_nfcid1 lib w) = sm_default_li_a_hb w"
  "sm_techs (config_la_nfcid1 lib w) = sm_techs w" "sm_techs (config_li_a_hb lib w) = sm_techs w"
  "sm_la_nfcid1 (config_li_a_hb lib w) = sm_la_nfcid1 w" "sm_default_la_nfcid1 (config_li_a_hb lib w) = sm_default_la_nfcid1 w"
  "sm_li_a_hb (config_li_a_hb lib w) = sm_li_a_hb w"
  by (simp_all add: config_techs_def config_la_nfcid1_def config_li_a_hb_def Let_def split: option.split)

lemma config_techs_masked: "sm_techs w AND NCI_TECH_ALL = sm_techs w \<Longrightarrow> sm_techs (config_techs lib w) AND NCI_TECH_ALL = sm_techs (config_techs lib w)"
  by (auto simp: config_techs_def Let_def NCI_TECH_DEFAULT_def techs_masked split: option.split)

text \<open>\<open>nci_core_new\<close> resets the parameters after the configuration file was read.\<close>

lemma new_params:
  assumes "wf_nfcid1 (sm_la_nfcid1 (config nci_sm_object_init))" and "wf_nfcid1 (sm_default_la_nfcid1 (config nci_sm_object_init))"
    and "wf_hb (sm_li_a_hb (config nci_sm_object_init))" and "wf_hb (sm_default_li_a_hb (config nci_sm_object_init))"
    and "sm_techs (config nci_sm_object_init) AND NCI_TECH_ALL = sm_techs (config nci_sm_object_init)"
  shows "params_wf (nci_core_new config)"
proof -
  define w where "w = config nci_sm_object_init"
  have "params_wf (core_param_reset NCI_CORE_PARAM_LLC_WKS (core_param_reset NCI_CORE_PARAM_LLC_VERSION w))"
    using assms by (simp add: params_wf_def core_param_reset_def core_param_set_def w_def)
  then have "params_wf (fold core_param_reset param_keys w)" by (simp add: param_keys_def params_reset)
  moreover have "params_wf (w\<lparr>core_current_state := a, core_next_state := b\<rparr>) = params_wf w" for a b w
    by (simp add: params_wf_def)
  ultimately show ?thesis by (simp add: nci_core_new_def Let_def w_def)
qed

lemma params_new:
  "params_wf (nci_core_new (\<lambda>w. w))" "hex2bin_ok lib \<Longrightarrow> params_wf (nci_core_new (nci_sm_parse_config lib))"
proof -
  have init: "sm_default_la_nfcid1 nci_sm_object_init = zero_nfcid1" "sm_default_li_a_hb nci_sm_object_init = zero_hb"
    by (simp_all add: nci_sm_object_init_def nci_world.defs nci_sar_new_def)
  show "params_wf (nci_core_new (\<lambda>w. w))" by (rule new_params) (simp_all add: init)
  show "params_wf (nci_core_new (nci_sm_parse_config lib))" if "hex2bin_ok lib"
    using that by (intro new_params)
      (simp_all add: nci_sm_parse_config_def config_others config_la_nfcid1_wf config_li_a_hb_wf config_techs_masked init)
qed

section \<open>Every entry into the library\<close>

locale param_app =
  fixes env :: nci_env
  assumes app_params: "params_wf w \<Longrightarrow> params_wf (env_app env e w)"

sublocale param_app \<subseteq> param_free: client_invariant "free_client env" params_wf
  by unfold_locales (rule params_more, assumption |
    simp add: free_client_def run_destroy_def nci_core_send_data_msg_destroy_def app_params split: sar_destroy.split option.split)+

context param_app begin

lemma params_fields:
  "params_wf (w\<lparr>core_cmd_id := a1\<rparr>) = params_wf w" "params_wf (w\<lparr>core_cmd_timeout_id := a2\<rparr>) = params_wf w"
  "params_wf (w\<lparr>core_rsp_gid := a3\<rparr>) = params_wf w" "params_wf (w\<lparr>core_rsp_oid := a4\<rparr>) = params_wf w"
  "params_wf (w\<lparr>core_rsp_handler := a5\<rparr>) = params_wf w" "params_wf (w\<lparr>sm_op_mode := a6\<rparr>) = params_wf w"
  by (simp_all add: params_wf_def)

lemma cancel_command_params: "params_wf w \<Longrightarrow> params_wf (nci_core_cancel_command env w)"
  by (simp add: nci_core_cancel_command_def Let_def params_fields param_free.cancel)

lemma send_params:
  assumes "params_wf w" shows "params_wf (snd (nci_sm_send_command env gid oid p h w))"
proof -
  let ?w = "(nci_core_cancel_command env w)\<lparr>core_rsp_gid := gid, core_rsp_oid := oid, core_rsp_handler := Some h\<rparr>"
  obtain pid w' where send: "nci_sar_send_command gid oid p (Some Core_command_completion) None ?w = (pid, w')" by force
  have "params_wf w'"
    using param_free.sending(2) [of gid oid p "Some Core_command_completion" None ?w] assms send
    by (simp add: cancel_command_params params_fields)
  then show ?thesis by (simp add: nci_sm_send_command_def nci_core_io_send_def Let_def send params_fields)
qed

end

sublocale param_app \<subseteq> param_handlers: handler_invariant env params_wf
  by unfold_locales
    (rule params_frame, assumption |
     simp add: app_params send_params nci_core_io_cancel_def cancel_command_params params_fields param_free.max_conns
      param_free.basic |
     simp add: params_wf_def)+

sublocale param_app \<subseteq> param_client: client_invariant "core_client env" params_wf
  by unfold_locales (rule params_more, assumption | rule param_handlers.callbacks_keep, assumption)+

sublocale param_app \<subseteq> param_library: library_invariant env params_wf
proof unfold_locales
  show "params_wf (nci_core_restart_internal env w)" if "params_wf w" for w
    unfolding nci_core_restart_internal_def
    by (intro param_handlers.sm_reset_keep param_client.reset cancel_command_params that)
qed (simp_all add: param_client.start_write param_client.written param_client.client_read param_client.client_error
    param_client.cancel params_fields params_set params_reset params_new)

section \<open>An application that calls the library from its handlers\<close>

text \<open>
  What a real application does: when the machine has become idle it asks for discovery, after
  an error it restarts, when a parameter changes it enables all technologies, each from
  inside the handler of the signal. The signals of those calls are handled the same way, one
  level below, as deep as \<open>n\<close>.
\<close>

definition calling_app :: "nci_env \<Rightarrow> app_event \<Rightarrow> nci_world \<Rightarrow> nci_world" where
  "calling_app env e w =
     (case e of
        SigCurrentState \<Rightarrow>
          if core_current_state w = NCI_RFST_IDLE then nci_core_set_state env NCI_RFST_DISCOVERY w
          else if core_current_state w = NCI_STATE_ERROR then nci_core_restart env w
          else w
      | SigParamChanged key \<Rightarrow> snd (nci_core_set_tech env NCI_TECH_ALL w)
      | _ \<Rightarrow> echo_app e w)"

fun nested_env :: "nat \<Rightarrow> nci_env" where
  "nested_env 0 = echo_env"
| "nested_env (Suc n) = echo_env\<lparr>env_app := calling_app (nested_env n)\<rparr>"

text \<open>A property that is a \<open>library_invariant\<close> one level below is kept by the handlers above.\<close>

context library_invariant begin

lemma calling_keep:
  assumes "\<And>e w. P w \<Longrightarrow> P (echo_app e w)" and "P w" shows "P (calling_app env e w)"
  using assms step_keep [OF core_step.set_state] step_keep [OF core_step.restart] step_keep [OF core_step.set_tech]
  by (auto simp: calling_app_def split: app_event.split)

end

lemma echo_ok: "sar_ok w \<Longrightarrow> sar_ok (echo_app e w)"
  using echo.app_ok by (simp add: echo_env_def)

context sar_app begin

lemma calling_ok: "sar_ok w \<Longrightarrow> sar_ok (calling_app env e w)"
  by (rule library.calling_keep [OF echo_ok])

end

lemma nested_sar: "sar_app (nested_env n)"
proof (induction n)
  case (Suc n)
  show ?case by unfold_locales (simp_all add: sar_app.calling_ok [OF Suc.IH], simp add: calling_app_def echo_app_def)
qed (simp add: echo.sar_app_axioms)

lemma echo_params: "params_wf w \<Longrightarrow> params_wf (echo_app e w)"
  using params_more [OF send_more] by (simp add: echo_app_def split: app_event.split)

context param_app begin

lemma reachable_params: "core_reachable env w \<Longrightarrow> params_wf w"
  by (rule param_library.reachable_keep)

lemma calling_params: "params_wf w \<Longrightarrow> params_wf (calling_app env e w)"
  by (rule param_library.calling_keep [OF echo_params])

end

lemma nested_params: "param_app (nested_env n)"
proof (induction n)
  case (Suc n)
  show ?case by unfold_locales (simp add: param_app.calling_params [OF Suc.IH])
qed (unfold_locales, simp add: echo_env_def echo_params)

interpretation nested: sar_app "nested_env n" for n by (rule nested_sar)

interpretation nested_params: param_app "nested_env n" for n by (rule nested_params)

section \<open>The property\<close>

text \<open>
  C15. In every reachable state the parameters are within their types, whatever the configuration
  file and the application have set: the NFCID1 has 0, 4, 7 or 10 bytes in its array of 10,
  the historical bytes are at most 15, the Well-Known Services list has its lowest bit, no
  unknown technology is enabled. The application may call the library in its handlers.
\<close>

theorem core_params_wf:
  assumes "\<And>e w. params_wf w \<Longrightarrow> params_wf (env_app env e w)" and "core_reachable env w"
  shows "params_wf w"
  by (rule param_app.reachable_params [OF param_app.intro assms(2)]) (rule assms(1))

lemma core_params_wf_witness:
  "params_wf (nci_core_set_params (nested_env 2)
     (Some [ParamLaNfcid1 \<lparr>nfcid1_len = 4, nfcid1_bytes = [1, 2, 3, 4, 5, 6, 7, 8, 9, 10]\<rparr>, ParamLLCWks 0x10]) False
     (nci_core_new (nci_sm_parse_config hb_config)))"
proof (rule core_params_wf [of "nested_env 2"])
  show "core_reachable (nested_env 2) (nci_core_set_params (nested_env 2)
     (Some [ParamLaNfcid1 \<lparr>nfcid1_len = 4, nfcid1_bytes = [1, 2, 3, 4, 5, 6, 7, 8, 9, 10]\<rparr>, ParamLLCWks 0x10]) False
     (nci_core_new (nci_sm_parse_config hb_config)))"
    by (rule core_reachable.step [OF core_reachable.configured core_step.set_params])
      (simp_all add: core_param_typed_def hb_config_def hex2bin_ok_def hex_bytes_length)
qed (rule nested_params.app_params)

end
