(* ===== verification/Nci_Objects.thy ===== *)
theory Nci_Objects
  imports Nci_World
begin

text \<open>
  The objects behind the state machine: states and transitions on a heap, with the reference
  counts, weak references and timers of \<open>src/nci_state.c\<close>, \<open>src/nci_transition.c\<close> and
  \<open>src/nci_sm.c\<close>, from \<open>nci_sm_new\<close> to \<open>nci_sm_free\<close>. An access to an object that has been
  freed sets \<open>g_fault\<close>. What the methods do besides is in the theories of the library's state.

  GObject as documented: an object starts with one reference; giving up the last one first
  calls the weak references, then the finalizer. An object leaves the heap before its
  finalizer runs on its contents, so that any other access meanwhile is a fault too.
\<close>

section \<open>The heap\<close>

type_synonym addr = nat

text \<open>\<open>NciState\<close>; \<open>ob_sm\<close> is whether the weak pointer \<open>priv->sm\<close> is still set.\<close>

record state_obj =
  ob_state :: NCI_STATE
  ob_refs :: nat
  ob_sm :: bool
  ob_table :: "(NCI_STATE \<times> addr) list"

text \<open>\<open>NciTransition\<close>; \<open>tb_weak\<close> are the states to be told of its end (\<open>nci_state_transition_gone\<close>).\<close>

record transition_obj =
  tb_class :: nci_transition
  tb_refs :: nat
  tb_dest :: addr
  tb_sm :: bool
  tb_weak :: "addr list"

text \<open>\<open>g_weak\<close>: the weak references to the state machine, from \<open>priv->sm\<close> of a state or a transition.\<close>

record gheap =
  g_states :: "addr \<Rightarrow> state_obj option"
  g_transitions :: "addr \<Rightarrow> transition_obj option"
  g_weak :: "(addr + addr) list"
  g_timer :: "addr \<Rightarrow> bool"
  g_next :: addr
  g_fault :: bool

definition upd_state :: "addr \<Rightarrow> (state_obj \<Rightarrow> state_obj) \<Rightarrow> 'a gheap_scheme \<Rightarrow> 'a gheap_scheme" where
  "upd_state a f h =
     (case g_states h a of
        Some so \<Rightarrow> h\<lparr>g_states := (g_states h)(a := Some (f so))\<rparr>
      | None \<Rightarrow> h\<lparr>g_fault := True\<rparr>)"

definition upd_transition :: "addr \<Rightarrow> (transition_obj \<Rightarrow> transition_obj) \<Rightarrow> 'a gheap_scheme \<Rightarrow> 'a gheap_scheme" where
  "upd_transition t f h =
     (case g_transitions h t of
        Some to \<Rightarrow> h\<lparr>g_transitions := (g_transitions h)(t := Some (f to))\<rparr>
      | None \<Rightarrow> h\<lparr>g_fault := True\<rparr>)"

text \<open>\<open>nci_sm_add_weak_pointer(&priv->sm)\<close>, the machine being alive.\<close>

definition nci_sm_add_weak_pointer :: "addr + addr \<Rightarrow> 'a gheap_scheme \<Rightarrow> 'a gheap_scheme" where
  [simp]: "nci_sm_add_weak_pointer p h = h\<lparr>g_weak := p # g_weak h\<rparr>"

text \<open>\<open>nci_sm_remove_weak_pointer(&priv->sm)\<close>: nothing to do once the pointer has been cleared.\<close>

definition nci_sm_remove_weak_pointer :: "addr + addr \<Rightarrow> bool \<Rightarrow> 'a gheap_scheme \<Rightarrow> 'a gheap_scheme" where
  "nci_sm_remove_weak_pointer p is_set h = (if is_set then h\<lparr>g_weak := remove1 p (g_weak h)\<rparr> else h)"

section \<open>States\<close>

definition nci_state_ref :: "addr \<Rightarrow> 'a gheap_scheme \<Rightarrow> 'a gheap_scheme" where
  "nci_state_ref a = upd_state a (\<lambda>so. so\<lparr>ob_refs := ob_refs so + 1\<rparr>)"

definition nci_state_finalize :: "addr \<Rightarrow> state_obj \<Rightarrow> 'a gheap_scheme \<Rightarrow> 'a gheap_scheme" where
  "nci_state_finalize a so h =
     fold (\<lambda>(d, t). upd_transition t (\<lambda>to. to\<lparr>tb_weak := remove1 a (tb_weak to)\<rparr>)) (ob_table so)
       (nci_sm_remove_weak_pointer (Inl a) (ob_sm so) h)"

definition nci_state_unref :: "addr \<Rightarrow> 'a gheap_scheme \<Rightarrow> 'a gheap_scheme" where
  "nci_state_unref a h =
     (case g_states h a of
        None \<Rightarrow> h\<lparr>g_fault := True\<rparr>
      | Some so \<Rightarrow>
          if ob_refs so > 1 then upd_state a (\<lambda>so. so\<lparr>ob_refs := ob_refs so - 1\<rparr>) h
          else nci_state_finalize a so (h\<lparr>g_states := (g_states h)(a := None)\<rparr>))"

text \<open>The first entry of the table with the dead transition is removed.\<close>

fun remove_value :: "'v \<Rightarrow> ('k \<times> 'v) list \<Rightarrow> ('k \<times> 'v) list" where
  "remove_value v [] = []"
| "remove_value v (e # es) = (if snd e = v then es else e # remove_value v es)"

definition nci_state_transition_gone :: "addr \<Rightarrow> addr \<Rightarrow> 'a gheap_scheme \<Rightarrow> 'a gheap_scheme" where
  "nci_state_transition_gone t a = upd_state a (\<lambda>so. so\<lparr>ob_table := remove_value t (ob_table so)\<rparr>)"

text \<open>\<open>g_object_new\<close> and \<open>nci_state_init_base\<close>.\<close>

definition nci_state_new :: "NCI_STATE \<Rightarrow> 'a gheap_scheme \<Rightarrow> addr \<times> 'a gheap_scheme" where
  "nci_state_new s h =
     (let a = g_next h in
      (a, nci_sm_add_weak_pointer (Inl a)
            (h\<lparr>g_next := a + 1, g_states := (g_states h)(a := Some \<lparr>ob_state = s, ob_refs = 1, ob_sm = True, ob_table = []\<rparr>)\<rparr>)))"

definition nci_state_init_new :: "'a gheap_scheme \<Rightarrow> addr \<times> 'a gheap_scheme" where
  "nci_state_init_new = nci_state_new NCI_STATE_INIT"

definition nci_state_error_new :: "'a gheap_scheme \<Rightarrow> addr \<times> 'a gheap_scheme" where
  "nci_state_error_new = nci_state_new NCI_STATE_ERROR"

definition nci_state_stop_new :: "'a gheap_scheme \<Rightarrow> addr \<times> 'a gheap_scheme" where
  "nci_state_stop_new = nci_state_new NCI_STATE_STOP"

definition nci_state_idle_new :: "'a gheap_scheme \<Rightarrow> addr \<times> 'a gheap_scheme" where
  "nci_state_idle_new = nci_state_new NCI_RFST_IDLE"

definition nci_state_discovery_new :: "'a gheap_scheme \<Rightarrow> addr \<times> 'a gheap_scheme" where
  "nci_state_discovery_new = nci_state_new NCI_RFST_DISCOVERY"

definition nci_state_listen_active_new :: "'a gheap_scheme \<Rightarrow> addr \<times> 'a gheap_scheme" where
  "nci_state_listen_active_new = nci_state_new NCI_RFST_LISTEN_ACTIVE"

definition nci_state_listen_sleep_new :: "'a gheap_scheme \<Rightarrow> addr \<times> 'a gheap_scheme" where
  "nci_state_listen_sleep_new = nci_state_new NCI_RFST_LISTEN_SLEEP"

definition nci_state_poll_active_new :: "'a gheap_scheme \<Rightarrow> addr \<times> 'a gheap_scheme" where
  "nci_state_poll_active_new = nci_state_new NCI_RFST_POLL_ACTIVE"

definition nci_state_w4_all_discoveries_new :: "'a gheap_scheme \<Rightarrow> addr \<times> 'a gheap_scheme" where
  "nci_state_w4_all_discoveries_new = nci_state_new NCI_RFST_W4_ALL_DISCOVERIES"

definition nci_state_w4_host_select_new :: "'a gheap_scheme \<Rightarrow> addr \<times> 'a gheap_scheme" where
  "nci_state_w4_host_select_new = nci_state_new NCI_RFST_W4_HOST_SELECT"

text \<open>The table is keyed by the state the transition leads to; an entry with that key is replaced.\<close>

definition nci_state_add_transition :: "addr \<Rightarrow> addr \<Rightarrow> 'a gheap_scheme \<Rightarrow> 'a gheap_scheme" where
  "nci_state_add_transition a t h =
     (case g_transitions h t of
        None \<Rightarrow> h\<lparr>g_fault := True\<rparr>
      | Some to \<Rightarrow>
          (case g_states h (tb_dest to) of
             None \<Rightarrow> h\<lparr>g_fault := True\<rparr>
           | Some dest \<Rightarrow>
               upd_transition t (\<lambda>to. to\<lparr>tb_weak := a # tb_weak to\<rparr>)
                 (upd_state a (\<lambda>so. so\<lparr>ob_table := (ob_state dest, t) # filter (\<lambda>e. fst e \<noteq> ob_state dest) (ob_table so)\<rparr>) h)))"

definition obj_state_get_transition :: "'a gheap_scheme \<Rightarrow> addr \<Rightarrow> NCI_STATE \<Rightarrow> addr option" where
  "obj_state_get_transition h a dest = (case g_states h a of Some so \<Rightarrow> map_of (ob_table so) dest | None \<Rightarrow> None)"

section \<open>Transitions\<close>

definition nci_transition_ref :: "addr \<Rightarrow> 'a gheap_scheme \<Rightarrow> 'a gheap_scheme" where
  "nci_transition_ref t = upd_transition t (\<lambda>to. to\<lparr>tb_refs := tb_refs to + 1\<rparr>)"

definition nci_transition_finalize :: "addr \<Rightarrow> transition_obj \<Rightarrow> 'a gheap_scheme \<Rightarrow> 'a gheap_scheme" where
  "nci_transition_finalize t to h =
     nci_sm_remove_weak_pointer (Inr t) (tb_sm to)
       (nci_state_unref (tb_dest to) (h\<lparr>g_timer := (g_timer h)(t := False)\<rparr>))"

definition nci_transition_unref :: "addr \<Rightarrow> 'a gheap_scheme \<Rightarrow> 'a gheap_scheme" where
  "nci_transition_unref t h =
     (case g_transitions h t of
        None \<Rightarrow> h\<lparr>g_fault := True\<rparr>
      | Some to \<Rightarrow>
          if tb_refs to > 1 then upd_transition t (\<lambda>to. to\<lparr>tb_refs := tb_refs to - 1\<rparr>) h
          else let h1 = fold (nci_state_transition_gone t) (tb_weak to) h
               in nci_transition_finalize t to (h1\<lparr>g_transitions := (g_transitions h1)(t := None)\<rparr>))"

text \<open>\<open>nci_transition_default_start\<close> and \<open>nci_transition_default_finished\<close>; \<open>timed\<close> is whether
  \<open>io->timeout\<close> gives a timeout. All transitions do both, and send a command besides.\<close>

definition obj_transition_start :: "bool \<Rightarrow> addr \<Rightarrow> 'a gheap_scheme \<Rightarrow> bool \<times> 'a gheap_scheme" where
  "obj_transition_start timed t h =
     (case g_transitions h t of
        None \<Rightarrow> (False, h\<lparr>g_fault := True\<rparr>)
      | Some to \<Rightarrow> (tb_sm to, h\<lparr>g_timer := (g_timer h)(t := tb_sm to \<and> timed)\<rparr>))"

definition obj_transition_finished :: "addr \<Rightarrow> 'a gheap_scheme \<Rightarrow> 'a gheap_scheme" where
  "obj_transition_finished t h =
     (case g_transitions h t of
        None \<Rightarrow> h\<lparr>g_fault := True\<rparr>
      | Some to \<Rightarrow> h\<lparr>g_timer := (g_timer h)(t := False)\<rparr>)"

section \<open>The state machine object\<close>

text \<open>
  \<open>NciSmObject\<close> and the two pointers of \<open>NciSm\<close>; \<open>om_active_state\<close>, \<open>om_last_state\<close> and
  \<open>om_next_state\<close> hold no reference.
\<close>

record sm_object = gheap +
  om_states :: "addr option list"
  om_transitions :: "addr list"
  om_reset_transition :: "addr option"
  om_next_transition :: "addr option"
  om_active_transition :: "addr option"
  om_active_state :: "addr option"
  om_last_state :: "addr option"
  om_next_state :: "addr option"
  om_entering_state :: nat
  om_pending_switch :: "addr option"
  om_timed :: bool

definition obj_sm_state_by_id :: "sm_object \<Rightarrow> NCI_STATE \<Rightarrow> addr option" where
  "obj_sm_state_by_id h s = (if state_value s < length (om_states h) then om_states h ! state_value s else None)"

definition nci_sm_get_state :: "sm_object \<Rightarrow> NCI_STATE \<Rightarrow> addr option" where
  "nci_sm_get_state h s = obj_sm_state_by_id h s"

text \<open>\<open>g_object_new\<close> and \<open>nci_transition_init_base\<close>, in every transition's constructor.\<close>

definition nci_transition_new :: "nci_transition \<Rightarrow> NCI_STATE \<Rightarrow> sm_object \<Rightarrow> addr option \<times> sm_object" where
  "nci_transition_new c dest h =
     (case nci_sm_get_state h dest of
        None \<Rightarrow> (None, h)
      | Some d \<Rightarrow>
          let t = g_next h
          in (Some t, nci_sm_add_weak_pointer (Inr t) ((nci_state_ref d h)\<lparr>g_next := t + 1,
               g_transitions := (g_transitions h)(t := Some \<lparr>tb_class = c, tb_refs = 1, tb_dest = d, tb_sm = True, tb_weak = []\<rparr>)\<rparr>)))"

definition nci_transition_reset_new :: "sm_object \<Rightarrow> addr option \<times> sm_object" where
  "nci_transition_reset_new = nci_transition_new TReset NCI_RFST_IDLE"

definition nci_transition_deactivate_to_idle_new :: "sm_object \<Rightarrow> addr option \<times> sm_object" where
  "nci_transition_deactivate_to_idle_new = nci_transition_new TDeactivateToIdle NCI_RFST_IDLE"

definition nci_transition_deactivate_to_discovery_new :: "sm_object \<Rightarrow> addr option \<times> sm_object" where
  "nci_transition_deactivate_to_discovery_new = nci_transition_new TDeactivateToDiscovery NCI_RFST_DISCOVERY"

definition nci_transition_idle_to_discovery_new :: "sm_object \<Rightarrow> addr option \<times> sm_object" where
  "nci_transition_idle_to_discovery_new = nci_transition_new TIdleToDiscovery NCI_RFST_DISCOVERY"

definition nci_transition_poll_active_to_idle_new :: "sm_object \<Rightarrow> addr option \<times> sm_object" where
  "nci_transition_poll_active_to_idle_new = nci_transition_new TPollActiveToIdle NCI_RFST_IDLE"

definition nci_transition_listen_active_to_idle_new :: "sm_object \<Rightarrow> addr option \<times> sm_object" where
  "nci_transition_listen_active_to_idle_new = nci_transition_new TListenActiveToIdle NCI_RFST_IDLE"

definition unref_opt :: "(addr \<Rightarrow> 'h \<Rightarrow> 'h) \<Rightarrow> addr option \<Rightarrow> 'h \<Rightarrow> 'h" where
  "unref_opt f p h = (case p of Some a \<Rightarrow> f a h | None \<Rightarrow> h)"

definition nci_sm_add_state :: "addr \<Rightarrow> sm_object \<Rightarrow> sm_object" where
  "nci_sm_add_state a h =
     (case g_states h a of
        None \<Rightarrow> h\<lparr>g_fault := True\<rparr>
      | Some so \<Rightarrow>
          let i = state_value (ob_state so);
              h1 = (if length (om_states h) \<le> i then h\<lparr>om_states := om_states h @ replicate (i + 1 - length (om_states h)) None\<rparr> else h)
          in if om_states h1 ! i \<noteq> Some a
             then (nci_state_ref a (unref_opt nci_state_unref (om_states h1 ! i) h1))\<lparr>om_states := (om_states h1)[i := Some a]\<rparr>
             else h1)"

definition nci_sm_add_new_state :: "(sm_object \<Rightarrow> addr \<times> sm_object) \<Rightarrow> sm_object \<Rightarrow> addr \<times> sm_object" where
  "nci_sm_add_new_state fn h = (case fn h of (a, h1) \<Rightarrow> (a, nci_state_unref a (nci_sm_add_state a h1)))"

definition nci_sm_add_transition :: "NCI_STATE \<Rightarrow> addr option \<Rightarrow> sm_object \<Rightarrow> sm_object" where
  "nci_sm_add_transition s p h =
     (case p of
        None \<Rightarrow> h
      | Some t \<Rightarrow>
          (case obj_sm_state_by_id h s of
             None \<Rightarrow> h
           | Some src \<Rightarrow> nci_state_add_transition src t ((nci_transition_ref t h)\<lparr>om_transitions := om_transitions h @ [t]\<rparr>)))"

definition nci_sm_add_new_transition :: "NCI_STATE \<Rightarrow> (sm_object \<Rightarrow> addr option \<times> sm_object) \<Rightarrow> sm_object \<Rightarrow> sm_object" where
  "nci_sm_add_new_transition s fn h =
     (case fn h of (p, h1) \<Rightarrow> unref_opt nci_transition_unref p (nci_sm_add_transition s p h1))"

definition obj_sm_object_init :: "bool \<Rightarrow> sm_object" where
  "obj_sm_object_init timed =
     (let h0 = \<lparr>g_states = (\<lambda>_. None), g_transitions = (\<lambda>_. None), g_weak = [], g_timer = (\<lambda>_. False), g_next = 0,
                g_fault = False, om_states = [], om_transitions = [], om_reset_transition = None,
                om_next_transition = None, om_active_transition = None, om_active_state = None, om_last_state = None,
                om_next_state = None, om_entering_state = 0, om_pending_switch = None, om_timed = timed\<rparr>
      in case nci_sm_add_new_state nci_state_init_new h0 of (init, h1) \<Rightarrow>
           let h2 = snd (nci_sm_add_new_state nci_state_error_new
                      (h1\<lparr>om_active_state := Some init, om_last_state := Some init, om_next_state := Some init\<rparr>))
           in snd (nci_sm_add_new_state nci_state_stop_new h2))"

definition nci_sm_new :: "bool \<Rightarrow> sm_object" where
  "nci_sm_new timed =
     (let h1 = fold (\<lambda>fn h. snd (nci_sm_add_new_state fn h))
                 [nci_state_idle_new, nci_state_discovery_new, nci_state_listen_active_new, nci_state_listen_sleep_new,
                  nci_state_poll_active_new, nci_state_w4_all_discoveries_new, nci_state_w4_host_select_new]
                 (obj_sm_object_init timed)
      in case nci_transition_reset_new h1 of (reset, h2) \<Rightarrow>
         case nci_transition_deactivate_to_idle_new (h2\<lparr>om_reset_transition := reset\<rparr>) of (to_idle, h3) \<Rightarrow>
         let h4 = unref_opt nci_transition_unref to_idle
                    (fold (\<lambda>s. nci_sm_add_transition s to_idle)
                       [NCI_RFST_DISCOVERY, NCI_RFST_W4_ALL_DISCOVERIES, NCI_RFST_W4_HOST_SELECT, NCI_RFST_LISTEN_SLEEP] h3)
         in case nci_transition_deactivate_to_discovery_new h4 of (to_discovery, h5) \<Rightarrow>
         let h6 = unref_opt nci_transition_unref to_discovery
                    (fold (\<lambda>s. nci_sm_add_transition s to_discovery) [NCI_RFST_POLL_ACTIVE, NCI_RFST_LISTEN_ACTIVE] h5)
         in nci_sm_add_new_transition NCI_RFST_LISTEN_ACTIVE nci_transition_listen_active_to_idle_new
              (nci_sm_add_new_transition NCI_RFST_POLL_ACTIVE nci_transition_poll_active_to_idle_new
                (nci_sm_add_new_transition NCI_RFST_IDLE nci_transition_idle_to_discovery_new h6)))"

section \<open>Running\<close>

definition touch_state :: "addr \<Rightarrow> 'a gheap_scheme \<Rightarrow> 'a gheap_scheme" where
  "touch_state a = upd_state a (\<lambda>so. so)"

definition obj_finish_active_transition :: "sm_object \<Rightarrow> sm_object" where
  "obj_finish_active_transition h =
     (case om_active_transition h of
        Some t \<Rightarrow> nci_transition_unref t (obj_transition_finished t (h\<lparr>om_active_transition := None\<rparr>))
      | None \<Rightarrow> h)"

definition obj_leave_active_state :: "sm_object \<Rightarrow> sm_object" where
  "obj_leave_active_state h = unref_opt touch_state (om_active_state h) h"

definition obj_start_transition :: "addr \<Rightarrow> sm_object \<Rightarrow> bool \<times> sm_object" where
  "obj_start_transition t h =
     (let h1 = (if om_active_transition h \<noteq> Some t then obj_finish_active_transition h else h)
      in case obj_transition_start (om_timed h1) t ((nci_transition_ref t h1)\<lparr>om_active_transition := Some t\<rparr>) of
           (True, h2) \<Rightarrow> (True, (obj_leave_active_state h2)\<lparr>om_active_state := None\<rparr>)
         | (False, h2) \<Rightarrow>
             (False, if om_active_transition h2 = Some t then (nci_transition_unref t h2)\<lparr>om_active_transition := None\<rparr> else h2))"

definition obj_set_last_state :: "addr \<Rightarrow> sm_object \<Rightarrow> sm_object" where
  "obj_set_last_state a h = (if om_last_state h \<noteq> Some a then h\<lparr>om_last_state := Some a\<rparr> else h)"

definition obj_set_next_state :: "addr \<Rightarrow> sm_object \<Rightarrow> sm_object" where
  "obj_set_next_state a h = (if om_next_state h \<noteq> Some a then h\<lparr>om_next_state := Some a\<rparr> else h)"

text \<open>Entering the state at \<open>a\<close>; \<open>entered\<close> is what its own method does to the machine.\<close>

definition obj_activate :: "(sm_object \<Rightarrow> sm_object) \<Rightarrow> addr \<Rightarrow> sm_object \<Rightarrow> sm_object" where
  "obj_activate entered a h =
     (if om_active_state h = Some a then entered (touch_state a h)
      else entered (touch_state a ((obj_leave_active_state h)\<lparr>om_active_state := Some a\<rparr>)))"

definition obj_start_next :: "addr \<Rightarrow> sm_object \<Rightarrow> sm_object" where
  "obj_start_next a h =
     (let h1 = h\<lparr>om_next_transition := None\<rparr> in
      case om_next_transition h of
        None \<Rightarrow> h1
      | Some t \<Rightarrow>
          (case g_transitions h1 t of
             None \<Rightarrow> h1\<lparr>g_fault := True\<rparr>
           | Some to \<Rightarrow> nci_transition_unref t (if tb_dest to = a then h1 else snd (obj_start_transition t h1))))"

definition obj_enter_state_internal :: "(sm_object \<Rightarrow> sm_object) \<Rightarrow> addr \<Rightarrow> sm_object \<Rightarrow> sm_object" where
  "obj_enter_state_internal entered a h =
     (let h1 = obj_finish_active_transition (h\<lparr>om_entering_state := om_entering_state h + 1\<rparr>);
          h2 = obj_set_last_state a (obj_start_next a (obj_activate entered a h1));
          h3 = (if om_active_transition h2 = None then obj_set_next_state a h2 else h2)
      in h3\<lparr>om_entering_state := om_entering_state h3 - 1\<rparr>)"

definition with_state :: "NCI_STATE \<Rightarrow> (addr \<Rightarrow> sm_object \<Rightarrow> sm_object) \<Rightarrow> sm_object \<Rightarrow> sm_object" where
  "with_state s f h = (case obj_sm_state_by_id h s of Some a \<Rightarrow> f a h | None \<Rightarrow> h)"

definition obj_enter_state :: "NCI_STATE \<Rightarrow> sm_object \<Rightarrow> sm_object" where
  "obj_enter_state s = with_state s (obj_enter_state_internal (\<lambda>h. h))"

definition obj_stall_internal :: "NCI_STALL \<Rightarrow> sm_object \<Rightarrow> sm_object" where
  "obj_stall_internal type h =
     with_state (case type of NCI_STALL_STOP \<Rightarrow> NCI_STATE_STOP | NCI_STALL_ERROR \<Rightarrow> NCI_STATE_ERROR) (\<lambda>a h.
       let h1 = obj_set_next_state a (obj_set_last_state a (obj_finish_active_transition h))
       in if om_active_state h1 \<noteq> Some a
          then touch_state a ((obj_leave_active_state h1)\<lparr>om_active_state := Some a\<rparr>) else h1) h"

text \<open>Looking through a pointer: the number of a state, the destination of a transition.\<close>

definition state_id :: "sm_object \<Rightarrow> addr \<Rightarrow> NCI_STATE" where
  "state_id h a = (case g_states h a of Some so \<Rightarrow> ob_state so | None \<Rightarrow> NCI_STATE_INIT)"

definition set_next_transition :: "addr \<Rightarrow> sm_object \<Rightarrow> sm_object" where
  "set_next_transition t h = nci_transition_ref t (h\<lparr>om_next_transition := Some t\<rparr>)"

definition drop_next_transition :: "sm_object \<Rightarrow> sm_object" where
  "drop_next_transition h = (unref_opt nci_transition_unref (om_next_transition h) h)\<lparr>om_next_transition := None\<rparr>"

definition obj_switch_during :: "addr \<Rightarrow> addr \<Rightarrow> sm_object \<Rightarrow> sm_object" where
  "obj_switch_during t next h =
     (case g_transitions h t of
        None \<Rightarrow> h\<lparr>g_fault := True\<rparr>
      | Some to \<Rightarrow>
          if tb_dest to = next then h
          else (case obj_state_get_transition h (tb_dest to) (state_id h next) of
                  Some t' \<Rightarrow> obj_set_next_state next (set_next_transition t' h)
                | None \<Rightarrow>
                    if NCI_IS_INTERNAL_STATE (state_id h next) then obj_enter_state_internal (\<lambda>h. h) next h
                    else obj_stall_internal NCI_STALL_ERROR h))"

definition obj_switch_from :: "addr \<Rightarrow> sm_object \<Rightarrow> sm_object" where
  "obj_switch_from next h =
     (case (om_last_state h, obj_sm_state_by_id h NCI_RFST_IDLE, om_reset_transition h) of
        (Some cur, Some idle, Some reset) \<Rightarrow>
          (case obj_state_get_transition h cur (state_id h next) of
             Some t \<Rightarrow>
               (case obj_start_transition t h of
                  (True, h1) \<Rightarrow> obj_set_next_state next h1
                | (False, h1) \<Rightarrow> obj_stall_internal NCI_STALL_ERROR h1)
           | None \<Rightarrow>
               if NCI_IS_INTERNAL_STATE (state_id h next) then obj_enter_state_internal (\<lambda>h. h) next h
               else
                 (case obj_start_transition (case obj_state_get_transition h cur NCI_RFST_IDLE of Some t \<Rightarrow> t | None \<Rightarrow> reset) h of
                    (False, h1) \<Rightarrow> obj_stall_internal NCI_STALL_ERROR h1
                  | (True, h1) \<Rightarrow>
                      if state_id h next = NCI_RFST_IDLE then obj_set_next_state idle h1
                      else (case obj_state_get_transition h1 idle (state_id h1 next) of
                              Some t' \<Rightarrow> obj_set_next_state next (set_next_transition t' h1)
                            | None \<Rightarrow> obj_stall_internal NCI_STALL_ERROR h1)))
      | _ \<Rightarrow> h\<lparr>g_fault := True\<rparr>)"

definition obj_switch_internal :: "addr \<Rightarrow> sm_object \<Rightarrow> sm_object" where
  "obj_switch_internal next h =
     (if om_next_state h \<noteq> Some next then
        let h1 = drop_next_transition h
        in case om_active_transition h1 of
             Some t \<Rightarrow> obj_switch_during t next h1
           | None \<Rightarrow> obj_switch_from next h1
      else h)"

text \<open>A switch that is scheduled keeps a reference to its state, until the main loop has run it.\<close>

definition cancel_switch :: "sm_object \<Rightarrow> sm_object" where
  "cancel_switch h = unref_opt nci_state_unref (om_pending_switch h) (h\<lparr>om_pending_switch := None\<rparr>)"

definition obj_switch_to :: "NCI_STATE \<Rightarrow> sm_object \<Rightarrow> sm_object" where
  "obj_switch_to s =
     with_state s (\<lambda>a h.
       let h1 = cancel_switch h in
       if om_entering_state h1 \<noteq> 0 then nci_state_ref a (h1\<lparr>om_pending_switch := Some a\<rparr>) else obj_switch_internal a h1)"

text \<open>
  Entering \<open>RFST_W4_HOST_SELECT\<close> with no endpoint that is supported asks for discovery; it can
  be entered from inside \<open>RFST_W4_ALL_DISCOVERIES\<close>, when the last endpoint comes first.
\<close>

definition obj_enter_host_select :: "bool \<Rightarrow> sm_object \<Rightarrow> sm_object" where
  "obj_enter_host_select supported =
     with_state NCI_RFST_W4_HOST_SELECT
       (obj_enter_state_internal (\<lambda>h. if supported then h else obj_switch_to NCI_RFST_DISCOVERY h))"

definition obj_enter_all_discoveries :: "bool \<Rightarrow> sm_object \<Rightarrow> sm_object" where
  "obj_enter_all_discoveries supported =
     with_state NCI_RFST_W4_ALL_DISCOVERIES (obj_enter_state_internal (obj_enter_host_select supported))"

definition obj_switch_proc :: "sm_object \<Rightarrow> sm_object" where
  "obj_switch_proc h =
     (case om_pending_switch h of
        Some a \<Rightarrow> nci_state_unref a (obj_switch_internal a (h\<lparr>om_pending_switch := None\<rparr>))
      | None \<Rightarrow> h)"

definition obj_reset :: "sm_object \<Rightarrow> sm_object" where
  "obj_reset h =
     (case (obj_sm_state_by_id h NCI_STATE_INIT, obj_sm_state_by_id h NCI_RFST_IDLE) of
        (Some init, Some idle) \<Rightarrow>
          obj_switch_internal idle
            (obj_enter_state_internal (\<lambda>h. h) init (drop_next_transition (cancel_switch h)))
      | _ \<Rightarrow> h\<lparr>g_fault := True\<rparr>)"

text \<open>The end of a transition: its last response has come, or its timer has fired.\<close>

definition obj_transition_finish :: "addr \<Rightarrow> sm_object \<Rightarrow> sm_object" where
  "obj_transition_finish t h =
     (case g_transitions h t of
        None \<Rightarrow> h\<lparr>g_fault := True\<rparr>
      | Some to \<Rightarrow>
          if tb_sm to \<and> om_active_transition h = Some t then
            (case g_states h (tb_dest to) of
               None \<Rightarrow> h\<lparr>g_fault := True\<rparr>
             | Some so \<Rightarrow> obj_enter_state (ob_state so) h)
          else h)"

definition obj_transition_timeout :: "addr \<Rightarrow> sm_object \<Rightarrow> sm_object" where
  "obj_transition_timeout t h =
     (case g_transitions h t of
        None \<Rightarrow> h\<lparr>g_fault := True\<rparr>
      | Some to \<Rightarrow>
          let h1 = h\<lparr>g_timer := (g_timer h)(t := False)\<rparr>
          in if tb_sm to then obj_stall_internal NCI_STALL_ERROR h1 else h1)"

section \<open>The end\<close>

text \<open>The weak references of the machine: every \<open>priv->sm\<close> is cleared.\<close>

definition nci_sm_weak_pointer_notify :: "addr + addr \<Rightarrow> 'a gheap_scheme \<Rightarrow> 'a gheap_scheme" where
  "nci_sm_weak_pointer_notify p =
     (case p of
        Inl a \<Rightarrow> upd_state a (\<lambda>so. so\<lparr>ob_sm := False\<rparr>)
      | Inr t \<Rightarrow> upd_transition t (\<lambda>to. to\<lparr>tb_sm := False\<rparr>))"

definition nci_sm_object_finalize :: "sm_object \<Rightarrow> sm_object" where
  "nci_sm_object_finalize h =
     (let h1 = obj_leave_active_state (obj_finish_active_transition (cancel_switch h));
          h2 = drop_next_transition h1;
          h3 = (fold nci_transition_unref (om_transitions h2) h2)\<lparr>om_transitions := []\<rparr>;
          h4 = (fold (unref_opt nci_state_unref) (om_states h3) h3)\<lparr>om_states := []\<rparr>
      in (unref_opt nci_transition_unref (om_reset_transition h4) h4)\<lparr>om_reset_transition := None\<rparr>)"

text \<open>The core holds the only reference to the machine.\<close>

definition nci_sm_free :: "sm_object \<Rightarrow> sm_object" where
  "nci_sm_free h =
     nci_sm_object_finalize ((fold nci_sm_weak_pointer_notify (g_weak h) h)\<lparr>g_weak := []\<rparr>)"

end
