(* ===== verification/Obj_Invariant.thy ===== *)
theory Obj_Invariant
  imports Nci_Objects "HOL-Library.Multiset"
begin

text \<open>
  The reference counts are right: every object counts its owners, is alive as long as it has
  one, and no weak reference or timer of an object outlives it (\<open>heap_ok\<close>). The owners
  outside the heap are the two multisets \<open>S\<close> (of states) and \<open>T\<close> (of transitions).
\<close>

section \<open>The invariant of the heap\<close>

text \<open>An object but for the tables and weak references that change when another one ends.\<close>

definition sfields :: "'a gheap_scheme \<Rightarrow> addr \<Rightarrow> (nat \<times> bool \<times> NCI_STATE) option" where
  "sfields h a = map_option (\<lambda>so. (ob_refs so, ob_sm so, ob_state so)) (g_states h a)"

definition tfields :: "'a gheap_scheme \<Rightarrow> addr \<Rightarrow> (nat \<times> bool \<times> addr \<times> nci_transition) option" where
  "tfields h t = map_option (\<lambda>to. (tb_refs to, tb_sm to, tb_dest to, tb_class to)) (g_transitions h t)"

definition count_of :: "(nat \<times> 'a) option \<Rightarrow> nat" where
  "count_of x = (case x of Some (r, _) \<Rightarrow> r | None \<Rightarrow> 0)"

definition counted :: "(nat \<times> 'a) option \<Rightarrow> bool" where
  "counted x \<longleftrightarrow> (case x of Some (r, _) \<Rightarrow> 0 < r | None \<Rightarrow> True)"

lemma count_of_simps [simp]: "count_of None = 0" "count_of (Some (r, x)) = r" "counted None" "counted (Some (r, x)) = (0 < r)"
  by (simp_all add: count_of_def counted_def)

definition leading :: "(addr \<Rightarrow> (nat \<times> bool \<times> addr \<times> nci_transition) option) \<Rightarrow> addr \<Rightarrow> addr set" where
  "leading tf a = {t. \<exists>r b c. tf t = Some (r, b, a, c)}"

definition refs_ok ::
    "addr multiset \<Rightarrow> addr multiset \<Rightarrow> (addr \<Rightarrow> (nat \<times> bool \<times> NCI_STATE) option) \<Rightarrow>
     (addr \<Rightarrow> (nat \<times> bool \<times> addr \<times> nci_transition) option) \<Rightarrow> bool" where
  "refs_ok S T sf tf \<longleftrightarrow>
     finite {t. tf t \<noteq> None} \<and>
     (\<forall>a. count_of (sf a) = count S a + card (leading tf a)) \<and> (\<forall>a. counted (sf a)) \<and>
     (\<forall>t. count_of (tf t) = count T t) \<and> (\<forall>t. counted (tf t))"

definition weak_ok ::
    "(addr + addr) list \<Rightarrow> (addr \<Rightarrow> (nat \<times> bool \<times> NCI_STATE) option) \<Rightarrow>
     (addr \<Rightarrow> (nat \<times> bool \<times> addr \<times> nci_transition) option) \<Rightarrow> bool" where
  "weak_ok ws sf tf \<longleftrightarrow>
     distinct ws \<and> (\<forall>a. Inl a \<in> set ws \<longleftrightarrow> (\<exists>r s. sf a = Some (r, True, s))) \<and>
     (\<forall>t. Inr t \<in> set ws \<longleftrightarrow> (\<exists>r d c. tf t = Some (r, True, d, c)))"

text \<open>How often a state has a transition in its table, and the transition the state among its weak references.\<close>

definition in_table :: "'a gheap_scheme \<Rightarrow> addr \<Rightarrow> addr \<Rightarrow> nat" where
  "in_table h a t = (case g_states h a of Some so \<Rightarrow> count_list (map snd (ob_table so)) t | None \<Rightarrow> 0)"

definition in_weak :: "'a gheap_scheme \<Rightarrow> addr \<Rightarrow> addr \<Rightarrow> nat" where
  "in_weak h a t = (case g_transitions h t of Some to \<Rightarrow> count_list (tb_weak to) a | None \<Rightarrow> 0)"

definition heap_ok :: "addr multiset \<Rightarrow> addr multiset \<Rightarrow> 'a gheap_scheme \<Rightarrow> bool" where
  "heap_ok S T h \<longleftrightarrow>
     \<not> g_fault h \<and> refs_ok S T (sfields h) (tfields h) \<and> weak_ok (g_weak h) (sfields h) (tfields h) \<and>
     (\<forall>a t. in_table h a t = in_weak h a t) \<and> (\<forall>t. g_timer h t \<longrightarrow> tfields h t \<noteq> None)"

lemma refs_okD:
  assumes "refs_ok S T sf tf"
  shows "a \<in># S \<Longrightarrow> sf a \<noteq> None" "t \<in># T \<Longrightarrow> tf t \<noteq> None" "tf t = Some (r, b, d, c) \<Longrightarrow> sf d \<noteq> None"
proof -
  note r = assms [unfolded refs_ok_def]
  show "sf a \<noteq> None" if "a \<in># S"
  proof -
    have "0 < count S a" using that by simp
    then have "0 < count_of (sf a)" using r by simp
    then show ?thesis by (cases "sf a") auto
  qed
  show "tf t \<noteq> None" if "t \<in># T"
  proof -
    have "0 < count T t" using that by simp
    then have "0 < count_of (tf t)" using r by metis
    then show ?thesis by (cases "tf t") simp_all
  qed
  show "sf d \<noteq> None" if t: "tf t = Some (r, b, d, c)"
  proof -
    have "finite (leading tf d)" using r by (auto simp: leading_def elim!: rev_finite_subset)
    moreover have "t \<in> leading tf d" using t by (auto simp: leading_def)
    ultimately have "0 < card (leading tf d)" by (auto simp: card_gt_0_iff)
    then have "0 < count_of (sf d)" using r by simp
    then show ?thesis by (cases "sf d") simp_all
  qed
qed

section \<open>Taking references\<close>

lemma leading_refs: "tf t = Some (r, x) \<Longrightarrow> leading (tf(t := Some (r', x))) a = leading tf a"
  by (cases x) (auto simp: leading_def split: if_splits)

lemma refs_ok_state:
  assumes "refs_ok S T sf tf" and "sf a = Some (r, x)" and "r' + count S a = r + count S' a" and "0 < r'"
    and "\<And>b. b \<noteq> a \<Longrightarrow> count S' b = count S b"
  shows "refs_ok S' T (sf(a := Some (r', x))) tf"
  unfolding refs_ok_def
proof (intro conjI allI impI)
  note r = assms(1) [unfolded refs_ok_def]
  show "count_of ((sf(a := Some (r', x))) b) = count S' b + card (leading tf b)" for b
  proof (cases "b = a")
    case True
    have "count_of (sf a) = count S a + card (leading tf a)" using r by blast
    then have "r = count S a + card (leading tf a)" using assms(2) by simp
    then show ?thesis using True assms(3) by simp
  next
    case False
    then show ?thesis using r assms(5) by simp
  qed
qed (use assms(1,4) in \<open>auto simp: refs_ok_def\<close>)

lemma refs_ok_transition:
  assumes "refs_ok S T sf tf" and "tf t = Some (r, x)" and "r' + count T t = r + count T' t" and "0 < r'"
    and "\<And>u. u \<noteq> t \<Longrightarrow> count T' u = count T u"
  shows "refs_ok S T' sf (tf(t := Some (r', x)))"
  unfolding refs_ok_def
proof (intro conjI allI impI)
  note r = assms(1) [unfolded refs_ok_def]
  have "{u. (tf(t := Some (r', x))) u \<noteq> None} = {u. tf u \<noteq> None}" using assms(2) by auto
  then show "finite {u. (tf(t := Some (r', x))) u \<noteq> None}" using r by simp
  show "count_of (sf a) = count S a + card (leading (tf(t := Some (r', x))) a)" for a
    using r by (simp only: leading_refs [of tf t r x r' a, OF assms(2)])
  show "count_of ((tf(t := Some (r', x))) u) = count T' u" for u
  proof (cases "u = t")
    case True
    have "count_of (tf t) = count T t" using r by blast
    then show ?thesis using True assms(2,3) by simp
  next
    case False
    then show ?thesis using r assms(5) by simp
  qed
qed (use assms(1,4) in \<open>auto simp: refs_ok_def\<close>)

lemma weak_ok_refs:
  "weak_ok ws sf tf \<Longrightarrow> sf a = Some (r, x) \<Longrightarrow> weak_ok ws (sf(a := Some (r', x))) tf"
  "weak_ok ws sf tf \<Longrightarrow> tf t = Some (q, y) \<Longrightarrow> weak_ok ws sf (tf(t := Some (q', y)))"
  by (auto simp: weak_ok_def)

text \<open>A change of the count of one object.\<close>

lemma upd_refs:
  "g_states h a = Some so \<Longrightarrow> sfields (upd_state a (\<lambda>so. so\<lparr>ob_refs := f (ob_refs so)\<rparr>) h) =
     (sfields h)(a := Some (f (ob_refs so), ob_sm so, ob_state so))"
  "tfields (upd_state a (\<lambda>so. so\<lparr>ob_refs := f (ob_refs so)\<rparr>) h) = tfields h"
  "g_transitions h t = Some to \<Longrightarrow> tfields (upd_transition t (\<lambda>to. to\<lparr>tb_refs := f (tb_refs to)\<rparr>) h) =
     (tfields h)(t := Some (f (tb_refs to), tb_sm to, tb_dest to, tb_class to))"
  "sfields (upd_transition t (\<lambda>to. to\<lparr>tb_refs := f (tb_refs to)\<rparr>) h) = sfields h"
  by (auto simp: sfields_def tfields_def upd_state_def upd_transition_def fun_eq_iff split: option.split)

lemma upd_refs_rest:
  "g_states h a = Some so \<Longrightarrow> g_fault (upd_state a f h) = g_fault h" "g_weak (upd_state a f h) = g_weak h"
  "g_timer (upd_state a f h) = g_timer h" "g_transitions h t = Some to \<Longrightarrow> g_fault (upd_transition t g h) = g_fault h"
  "g_weak (upd_transition t g h) = g_weak h" "g_timer (upd_transition t g h) = g_timer h"
  "in_table (upd_state a (\<lambda>so. so\<lparr>ob_refs := f1 (ob_refs so)\<rparr>) h) = in_table h" "in_weak (upd_state a f h) = in_weak h"
  "in_weak (upd_transition t (\<lambda>to. to\<lparr>tb_refs := f1 (tb_refs to)\<rparr>) h) = in_weak h" "in_table (upd_transition t g h) = in_table h"
  by (auto simp: upd_state_def upd_transition_def in_table_def in_weak_def fun_eq_iff split: option.split)

lemma state_refs_ok:
  assumes "heap_ok S T h" and "g_states h a = Some so" and "f (ob_refs so) + count S a = ob_refs so + count S' a" and "0 < f (ob_refs so)"
    and "\<And>b. b \<noteq> a \<Longrightarrow> count S' b = count S b"
  shows "heap_ok S' T (upd_state a (\<lambda>so. so\<lparr>ob_refs := f (ob_refs so)\<rparr>) h)"
proof -
  have sf: "sfields h a = Some (ob_refs so, ob_sm so, ob_state so)" using assms(2) by (simp add: sfields_def)
  show ?thesis
    using assms(1) refs_ok_state [of S T "sfields h" "tfields h" a "ob_refs so" _ "f (ob_refs so)" S', OF _ sf assms(3,4)] assms(5) weak_ok_refs(1) [where sf = "sfields h" and tf = "tfields h" and a = a, OF _ sf]
    by (simp add: heap_ok_def upd_refs(1) [OF assms(2)] upd_refs(2) upd_refs_rest(1) [OF assms(2)] upd_refs_rest)
qed

lemma transition_refs_ok:
  assumes "heap_ok S T h" and "g_transitions h t = Some to" and "f (tb_refs to) + count T t = tb_refs to + count T' t" and "0 < f (tb_refs to)"
    and "\<And>u. u \<noteq> t \<Longrightarrow> count T' u = count T u"
  shows "heap_ok S T' (upd_transition t (\<lambda>to. to\<lparr>tb_refs := f (tb_refs to)\<rparr>) h)"
proof -
  have tf: "tfields h t = Some (tb_refs to, tb_sm to, tb_dest to, tb_class to)" using assms(2) by (simp add: tfields_def)
  show ?thesis
    using assms(1) refs_ok_transition [of S T "sfields h" "tfields h" t "tb_refs to" _ "f (tb_refs to)" T', OF _ tf assms(3,4)] assms(5) weak_ok_refs(2) [where sf = "sfields h" and tf = "tfields h" and t = t, OF _ tf]
    by (auto simp: heap_ok_def upd_refs(3) [OF assms(2)] upd_refs(4) upd_refs_rest(4) [OF assms(2)] upd_refs_rest)
qed

lemma state_ref_ok: "heap_ok S T h \<Longrightarrow> g_states h a \<noteq> None \<Longrightarrow> heap_ok (add_mset a S) T (nci_state_ref a h)"
  unfolding nci_state_ref_def using state_refs_ok [of S T h a _ "\<lambda>n. n + 1"] by auto

lemma transition_ref_ok: "heap_ok S T h \<Longrightarrow> g_transitions h t \<noteq> None \<Longrightarrow> heap_ok S (add_mset t T) (nci_transition_ref t h)"
  unfolding nci_transition_ref_def using transition_refs_ok [of S T h t _ "\<lambda>n. n + 1"] by auto

section \<open>The end of an object\<close>

lemma count_list_remove1: "count_list (remove1 x xs) y = count_list xs y - (if x = y then 1 else 0)"
  by (induction xs) (auto simp: not_less_eq_eq count_list_0_iff Suc_le_eq)

lemma count_list_remove_value:
  "count_list (map snd (remove_value v es)) y = count_list (map snd es) y - (if v = y then 1 else 0)"
  by (induction v es rule: remove_value.induct) (auto simp: not_less_eq_eq count_list_0_iff Suc_le_eq)

text \<open>What an update of tables or weak references leaves as it is.\<close>

definition same_refs :: "'a gheap_scheme \<Rightarrow> 'a gheap_scheme \<Rightarrow> bool" where
  "same_refs h h' \<longleftrightarrow>
     sfields h' = sfields h \<and> tfields h' = tfields h \<and> g_fault h' = g_fault h \<and> g_weak h' = g_weak h \<and> g_timer h' = g_timer h"

lemma same_refs_trans: "same_refs h h1 \<Longrightarrow> same_refs h1 h2 \<Longrightarrow> same_refs h h2"
  by (simp add: same_refs_def)

lemma drop_weak:
  assumes "0 < in_weak h a t"
  shows "same_refs h (upd_transition t (\<lambda>to. to\<lparr>tb_weak := remove1 a (tb_weak to)\<rparr>) h)"
    "in_table (upd_transition t (\<lambda>to. to\<lparr>tb_weak := remove1 a (tb_weak to)\<rparr>) h) = in_table h"
    "in_weak (upd_transition t (\<lambda>to. to\<lparr>tb_weak := remove1 a (tb_weak to)\<rparr>) h) b u = in_weak h b u - (if b = a \<and> u = t then 1 else 0)"
  using assms by (auto simp: same_refs_def upd_transition_def in_weak_def in_table_def sfields_def tfields_def fun_eq_iff
      count_list_remove1 split: option.splits)

lemma fold_drop_weak:
  assumes "\<And>t. count_list (map snd es) t \<le> in_weak h a t"
  defines "h' \<equiv> fold (\<lambda>(d, t). upd_transition t (\<lambda>to. to\<lparr>tb_weak := remove1 a (tb_weak to)\<rparr>)) es h"
  shows "same_refs h h' \<and> in_table h' = in_table h \<and>
    (\<forall>b t. in_weak h' b t = in_weak h b t - (if b = a then count_list (map snd es) t else 0))"
  using assms(1) unfolding h'_def
proof (induction es arbitrary: h)
  case Nil
  then show ?case by (simp add: same_refs_def)
next
  case (Cons e es)
  let ?t = "snd e"
  let ?h = "upd_transition ?t (\<lambda>to. to\<lparr>tb_weak := remove1 a (tb_weak to)\<rparr>) h"
  have "0 < in_weak h a ?t" using Cons.prems [of ?t] by simp
  note d = drop_weak [OF this]
  have "count_list (map snd es) t \<le> in_weak ?h a t" for t using Cons.prems [of t] by (auto simp: d(3))
  note ih = Cons.IH [OF this]
  have "in_weak ?h b t - (if b = a then count_list (map snd es) t else 0) =
      in_weak h b t - (if b = a then count_list (map snd (e # es)) t else 0)" for b t
    using Cons.prems [of t] by (auto simp: d(3))
  then show ?case using ih d(1,2) same_refs_trans [OF d(1)] by (simp add: case_prod_beta)
qed

lemma drop_entry:
  assumes "0 < in_table h a t"
  shows "same_refs h (nci_state_transition_gone t a h)" "in_weak (nci_state_transition_gone t a h) = in_weak h"
    "in_table (nci_state_transition_gone t a h) b u = in_table h b u - (if b = a \<and> u = t then 1 else 0)"
  using assms by (auto simp: nci_state_transition_gone_def same_refs_def upd_state_def in_weak_def in_table_def sfields_def
      tfields_def fun_eq_iff count_list_remove_value split: option.splits)

lemma fold_drop_entry:
  assumes "\<And>a. count_list ws a \<le> in_table h a t"
  defines "h' \<equiv> fold (nci_state_transition_gone t) ws h"
  shows "same_refs h h' \<and> in_weak h' = in_weak h \<and>
    (\<forall>a u. in_table h' a u = in_table h a u - (if u = t then count_list ws a else 0))"
  using assms(1) unfolding h'_def
proof (induction ws arbitrary: h)
  case Nil
  then show ?case by (simp add: same_refs_def)
next
  case (Cons w ws)
  let ?h = "nci_state_transition_gone t w h"
  have "0 < in_table h w t" using Cons.prems [of w] by simp
  note d = drop_entry [OF this]
  have "count_list ws a \<le> in_table ?h a t" for a using Cons.prems [of a] by (auto simp: d(3))
  note ih = Cons.IH [OF this]
  have "in_table ?h a u - (if u = t then count_list ws a else 0) =
      in_table h a u - (if u = t then count_list (w # ws) a else 0)" for a u
    using Cons.prems [of a] by (auto simp: d(3))
  then show ?case using ih d(1,2) same_refs_trans [OF d(1)] by simp
qed

lemma remove_refs:
  assumes "refs_ok (add_mset a S) T sf tf" and "count_of (sf a) \<le> 1"
  shows "refs_ok S T (sf(a := None)) tf"
proof -
  note r = assms(1) [unfolded refs_ok_def]
  have "count_of (sf a) = count (add_mset a S) a + card (leading tf a)" using r by blast
  then have "count S a = 0" "card (leading tf a) = 0" using assms(2) by simp_all
  moreover have "count_of (sf b) = count S b + card (leading tf b)" if "b \<noteq> a" for b using r that by simp
  ultimately show ?thesis using r by (auto simp: refs_ok_def)
qed

lemma heap_ok_same:
  assumes "same_refs h h'" and "heap_ok S T h" and "\<And>a t. in_table h' a t = in_weak h' a t"
  shows "heap_ok S T h'"
  using assms by (simp add: heap_ok_def same_refs_def)

lemma state_gone_ok:
  assumes "heap_ok (add_mset a S) T h" and "g_states h a = Some so" and "ob_refs so \<le> 1"
  shows "heap_ok S T (nci_state_finalize a so (h\<lparr>g_states := (g_states h)(a := None)\<rparr>))"
proof -
  let ?h = "nci_sm_remove_weak_pointer (Inl a) (ob_sm so) (h\<lparr>g_states := (g_states h)(a := None)\<rparr>)"
  note ok = assms(1) [unfolded heap_ok_def]
  have sf: "sfields h a = Some (ob_refs so, ob_sm so, ob_state so)" using assms(2) by (simp add: sfields_def)
  have h: "sfields ?h = (sfields h)(a := None)" "tfields ?h = tfields h" "g_fault ?h = g_fault h" "g_timer ?h = g_timer h"
    "in_weak ?h = in_weak h" "in_table ?h = (in_table h)(a := (\<lambda>_. 0))"
    "g_weak ?h = (if ob_sm so then remove1 (Inl a) (g_weak h) else g_weak h)"
    by (auto simp: nci_sm_remove_weak_pointer_def sfields_def tfields_def in_weak_def in_table_def fun_eq_iff)
  have table: "count_list (map snd (ob_table so)) t = in_weak ?h a t" for t
    using ok assms(2) by (simp add: h(5)) (metis in_table_def option.simps(5))
  note drop = fold_drop_weak [of "ob_table so" ?h a, unfolded table, OF order.refl]
  have "refs_ok S T (sfields ?h) (tfields ?h)" using ok assms(3) by (simp add: h remove_refs sf)
  moreover have "weak_ok (g_weak ?h) (sfields ?h) (tfields ?h)"
    using ok sf by (auto simp: h weak_ok_def)
  moreover have "in_table ?h b t = in_weak ?h b t - (if b = a then in_weak ?h a t else 0)" for b t
    using ok by (simp add: h)
  ultimately have "heap_ok S T (fold (\<lambda>(d, t). upd_transition t (\<lambda>to. to\<lparr>tb_weak := remove1 a (tb_weak to)\<rparr>)) (ob_table so) ?h)"
    using drop ok by (simp add: heap_ok_def same_refs_def h(2,3,4))
  then show ?thesis by (simp add: nci_state_finalize_def)
qed

lemma state_unref_ok:
  assumes "heap_ok (add_mset a S) T h"
  shows "heap_ok S T (nci_state_unref a h)"
proof -
  have "sfields h a \<noteq> None" using assms refs_okD(1) [of "add_mset a S" T "sfields h" "tfields h" a] by (simp add: heap_ok_def)
  then obtain so where so: "g_states h a = Some so" by (auto simp: sfields_def)
  show ?thesis
  proof (cases "1 < ob_refs so")
    case True
    then show ?thesis
      using state_refs_ok [OF assms so, of "\<lambda>n. n - 1" S] by (simp add: nci_state_unref_def so)
  next
    case False
    then show ?thesis using state_gone_ok [OF assms so] by (simp add: nci_state_unref_def so)
  qed
qed

text \<open>Clearing a weak pointer to the machine can be done before the state is released.\<close>

lemma upd_transition_weak: "upd_transition t f (h\<lparr>g_weak := ws\<rparr>) = (upd_transition t f h)\<lparr>g_weak := ws\<rparr>"
  by (simp add: upd_transition_def split: option.split)

lemma fold_upd_weak:
  "fold (\<lambda>(d, t). upd_transition t (f t)) es (h\<lparr>g_weak := ws\<rparr>) = (fold (\<lambda>(d, t). upd_transition t (f t)) es h)\<lparr>g_weak := ws\<rparr>"
  "g_weak (fold (\<lambda>(d, t). upd_transition t (f t)) es h) = g_weak h"
  by (induction es arbitrary: h) (simp_all add: case_prod_beta upd_transition_weak upd_refs_rest)

lemma remove_weak_commute:
  "nci_sm_remove_weak_pointer p b (nci_state_unref a h) = nci_state_unref a (nci_sm_remove_weak_pointer p b h)"
proof -
  have swap: "h\<lparr>g_weak := ws, g_states := f\<rparr> = h\<lparr>g_states := f, g_weak := ws\<rparr>" for h :: "'a gheap_scheme" and ws f by simp
  show ?thesis
    by (auto simp: nci_sm_remove_weak_pointer_def nci_state_unref_def nci_state_finalize_def upd_state_def swap fold_upd_weak
        remove1_commute split: option.split)
qed

lemma transition_removed_refs:
  assumes "refs_ok S (add_mset t T) sf tf" and "tf t = Some (r, b, d, c)" and "r \<le> 1"
  shows "refs_ok (add_mset d S) T sf (tf(t := None))"
proof -
  note r = assms(1) [unfolded refs_ok_def]
  have fin: "finite (leading tf x)" for x using r by (auto simp: leading_def elim!: rev_finite_subset)
  have "leading (tf(t := None)) x = leading tf x - (if x = d then {t} else {})" for x
    using assms(2) by (auto simp: leading_def)
  moreover have "t \<in> leading tf d" using assms(2) by (auto simp: leading_def)
  ultimately have lead: "card (leading (tf(t := None)) x) + (if x = d then 1 else 0) = card (leading tf x)" for x
    using card_Suc_Diff1 [OF fin] by auto
  have "count_of (tf t) = count (add_mset t T) t" using r by blast
  then have "count T t = 0" using assms(2,3) by simp
  moreover have "count_of (tf u) = count T u" if "u \<noteq> t" for u using r that by simp
  moreover have "count_of (sf x) = count (add_mset d S) x + card (leading (tf(t := None)) x)" for x
    using r lead [of x] by (auto split: if_splits)
  moreover have "finite {u. (tf(t := None)) u \<noteq> None}" using r by (auto elim!: rev_finite_subset)
  ultimately show ?thesis using r unfolding refs_ok_def by auto
qed

lemma transition_gone_ok:
  assumes "heap_ok S (add_mset t T) h" and "g_transitions h t = Some to" and "tb_refs to \<le> 1"
  shows "heap_ok S T (let h1 = fold (nci_state_transition_gone t) (tb_weak to) h
    in nci_transition_finalize t to (h1\<lparr>g_transitions := (g_transitions h1)(t := None)\<rparr>))"
proof -
  note ok = assms(1) [unfolded heap_ok_def]
  have tf: "tfields h t = Some (tb_refs to, tb_sm to, tb_dest to, tb_class to)" using assms(2) by (simp add: tfields_def)
  define h1 where "h1 = fold (nci_state_transition_gone t) (tb_weak to) h"
  have weak: "count_list (tb_weak to) a = in_table h a t" for a
    using ok assms(2) by (metis in_weak_def option.simps(5))
  have drop: "same_refs h h1 \<and> in_weak h1 = in_weak h \<and> (\<forall>a u. in_table h1 a u = in_table h a u - (if u = t then in_table h a t else 0))"
    using fold_drop_entry [of "tb_weak to" h t] by (simp add: weak h1_def)
  let ?h = "nci_sm_remove_weak_pointer (Inr t) (tb_sm to) (h1\<lparr>g_transitions := (g_transitions h1)(t := None), g_timer := (g_timer h1)(t := False)\<rparr>)"
  have h: "sfields ?h = sfields h" "tfields ?h = (tfields h)(t := None)" "g_fault ?h = g_fault h" "g_timer ?h = (g_timer h)(t := False)"
    "in_table ?h = in_table h1" "in_weak ?h a u = (if u = t then 0 else in_weak h a u)"
    "g_weak ?h = (if tb_sm to then remove1 (Inr t) (g_weak h) else g_weak h)" for a u
    using drop by (auto simp: nci_sm_remove_weak_pointer_def same_refs_def sfields_def tfields_def in_weak_def in_table_def fun_eq_iff)
  have "heap_ok (add_mset (tb_dest to) S) T ?h"
    unfolding heap_ok_def
  proof (intro conjI)
    show "refs_ok (add_mset (tb_dest to) S) T (sfields ?h) (tfields ?h)"
      unfolding h using transition_removed_refs [where sf = "sfields h" and tf = "tfields h" and t = t, OF _ tf assms(3)] ok by blast
    show "weak_ok (g_weak ?h) (sfields ?h) (tfields ?h)" using ok tf by (auto simp: h weak_ok_def)
    show "\<forall>a u. in_table ?h a u = in_weak ?h a u" using ok drop by (simp add: h)
  qed (use ok in \<open>auto simp: h\<close>)
  then have "heap_ok S T (nci_state_unref (tb_dest to) ?h)" by (rule state_unref_ok)
  then show ?thesis by (simp add: nci_transition_finalize_def h1_def [symmetric] remove_weak_commute Let_def)
qed

lemma transition_unref_ok:
  assumes "heap_ok S (add_mset t T) h"
  shows "heap_ok S T (nci_transition_unref t h)"
proof -
  have "tfields h t \<noteq> None" using assms refs_okD(2) [of S "add_mset t T" "sfields h" "tfields h" t] by (simp add: heap_ok_def)
  then obtain to where to: "g_transitions h t = Some to" by (auto simp: tfields_def)
  show ?thesis
  proof (cases "1 < tb_refs to")
    case True
    then show ?thesis
      using transition_refs_ok [OF assms to, of "\<lambda>n. n - 1" T] by (simp add: nci_transition_unref_def to)
  next
    case False
    then show ?thesis using transition_gone_ok [OF assms to] by (simp add: nci_transition_unref_def to)
  qed
qed

end
