(* ===== verification/Obj_Machine.thy ===== *)
theory Obj_Machine
  imports Obj_Invariant Sm_Properties
begin

text \<open>
  The state machine on objects does what the one on names does: \<open>good\<close> says that the counts are
  right, that the tables are those of \<open>nci_sm_new\<close> and that the pointers point to the objects
  with the names in a view of the state machine. The operations keep it, the view changing as
  in \<open>Sm_View\<close>.
\<close>

section \<open>Operations on the heap keep the rest\<close>

lemma heap_more [simp]:
  "gheap.more (upd_state a f h) = gheap.more h" "gheap.more (upd_transition t g h) = gheap.more h"
  "gheap.more (nci_state_ref a h) = gheap.more h" "gheap.more (nci_transition_ref t h) = gheap.more h"
  by (simp_all add: upd_state_def upd_transition_def nci_state_ref_def nci_transition_ref_def split: option.split)

lemma fold_more: "(\<And>x h. gheap.more (f x h) = gheap.more h) \<Longrightarrow> gheap.more (fold f xs h) = gheap.more h"
  by (induction xs arbitrary: h) simp_all

lemma unref_more [simp]: "gheap.more (nci_state_unref a h) = gheap.more h" "gheap.more (nci_transition_unref t h) = gheap.more h"
proof -
  have weak: "gheap.more (nci_sm_remove_weak_pointer p b h) = gheap.more h" for p b and h :: "'a gheap_scheme"
    by (simp add: nci_sm_remove_weak_pointer_def)
  have fin: "gheap.more (nci_state_finalize a so h) = gheap.more h" for a so and h :: "'a gheap_scheme"
    unfolding nci_state_finalize_def by (subst fold_more) (auto simp: weak)
  show state: "gheap.more (nci_state_unref a h) = gheap.more h" for a and h :: "'a gheap_scheme"
    by (simp add: nci_state_unref_def fin split: option.split)
  have "gheap.more (fold (nci_state_transition_gone t) ws h) = gheap.more h" for t ws
    by (rule fold_more) (simp add: nci_state_transition_gone_def)
  then show "gheap.more (nci_transition_unref t h) = gheap.more h"
    by (simp add: nci_transition_unref_def nci_transition_finalize_def weak state Let_def split: option.split)
qed

lemma om_more:
  assumes "gheap.more h = gheap.more h'"
  shows "om_states h = om_states h'" "om_transitions h = om_transitions h'" "om_reset_transition h = om_reset_transition h'"
    "om_next_transition h = om_next_transition h'" "om_active_transition h = om_active_transition h'"
    "om_active_state h = om_active_state h'" "om_last_state h = om_last_state h'" "om_next_state h = om_next_state h'"
    "om_entering_state h = om_entering_state h'" "om_pending_switch h = om_pending_switch h'" "om_timed h = om_timed h'"
  using assms by (cases h, cases h', simp add: sm_object.defs)+

lemma heap_ok_fields [simp]:
  fixes h :: sm_object
  shows "heap_ok S T (h\<lparr>om_states := x1\<rparr>) = heap_ok S T h" "heap_ok S T (h\<lparr>om_transitions := x2\<rparr>) = heap_ok S T h"
    "heap_ok S T (h\<lparr>om_reset_transition := x3\<rparr>) = heap_ok S T h" "heap_ok S T (h\<lparr>om_next_transition := x4\<rparr>) = heap_ok S T h"
    "heap_ok S T (h\<lparr>om_active_transition := x5\<rparr>) = heap_ok S T h" "heap_ok S T (h\<lparr>om_active_state := x6\<rparr>) = heap_ok S T h"
    "heap_ok S T (h\<lparr>om_last_state := x7\<rparr>) = heap_ok S T h" "heap_ok S T (h\<lparr>om_next_state := x8\<rparr>) = heap_ok S T h"
    "heap_ok S T (h\<lparr>om_entering_state := x9\<rparr>) = heap_ok S T h" "heap_ok S T (h\<lparr>om_pending_switch := y1\<rparr>) = heap_ok S T h"
  by (simp_all add: heap_ok_def sfields_def [abs_def] tfields_def [abs_def] in_table_def in_weak_def)

section \<open>Who owns what\<close>

definition opt_mset :: "addr option \<Rightarrow> addr multiset" where
  "opt_mset p = (case p of Some a \<Rightarrow> {#a#} | None \<Rightarrow> {#})"

lemma opt_mset_simps [simp]: "opt_mset None = {#}" "opt_mset (Some a) = {#a#}"
  by (simp_all add: opt_mset_def)

definition state_owners :: "sm_object \<Rightarrow> addr multiset" where
  "state_owners h = mset (concat (map (\<lambda>p. case p of Some a \<Rightarrow> [a] | None \<Rightarrow> []) (om_states h))) + opt_mset (om_pending_switch h)"

definition transition_owners :: "sm_object \<Rightarrow> addr multiset" where
  "transition_owners h =
     mset (om_transitions h) + opt_mset (om_reset_transition h) + opt_mset (om_next_transition h) + opt_mset (om_active_transition h)"

definition owned :: "addr multiset \<Rightarrow> addr multiset \<Rightarrow> sm_object \<Rightarrow> bool" where
  "owned S T h \<longleftrightarrow> heap_ok (S + state_owners h) (T + transition_owners h) h"

section \<open>Names\<close>

definition state_at :: "sm_object \<Rightarrow> addr \<Rightarrow> NCI_STATE \<Rightarrow> bool" where
  "state_at h a s \<longleftrightarrow> map_option ob_state (g_states h a) = Some s \<and> obj_sm_state_by_id h s = Some a"

definition transition_at :: "sm_object \<Rightarrow> addr \<Rightarrow> nci_transition \<Rightarrow> bool" where
  "transition_at h t c \<longleftrightarrow>
     (\<exists>d. map_option (\<lambda>to. (tb_class to, tb_sm to, tb_dest to)) (g_transitions h t) = Some (c, True, d) \<and>
       state_at h d (transition_dest c)) \<and>
     (t \<in> set (om_transitions h) \<or> om_reset_transition h = Some t)"

definition machine_ok :: "sm_object \<Rightarrow> bool" where
  "machine_ok h \<longleftrightarrow>
     (\<forall>s. \<exists>a. state_at h a s) \<and>
     (\<forall>a s d. state_at h a s \<longrightarrow> rel_option (transition_at h) (obj_state_get_transition h a d) (nci_state_get_transition s d)) \<and>
     (\<exists>t. om_reset_transition h = Some t \<and> transition_at h t TReset)"

definition named :: "sm_object \<Rightarrow> sm_view \<Rightarrow> bool" where
  "named h v \<longleftrightarrow>
     rel_option (state_at h) (om_last_state h) (Some (v_last v)) \<and> rel_option (state_at h) (om_next_state h) (Some (v_next v)) \<and>
     rel_option (transition_at h) (om_next_transition h) (v_then v) \<and>
     rel_option (transition_at h) (om_active_transition h) (v_going v) \<and>
     rel_option (state_at h) (om_active_state h) (v_active v) \<and>
     (\<forall>a. om_pending_switch h = Some a \<longrightarrow> (\<exists>s. state_at h a s))"

definition good :: "addr multiset \<Rightarrow> addr multiset \<Rightarrow> sm_object \<Rightarrow> sm_view \<Rightarrow> bool" where
  "good S T h v \<longleftrightarrow> owned S T h \<and> machine_ok h \<and> named h v"

text \<open>Two heaps with the same objects but for counts, timers and weak references.\<close>

definition same_objects :: "sm_object \<Rightarrow> sm_object \<Rightarrow> bool" where
  "same_objects h h' \<longleftrightarrow>
     (\<forall>a. map_option (\<lambda>so. (ob_state so, ob_table so)) (g_states h' a) = map_option (\<lambda>so. (ob_state so, ob_table so)) (g_states h a)) \<and>
     (\<forall>t. map_option (\<lambda>to. (tb_class to, tb_sm to, tb_dest to)) (g_transitions h' t) =
          map_option (\<lambda>to. (tb_class to, tb_sm to, tb_dest to)) (g_transitions h t)) \<and>
     om_states h' = om_states h \<and> om_transitions h' = om_transitions h \<and> om_reset_transition h' = om_reset_transition h"

lemma same_objects_names:
  assumes "same_objects h h'"
  shows "state_at h' = state_at h" "transition_at h' = transition_at h" "obj_state_get_transition h' = obj_state_get_transition h"
    "obj_sm_state_by_id h' = obj_sm_state_by_id h" "machine_ok h' = machine_ok h" "state_id h' = state_id h"
proof -
  note s = assms [unfolded same_objects_def]
  have pair: "map_option (\<lambda>so. (ob_state so, ob_table so)) (g_states h' a) = map_option (\<lambda>so. (ob_state so, ob_table so)) (g_states h a)" for a
    using s by blast
  have states: "map_option ob_state (g_states h' a) = map_option ob_state (g_states h a)"
    "map_option ob_table (g_states h' a) = map_option ob_table (g_states h a)" for a
    using arg_cong [OF pair, of "map_option fst"] arg_cong [OF pair, of "map_option snd"] by (simp_all add: option.map_comp comp_def)
  show by_id: "obj_sm_state_by_id h' = obj_sm_state_by_id h" using s by (simp add: obj_sm_state_by_id_def fun_eq_iff)
  then show at: "state_at h' = state_at h" using states by (simp add: state_at_def fun_eq_iff)
  show tr: "transition_at h' = transition_at h" using s at by (simp add: transition_at_def fun_eq_iff)
  show get: "obj_state_get_transition h' = obj_state_get_transition h"
  proof (intro ext)
    fix a d show "obj_state_get_transition h' a d = obj_state_get_transition h a d"
      using states(2) [of a] by (auto simp: obj_state_get_transition_def split: option.splits)
  qed
  show "machine_ok h' = machine_ok h" using s by (simp add: machine_ok_def at tr get)
  show "state_id h' = state_id h"
  proof
    fix a show "state_id h' a = state_id h a" using states(1) [of a] by (auto simp: state_id_def split: option.splits)
  qed
qed

lemma same_objects_fields:
  "same_objects h (h\<lparr>om_next_transition := x4\<rparr>)" "same_objects h (h\<lparr>om_active_transition := x5\<rparr>)"
  "same_objects h (h\<lparr>om_active_state := x6\<rparr>)" "same_objects h (h\<lparr>om_last_state := x7\<rparr>)" "same_objects h (h\<lparr>om_next_state := x8\<rparr>)"
  "same_objects h (h\<lparr>om_entering_state := x9\<rparr>)" "same_objects h (h\<lparr>om_pending_switch := y1\<rparr>)" "same_objects h (h\<lparr>g_timer := y2\<rparr>)"
  by (simp_all add: same_objects_def)

lemma same_objects_trans: "same_objects h h1 \<Longrightarrow> same_objects h1 h2 \<Longrightarrow> same_objects h h2"
  by (simp add: same_objects_def)

lemmas names_fields [simp] = same_objects_fields [THEN same_objects_names(1)] same_objects_fields [THEN same_objects_names(2)]
  same_objects_fields [THEN same_objects_names(3)] same_objects_fields [THEN same_objects_names(4)]
  same_objects_fields [THEN same_objects_names(5)] same_objects_fields [THEN same_objects_names(6)]

lemma named_fields [simp]:
  "named (h\<lparr>om_entering_state := n\<rparr>) v = named h v"
  "named (h\<lparr>g_timer := f\<rparr>) v = named h v"
  by (simp_all add: named_def)

lemma named_same: "same_objects h h' \<Longrightarrow> gheap.more h' = gheap.more h \<Longrightarrow> named h' v = named h v"
  by (simp add: named_def same_objects_names om_more [of h' h])

lemma state_at_unique: "state_at h a s \<Longrightarrow> state_at h b s \<Longrightarrow> a = b" "state_at h a s \<Longrightarrow> state_at h a s' \<Longrightarrow> s = s'"
  "state_at h a s \<Longrightarrow> state_id h a = s"
  by (auto simp: state_at_def state_id_def)

lemma touch_state: "state_at h a s \<Longrightarrow> touch_state a h = h"
  by (auto simp: touch_state_def upd_state_def state_at_def fun_upd_idem)

section \<open>References in the machine\<close>

lemma transition_unref_objects:
  assumes "heap_ok S (add_mset t T) h" and "t \<in># T"
  shows "same_objects h (nci_transition_unref t h)"
proof -
  have "tfields h t \<noteq> None" using assms(1) refs_okD(2) [of S "add_mset t T" "sfields h" "tfields h" t] by (simp add: heap_ok_def)
  then obtain to where to: "g_transitions h t = Some to" by (auto simp: tfields_def)
  have "0 < count T t" using assms(2) by simp
  moreover have "count_of (tfields h t) = count (add_mset t T) t" using assms(1) unfolding heap_ok_def refs_ok_def by blast
  ultimately have "1 < tb_refs to" by (simp add: tfields_def to)
  then show "same_objects h (nci_transition_unref t h)"
    using om_more [of "nci_transition_unref t h" h] by (auto simp: same_objects_def nci_transition_unref_def to upd_transition_def)
qed

lemma transition_kept: "transition_at h t c \<Longrightarrow> t \<in># mset (om_transitions h) + opt_mset (om_reset_transition h)"
  by (auto simp: transition_at_def)

lemma transition_unref_owned:
  assumes "owned S (add_mset t T) h" and "transition_at h t c"
  shows "owned S T (nci_transition_unref t h)" "same_objects h (nci_transition_unref t h)"
proof -
  have owners: "state_owners (nci_transition_unref t h) = state_owners h" "transition_owners (nci_transition_unref t h) = transition_owners h"
    by (simp_all add: state_owners_def transition_owners_def om_more [of "nci_transition_unref t h" h])
  have ok: "heap_ok (S + state_owners h) (add_mset t (T + transition_owners h)) h" using assms(1) by (simp add: owned_def)
  show "owned S T (nci_transition_unref t h)" using transition_unref_ok [OF ok] by (simp add: owned_def owners)
  have "t \<in># T + transition_owners h" using transition_kept [OF assms(2)] by (auto simp: transition_owners_def)
  then show "same_objects h (nci_transition_unref t h)" by (rule transition_unref_objects [OF ok])
qed

lemma transition_ref_owned:
  assumes "owned S T h" and "transition_at h t c"
  shows "owned S (add_mset t T) (nci_transition_ref t h)" "same_objects h (nci_transition_ref t h)"
proof -
  have owners: "state_owners (nci_transition_ref t h) = state_owners h" "transition_owners (nci_transition_ref t h) = transition_owners h"
    by (simp_all add: state_owners_def transition_owners_def om_more [of "nci_transition_ref t h" h])
  obtain to where to: "g_transitions h t = Some to" using assms(2) by (auto simp: transition_at_def)
  then show "owned S (add_mset t T) (nci_transition_ref t h)"
    using assms(1) transition_ref_ok [of "S + state_owners h" "T + transition_owners h" h t] by (simp add: owned_def owners)
  show "same_objects h (nci_transition_ref t h)"
    using om_more [of "nci_transition_ref t h" h] by (auto simp: same_objects_def nci_transition_ref_def to upd_transition_def)
qed

lemma state_unref_owned:
  assumes "owned (add_mset a S) T h" and "state_at h a s"
  shows "owned S T (nci_state_unref a h)" "same_objects h (nci_state_unref a h)"
proof -
  have owners: "state_owners (nci_state_unref a h) = state_owners h" "transition_owners (nci_state_unref a h) = transition_owners h"
    by (simp_all add: state_owners_def transition_owners_def om_more [of "nci_state_unref a h" h])
  show "owned S T (nci_state_unref a h)"
    using assms(1) state_unref_ok [of a "S + state_owners h" "T + transition_owners h" h] by (simp add: owned_def owners)
  obtain so where so: "g_states h a = Some so" using assms(2) by (auto simp: state_at_def)
  have "Some a \<in> set (om_states h)" using assms(2) by (auto simp: state_at_def obj_sm_state_by_id_def split: if_splits) (metis nth_mem)
  then have "a \<in># state_owners h" by (force simp: state_owners_def)
  then have "0 < count (state_owners h) a" by simp
  moreover have "count_of (sfields h a) = count (add_mset a S + state_owners h) a + card (leading (tfields h) a)"
    using assms(1) unfolding owned_def heap_ok_def refs_ok_def by blast
  ultimately have "1 < ob_refs so" by (simp add: sfields_def so)
  then show "same_objects h (nci_state_unref a h)"
    using om_more [of "nci_state_unref a h" h] by (auto simp: same_objects_def nci_state_unref_def so upd_state_def)
qed

lemma state_ref_owned:
  assumes "owned S T h" and "state_at h a s"
  shows "owned (add_mset a S) T (nci_state_ref a h)" "same_objects h (nci_state_ref a h)"
proof -
  have owners: "state_owners (nci_state_ref a h) = state_owners h" "transition_owners (nci_state_ref a h) = transition_owners h"
    by (simp_all add: state_owners_def transition_owners_def om_more [of "nci_state_ref a h" h])
  obtain so where so: "g_states h a = Some so" using assms(2) by (auto simp: state_at_def)
  then show "owned (add_mset a S) T (nci_state_ref a h)"
    using assms(1) state_ref_ok [of "S + state_owners h" "T + transition_owners h" h a] by (simp add: owned_def owners)
  show "same_objects h (nci_state_ref a h)"
    using om_more [of "nci_state_ref a h" h] by (auto simp: same_objects_def nci_state_ref_def so upd_state_def)
qed

section \<open>The operations\<close>

text \<open>The names alone do not tell the views apart that differ in other fields.\<close>

lemma named_view:
  "v_last v = v_last v' \<Longrightarrow> v_next v = v_next v' \<Longrightarrow> v_then v = v_then v' \<Longrightarrow> v_going v = v_going v' \<Longrightarrow> v_active v = v_active v' \<Longrightarrow>
   named h v = named h v'"
  by (simp add: named_def)

lemma good_view:
  "v_last v = v_last v' \<Longrightarrow> v_next v = v_next v' \<Longrightarrow> v_then v = v_then v' \<Longrightarrow> v_going v = v_going v' \<Longrightarrow> v_active v = v_active v' \<Longrightarrow>
   good S T h v = good S T h v'"
  by (simp add: good_def named_view [of v v'])

lemma good_ignores [simp]:
  "good S T h (v\<lparr>v_entering := n\<rparr>) = good S T h v" "good S T h (v\<lparr>v_timer := f\<rparr>) = good S T h v"
  "good S T h (v_emit v) = good S T h v"
  "good S T (h\<lparr>om_entering_state := n\<rparr>) v = good S T h v"
  by (simp_all add: good_def named_def v_emit_def owned_def state_owners_def transition_owners_def)

lemma good_machine: "good S T h v \<Longrightarrow> machine_ok h"
  by (simp add: good_def)

lemma good_going: "good S T h v \<Longrightarrow> om_active_transition h = None \<longleftrightarrow> v_going v = None"
  by (cases "om_active_transition h"; cases "v_going v") (simp_all add: good_def named_def)

lemma machine_by_id: "machine_ok h \<Longrightarrow> \<exists>a. obj_sm_state_by_id h s = Some a \<and> state_at h a s"
  unfolding machine_ok_def by (meson state_at_def)

lemma good_state: "good S T h v \<Longrightarrow> obj_sm_state_by_id h s = Some a \<Longrightarrow> state_at h a s"
  using machine_by_id [of h s] by (auto simp: good_def)

lemma timer_ok:
  assumes "heap_ok S T h" and "\<And>t. f t \<Longrightarrow> g_timer h t \<or> g_transitions h t \<noteq> None"
  shows "heap_ok S T (h\<lparr>g_timer := f\<rparr>)"
proof -
  have "\<forall>t. f t \<longrightarrow> tfields h t \<noteq> None" using assms by (fastforce simp: heap_ok_def tfields_def)
  then show ?thesis using assms(1) by (simp add: heap_ok_def sfields_def [abs_def] tfields_def [abs_def] in_table_def in_weak_def)
qed

lemma owned_timer:
  assumes "owned S T h" and "\<And>t. f t \<Longrightarrow> g_timer h t \<or> g_transitions h t \<noteq> None"
  shows "owned S T (h\<lparr>g_timer := f\<rparr>)"
  using timer_ok [OF assms(1) [unfolded owned_def], of f] assms(2)
  by (simp add: owned_def state_owners_def transition_owners_def)

lemma good_timer:
  assumes "good S T h v" and "\<And>t. f t \<Longrightarrow> g_timer h t \<or> g_transitions h t \<noteq> None"
  shows "good S T (h\<lparr>g_timer := f\<rparr>) v"
  using owned_timer [of S T h f] assms by (simp add: good_def)

lemma finish_good:
  assumes "good S T h v" shows "good S T (obj_finish_active_transition h) (v_finish v)"
    "om_active_transition (obj_finish_active_transition h) = None" "same_objects h (obj_finish_active_transition h)"
proof -
  have "good S T (obj_finish_active_transition h) (v_finish v) \<and> om_active_transition (obj_finish_active_transition h) = None \<and>
    same_objects h (obj_finish_active_transition h)"
  proof (cases "om_active_transition h")
    case None
    then have "v_going v = None" using assms by (simp add: good_def named_def)
    then show ?thesis using None assms by (simp add: obj_finish_active_transition_def v_finish_def same_objects_def)
  next
    case (Some t)
    then obtain c where c: "v_going v = Some c" "transition_at h t c" using assms by (auto simp: good_def named_def option_rel_Some1)
    let ?h = "h\<lparr>om_active_transition := None, g_timer := (g_timer h)(t := False)\<rparr>"
    obtain to where "g_transitions h t = Some to" using c(2) by (auto simp: transition_at_def)
    then have fin: "obj_finish_active_transition h = nci_transition_unref t ?h"
      using Some by (simp add: obj_finish_active_transition_def obj_transition_finished_def)
    have "owned S T h" using assms by (simp add: good_def)
    then have "owned S (add_mset t T) (h\<lparr>om_active_transition := None\<rparr>)"
      using Some by (simp add: owned_def state_owners_def transition_owners_def)
    then have owned: "owned S (add_mset t T) ?h"
      using owned_timer [of S "add_mset t T" "h\<lparr>om_active_transition := None\<rparr>" "(g_timer h)(t := False)"]
      by (auto split: if_splits)
    have at: "transition_at ?h t c" using c(2) by simp
    note unref = transition_unref_owned [OF owned at]
    have "machine_ok (nci_transition_unref t ?h)"
      using good_machine [OF assms] by (simp add: same_objects_names(5) [OF unref(2)])
    moreover have "named ?h (v_finish v)" using assms by (simp add: good_def named_def v_finish_def c)
    then have "named (nci_transition_unref t ?h) (v_finish v)" by (simp only: named_same [OF unref(2) unref_more(2)])
    moreover have "same_objects h ?h" by (simp add: same_objects_def)
    ultimately show ?thesis using unref(1) same_objects_trans [OF _ unref(2)] by (simp add: good_def fin om_more [OF unref_more(2)])
  qed
  then show "good S T (obj_finish_active_transition h) (v_finish v)" "om_active_transition (obj_finish_active_transition h) = None"
    "same_objects h (obj_finish_active_transition h)" by blast+
qed

lemma transition_atD:
  assumes "machine_ok h" and "transition_at h t c"
  obtains to where "g_transitions h t = Some to" and "tb_class to = c" and "tb_sm to" and "state_at h (tb_dest to) (transition_dest c)"
  using assms by (auto simp: transition_at_def)

lemma leave_good: "good S T h v \<Longrightarrow> obj_leave_active_state h = h"
  by (cases "v_active v") (auto simp: good_def named_def obj_leave_active_state_def unref_opt_def option_rel_Some2 touch_state)

lemma start_good:
  assumes "good S T h v" and "transition_at h t c" and "om_active_transition h = None"
  shows "fst (obj_start_transition t h)" "good S T (snd (obj_start_transition t h)) (v_start c v)"
    "transition_at (snd (obj_start_transition t h)) = transition_at h" "state_at (snd (obj_start_transition t h)) = state_at h"
    "om_next_transition (snd (obj_start_transition t h)) = om_next_transition h"
    "obj_state_get_transition (snd (obj_start_transition t h)) = obj_state_get_transition h"
    "state_id (snd (obj_start_transition t h)) = state_id h"
proof -
  have owned: "owned S T h" and named: "named h v" and machine: "machine_ok h" using assms(1) by (simp_all add: good_def)
  note ref = transition_ref_owned [OF owned assms(2)]
  let ?r = "nci_transition_ref t h"
  let ?h = "?r\<lparr>om_active_transition := Some t\<rparr>"
  have more: "gheap.more ?r = gheap.more h" by simp
  have at: "transition_at ?h = transition_at h" "state_at ?h = state_at h" "obj_state_get_transition ?h = obj_state_get_transition h"
    "state_id ?h = state_id h"
    using same_objects_names [OF ref(2)] by simp_all
  have "owned S T ?h"
    using ref(1) assms(3) om_more [OF more] by (simp add: owned_def state_owners_def transition_owners_def)
  moreover have going: "v_going v = None" using named assms(3) by (simp add: named_def)
  moreover have "named ?h (v\<lparr>v_going := Some c\<rparr>)"
    using named assms(2) om_more [OF more] by (simp add: named_def same_objects_names(1,2) [OF ref(2)])
  ultimately have good: "good S T ?h (v\<lparr>v_going := Some c\<rparr>)"
    using machine same_objects_names(5) [OF ref(2)] by (simp add: good_def)
  obtain to where to: "g_transitions ?h t = Some to" "tb_sm to"
    using transition_atD [of ?h t c] good at assms(2) by (auto simp: good_def)
  define f where "f = (g_timer ?h)(t := om_timed h)"
  have start: "obj_transition_start (om_timed h) t ?h = (True, ?h\<lparr>g_timer := f\<rparr>)"
    using to by (simp add: obj_transition_start_def f_def)
  have good': "good S T (?h\<lparr>g_timer := f\<rparr>) (v\<lparr>v_going := Some c\<rparr>)"
    by (rule good_timer [OF good]) (use to in \<open>auto simp: f_def split: if_splits\<close>)
  have res: "obj_start_transition t h = (True, ?h\<lparr>g_timer := f, om_active_state := None\<rparr>)"
    using assms(3) leave_good [OF good'] start by (simp add: obj_start_transition_def obj_finish_active_transition_def)
  show "fst (obj_start_transition t h)" "transition_at (snd (obj_start_transition t h)) = transition_at h"
    "state_at (snd (obj_start_transition t h)) = state_at h" "om_next_transition (snd (obj_start_transition t h)) = om_next_transition h"
    "obj_state_get_transition (snd (obj_start_transition t h)) = obj_state_get_transition h"
    "state_id (snd (obj_start_transition t h)) = state_id h"
    using at om_more [OF more] by (simp_all add: res)
  have "good S T (?h\<lparr>g_timer := f, om_active_state := None\<rparr>) (v\<lparr>v_going := Some c, v_active := None\<rparr>)"
    using good' by (simp add: good_def named_def owned_def state_owners_def transition_owners_def)
  then show "good S T (snd (obj_start_transition t h)) (v_start c v)"
    unfolding res by (subst good_view [of _ "v\<lparr>v_going := Some c, v_active := None\<rparr>"]) (simp_all add: v_start_def v_finish_def going)
qed

lemma set_good:
  assumes "good S T h v" and "state_at h a s"
  shows "good S T (obj_set_last_state a h) (v_set_last s v)" "good S T (obj_set_next_state a h) (v_set_next s v)"
proof -
  have last: "good S T (h\<lparr>om_last_state := Some a\<rparr>) (v\<lparr>v_last := s, v_pending_last := p\<rparr>)"
    and nxt: "good S T (h\<lparr>om_next_state := Some a\<rparr>) (v\<lparr>v_next := s, v_pending_next := p\<rparr>)" for p
    using assms by (simp_all add: good_def named_def owned_def state_owners_def transition_owners_def)
  have "om_last_state h = Some a \<longleftrightarrow> v_last v = s" "om_next_state h = Some a \<longleftrightarrow> v_next v = s"
    using assms state_at_unique by (auto simp: good_def named_def option_rel_Some2)
  then show "good S T (obj_set_last_state a h) (v_set_last s v)" "good S T (obj_set_next_state a h) (v_set_next s v)"
    using last nxt assms(1) by (simp_all add: obj_set_last_state_def obj_set_next_state_def v_set_last_def v_set_next_def)
qed

lemma set_names [simp]:
  "state_at (obj_set_last_state a h) = state_at h" "state_at (obj_set_next_state a h) = state_at h"
  "om_active_transition (obj_set_last_state a h) = om_active_transition h" "om_active_transition (obj_set_next_state a h) = om_active_transition h"
  "om_next_transition (obj_set_last_state a h) = om_next_transition h" "om_next_transition (obj_set_next_state a h) = om_next_transition h"
  by (simp_all add: obj_set_last_state_def obj_set_next_state_def)

lemma sm_object_next_more:
  "gheap.more h = gheap.more h' \<Longrightarrow> gheap.more (h\<lparr>om_next_transition := x\<rparr>) = gheap.more (h'\<lparr>om_next_transition := x\<rparr>)"
  by (cases h, cases h') (simp add: sm_object.defs)

lemma next_transition_good:
  assumes "good S T h v"
  shows "transition_at h t c \<Longrightarrow> om_next_transition h = None \<Longrightarrow> good S T (set_next_transition t h) (v\<lparr>v_then := Some c\<rparr>)"
    "good S T (drop_next_transition h) (v\<lparr>v_then := None\<rparr>)"
    "same_objects h (drop_next_transition h)" "om_next_transition (drop_next_transition h) = None"
    "om_active_transition (drop_next_transition h) = om_active_transition h" "om_next_state (drop_next_transition h) = om_next_state h"
    "om_last_state (drop_next_transition h) = om_last_state h"
proof -
  show "good S T (set_next_transition t h) (v\<lparr>v_then := Some c\<rparr>)" if "transition_at h t c" "om_next_transition h = None"
  proof -
    let ?h = "h\<lparr>om_next_transition := Some t\<rparr>"
    have "heap_ok (S + state_owners h) (add_mset t (T + transition_owners h)) (nci_transition_ref t ?h)"
      using assms that transition_ref_ok [of "S + state_owners h" "T + transition_owners h" ?h t]
      by (auto simp: good_def owned_def transition_at_def)
    then have "owned S T (nci_transition_ref t ?h)"
      using that om_more [of "nci_transition_ref t ?h" ?h] by (simp add: owned_def state_owners_def transition_owners_def)
    moreover have same: "same_objects ?h (nci_transition_ref t ?h)"
      using that om_more [of "nci_transition_ref t ?h" ?h]
      by (auto simp: same_objects_def nci_transition_ref_def upd_transition_def transition_at_def)
    moreover have "named ?h (v\<lparr>v_then := Some c\<rparr>)" using assms that by (simp add: good_def named_def)
    then have "named (nci_transition_ref t ?h) (v\<lparr>v_then := Some c\<rparr>)" by (simp only: named_same [OF same heap_more(4)])
    ultimately show ?thesis using assms same_objects_names(5) [OF same] by (simp add: good_def set_next_transition_def)
  qed
  have "good S T (drop_next_transition h) (v\<lparr>v_then := None\<rparr>) \<and> same_objects h (drop_next_transition h) \<and>
    gheap.more (drop_next_transition h) = gheap.more (h\<lparr>om_next_transition := None\<rparr>)"
  proof (cases "om_next_transition h")
    case None
    have id: "h\<lparr>om_next_transition := None\<rparr> = h" using None by (cases h) simp
    have "gheap.more (h\<lparr>om_next_transition := None\<rparr>) = gheap.more h" by (rule arg_cong [OF id])
    moreover have "drop_next_transition h = h" using id by (simp only: drop_next_transition_def unref_opt_def None option.case)
    ultimately show ?thesis using assms None by (simp add: good_def named_def same_objects_def)
  next
    case (Some t)
    then obtain c where at: "transition_at h t c" using assms by (auto simp: good_def named_def option_rel_Some1)
    let ?rest = "T + (mset (om_transitions h) + opt_mset (om_reset_transition h) + opt_mset (om_active_transition h))"
    let ?u = "nci_transition_unref t h"
    have ok: "heap_ok (S + state_owners h) (add_mset t ?rest) h"
      using assms Some by (simp add: good_def owned_def transition_owners_def ac_simps)
    have same: "same_objects h ?u"
      using transition_kept [OF at] by (intro transition_unref_objects [OF ok]) auto
    have drop: "drop_next_transition h = ?u\<lparr>om_next_transition := None\<rparr>" using Some by (simp add: drop_next_transition_def unref_opt_def)
    have more: "gheap.more ?u = gheap.more h" by simp
    have owned: "owned S T (drop_next_transition h)"
      using transition_unref_ok [OF ok] om_more [OF more]
      by (simp add: drop owned_def state_owners_def transition_owners_def ac_simps)
    have "named ?u v" using assms named_same [OF same more] by (simp add: good_def)
    then have "named (drop_next_transition h) (v\<lparr>v_then := None\<rparr>)" by (simp add: drop named_def)
    moreover have "gheap.more (drop_next_transition h) = gheap.more (h\<lparr>om_next_transition := None\<rparr>)"
      unfolding drop using more by (metis sm_object_next_more)
    moreover have "same_objects h (drop_next_transition h)"
      unfolding drop by (rule same_objects_trans [OF same same_objects_fields(1)])
    ultimately show ?thesis using owned same_objects_names(5) [of h "drop_next_transition h"] assms by (simp add: good_def)
  qed
  then show "good S T (drop_next_transition h) (v\<lparr>v_then := None\<rparr>)" "same_objects h (drop_next_transition h)"
    "om_next_transition (drop_next_transition h) = None" "om_active_transition (drop_next_transition h) = om_active_transition h"
    "om_next_state (drop_next_transition h) = om_next_state h" "om_last_state (drop_next_transition h) = om_last_state h"
    using om_more [of "drop_next_transition h" "h\<lparr>om_next_transition := None\<rparr>"] by simp_all
qed

lemma unref_good:
  assumes "good S (add_mset t T) h v" and "transition_at h t c"
  shows "good S T (nci_transition_unref t h) v" "same_objects h (nci_transition_unref t h)"
proof -
  note unref = transition_unref_owned [OF _ assms(2), of S T]
  show "same_objects h (nci_transition_unref t h)" using assms(1) unref(2) by (simp add: good_def)
  then show "good S T (nci_transition_unref t h) v"
    using assms(1) unref(1) named_same [OF _ unref_more(2)] by (simp add: good_def same_objects_names(5))
qed

lemma same_objects_set: "same_objects h (obj_set_last_state a h)" "same_objects h (obj_set_next_state a h)"
  by (simp_all add: obj_set_last_state_def obj_set_next_state_def same_objects_def)

text \<open>The rest of an entry, once the state is active.\<close>

definition v_settle :: "NCI_STATE \<Rightarrow> sm_view \<Rightarrow> sm_view" where
  "v_settle s v =
     (let v1 = v\<lparr>v_then := None\<rparr>;
          v2 = (case v_then v of Some t \<Rightarrow> if transition_dest t = s then v1 else v_start t v1 | None \<Rightarrow> v1);
          v3 = v_set_last s v2
      in if v_going v3 = None then v_set_next s v3 else v3)"

lemma v_land_settle: "v_land s v = v_settle s (v\<lparr>v_active := Some s\<rparr>)"
  by (simp add: v_land_def v_settle_def)

lemma start_next_good:
  assumes "good S T h v" and "state_at h a s" and "om_active_transition h = None \<or> om_next_transition h = None"
  shows "good S T (obj_start_next a h) (let v1 = v\<lparr>v_then := None\<rparr> in
      case v_then v of Some t \<Rightarrow> if transition_dest t = s then v1 else v_start t v1 | None \<Rightarrow> v1)"
    "state_at (obj_start_next a h) = state_at h" "om_next_transition (obj_start_next a h) = None"
proof -
  let ?h = "h\<lparr>om_next_transition := None\<rparr>"
  let ?g = "good S T (obj_start_next a h) (let v1 = v\<lparr>v_then := None\<rparr> in
      case v_then v of Some t \<Rightarrow> if transition_dest t = s then v1 else v_start t v1 | None \<Rightarrow> v1) \<and>
    state_at (obj_start_next a h) = state_at h \<and> om_next_transition (obj_start_next a h) = None"
  have ?g
  proof (cases "om_next_transition h")
    case None
    then show ?thesis using assms(1) by (simp add: obj_start_next_def good_def named_def owned_def state_owners_def transition_owners_def)
  next
    case (Some t)
    then obtain c where c: "v_then v = Some c" "transition_at h t c" using assms(1) by (auto simp: good_def named_def option_rel_Some1)
    have active: "om_active_transition ?h = None" using assms(3) Some by simp
    have good: "good S (add_mset t T) ?h (v\<lparr>v_then := None\<rparr>)"
      using assms(1) Some by (simp add: good_def named_def owned_def state_owners_def transition_owners_def)
    obtain to where to: "g_transitions h t = Some to" "state_at h (tb_dest to) (transition_dest c)"
      using c(2) by (auto simp: transition_at_def)
    have dest: "tb_dest to = a \<longleftrightarrow> transition_dest c = s" using to(2) assms(2) state_at_unique by blast
    have at: "transition_at ?h t c" using c(2) by simp
    note start = start_good [OF good at active]
    have unref_next: "om_next_transition (nci_transition_unref t x) = om_next_transition x" for x
      by (rule om_more) simp
    show ?thesis
      using unref_good [OF good at] unref_good [OF start(2), of c] start(3-5) same_objects_names(1) [OF unref_good(2) [OF good at]]
        same_objects_names(1) [OF unref_good(2) [OF start(2)]] c(2)
      by (simp add: obj_start_next_def Some to(1) dest c(1) unref_next Let_def)
  qed
  then show "good S T (obj_start_next a h) (let v1 = v\<lparr>v_then := None\<rparr> in
      case v_then v of Some t \<Rightarrow> if transition_dest t = s then v1 else v_start t v1 | None \<Rightarrow> v1)"
    "state_at (obj_start_next a h) = state_at h" "om_next_transition (obj_start_next a h) = None" by blast+
qed

lemmas om_heap [simp] =
  om_more [OF heap_more(1)] om_more [OF heap_more(2)] om_more [OF heap_more(3)] om_more [OF heap_more(4)]
  om_more [OF unref_more(1)] om_more [OF unref_more(2)]

lemma enter_good_nested:
  assumes "good S T h v" and "state_at h a s"
    and entered: "\<And>h. good S T h ((v_finish v)\<lparr>v_active := Some s\<rparr>) \<Longrightarrow> om_active_transition h = None \<Longrightarrow>
      om_entering_state h \<noteq> 0 \<Longrightarrow> good S T (entered h) v' \<and> (om_active_transition (entered h) = None \<or> om_next_transition (entered h) = None) \<and>
      obj_sm_state_by_id (entered h) = obj_sm_state_by_id h"
  shows "good S T (obj_enter_state_internal entered a h) (v_settle s v')"
    "om_next_transition (obj_enter_state_internal entered a h) = None"
    "obj_sm_state_by_id (obj_enter_state_internal entered a h) = obj_sm_state_by_id h"
proof -
  let ?h1 = "obj_finish_active_transition (h\<lparr>om_entering_state := om_entering_state h + 1\<rparr>)"
  have g0: "good S T (h\<lparr>om_entering_state := om_entering_state h + 1\<rparr>) v" using assms(1) by simp
  note fin = finish_good [OF g0]
  have at1: "state_at ?h1 a s" using same_objects_names(1) [OF fin(3)] assms(2) by simp
  have g1: "good S T (?h1\<lparr>om_active_state := Some a\<rparr>) ((v_finish v)\<lparr>v_active := Some s\<rparr>)"
    using fin(1) at1 by (simp add: good_def named_def owned_def state_owners_def transition_owners_def)
  have "om_entering_state (obj_finish_active_transition x) = om_entering_state x" for x
    by (simp add: obj_finish_active_transition_def obj_transition_finished_def split: option.split)
  then have entering: "om_entering_state (?h1\<lparr>om_active_state := Some a\<rparr>) \<noteq> 0" by simp
  have act: "obj_activate entered a ?h1 = entered (?h1\<lparr>om_active_state := Some a\<rparr>)"
  proof (cases "om_active_state ?h1 = Some a")
    case True
    then have "?h1\<lparr>om_active_state := Some a\<rparr> = ?h1" by (cases ?h1) simp
    then show ?thesis using True touch_state [OF at1] by (simp only: obj_activate_def if_True refl)
  next
    case False
    then show ?thesis using touch_state [of "?h1\<lparr>om_active_state := Some a\<rparr>" a s] at1 leave_good [OF fin(1)]
      by (simp add: obj_activate_def)
  qed
  let ?h2 = "entered (?h1\<lparr>om_active_state := Some a\<rparr>)"
  have e: "good S T ?h2 v'" "om_active_transition ?h2 = None \<or> om_next_transition ?h2 = None" "obj_sm_state_by_id ?h2 = obj_sm_state_by_id h"
    using entered [OF g1] fin(2) same_objects_names(4) [OF fin(3)] entering by auto
  have at2: "state_at ?h2 a s" using good_state [OF e(1), of s a] e(3) assms(2) by (simp add: state_at_def)
  note sn = start_next_good [OF e(1) at2 e(2)]
  have at3: "state_at (obj_start_next a ?h2) a s" using sn(2) at2 by simp
  note last = set_good(1) [OF sn(1) at3]
  have at4: "state_at (obj_set_last_state a (obj_start_next a ?h2)) a s" using at3 by simp
  note going = good_going [OF last]
  show g: "good S T (obj_enter_state_internal entered a h) (v_settle s v')"
    using last set_good(2) [OF last at4] going
    by (simp add: obj_enter_state_internal_def act [simplified] v_settle_def Let_def)
  show "om_next_transition (obj_enter_state_internal entered a h) = None"
    using sn(3) by (simp add: obj_enter_state_internal_def act [simplified] Let_def)
  have "state_at (obj_enter_state_internal entered a h) = state_at ?h2"
    using sn(2) by (simp add: obj_enter_state_internal_def act [simplified] Let_def)
  then have "obj_sm_state_by_id (obj_enter_state_internal entered a h) = obj_sm_state_by_id ?h2"
    using machine_by_id [OF good_machine [OF g]] by (simp add: fun_eq_iff) (metis state_at_def)
  then show "obj_sm_state_by_id (obj_enter_state_internal entered a h) = obj_sm_state_by_id h" by (rule trans [OF _ e(3)])
qed

lemma enter_good:
  assumes "good S T h v" and "state_at h a s"
  shows "good S T (obj_enter_state_internal (\<lambda>h. h) a h) (v_enter s v)"
    "om_next_transition (obj_enter_state_internal (\<lambda>h. h) a h) = None"
    "obj_sm_state_by_id (obj_enter_state_internal (\<lambda>h. h) a h) = obj_sm_state_by_id h"
  unfolding v_enter_def v_land_settle by (rule enter_good_nested [OF assms]; simp)+

lemma stall_good:
  assumes "good S T h v"
  shows "good S T (obj_stall_internal ty h) (v_stall (case ty of NCI_STALL_STOP \<Rightarrow> NCI_STATE_STOP | NCI_STALL_ERROR \<Rightarrow> NCI_STATE_ERROR) v)"
proof -
  let ?s = "case ty of NCI_STALL_STOP \<Rightarrow> NCI_STATE_STOP | NCI_STALL_ERROR \<Rightarrow> NCI_STATE_ERROR"
  obtain a where a: "obj_sm_state_by_id h ?s = Some a" "state_at h a ?s" using machine_by_id [OF good_machine [OF assms]] by blast
  note fin = finish_good [OF assms]
  have at: "state_at (obj_finish_active_transition h) a ?s" using a(2) same_objects_names(1) [OF fin(3)] by simp
  define h1 where "h1 = obj_set_next_state a (obj_set_last_state a (obj_finish_active_transition h))"
  have g1: "good S T h1 (v_set_next ?s (v_set_last ?s (v_finish v)))"
    unfolding h1_def by (rule set_good(2) [OF set_good(1) [OF fin(1) at]]) (simp add: at)
  have at1: "state_at h1 a ?s" using at by (simp add: h1_def)
  have "good S T (h1\<lparr>om_active_state := Some a\<rparr>) (v_stall ?s v)"
    using g1 at1 by (simp add: v_stall_def good_def named_def owned_def state_owners_def transition_owners_def)
  moreover have "obj_stall_internal ty h = h1\<lparr>om_active_state := Some a\<rparr>"
  proof (cases "om_active_state h1 = Some a")
    case True
    then have "h1\<lparr>om_active_state := Some a\<rparr> = h1" by (cases h1) simp
    then show ?thesis using True by (simp only: obj_stall_internal_def with_state_def a(1) option.case h1_def [symmetric] Let_def) simp
  next
    case False
    then show ?thesis
      using touch_state [of "h1\<lparr>om_active_state := Some a\<rparr>" a ?s] at1 leave_good [OF g1]
      by (simp add: obj_stall_internal_def with_state_def a(1) h1_def [symmetric] Let_def)
  qed
  ultimately show ?thesis by simp
qed

lemma get_transition_good:
  assumes "good S T h v" and "state_at h a s"
  shows "rel_option (transition_at h) (obj_state_get_transition h a d) (nci_state_get_transition s d)"
  using assms by (simp add: good_def machine_ok_def)

lemma switch_during_good:
  assumes "good S T h v" and "transition_at h t c" and "om_next_transition h = None" and "state_at h next s"
  shows "good S T (obj_switch_during t next h) (v_switch_during c s v)"
proof -
  obtain to where to: "g_transitions h t = Some to" "state_at h (tb_dest to) (transition_dest c)"
    using assms(2) by (auto simp: transition_at_def)
  have dest: "tb_dest to = next \<longleftrightarrow> transition_dest c = s" using to(2) assms(4) state_at_unique by blast
  have id: "state_id h next = s" by (rule state_at_unique(3) [OF assms(4)])
  note get = get_transition_good [OF assms(1) to(2), of s]
  show ?thesis
  proof (cases "nci_state_get_transition (transition_dest c) s")
    case None
    then have "obj_state_get_transition h (tb_dest to) s = None" using get by simp
    then show ?thesis
      using assms(1,4) enter_good(1) stall_good [of S T h v NCI_STALL_ERROR]
      by (simp add: obj_switch_during_def to(1) dest id None v_switch_during_def)
  next
    case (Some c')
    then obtain t' where t': "obj_state_get_transition h (tb_dest to) s = Some t'" "transition_at h t' c'"
      using get by (auto simp: option_rel_Some2)
    note g = next_transition_good(1) [OF assms(1) t'(2) assms(3)]
    have "state_at (set_next_transition t' h) next s"
      using good_state [OF g] assms(4) om_more(1) [of "set_next_transition t' h" "h\<lparr>om_next_transition := Some t'\<rparr>"]
      by (simp add: state_at_def obj_sm_state_by_id_def set_next_transition_def split: if_splits)
    then show ?thesis
      using set_good(2) [OF g] assms(1) by (simp add: obj_switch_during_def to(1) dest id Some t'(1) v_switch_during_def)
  qed
qed

lemma set_next_transition_at: "good S T h v \<Longrightarrow> good S' T' (set_next_transition t h) v' \<Longrightarrow> state_at h a s \<Longrightarrow> state_at (set_next_transition t h) a s"
  using good_state [of S' T' "set_next_transition t h" v' s a]
    om_more(1) [of "set_next_transition t h" "h\<lparr>om_next_transition := Some t\<rparr>"]
  by (simp add: state_at_def obj_sm_state_by_id_def set_next_transition_def split: if_splits)

text \<open>The way through \<open>RFST_IDLE\<close>, the transition there having been started.\<close>

lemma through_idle_good:
  assumes "good S T h v" and "om_next_transition h = None" and "v_then v = None" and "state_at h idle NCI_RFST_IDLE" and "state_at h next s"
  shows "good S T
    (if s = NCI_RFST_IDLE then obj_set_next_state idle h
     else (case obj_state_get_transition h idle s of
             Some t' \<Rightarrow> obj_set_next_state next (set_next_transition t' h)
           | None \<Rightarrow> obj_stall_internal NCI_STALL_ERROR h))
    (if s = NCI_RFST_IDLE then v_set_next NCI_RFST_IDLE v
     else (case nci_state_get_transition NCI_RFST_IDLE s of
             Some t' \<Rightarrow> v_set_next s (v\<lparr>v_then := Some t'\<rparr>)
           | None \<Rightarrow> v_stall NCI_STATE_ERROR (v\<lparr>v_then := None\<rparr>)))"
proof -
  note get = get_transition_good [OF assms(1,4), of s]
  show ?thesis
  proof (cases "nci_state_get_transition NCI_RFST_IDLE s")
    case None
    have "v\<lparr>v_then := None\<rparr> = v" using assms(3) by simp
    then show ?thesis
      using None get set_good(2) [OF assms(1,4)] stall_good [OF assms(1), of NCI_STALL_ERROR] by simp
  next
    case (Some c')
    then obtain t' where t': "obj_state_get_transition h idle s = Some t'" "transition_at h t' c'"
      using get by (auto simp: option_rel_Some2)
    note g = next_transition_good(1) [OF assms(1) t'(2) assms(2)]
    show ?thesis
      using set_good(2) [OF g set_next_transition_at [OF assms(1) g assms(5)]] set_good(2) [OF assms(1,4)] Some t'(1) by simp
  qed
qed

lemma switch_from_good:
  assumes "good S T h v" and "om_active_transition h = None" and "om_next_transition h = None" and "state_at h next s"
  shows "good S T (obj_switch_from next h) (v_switch_from s v)"
proof -
  obtain cur where cur: "om_last_state h = Some cur" "state_at h cur (v_last v)"
    using assms(1) by (auto simp: good_def named_def option_rel_Some2)
  obtain idle where idle: "obj_sm_state_by_id h NCI_RFST_IDLE = Some idle" "state_at h idle NCI_RFST_IDLE"
    using machine_by_id [OF good_machine [OF assms(1)]] by blast
  obtain reset where reset: "om_reset_transition h = Some reset" "transition_at h reset TReset"
    using assms(1) by (auto simp: good_def machine_ok_def)
  have id: "state_id h next = s" by (rule state_at_unique(3) [OF assms(4)])
  have quiet: "v_then v = None" using assms(1,3) by (simp add: good_def named_def)
  note get = get_transition_good [OF assms(1) cur(2)]
  have start: "obj_start_transition t h = (True, snd (obj_start_transition t h))" if "transition_at h t c" for t c
    using start_good(1) [OF assms(1) that assms(2)] by (cases "obj_start_transition t h") simp
  show ?thesis
  proof (cases "nci_state_get_transition (v_last v) s")
    case (Some c)
    then obtain t where t: "obj_state_get_transition h cur s = Some t" "transition_at h t c"
      using get [of s] by (auto simp: option_rel_Some2)
    obtain h1 where h1: "obj_start_transition t h = (True, h1)" using start [OF t(2)] by blast
    note g = start_good [OF assms(1) t(2) assms(2), unfolded h1 snd_conv]
    have at: "state_at h1 next s" using g(4) assms(4) by simp
    show ?thesis
      by (simp add: obj_switch_from_def cur idle reset id t(1) h1 v_switch_from_def Some set_good(2) [OF g(2) at])
  next
    case None
    then have none: "obj_state_get_transition h cur s = None" using get [of s] by simp
    let ?t = "case obj_state_get_transition h cur NCI_RFST_IDLE of Some t \<Rightarrow> t | None \<Rightarrow> reset"
    let ?c = "case nci_state_get_transition (v_last v) NCI_RFST_IDLE of Some t \<Rightarrow> t | None \<Rightarrow> TReset"
    have at: "transition_at h ?t ?c" using get [of NCI_RFST_IDLE] reset(2) by (auto split: option.split elim: option.rel_cases)
    obtain h1 where h1: "obj_start_transition ?t h = (True, h1)" using start [OF at] by blast
    note g = start_good [OF assms(1) at assms(2), unfolded h1 snd_conv]
    have "om_next_transition h1 = None" "v_then (v_start ?c v) = None" "state_at h1 idle NCI_RFST_IDLE" "state_at h1 next s"
      using g(4,5) assms(3,4) idle(2) quiet by simp_all
    note through = through_idle_good [OF g(2) this]
    have "obj_switch_from next h = (if NCI_IS_INTERNAL_STATE s then obj_enter_state_internal (\<lambda>h. h) next h
      else if s = NCI_RFST_IDLE then obj_set_next_state idle h1
        else (case obj_state_get_transition h1 idle s of
                Some t' \<Rightarrow> obj_set_next_state next (set_next_transition t' h1)
              | None \<Rightarrow> obj_stall_internal NCI_STALL_ERROR h1))"
      using g(7) id by (simp add: obj_switch_from_def cur idle reset none h1)
    then show ?thesis
      using enter_good(1) [OF assms(1,4)] through by (simp add: v_switch_from_def None Let_def)
  qed
qed

lemma switch_internal_good:
  assumes "good S T h v" and "state_at h a s"
  shows "good S T (obj_switch_internal a h) (v_switch s v)"
proof -
  have next_iff: "om_next_state h = Some a \<longleftrightarrow> v_next v = s"
    using assms state_at_unique by (auto simp: good_def named_def option_rel_Some2)
  note drop = next_transition_good(2-7) [OF assms(1)]
  have at: "state_at (drop_next_transition h) a s" using same_objects_names(1) [OF drop(2)] assms(2) by simp
  show ?thesis
  proof (cases "om_active_transition h")
    case None
    then have "v_going v = None" using good_going [OF assms(1)] by simp
    then show ?thesis
      using switch_from_good [OF drop(1) _ drop(3) at] assms(1) None drop(4)
      by (simp add: obj_switch_internal_def next_iff v_switch_def Let_def)
  next
    case (Some t)
    then obtain c where c: "v_going v = Some c" "transition_at h t c" using assms(1) by (auto simp: good_def named_def option_rel_Some1)
    have "transition_at (drop_next_transition h) t c" using same_objects_names(2) [OF drop(2)] c(2) by simp
    then show ?thesis
      using switch_during_good [OF drop(1) _ drop(3) at] assms(1) Some drop(4) c(1)
      by (simp add: obj_switch_internal_def next_iff v_switch_def Let_def)
  qed
qed

text \<open>The reference that a scheduled switch keeps.\<close>

lemma cancel_switch_good:
  assumes "good S T h v"
  shows "good S T (cancel_switch h) v" "same_objects h (cancel_switch h)" "om_pending_switch (cancel_switch h) = None"
    "om_entering_state (cancel_switch h) = om_entering_state h"
proof -
  let ?h = "h\<lparr>om_pending_switch := None\<rparr>"
  have "good S T (cancel_switch h) v \<and> same_objects h (cancel_switch h) \<and> om_pending_switch (cancel_switch h) = None \<and>
    om_entering_state (cancel_switch h) = om_entering_state h"
  proof (cases "om_pending_switch h")
    case None
    then show ?thesis
      using assms by (simp add: cancel_switch_def unref_opt_def good_def named_def owned_def state_owners_def transition_owners_def same_objects_def)
  next
    case (Some a)
    then obtain s where s: "state_at h a s" using assms by (auto simp: good_def named_def)
    have owned: "owned (add_mset a S) T ?h" using assms Some by (simp add: good_def owned_def state_owners_def transition_owners_def)
    have at: "state_at ?h a s" using s by simp
    note unref = state_unref_owned [OF owned at]
    have "named ?h v" using assms by (simp add: good_def named_def)
    then have "named (nci_state_unref a ?h) v" by (simp only: named_same [OF unref(2) unref_more(1)])
    moreover have "same_objects h (nci_state_unref a ?h)" by (rule same_objects_trans [OF same_objects_fields(7) unref(2)])
    ultimately show ?thesis
      using unref same_objects_names(5) [OF unref(2)] assms om_more(9,10) [OF unref_more(1), of a ?h]
      by (simp add: cancel_switch_def unref_opt_def Some good_def)
  qed
  then show "good S T (cancel_switch h) v" "same_objects h (cancel_switch h)" "om_pending_switch (cancel_switch h) = None"
    "om_entering_state (cancel_switch h) = om_entering_state h" by blast+
qed

end
