(* ===== verification/Obj_Steps.thy ===== *)
theory Obj_Steps
  imports Obj_Machine
begin

text \<open>
  The operations of the machine on objects that are made of others: entering by name, switching
  at once or later, resetting, and the states that enter others.
\<close>

section \<open>Fields that stay\<close>

lemma states_kept [simp]:
  "om_states (obj_finish_active_transition h) = om_states h" "om_states (snd (obj_start_transition t h)) = om_states h"
  "om_states (obj_set_last_state a h) = om_states h" "om_states (obj_set_next_state a h) = om_states h"
  "om_states (obj_stall_internal ty h) = om_states h" "om_states (drop_next_transition h) = om_states h"
  "om_states (set_next_transition t h) = om_states h"
proof -
  show fin: "om_states (obj_finish_active_transition h) = om_states h" for h
    by (simp add: obj_finish_active_transition_def obj_transition_finished_def split: option.split)
  have leave: "om_states (obj_leave_active_state h) = om_states h" for h
    by (simp add: obj_leave_active_state_def unref_opt_def touch_state_def split: option.split)
  show "om_states (snd (obj_start_transition t h)) = om_states h"
    by (auto simp: obj_start_transition_def obj_transition_start_def leave fin Let_def split: option.split bool.split)
  show set: "om_states (obj_set_last_state a h) = om_states h" "om_states (obj_set_next_state a h) = om_states h" for a h
    by (simp_all add: obj_set_last_state_def obj_set_next_state_def)
  show "om_states (obj_stall_internal ty h) = om_states h"
    by (simp add: obj_stall_internal_def with_state_def touch_state_def leave set fin Let_def split: option.split)
  show "om_states (drop_next_transition h) = om_states h" "om_states (set_next_transition t h) = om_states h"
    by (simp_all add: drop_next_transition_def set_next_transition_def unref_opt_def split: option.split)
qed

lemma by_id_states: "om_states h' = om_states h \<Longrightarrow> obj_sm_state_by_id h' = obj_sm_state_by_id h"
  by (simp add: obj_sm_state_by_id_def fun_eq_iff)

lemma enter_states [simp]: "om_states (obj_enter_state_internal (\<lambda>h. h) a h) = om_states h"
proof -
  have next_kept: "om_states (obj_start_next a h) = om_states h" for h
    by (simp add: obj_start_next_def Let_def split: option.split)
  have "om_states (obj_activate (\<lambda>h. h) a h) = om_states h" for h
    by (simp add: obj_activate_def obj_leave_active_state_def unref_opt_def touch_state_def split: option.split)
  then show ?thesis by (simp add: obj_enter_state_internal_def next_kept Let_def)
qed

lemma switch_states [simp]: "om_states (obj_switch_internal a h) = om_states h"
proof -
  have start: "om_states h1 = om_states h" if "obj_start_transition t h = (b, h1)" for t b h1 h
    using states_kept(2) [of t h] that by simp
  have "om_states (obj_switch_during t a h) = om_states h" "om_states (obj_switch_from a h) = om_states h" for t h
    by (auto simp: obj_switch_during_def obj_switch_from_def start split: option.split prod.split bool.split)
  then show ?thesis by (simp add: obj_switch_internal_def Let_def split: option.split)
qed

section \<open>Entering and switching\<close>

lemma with_state_good:
  assumes "good S T h v" and "\<And>a. state_at h a s \<Longrightarrow> P (f a h)"
  shows "P (with_state s f h)"
  using machine_by_id [OF good_machine [OF assms(1)], of s] assms(2) by (auto simp: with_state_def)

lemma enter_state_good: "good S T h v \<Longrightarrow> good S T (obj_enter_state s h) (v_enter s v)"
  unfolding obj_enter_state_def by (rule with_state_good) (auto intro: enter_good(1))

lemma schedule_good:
  assumes "good S T h v" and "state_at h a s" and "om_pending_switch h = None"
  shows "good S T (nci_state_ref a (h\<lparr>om_pending_switch := Some a\<rparr>)) v"
proof -
  let ?p = "h\<lparr>om_pending_switch := Some a\<rparr>"
  have live: "g_states ?p a \<noteq> None" using assms(2) by (auto simp: state_at_def)
  have "heap_ok (add_mset a (S + state_owners h)) (T + transition_owners h) (nci_state_ref a ?p)"
    by (rule state_ref_ok) (use assms(1) live in \<open>simp_all add: good_def owned_def\<close>)
  then have owned: "owned S T (nci_state_ref a ?p)"
    using assms(3) by (simp add: owned_def state_owners_def transition_owners_def)
  have same: "same_objects ?p (nci_state_ref a ?p)"
    using live by (auto simp: same_objects_def nci_state_ref_def upd_state_def)
  have "named ?p v" using assms(1,2) by (auto simp: good_def named_def)
  then show ?thesis
    using owned same_objects_names(5) [OF same] assms(1) by (simp add: good_def named_same [OF same heap_more(3)])
qed

lemma switch_to_good:
  assumes "good S T h v"
  shows "good S T (obj_switch_to s h) (if om_entering_state h \<noteq> 0 then v else v_switch s v)"
  unfolding obj_switch_to_def
proof (rule with_state_good [OF assms])
  fix a assume "state_at h a s"
  note cancel = cancel_switch_good [OF assms]
  have at: "state_at (cancel_switch h) a s" using same_objects_names(1) [OF cancel(2)] \<open>state_at h a s\<close> by simp
  show "good S T (let h1 = cancel_switch h in
      if om_entering_state h1 \<noteq> 0 then nci_state_ref a (h1\<lparr>om_pending_switch := Some a\<rparr>) else obj_switch_internal a h1)
    (if om_entering_state h \<noteq> 0 then v else v_switch s v)"
    using switch_internal_good [OF cancel(1) at] schedule_good [OF cancel(1) at cancel(3)] cancel(4) by (simp add: Let_def)
qed

lemma switch_proc_good:
  assumes "good S T h v" shows "\<exists>v'. good S T (obj_switch_proc h) v'"
proof (cases "om_pending_switch h")
  case None
  then show ?thesis using assms by (auto simp: obj_switch_proc_def)
next
  case (Some a)
  then obtain s where s: "state_at h a s" using assms by (auto simp: good_def named_def)
  let ?h = "h\<lparr>om_pending_switch := None\<rparr>"
  have g: "good (add_mset a S) T ?h v"
    using assms Some by (simp add: good_def named_def owned_def state_owners_def transition_owners_def)
  have at: "state_at ?h a s" using s by simp
  note sw = switch_internal_good [OF g at]
  have at': "state_at (obj_switch_internal a ?h) a s"
    using good_state [OF sw, of s a] at by_id_states [OF switch_states, of a ?h] by (simp add: state_at_def)
  note unref = state_unref_owned [OF _ at']
  have "owned (add_mset a S) T (obj_switch_internal a ?h)" using sw by (simp add: good_def)
  then have "good S T (nci_state_unref a (obj_switch_internal a ?h)) (v_switch s v)"
    using sw unref [of S T] same_objects_names(5) named_same [OF _ unref_more(1)] by (simp add: good_def)
  then show ?thesis by (auto simp: obj_switch_proc_def Some)
qed

lemma reset_good:
  assumes "good S T h v"
  shows "good S T (obj_reset h) (v_switch NCI_RFST_IDLE (v_enter NCI_STATE_INIT (v\<lparr>v_then := None\<rparr>)))"
proof -
  obtain init idle where a: "obj_sm_state_by_id h NCI_STATE_INIT = Some init" "state_at h init NCI_STATE_INIT"
    "obj_sm_state_by_id h NCI_RFST_IDLE = Some idle" "state_at h idle NCI_RFST_IDLE"
    using machine_by_id [OF good_machine [OF assms]] by meson
  let ?h = "drop_next_transition (cancel_switch h)"
  note cancel = cancel_switch_good [OF assms]
  note drop = next_transition_good(2,3) [OF cancel(1)]
  have at: "state_at ?h = state_at h" using same_objects_names(1) [OF drop(2)] same_objects_names(1) [OF cancel(2)] by simp
  have enter: "good S T (obj_enter_state_internal (\<lambda>h. h) init ?h) (v_enter NCI_STATE_INIT (v\<lparr>v_then := None\<rparr>))"
    by (rule enter_good(1) [OF drop(1)]) (simp add: at a)
  have "obj_sm_state_by_id ?h = obj_sm_state_by_id h"
    using same_objects_names(4) [OF drop(2)] same_objects_names(4) [OF cancel(2)] by simp
  then have "state_at (obj_enter_state_internal (\<lambda>h. h) init ?h) idle NCI_RFST_IDLE"
    using good_state [OF enter, of NCI_RFST_IDLE idle] by_id_states [OF enter_states, of init ?h] a(3) by simp
  then show ?thesis using switch_internal_good [OF enter] by (simp add: obj_reset_def a)
qed

lemma host_select_entered_good:
  assumes "good S T h v" and "om_active_transition h = None" and "om_entering_state h \<noteq> 0"
  shows "good S T (if supported then h else obj_switch_to NCI_RFST_DISCOVERY h) v"
    "om_active_transition (if supported then h else obj_switch_to NCI_RFST_DISCOVERY h) = None"
    "obj_sm_state_by_id (if supported then h else obj_switch_to NCI_RFST_DISCOVERY h) = obj_sm_state_by_id h"
proof -
  have cancel: "om_active_transition (cancel_switch h) = om_active_transition h" "om_states (cancel_switch h) = om_states h"
    "om_entering_state (cancel_switch h) = om_entering_state h"
    by (simp_all add: cancel_switch_def unref_opt_def split: option.split)
  have "om_active_transition (obj_switch_to NCI_RFST_DISCOVERY h) = om_active_transition h"
    "om_states (obj_switch_to NCI_RFST_DISCOVERY h) = om_states h"
    using assms(3) by (simp_all add: obj_switch_to_def with_state_def cancel Let_def split: option.split)
  note kept = this(1) by_id_states [OF this(2)]
  have "good S T (obj_switch_to NCI_RFST_DISCOVERY h) v" using switch_to_good [OF assms(1), of NCI_RFST_DISCOVERY] assms(3) by simp
  then show "good S T (if supported then h else obj_switch_to NCI_RFST_DISCOVERY h) v"
    "om_active_transition (if supported then h else obj_switch_to NCI_RFST_DISCOVERY h) = None"
    "obj_sm_state_by_id (if supported then h else obj_switch_to NCI_RFST_DISCOVERY h) = obj_sm_state_by_id h"
    using assms kept by (cases supported; simp)+
qed

lemma host_select_good:
  assumes "good S T h v"
  shows "good S T (obj_enter_host_select supported h) (v_enter NCI_RFST_W4_HOST_SELECT v)"
    "om_next_transition (obj_enter_host_select supported h) = None"
    "obj_sm_state_by_id (obj_enter_host_select supported h) = obj_sm_state_by_id h"
proof -
  let ?v = "(v_finish v)\<lparr>v_active := Some NCI_RFST_W4_HOST_SELECT\<rparr>"
  let ?e = "\<lambda>h. if supported then h else obj_switch_to NCI_RFST_DISCOVERY h"
  have "good S T (obj_enter_host_select supported h) (v_enter NCI_RFST_W4_HOST_SELECT v) \<and>
    om_next_transition (obj_enter_host_select supported h) = None \<and>
    obj_sm_state_by_id (obj_enter_host_select supported h) = obj_sm_state_by_id h"
    unfolding obj_enter_host_select_def v_enter_def v_land_settle
  proof (rule with_state_good [OF assms])
    fix a assume at: "state_at h a NCI_RFST_W4_HOST_SELECT"
    have entered: "good S T (?e g) ?v \<and> (om_active_transition (?e g) = None \<or> om_next_transition (?e g) = None) \<and>
        obj_sm_state_by_id (?e g) = obj_sm_state_by_id g"
      if "good S T g ?v" "om_active_transition g = None" "om_entering_state g \<noteq> 0" for g
      using host_select_entered_good [OF that, of supported] by blast
    show "good S T (obj_enter_state_internal ?e a h) (v_settle NCI_RFST_W4_HOST_SELECT ?v) \<and>
        om_next_transition (obj_enter_state_internal ?e a h) = None \<and>
        obj_sm_state_by_id (obj_enter_state_internal ?e a h) = obj_sm_state_by_id h"
      using enter_good_nested [OF assms at, of ?e ?v, OF entered] by blast
  qed
  then show "good S T (obj_enter_host_select supported h) (v_enter NCI_RFST_W4_HOST_SELECT v)"
    "om_next_transition (obj_enter_host_select supported h) = None"
    "obj_sm_state_by_id (obj_enter_host_select supported h) = obj_sm_state_by_id h" by blast+
qed

lemma all_discoveries_good:
  assumes "good S T h v"
  shows "\<exists>v'. good S T (obj_enter_all_discoveries supported h) v'"
proof -
  let ?v = "(v_finish v)\<lparr>v_active := Some NCI_RFST_W4_ALL_DISCOVERIES\<rparr>"
  have "good S T (obj_enter_all_discoveries supported h) (v_settle NCI_RFST_W4_ALL_DISCOVERIES (v_enter NCI_RFST_W4_HOST_SELECT ?v))"
    unfolding obj_enter_all_discoveries_def
  proof (rule with_state_good [OF assms])
    fix a assume at: "state_at h a NCI_RFST_W4_ALL_DISCOVERIES"
    show "good S T (obj_enter_state_internal (obj_enter_host_select supported) a h)
        (v_settle NCI_RFST_W4_ALL_DISCOVERIES (v_enter NCI_RFST_W4_HOST_SELECT ?v))"
      by (rule enter_good_nested(1) [OF assms at], intro conjI disjI2)
        (simp_all only: host_select_good(1,2), simp only: host_select_good(3))
  qed
  then show ?thesis by blast
qed

section \<open>The end of a transition\<close>

lemma transition_finish_good:
  assumes "good S T h v" and "transition_at h t c"
  shows "good S T (obj_transition_finish t h) (if om_active_transition h = Some t then v_enter (transition_dest c) v else v)"
proof -
  obtain to where to: "g_transitions h t = Some to" "tb_sm to" "state_at h (tb_dest to) (transition_dest c)"
    using transition_atD [OF good_machine [OF assms(1)] assms(2)] by metis
  then obtain so where "g_states h (tb_dest to) = Some so" "ob_state so = transition_dest c" by (auto simp: state_at_def)
  then show ?thesis using to assms(1) enter_state_good by (simp add: obj_transition_finish_def)
qed

lemma timer_off_good:
  assumes "good S T h v" shows "good S T (h\<lparr>g_timer := (g_timer h)(t := False)\<rparr>) v"
  by (rule good_timer [OF assms]) (simp split: if_splits)

lemma transition_timeout_good:
  assumes "good S T h v" and "transition_at h t c"
  shows "good S T (obj_transition_timeout t h) (v_stall NCI_STATE_ERROR v)"
proof -
  obtain to where "g_transitions h t = Some to" "tb_sm to" using transition_atD [OF good_machine [OF assms(1)] assms(2)] by metis
  then show ?thesis
    using stall_good [OF timer_off_good [OF assms(1), of t], of NCI_STALL_ERROR] by (simp add: obj_transition_timeout_def Let_def)
qed

lemma transition_timeout_fired:
  assumes "good S T h v" and "g_timer h t"
  shows "\<exists>v'. good S T (obj_transition_timeout t h) v'"
proof -
  have "tfields h t \<noteq> None" using assms by (auto simp: good_def owned_def heap_ok_def)
  then obtain to where "g_transitions h t = Some to" by (auto simp: tfields_def)
  moreover have "good S T (h\<lparr>g_timer := (g_timer h)(t := False)\<rparr>) v" by (rule timer_off_good [OF assms(1)])
  moreover note stall_good [OF this, of NCI_STALL_ERROR]
  ultimately show ?thesis by (cases "tb_sm to") (auto simp: obj_transition_timeout_def Let_def)
qed

end
