(* ===== verification/Obj_New.thy ===== *)
theory Obj_New
  imports Obj_Machine
begin

text \<open>
  What \<open>nci_sm_new\<close> builds: sixteen objects with the tables of \<open>sm_transitions\<close>, each counted
  right. No object has an address that has not been given out yet (\<open>bounded\<close>), so that the
  finite heap can be checked by evaluation.
\<close>

section \<open>Addresses\<close>

definition bounded :: "'a gheap_scheme \<Rightarrow> bool" where
  "bounded h \<longleftrightarrow> (\<forall>a \<ge> g_next h. g_states h a = None \<and> g_transitions h a = None \<and> \<not> g_timer h a)"

lemma bounded_upd: "bounded h \<Longrightarrow> bounded (upd_state a f h)" "bounded h \<Longrightarrow> bounded (upd_transition t g h)"
  by (auto simp: bounded_def upd_state_def upd_transition_def split: option.split)

lemma bounded_fold: "(\<And>x h. bounded h \<Longrightarrow> bounded (f x h)) \<Longrightarrow> bounded h \<Longrightarrow> bounded (fold f xs h)"
  by (induction xs arbitrary: h) simp_all

lemma bounded_unref:
  "bounded h \<Longrightarrow> bounded (nci_state_unref a h)" "bounded h \<Longrightarrow> bounded (nci_transition_unref t h)"
proof -
  have weak: "bounded h \<Longrightarrow> bounded (nci_sm_remove_weak_pointer p b h)" for p b and h :: "'a gheap_scheme"
    by (simp add: bounded_def nci_sm_remove_weak_pointer_def)
  have fin: "bounded h \<Longrightarrow> bounded (nci_state_finalize a so h)" for a so and h :: "'a gheap_scheme"
    unfolding nci_state_finalize_def by (rule bounded_fold) (auto simp: bounded_upd weak)
  have dead: "bounded h \<Longrightarrow> bounded (h\<lparr>g_states := (g_states h)(a := None)\<rparr>)"
    "bounded h \<Longrightarrow> bounded (h\<lparr>g_transitions := (g_transitions h)(a := None)\<rparr>)"
    "bounded h \<Longrightarrow> bounded (h\<lparr>g_fault := True\<rparr>)"
    "bounded h \<Longrightarrow> bounded (h\<lparr>g_transitions := (g_transitions h)(a := None), g_timer := (g_timer h)(a := False)\<rparr>)"
    for a and h :: "'a gheap_scheme" by (simp_all add: bounded_def)
  show state: "bounded h \<Longrightarrow> bounded (nci_state_unref a h)" for a and h :: "'a gheap_scheme"
    by (simp add: nci_state_unref_def bounded_upd fin dead split: option.split)
  have "bounded h \<Longrightarrow> bounded (fold (nci_state_transition_gone t) ws h)" for ws
    by (rule bounded_fold) (auto simp: nci_state_transition_gone_def bounded_upd)
  then show "bounded h \<Longrightarrow> bounded (nci_transition_unref t h)"
    by (auto simp: nci_transition_unref_def nci_transition_finalize_def Let_def bounded_upd intro!: weak state dead split: option.split)
qed

lemma bounded_sm [simp]:
  fixes h :: sm_object
  shows "bounded (h\<lparr>om_states := x1\<rparr>) = bounded h" "bounded (h\<lparr>om_transitions := x2\<rparr>) = bounded h"
    "bounded (h\<lparr>om_reset_transition := x3\<rparr>) = bounded h" "bounded (h\<lparr>om_active_state := x6\<rparr>) = bounded h"
    "bounded (h\<lparr>om_last_state := x7\<rparr>) = bounded h" "bounded (h\<lparr>om_next_state := x8\<rparr>) = bounded h"
  by (simp_all add: bounded_def)

lemma bounded_new:
  "bounded h \<Longrightarrow> bounded (snd (nci_state_new s h))" "bounded h \<Longrightarrow> bounded (snd (nci_transition_new c d h))"
proof -
  show "bounded h \<Longrightarrow> bounded (snd (nci_state_new s h))" by (simp add: bounded_def nci_state_new_def Let_def)
  assume "bounded h"
  then have "bounded (nci_state_ref x h)" "g_next (nci_state_ref x h) = g_next h" "g_transitions (nci_state_ref x h) = g_transitions h" for x
    by (simp_all add: nci_state_ref_def bounded_upd) (simp_all add: upd_state_def split: option.split)
  then show "bounded (snd (nci_transition_new c d h))"
    using \<open>bounded h\<close> by (simp add: nci_transition_new_def Let_def bounded_def split: option.split)
qed

lemma bounded_add:
  assumes "bounded h"
  shows "bounded (nci_sm_add_state a h)" "bounded (nci_sm_add_transition s p h)"
proof -
  have "bounded (unref_opt nci_state_unref q g)" if "bounded g" for q and g :: sm_object
    using that by (simp add: unref_opt_def bounded_unref split: option.split)
  moreover have fault: "bounded (g\<lparr>g_fault := True\<rparr>)" if "bounded g" for g :: sm_object using that by (simp add: bounded_def)
  ultimately show "bounded (nci_sm_add_state a h)"
    using assms by (simp add: nci_sm_add_state_def Let_def nci_state_ref_def bounded_upd split: option.split)
  have "bounded (nci_state_add_transition x t g)" if "bounded g" for x t and g :: sm_object
    using that fault by (simp add: nci_state_add_transition_def bounded_upd split: option.split)
  then show "bounded (nci_sm_add_transition s p h)"
    using assms by (simp add: nci_sm_add_transition_def nci_transition_ref_def bounded_upd split: option.split)
qed

lemma bounded_add_new_state:
  assumes "bounded h" and "bounded (snd (fn h))" shows "bounded (snd (nci_sm_add_new_state fn h))"
  using assms by (cases "fn h") (simp add: nci_sm_add_new_state_def bounded_unref bounded_add)

lemmas state_constructors = nci_state_init_new_def nci_state_error_new_def nci_state_stop_new_def nci_state_idle_new_def
  nci_state_discovery_new_def nci_state_listen_active_new_def nci_state_listen_sleep_new_def nci_state_poll_active_new_def
  nci_state_w4_all_discoveries_new_def nci_state_w4_host_select_new_def

lemmas transition_constructors = nci_transition_reset_new_def nci_transition_deactivate_to_idle_new_def
  nci_transition_deactivate_to_discovery_new_def nci_transition_idle_to_discovery_new_def
  nci_transition_poll_active_to_idle_new_def nci_transition_listen_active_to_idle_new_def

lemma bounded_state: "nci_sm_add_new_state (nci_state_new s) h = (a, h1) \<Longrightarrow> bounded h \<Longrightarrow> bounded h1"
  using bounded_add_new_state [of h "nci_state_new s", OF _ bounded_new(1)] by (metis snd_conv)

lemma bounded_transition: "nci_transition_new c d h = (p, h1) \<Longrightarrow> bounded h \<Longrightarrow> bounded h1"
  using bounded_new(2) by (metis snd_conv)

lemma bounded_add_new_transition: "bounded h \<Longrightarrow> bounded (nci_sm_add_new_transition s (nci_transition_new c d) h)"
  using bounded_transition
  by (auto simp: nci_sm_add_new_transition_def unref_opt_def intro!: bounded_unref bounded_add split: prod.split option.split)

lemma bounded_init: "bounded (obj_sm_object_init timed)"
proof -
  have add: "bounded h \<Longrightarrow> bounded (snd (nci_sm_add_new_state (nci_state_new s) h))" for h s
    by (intro bounded_add_new_state bounded_new)
  show ?thesis
    by (simp add: obj_sm_object_init_def state_constructors Let_def split: prod.split)
      (intro allI impI add, simp, erule bounded_state, simp add: bounded_def)
qed

lemma bounded_sm_new: "bounded (nci_sm_new timed)"
proof -
  have add: "bounded h \<Longrightarrow> bounded (snd (nci_sm_add_new_state (nci_state_new s) h))" for h s
    by (intro bounded_add_new_state bounded_new)
  have "bounded h \<Longrightarrow> bounded (fold (\<lambda>s. nci_sm_add_transition s p) ss h)" for p ss h
    by (rule bounded_fold) (auto intro: bounded_add)
  then have unref: "bounded h \<Longrightarrow> bounded (unref_opt nci_transition_unref p (fold (\<lambda>s. nci_sm_add_transition s q) ss h))" for p q ss h
    by (simp add: unref_opt_def bounded_unref split: option.split)
  have "bounded (fold (\<lambda>s h. snd (nci_sm_add_new_state (nci_state_new s) h)) ss (obj_sm_object_init timed))" for ss
    by (rule bounded_fold) (auto intro: add bounded_init)
  note states = this [of "[NCI_RFST_IDLE, NCI_RFST_DISCOVERY, NCI_RFST_LISTEN_ACTIVE, NCI_RFST_LISTEN_SLEEP, NCI_RFST_POLL_ACTIVE,
      NCI_RFST_W4_ALL_DISCOVERIES, NCI_RFST_W4_HOST_SELECT]", simplified]
  show ?thesis
    unfolding nci_sm_new_def state_constructors transition_constructors Let_def
    by (simp only: split: prod.split) (intro allI impI bounded_add_new_transition unref, erule bounded_transition, intro unref,
      erule bounded_transition, simp only: bounded_sm, erule bounded_transition, simp only: states fold_simps id_apply)
qed

section \<open>Checking a finite heap\<close>

definition alive_pointer :: "'a gheap_scheme \<Rightarrow> addr + addr \<Rightarrow> bool" where
  "alive_pointer h p =
     (case p of Inl a \<Rightarrow> (case sfields h a of Some (r, b, s) \<Rightarrow> b | None \<Rightarrow> False)
      | Inr t \<Rightarrow> (case tfields h t of Some (r, b, d, c) \<Rightarrow> b | None \<Rightarrow> False))"

definition heap_check :: "addr list \<Rightarrow> addr list \<Rightarrow> 'a gheap_scheme \<Rightarrow> bool" where
  "heap_check S T h \<longleftrightarrow>
     (let as = [0..<g_next h] in
      \<not> g_fault h \<and> distinct (g_weak h) \<and> list_all (alive_pointer h) (g_weak h) \<and>
      list_all (\<lambda>a. a < g_next h) S \<and> list_all (\<lambda>t. t < g_next h) T \<and>
      list_all (\<lambda>a.
        count_of (sfields h a) = count_list S a +
          length (filter (\<lambda>t. case tfields h t of Some (r, b, d, c) \<Rightarrow> d = a | None \<Rightarrow> False) as) \<and>
        counted (sfields h a) \<and> count_of (tfields h a) = count_list T a \<and> counted (tfields h a) \<and>
        (alive_pointer h (Inl a) \<longrightarrow> List.member (g_weak h) (Inl a)) \<and> (alive_pointer h (Inr a) \<longrightarrow> List.member (g_weak h) (Inr a)) \<and>
        (case tfields h a of Some (r, b, d, c) \<Rightarrow> d < g_next h | None \<Rightarrow> True) \<and>
        (case g_states h a of Some so \<Rightarrow> list_all (\<lambda>e. snd e < g_next h) (ob_table so) | None \<Rightarrow> True) \<and>
        (case g_transitions h a of Some to \<Rightarrow> list_all (\<lambda>s. s < g_next h) (tb_weak to) | None \<Rightarrow> True) \<and>
        list_all (\<lambda>t. in_table h a t = in_weak h a t) as \<and> \<not> g_timer h a) as)"

lemma beyond_list: "list_all (\<lambda>a. a < n) xs \<Longrightarrow> n \<le> a \<Longrightarrow> count_list xs (a :: nat) = 0"
  by (induction xs) auto

lemma bounded_fields: "bounded h \<Longrightarrow> g_next h \<le> a \<Longrightarrow> sfields h a = None \<and> tfields h a = None \<and> \<not> g_timer h a"
  by (simp add: bounded_def sfields_def tfields_def)

lemma heap_check:
  assumes "heap_check S T h" and "bounded h"
  shows "heap_ok (mset S) (mset T) h"
proof -
  note c = assms(1) [unfolded heap_check_def Let_def]
  note beyond = bounded_fields [OF assms(2)]
  have in_range: "tfields h t = Some (r, b, d, k) \<Longrightarrow> t < g_next h" for t r b d k using beyond [of t] by (cases "t < g_next h") auto
  have lead: "leading (tfields h) a = set (filter (\<lambda>t. case tfields h t of Some (r, b, d, c) \<Rightarrow> d = a | None \<Rightarrow> False) [0..<g_next h])" for a
    using in_range by (auto simp: leading_def split: option.splits)
  have card: "card (leading (tfields h) a) = length (filter (\<lambda>t. case tfields h t of Some (r, b, d, c) \<Rightarrow> d = a | None \<Rightarrow> False) [0..<g_next h])" for a
    unfolding lead by (rule distinct_card) (simp add: distinct_filter)
  have "refs_ok (mset S) (mset T) (sfields h) (tfields h)"
    unfolding refs_ok_def
  proof (intro conjI allI)
    have "{t. tfields h t \<noteq> None} \<subseteq> {..<g_next h}" by (auto intro: in_range)
    then show "finite {t. tfields h t \<noteq> None}" by (rule finite_subset) simp
    fix a
    show "count_of (sfields h a) = count (mset S) a + card (leading (tfields h) a)"
    proof (cases "a < g_next h")
      case True
      then show ?thesis using c by (simp add: card list_all_iff count_mset)
    next
      case False
      then have "leading (tfields h) a = {}" using c in_range by (fastforce simp: leading_def list_all_iff split: option.splits)
      then show ?thesis using False beyond [of a] c beyond_list [of "g_next h" S a] by (simp add: count_mset)
    qed
    show "counted (sfields h a)" using c beyond [of a] by (cases "a < g_next h") (auto simp: list_all_iff)
    show "count_of (tfields h a) = count (mset T) a"
      using c beyond [of a] beyond_list [of "g_next h" T a] by (cases "a < g_next h") (auto simp: list_all_iff count_mset)
    show "counted (tfields h a)" using c beyond [of a] by (cases "a < g_next h") (auto simp: list_all_iff)
  qed
  moreover have "weak_ok (g_weak h) (sfields h) (tfields h)"
    unfolding weak_ok_def
  proof (intro conjI allI)
    show "distinct (g_weak h)" using c by blast
    have pointer: "p \<in> set (g_weak h) \<longleftrightarrow> alive_pointer h p" for p
    proof
      show "p \<in> set (g_weak h) \<Longrightarrow> alive_pointer h p" using c by (simp add: list_all_iff)
      assume p: "alive_pointer h p"
      obtain x where x: "p = Inl x \<or> p = Inr x" by (cases p) auto
      then have "x < g_next h" using p beyond [of x] by (cases "x < g_next h") (auto simp: alive_pointer_def)
      then show "p \<in> set (g_weak h)" using c p x by (auto simp: list_all_iff)
    qed
    show "Inl a \<in> set (g_weak h) \<longleftrightarrow> (\<exists>r s. sfields h a = Some (r, True, s))" for a
      unfolding pointer by (auto simp: alive_pointer_def split: option.splits)
    show "Inr t \<in> set (g_weak h) \<longleftrightarrow> (\<exists>r d c. tfields h t = Some (r, True, d, c))" for t
      unfolding pointer by (auto simp: alive_pointer_def split: option.splits)
  qed
  moreover have "in_table h a t = in_weak h a t" for a t
  proof -
    have each: "list_all P [0..<g_next h] \<Longrightarrow> x < g_next h \<Longrightarrow> P x" for P x by (simp add: list_all_iff)
    have "snd e < g_next h" if "g_states h a = Some so" "e \<in> set (ob_table so)" for so e
    proof -
      have "a < g_next h" using that(1) assms(2) by (metis bounded_def option.distinct(1) not_less)
      then have "list_all (\<lambda>e. snd e < g_next h) (ob_table so)" using c each that(1) by fastforce
      then show ?thesis using that(2) by (simp add: list_all_iff)
    qed
    then have table: "in_table h a t = 0" if "g_next h \<le> a \<or> g_next h \<le> t"
      using that assms(2) by (fastforce simp: in_table_def bounded_def count_list_0_iff split: option.split)
    have "s < g_next h" if "g_transitions h t = Some to" "s \<in> set (tb_weak to)" for to s
    proof -
      have "t < g_next h" using that(1) assms(2) by (metis bounded_def option.distinct(1) not_less)
      then have "list_all (\<lambda>s. s < g_next h) (tb_weak to)" using c each that(1) by fastforce
      then show ?thesis using that(2) by (simp add: list_all_iff)
    qed
    then have weak: "in_weak h a t = 0" if "g_next h \<le> a \<or> g_next h \<le> t"
      using that assms(2) by (fastforce simp: in_weak_def bounded_def count_list_0_iff split: option.split)
    show ?thesis
    proof (cases "a < g_next h \<and> t < g_next h")
      case True
      then have "list_all (\<lambda>t. in_table h a t = in_weak h a t) [0..<g_next h]" using c by (simp add: list_all_iff)
      then show ?thesis using True each [where P = "\<lambda>t. in_table h a t = in_weak h a t" and x = t] by simp
    next
      case False
      then show ?thesis using table weak by (simp add: not_less)
    qed
  qed
  moreover have "\<not> g_timer h t" for t using c beyond [of t] by (cases "t < g_next h") (auto simp: list_all_iff)
  ultimately show ?thesis using c by (simp add: heap_ok_def)
qed

section \<open>What is built\<close>

definition all_states :: "NCI_STATE list" where
  "all_states =
     [NCI_STATE_INIT, NCI_STATE_ERROR, NCI_STATE_STOP, NCI_RFST_IDLE, NCI_RFST_DISCOVERY, NCI_RFST_W4_ALL_DISCOVERIES,
      NCI_RFST_W4_HOST_SELECT, NCI_RFST_POLL_ACTIVE, NCI_RFST_LISTEN_ACTIVE, NCI_RFST_LISTEN_SLEEP]"

lemma all_states: "s \<in> set all_states"
  by (cases s) (simp_all add: all_states_def)

definition state_there :: "sm_object \<Rightarrow> addr \<Rightarrow> NCI_STATE \<Rightarrow> bool" where
  "state_there h a s \<longleftrightarrow>
     (case g_states h a of Some so \<Rightarrow> ob_state so = s | None \<Rightarrow> False) \<and>
     (case obj_sm_state_by_id h s of Some b \<Rightarrow> b = a | None \<Rightarrow> False)"

definition transition_there :: "sm_object \<Rightarrow> addr \<Rightarrow> nci_transition \<Rightarrow> bool" where
  "transition_there h t c \<longleftrightarrow>
     (case g_transitions h t of
        Some to \<Rightarrow> tb_class to = c \<and> tb_sm to \<and> state_there h (tb_dest to) (transition_dest c)
      | None \<Rightarrow> False) \<and>
     (List.member (om_transitions h) t \<or> (case om_reset_transition h of Some r \<Rightarrow> r = t | None \<Rightarrow> False))"

definition machine_check :: "sm_object \<Rightarrow> bool" where
  "machine_check h \<longleftrightarrow>
     list_all (\<lambda>s.
       case obj_sm_state_by_id h s of
         None \<Rightarrow> False
       | Some a \<Rightarrow> state_there h a s \<and>
           list_all (\<lambda>d.
             case obj_state_get_transition h a d of
               None \<Rightarrow> (case nci_state_get_transition s d of None \<Rightarrow> True | Some c \<Rightarrow> False)
             | Some t \<Rightarrow> (case nci_state_get_transition s d of None \<Rightarrow> False | Some c \<Rightarrow> transition_there h t c)) all_states) all_states \<and>
     (case om_reset_transition h of Some t \<Rightarrow> transition_there h t TReset | None \<Rightarrow> False)"

lemma state_there: "state_there h a s = state_at h a s"
  by (auto simp: state_there_def state_at_def split: option.splits)

lemma transition_there: "transition_there h t c = transition_at h t c"
  by (auto simp: transition_there_def transition_at_def state_there split: option.splits)

lemma machine_check:
  assumes "machine_check h" shows "machine_ok h"
proof -
  have state: "\<exists>a. obj_sm_state_by_id h s = Some a \<and> state_at h a s \<and>
      (\<forall>d. rel_option (transition_at h) (obj_state_get_transition h a d) (nci_state_get_transition s d))" for s
  proof -
    have "case obj_sm_state_by_id h s of None \<Rightarrow> False
      | Some a \<Rightarrow> state_at h a s \<and> (\<forall>d \<in> set all_states. case obj_state_get_transition h a d of
          None \<Rightarrow> (case nci_state_get_transition s d of None \<Rightarrow> True | Some c \<Rightarrow> False)
        | Some t \<Rightarrow> (case nci_state_get_transition s d of None \<Rightarrow> False | Some c \<Rightarrow> transition_at h t c))"
      using assms all_states [of s] unfolding machine_check_def list_all_iff state_there transition_there by blast
    then obtain a where a: "obj_sm_state_by_id h s = Some a" "state_at h a s"
      and d: "\<And>d. case obj_state_get_transition h a d of
          None \<Rightarrow> (case nci_state_get_transition s d of None \<Rightarrow> True | Some c \<Rightarrow> False)
        | Some t \<Rightarrow> (case nci_state_get_transition s d of None \<Rightarrow> False | Some c \<Rightarrow> transition_at h t c)"
      using all_states by (auto split: option.split_asm)
    have "rel_option (transition_at h) (obj_state_get_transition h a d) (nci_state_get_transition s d)" for d
      using d [of d] by (auto split: option.split_asm)
    then show ?thesis using a by blast
  qed
  show ?thesis
    unfolding machine_ok_def
  proof (intro conjI allI impI)
    show "\<exists>a. state_at h a s" for s using state [of s] by blast
    show "rel_option (transition_at h) (obj_state_get_transition h a d) (nci_state_get_transition s d)" if "state_at h a s" for a s d
      using state [of s] that by (auto simp: state_at_def)
    show "\<exists>t. om_reset_transition h = Some t \<and> transition_at h t TReset"
      using assms by (auto simp: machine_check_def transition_there split: option.splits)
  qed
qed

definition put :: "'a list \<Rightarrow> nat \<Rightarrow> 'a \<Rightarrow> 'a \<Rightarrow> 'a list" where
  "put xs i d x = (xs @ replicate (i + 1 - length xs) d)[i := x]"

lemma put_simps [simp]:
  "put [] 0 d x = [x]" "put (y # ys) 0 d x = x # ys" "put (y # ys) (Suc n) d x = y # put ys n d x"
  "put [] (Suc n) d x = d # put [] n d x" "put [] 1 d x = [d, x]" "put (y # ys) 1 d x = y # put ys 0 d x"
  "put [] (numeral k) d x = d # put [] (pred_numeral k) d x" "put (y # ys) (numeral k) d x = y # put ys (pred_numeral k) d x"
  by (simp_all add: put_def numeral_eq_Suc)

definition state_of :: "NCI_STATE \<Rightarrow> nat \<Rightarrow> (NCI_STATE \<times> addr) list \<Rightarrow> state_obj" where
  "state_of s r es = \<lparr>ob_state = s, ob_refs = r, ob_sm = True, ob_table = es\<rparr>"

definition transition_of :: "nci_transition \<Rightarrow> nat \<Rightarrow> addr \<Rightarrow> addr list \<Rightarrow> transition_obj" where
  "transition_of c r d ws = \<lparr>tb_class = c, tb_refs = r, tb_dest = d, tb_sm = True, tb_weak = ws\<rparr>"

lemma of_simps [simp]:
  "ob_state (state_of s r es) = s" "ob_refs (state_of s r es) = r" "ob_table (state_of s r es) = es" "ob_sm (state_of s r es)"
  "(state_of s r es)\<lparr>ob_refs := r'\<rparr> = state_of s r' es" "(state_of s r es)\<lparr>ob_table := es'\<rparr> = state_of s r es'"
  "tb_class (transition_of c r d ws) = c" "tb_refs (transition_of c r d ws) = r" "tb_dest (transition_of c r d ws) = d"
  "tb_sm (transition_of c r d ws)" "tb_weak (transition_of c r d ws) = ws"
  "(transition_of c r d ws)\<lparr>tb_refs := r'\<rparr> = transition_of c r' d ws"
  "(transition_of c r d ws)\<lparr>tb_weak := ws'\<rparr> = transition_of c r d ws'"
  by (simp_all add: state_of_def transition_of_def)

lemma add_new_state:
  fixes h :: sm_object
  assumes "length (om_states h) \<le> state_value s \<or> om_states h ! state_value s = None"
  shows "nci_sm_add_new_state (nci_state_new s) h = (g_next h,
     h\<lparr>g_next := g_next h + 1, g_weak := Inl (g_next h) # g_weak h,
       g_states := (g_states h)(g_next h := Some (state_of s 1 [])),
       om_states := put (om_states h) (state_value s) None (Some (g_next h))\<rparr>)"
  using assms
  by (auto simp: nci_sm_add_new_state_def nci_state_new_def nci_sm_add_state_def nci_state_unref_def nci_state_ref_def upd_state_def
     unref_opt_def Let_def put_def nth_append state_of_def)

lemma transition_new:
  fixes h :: sm_object
  assumes "obj_sm_state_by_id h s = Some d" and "g_states h d = Some so"
  shows "nci_transition_new c s h = (Some (g_next h),
     h\<lparr>g_states := (g_states h)(d := Some (so\<lparr>ob_refs := ob_refs so + 1\<rparr>)), g_next := g_next h + 1, g_weak := Inr (g_next h) # g_weak h,
       g_transitions := (g_transitions h)(g_next h := Some (transition_of c 1 d []))\<rparr>)"
  using assms by (simp add: nci_transition_new_def nci_sm_get_state_def nci_state_ref_def upd_state_def Let_def transition_of_def)

lemma add_transition:
  fixes h :: sm_object
  assumes "obj_sm_state_by_id h s = Some a" and "g_states h a = Some so" and "g_transitions h t = Some to" and "g_states h (tb_dest to) = Some dest"
   and "ob_state dest \<notin> fst ` set (ob_table so)"
  shows "nci_sm_add_transition s (Some t) h =
     h\<lparr>om_transitions := om_transitions h @ [t],
       g_states := (g_states h)(a := Some (so\<lparr>ob_table := (ob_state dest, t) # ob_table so\<rparr>)),
       g_transitions := (g_transitions h)(t := Some (to\<lparr>tb_refs := tb_refs to + 1, tb_weak := a # tb_weak to\<rparr>))\<rparr>"
proof -
  have "filter (\<lambda>e. fst e \<noteq> ob_state dest) (ob_table so) = ob_table so" using assms(5) by (force intro: filter_True)
  then show ?thesis using assms
  by (simp add: nci_sm_add_transition_def nci_transition_ref_def nci_state_add_transition_def upd_transition_def upd_state_def)
qed

lemma unref_created:
  fixes h :: sm_object
  assumes "g_transitions h t = Some to" and "1 < tb_refs to"
  shows "nci_transition_unref t h = h\<lparr>g_transitions := (g_transitions h)(t := Some (to\<lparr>tb_refs := tb_refs to - 1\<rparr>))\<rparr>"
  using assms by (simp add: nci_transition_unref_def upd_transition_def)

lemma init: "obj_sm_object_init timed =
 \<lparr>g_states = (\<lambda>_. None)(0 := Some (state_of NCI_STATE_INIT 1 []), 1 := Some (state_of NCI_STATE_ERROR 1 []), 2 := Some (state_of NCI_STATE_STOP 1 [])),
   g_transitions = (\<lambda>_. None), g_weak = [Inl 2, Inl 1, Inl 0], g_timer = (\<lambda>_. False), g_next = 3,
                g_fault = False, om_states = map Some [0,1,2], om_transitions = [], om_reset_transition = None,
                om_next_transition = None, om_active_transition = None, om_active_state = Some 0, om_last_state = Some 0,
                om_next_state = Some 0, om_entering_state = 0, om_pending_switch = None, om_timed = timed\<rparr>"
  by (simp add: obj_sm_object_init_def nci_state_init_new_def nci_state_error_new_def nci_state_stop_new_def add_new_state Let_def del: One_nat_def)

definition machine0 :: "bool \<Rightarrow> sm_object" where
  "machine0 timed = 
 \<lparr>g_states = (\<lambda>_. None)(0 := Some (state_of NCI_STATE_INIT 1 []), 1 := Some (state_of NCI_STATE_ERROR 1 []), 2 := Some (state_of NCI_STATE_STOP 1 []),
     3 := Some (state_of NCI_RFST_IDLE 1 []), 4 := Some (state_of NCI_RFST_DISCOVERY 1 []), 5 := Some (state_of NCI_RFST_LISTEN_ACTIVE 1 []),
     6 := Some (state_of NCI_RFST_LISTEN_SLEEP 1 []), 7 := Some (state_of NCI_RFST_POLL_ACTIVE 1 []), 8 := Some (state_of NCI_RFST_W4_ALL_DISCOVERIES 1 []),
     9 := Some (state_of NCI_RFST_W4_HOST_SELECT 1 [])),
   g_transitions = (\<lambda>_. None), g_weak = map Inl [9,8,7,6,5,4,3,2, 1, 0], g_timer = (\<lambda>_. False), g_next = 10,
                g_fault = False, om_states = map Some [0,1,2,3,4,8,9,7,5,6], om_transitions = [], om_reset_transition = None,
                om_next_transition = None, om_active_transition = None, om_active_state = Some 0, om_last_state = Some 0,
                om_next_state = Some 0, om_entering_state = 0, om_pending_switch = None, om_timed = timed\<rparr>"

lemma states: "fold (\<lambda>fn h. snd (nci_sm_add_new_state fn h))
                 [nci_state_idle_new, nci_state_discovery_new, nci_state_listen_active_new, nci_state_listen_sleep_new,
                  nci_state_poll_active_new, nci_state_w4_all_discoveries_new, nci_state_w4_host_select_new]
                 (obj_sm_object_init timed) = machine0 timed"
  by (simp add: init machine0_def state_constructors add_new_state Let_def del: One_nat_def)

definition machine_new :: "bool \<Rightarrow> sm_object" where
  "machine_new timed =
 \<lparr>g_states = (\<lambda>_. None)(0 := Some (state_of NCI_STATE_INIT 1 []), 1 := Some (state_of NCI_STATE_ERROR 1 []), 2 := Some (state_of NCI_STATE_STOP 1 []),
     3 := Some (state_of NCI_RFST_IDLE 5 [(NCI_RFST_DISCOVERY, 13)]), 4 := Some (state_of NCI_RFST_DISCOVERY 3 [(NCI_RFST_IDLE, 11)]),
     5 := Some (state_of NCI_RFST_LISTEN_ACTIVE 1 [(NCI_RFST_IDLE, 15), (NCI_RFST_DISCOVERY, 12)]),
     6 := Some (state_of NCI_RFST_LISTEN_SLEEP 1 [(NCI_RFST_IDLE, 11)]), 7 := Some (state_of NCI_RFST_POLL_ACTIVE 1 [(NCI_RFST_IDLE, 14), (NCI_RFST_DISCOVERY, 12)]),
     8 := Some (state_of NCI_RFST_W4_ALL_DISCOVERIES 1 [(NCI_RFST_IDLE, 11)]),
     9 := Some (state_of NCI_RFST_W4_HOST_SELECT 1 [(NCI_RFST_IDLE, 11)])),
   g_transitions = (\<lambda>_. None)(10 := Some (transition_of TReset 1 3 []), 11 := Some (transition_of TDeactivateToIdle 4 3 [6, 9, 8, 4]),
     12 := Some (transition_of TDeactivateToDiscovery 2 4 [5, 7]), 13 := Some (transition_of TIdleToDiscovery 1 4 [3]),
     14 := Some (transition_of TPollActiveToIdle 1 3 [7]), 15 := Some (transition_of TListenActiveToIdle 1 3 [5])),
   g_weak = map Inr [15, 14, 13, 12, 11, 10] @ map Inl [9,8,7,6,5,4,3,2, 1, 0], g_timer = (\<lambda>_. False), g_next = 16,
                g_fault = False, om_states = map Some [0,1,2,3,4,8,9,7,5,6], om_transitions = [11, 11, 11, 11, 12, 12, 13, 14, 15],
                om_reset_transition = Some 10,
                om_next_transition = None, om_active_transition = None, om_active_state = Some 0, om_last_state = Some 0,
                om_next_state = Some 0, om_entering_state = 0, om_pending_switch = None, om_timed = timed\<rparr>"

lemma sm_new: "nci_sm_new timed = machine_new timed"
  unfolding nci_sm_new_def states transition_constructors nci_sm_add_new_transition_def
  by (simp add: machine0_def transition_new add_transition obj_sm_state_by_id_def unref_created unref_opt_def Let_def del: One_nat_def)
    (simp add: machine_new_def fun_eq_iff del: One_nat_def)

lemma machine_new_checked:
  "heap_check [0, 1, 2, 3, 4, 8, 9, 7, 5, 6] [11, 11, 11, 11, 12, 12, 13, 14, 15, 10] (machine_new timed)"
  "machine_check (machine_new timed)"
  by code_simp+

end
