(* ===== verification/Obj_Properties.thy ===== *)
theory Obj_Properties
  imports Obj_Steps Obj_New
begin

text \<open>
  From \<open>nci_sm_new\<close> to \<open>nci_sm_free\<close>: the tables that are built are those of the model, every run
  refers to live objects only and counts its references right, the machine on objects does
  what the machine on names does, and in the end everything is freed.
\<close>

section \<open>The beginning\<close>

definition new_view :: "sm_view \<Rightarrow> bool" where
  "new_view v \<longleftrightarrow>
     v_last v = NCI_STATE_INIT \<and> v_next v = NCI_STATE_INIT \<and> v_then v = None \<and> v_going v = None \<and> v_active v = Some NCI_STATE_INIT"

lemma new_good:
  assumes "new_view v" shows "good {#} {#} (nci_sm_new timed) v"
proof -
  let ?h = "machine_new timed"
  have machine: "machine_ok ?h" by (rule machine_check) (rule machine_new_checked)
  have "bounded ?h" using bounded_sm_new [of timed] by (simp add: sm_new)
  note heap = heap_check [OF machine_new_checked(1) this]
  have "state_owners ?h = mset [0, 1, 2, 3, 4, 8, 9, 7, 5, 6]"
    "transition_owners ?h = mset [11, 11, 11, 11, 12, 12, 13, 14, 15, 10]"
    by (simp_all add: state_owners_def transition_owners_def machine_new_def)
  then have "owned {#} {#} ?h" using heap by (simp add: owned_def)
  moreover have "state_at ?h 0 NCI_STATE_INIT" by (simp add: state_at_def machine_new_def obj_sm_state_by_id_def)
  then have "named ?h v" using assms by (simp add: named_def new_view_def) (simp add: machine_new_def)
  ultimately show ?thesis using machine by (simp add: good_def sm_new)
qed

lemma new_world_view: "new_view (sm_view (nci_core_new (\<lambda>w. w)))"
proof -
  have "new_view (sm_view nci_sm_object_init)"
    by (simp add: new_view_def sm_view_def nci_sm_object_init_def nci_world.defs nci_sar_new_def)
  then show ?thesis by (simp add: nci_core_new_def Let_def echo_observing.param_fold_view(1) new_view_def)
qed

section \<open>Runs\<close>

text \<open>
  What the handlers of the library do to the machine, in any order. The other states are
  entered by name, as are those of the notifications.
\<close>

inductive obj_step :: "sm_object \<Rightarrow> sm_object \<Rightarrow> bool" where
  enter: "obj_step h (obj_enter_state s h)"
| host_select: "obj_step h (obj_enter_host_select supported h)"
| all_discoveries: "obj_step h (obj_enter_all_discoveries supported h)"
| stall: "obj_step h (obj_stall_internal ty h)"
| switch_to: "obj_step h (obj_switch_to s h)"
| switch_proc: "obj_step h (obj_switch_proc h)"
| reset: "obj_step h (obj_reset h)"
| finish: "om_active_transition h = Some t \<Longrightarrow> obj_step h (obj_transition_finish t h)"
| timeout: "g_timer h t \<Longrightarrow> obj_step h (obj_transition_timeout t h)"

definition obj_reachable :: "bool \<Rightarrow> sm_object \<Rightarrow> bool" where
  "obj_reachable timed h \<longleftrightarrow> obj_step\<^sup>*\<^sup>* (nci_sm_new timed) h"

lemma step_good:
  assumes "obj_step h h'" and "good S T h v" shows "\<exists>v'. good S T h' v'"
  using assms
proof (cases rule: obj_step.cases)
  case (enter s)
  then show ?thesis using enter_state_good [OF assms(2)] by blast
next
  case (host_select supported)
  then show ?thesis using host_select_good(1) [OF assms(2)] by blast
next
  case (all_discoveries supported)
  then show ?thesis using all_discoveries_good [OF assms(2)] by blast
next
  case (stall ty)
  then show ?thesis using stall_good [OF assms(2)] by blast
next
  case (switch_to s)
  then show ?thesis using switch_to_good [OF assms(2)] by blast
next
  case switch_proc
  then show ?thesis using switch_proc_good [OF assms(2)] by blast
next
  case reset
  then show ?thesis using reset_good [OF assms(2)] by blast
next
  case (finish t)
  then obtain c where "transition_at h t c" using assms(2) by (auto simp: good_def named_def option_rel_Some1)
  from transition_finish_good [OF assms(2) this] show ?thesis using finish by blast
next
  case (timeout t)
  then show ?thesis using transition_timeout_fired [OF assms(2)] by blast
qed

lemma run_good:
  assumes "obj_reachable timed h" shows "\<exists>v. good {#} {#} h v"
  using assms unfolding obj_reachable_def
proof (induction rule: rtranclp_induct)
  case base
  then show ?case using new_good [OF new_world_view] by blast
next
  case (step h h')
  then show ?case using step_good by blast
qed

text \<open>Between two steps no state is being entered.\<close>

lemma entering_kept [simp]:
  "om_entering_state (obj_finish_active_transition h) = om_entering_state h"
  "om_entering_state (snd (obj_start_transition t h)) = om_entering_state h"
  "om_entering_state (obj_set_last_state a h) = om_entering_state h" "om_entering_state (obj_set_next_state a h) = om_entering_state h"
  "om_entering_state (obj_stall_internal ty h) = om_entering_state h" "om_entering_state (drop_next_transition h) = om_entering_state h"
  "om_entering_state (set_next_transition t h) = om_entering_state h" "om_entering_state (cancel_switch h) = om_entering_state h"
  "om_entering_state (obj_start_next a h) = om_entering_state h"
proof -
  show fin: "om_entering_state (obj_finish_active_transition h) = om_entering_state h" for h
    by (simp add: obj_finish_active_transition_def obj_transition_finished_def split: option.split)
  have leave: "om_entering_state (obj_leave_active_state h) = om_entering_state h" for h
    by (simp add: obj_leave_active_state_def unref_opt_def touch_state_def split: option.split)
  show start: "om_entering_state (snd (obj_start_transition t h)) = om_entering_state h" for t h
    by (auto simp: obj_start_transition_def obj_transition_start_def leave fin Let_def split: option.split bool.split)
  show set: "om_entering_state (obj_set_last_state a h) = om_entering_state h" "om_entering_state (obj_set_next_state a h) = om_entering_state h" for a h
    by (simp_all add: obj_set_last_state_def obj_set_next_state_def)
  show "om_entering_state (obj_stall_internal ty h) = om_entering_state h"
    by (simp add: obj_stall_internal_def with_state_def touch_state_def leave set fin Let_def split: option.split)
  show "om_entering_state (drop_next_transition h) = om_entering_state h" "om_entering_state (set_next_transition t h) = om_entering_state h"
    "om_entering_state (cancel_switch h) = om_entering_state h"
    by (simp_all add: drop_next_transition_def set_next_transition_def cancel_switch_def unref_opt_def split: option.split)
  show "om_entering_state (obj_start_next a h) = om_entering_state h"
    by (simp add: obj_start_next_def Let_def start split: option.split)
qed

lemma enter_internal_entering:
  assumes "\<And>h. om_entering_state (entered h) = om_entering_state h"
  shows "om_entering_state (obj_enter_state_internal entered a h) = om_entering_state h"
proof -
  have "om_entering_state (obj_activate entered a h) = om_entering_state h" for h
    by (simp add: obj_activate_def assms obj_leave_active_state_def unref_opt_def touch_state_def split: option.split)
  then show ?thesis by (simp add: obj_enter_state_internal_def Let_def)
qed

lemma switch_entering [simp]: "om_entering_state (obj_switch_internal a h) = om_entering_state h"
proof -
  note enter = enter_internal_entering [of "\<lambda>h. h", OF refl]
  have start: "om_entering_state h1 = om_entering_state h" if "obj_start_transition t h = (b, h1)" for t b h1 h
    using entering_kept(2) [of t h] that by simp
  have "om_entering_state (obj_switch_during t a h) = om_entering_state h" "om_entering_state (obj_switch_from a h) = om_entering_state h" for t h
    by (auto simp: obj_switch_during_def obj_switch_from_def start enter split: option.split prod.split bool.split)
  then show ?thesis by (simp add: obj_switch_internal_def Let_def split: option.split)
qed

lemma step_entering: "obj_step h h' \<Longrightarrow> om_entering_state h' = om_entering_state h"
proof (induction rule: obj_step.induct)
  have switch: "om_entering_state (obj_switch_to s h) = om_entering_state h" for s h
    by (simp add: obj_switch_to_def with_state_def Let_def split: option.split)
  have select: "om_entering_state (obj_enter_host_select supported h) = om_entering_state h" for supported h
    by (simp add: obj_enter_host_select_def with_state_def enter_internal_entering switch split: option.split)
  have enter: "om_entering_state (obj_enter_state s h) = om_entering_state h" for s h
    by (simp add: obj_enter_state_def with_state_def enter_internal_entering split: option.split)
  show "om_entering_state (obj_switch_to s h) = om_entering_state h" for s h by (rule switch)
  show "om_entering_state (obj_enter_host_select supported h) = om_entering_state h" for supported h by (rule select)
  show "om_entering_state (obj_enter_state s h) = om_entering_state h" for s h by (rule enter)
  show "om_entering_state (obj_enter_all_discoveries supported h) = om_entering_state h" for supported h
    by (simp add: obj_enter_all_discoveries_def with_state_def enter_internal_entering select split: option.split)
  show "om_entering_state (obj_stall_internal ty h) = om_entering_state h" for ty h by simp
  show "om_entering_state (obj_switch_proc h) = om_entering_state h" for h by (simp add: obj_switch_proc_def split: option.split)
  show "om_entering_state (obj_reset h) = om_entering_state h" for h
    by (simp add: obj_reset_def enter_internal_entering split: option.split)
  show "om_entering_state (obj_transition_finish t h) = om_entering_state h" for t h
    by (simp add: obj_transition_finish_def enter split: option.split)
  show "om_entering_state (obj_transition_timeout t h) = om_entering_state h" for t h
    by (simp add: obj_transition_timeout_def Let_def split: option.split)
qed

lemma run_entering: "obj_reachable timed h \<Longrightarrow> om_entering_state h = 0"
  unfolding obj_reachable_def
  by (induction rule: rtranclp_induct) (simp_all add: step_entering sm_new machine_new_def)

section \<open>The end\<close>

text \<open>The machine tells its states and transitions that it is going.\<close>

lemma notified_fields:
  "sfields (nci_sm_weak_pointer_notify p h) a =
     (if p = Inl a then map_option (\<lambda>(r, b, s). (r, False, s)) (sfields h a) else sfields h a)"
  "tfields (nci_sm_weak_pointer_notify p h) t =
     (if p = Inr t then map_option (\<lambda>(r, b, d). (r, False, d)) (tfields h t) else tfields h t)"
  "in_table (nci_sm_weak_pointer_notify p h) = in_table h" "in_weak (nci_sm_weak_pointer_notify p h) = in_weak h"
  "g_timer (nci_sm_weak_pointer_notify p h) = g_timer h"
  "gheap.more (nci_sm_weak_pointer_notify p h) = gheap.more h"
  by (cases p; auto simp: nci_sm_weak_pointer_notify_def sfields_def tfields_def upd_state_def upd_transition_def in_table_def
      in_weak_def fun_eq_iff split: option.split)+

lemma notified_refs:
  assumes "refs_ok S T (sfields h) (tfields h)"
  shows "refs_ok S T (sfields (nci_sm_weak_pointer_notify p h)) (tfields (nci_sm_weak_pointer_notify p h))"
proof -
  let ?h = "nci_sm_weak_pointer_notify p h"
  have "count_of (sfields ?h a) = count_of (sfields h a)" "counted (sfields ?h a) = counted (sfields h a)"
    "count_of (tfields ?h a) = count_of (tfields h a)" "counted (tfields ?h a) = counted (tfields h a)" for a
    by (auto simp: notified_fields count_of_def counted_def split: option.split)
  moreover have "leading (tfields ?h) = leading (tfields h)" by (auto simp: leading_def notified_fields fun_eq_iff split: if_splits)
  moreover have "{t. tfields ?h t \<noteq> None} = {t. tfields h t \<noteq> None}" by (auto simp: notified_fields)
  ultimately show ?thesis using assms by (simp add: refs_ok_def)
qed

lemma notified_ok:
  assumes "heap_ok S T (h\<lparr>g_weak := p # ws\<rparr>)"
  shows "heap_ok S T ((nci_sm_weak_pointer_notify p h)\<lparr>g_weak := ws\<rparr>)"
proof -
  let ?n = "nci_sm_weak_pointer_notify p h"
  have set: "sfields (g\<lparr>g_weak := x\<rparr>) = sfields g" "tfields (g\<lparr>g_weak := x\<rparr>) = tfields g" "in_table (g\<lparr>g_weak := x\<rparr>) = in_table g"
    "in_weak (g\<lparr>g_weak := x\<rparr>) = in_weak g" for g :: "'a gheap_scheme" and x
    by (simp_all add: sfields_def tfields_def in_table_def in_weak_def fun_eq_iff)
  note ok = assms [unfolded heap_ok_def set]
  have w: "weak_ok (p # ws) (sfields h) (tfields h)" using ok by simp
  have "g_fault ?n = g_fault h"
  proof (cases p)
    case (Inl a)
    then have "\<exists>r s. sfields h a = Some (r, True, s)" using w unfolding weak_ok_def by (metis list.set_intros(1))
    then show ?thesis using Inl by (auto simp: nci_sm_weak_pointer_notify_def sfields_def upd_state_def)
  next
    case (Inr t)
    then have "\<exists>r d c. tfields h t = Some (r, True, d, c)" using w unfolding weak_ok_def by (metis list.set_intros(1))
    then show ?thesis using Inr by (auto simp: nci_sm_weak_pointer_notify_def tfields_def upd_transition_def)
  qed
  moreover have "weak_ok ws (sfields ?n) (tfields ?n)"
    unfolding weak_ok_def
  proof (intro conjI allI)
    have d: "p \<notin> set ws" "distinct ws" using w by (simp_all add: weak_ok_def)
    then show "distinct ws" by simp
    have l: "Inl a \<in> set (p # ws) \<longleftrightarrow> (\<exists>r s. sfields h a = Some (r, True, s))" for a using w unfolding weak_ok_def by blast
    show "Inl a \<in> set ws \<longleftrightarrow> (\<exists>r s. sfields ?n a = Some (r, True, s))" for a
      using d(1) l [of a] by (cases "p = Inl a") (auto simp: notified_fields)
    have r: "Inr t \<in> set (p # ws) \<longleftrightarrow> (\<exists>r d c. tfields h t = Some (r, True, d, c))" for t using w unfolding weak_ok_def by blast
    show "Inr t \<in> set ws \<longleftrightarrow> (\<exists>r d c. tfields ?n t = Some (r, True, d, c))" for t
      using d(1) r [of t] by (cases "p = Inr t") (auto simp: notified_fields)
  qed
  moreover have "(tfields ?n t = None) = (tfields h t = None)" for t by (simp add: notified_fields)
  ultimately show ?thesis using ok notified_refs [of S T h p] by (simp add: heap_ok_def set notified_fields)
qed

lemma disposed_ok:
  assumes "heap_ok S T (h\<lparr>g_weak := ws\<rparr>)"
  shows "heap_ok S T ((fold nci_sm_weak_pointer_notify ws h)\<lparr>g_weak := []\<rparr>)"
  using assms by (induction ws arbitrary: h) (simp_all add: notified_ok)

section \<open>Giving up references\<close>

lemma owned_unref:
  "owned (add_mset a S) T h \<Longrightarrow> owned S T (nci_state_unref a h)" "owned S (add_mset t T) h \<Longrightarrow> owned S T (nci_transition_unref t h)"
proof -
  have "state_owners (nci_state_unref a h) = state_owners h" "transition_owners (nci_state_unref a h) = transition_owners h"
    "state_owners (nci_transition_unref t h) = state_owners h" "transition_owners (nci_transition_unref t h) = transition_owners h"
    by (simp_all add: state_owners_def transition_owners_def om_more [of "nci_state_unref a h" h] om_more [of "nci_transition_unref t h" h])
  then show "owned (add_mset a S) T h \<Longrightarrow> owned S T (nci_state_unref a h)" "owned S (add_mset t T) h \<Longrightarrow> owned S T (nci_transition_unref t h)"
    using state_unref_ok [of a "S + state_owners h" "T + transition_owners h" h]
      transition_unref_ok [of "S + state_owners h" t "T + transition_owners h" h] by (simp_all add: owned_def)
qed

lemma owned_states: "owned S T h \<Longrightarrow> Some a \<in> set (om_states h) \<Longrightarrow> g_states h a \<noteq> None"
proof -
  assume "owned S T h" and "Some a \<in> set (om_states h)"
  then have "a \<in># S + state_owners h" by (force simp: state_owners_def)
  then show ?thesis using \<open>owned S T h\<close> refs_okD(1) by (fastforce simp: owned_def heap_ok_def sfields_def)
qed

lemma owned_transitions: "owned S (add_mset t T) h \<Longrightarrow> g_transitions h t \<noteq> None"
  using refs_okD(2) [of "S + state_owners h" "add_mset t T + transition_owners h" "sfields h" "tfields h" t]
  by (auto simp: owned_def heap_ok_def tfields_def)

lemma cancel_owned:
  assumes "owned S T h" shows "owned S T (cancel_switch h)" "om_pending_switch (cancel_switch h) = None"
proof -
  have "owned S T (cancel_switch h) \<and> om_pending_switch (cancel_switch h) = None"
  proof (cases "om_pending_switch h")
    case None
    then have "h\<lparr>om_pending_switch := None\<rparr> = h" by simp
    then have "cancel_switch h = h" by (simp only: cancel_switch_def unref_opt_def None option.case)
    then show ?thesis using None assms by simp
  next
    case (Some a)
    then have "owned (add_mset a S) T (h\<lparr>om_pending_switch := None\<rparr>)"
      using assms by (simp add: owned_def state_owners_def transition_owners_def)
    from owned_unref(1) [OF this] show ?thesis
      by (simp add: cancel_switch_def unref_opt_def Some om_more [OF unref_more(1)])
  qed
  then show "owned S T (cancel_switch h)" "om_pending_switch (cancel_switch h) = None" by blast+
qed

lemma finish_owned:
  assumes "owned S T h"
  shows "owned S T (obj_finish_active_transition h)" "om_active_transition (obj_finish_active_transition h) = None"
proof -
  have "owned S T (obj_finish_active_transition h) \<and> om_active_transition (obj_finish_active_transition h) = None"
  proof (cases "om_active_transition h")
    case None
    then show ?thesis using assms by (simp add: obj_finish_active_transition_def)
  next
    case (Some t)
    let ?h = "h\<lparr>om_active_transition := None\<rparr>"
    have o1: "owned S (add_mset t T) ?h" using assms Some by (simp add: owned_def state_owners_def transition_owners_def)
    obtain to where to: "g_transitions ?h t = Some to" using owned_transitions [OF o1] by auto
    have "owned S (add_mset t T) (?h\<lparr>g_timer := (g_timer ?h)(t := False)\<rparr>)" by (rule owned_timer [OF o1]) (simp split: if_splits)
    from owned_unref(2) [OF this] show ?thesis
      using to by (simp add: obj_finish_active_transition_def Some obj_transition_finished_def om_more [OF unref_more(2)])
  qed
  then show "owned S T (obj_finish_active_transition h)" "om_active_transition (obj_finish_active_transition h) = None" by blast+
qed

lemma drop_next_owned:
  assumes "owned S T h" shows "owned S T (drop_next_transition h)" "om_next_transition (drop_next_transition h) = None"
proof -
  have "owned S T (drop_next_transition h)"
  proof (cases "om_next_transition h")
    case None
    then have "h\<lparr>om_next_transition := None\<rparr> = h" by simp
    then have "drop_next_transition h = h" by (simp only: drop_next_transition_def unref_opt_def None option.case)
    then show ?thesis using assms by simp
  next
    case (Some t)
    have "heap_ok (S + state_owners h) (add_mset t (T + transition_owners (h\<lparr>om_next_transition := None\<rparr>))) h"
      using assms Some by (simp add: owned_def transition_owners_def)
    from transition_unref_ok [OF this] show ?thesis
      by (simp add: drop_next_transition_def unref_opt_def Some owned_def state_owners_def transition_owners_def om_more [OF unref_more(2)])
  qed
  then show "owned S T (drop_next_transition h)" "om_next_transition (drop_next_transition h) = None"
    by (simp_all add: drop_next_transition_def)
qed

lemma fold_unref_transitions: "heap_ok S (mset ts + T) h \<Longrightarrow> heap_ok S T (fold nci_transition_unref ts h)"
  by (induction ts arbitrary: h) (simp_all add: transition_unref_ok)

lemma fold_unref_states:
  "heap_ok (mset (concat (map (\<lambda>p. case p of Some a \<Rightarrow> [a] | None \<Rightarrow> []) ps)) + S) T h \<Longrightarrow> heap_ok S T (fold (unref_opt nci_state_unref) ps h)"
  by (induction ps arbitrary: h) (simp_all add: unref_opt_def state_unref_ok split: option.split_asm option.split)

text \<open>Nobody has a reference to anything: there is nothing.\<close>

definition all_freed :: "sm_object \<Rightarrow> bool" where
  "all_freed h \<longleftrightarrow>
     \<not> g_fault h \<and> (\<forall>a. g_states h a = None) \<and> (\<forall>t. g_transitions h t = None) \<and> g_weak h = [] \<and> (\<forall>t. \<not> g_timer h t)"

lemma unowned_freed:
  fixes h :: sm_object
  assumes "heap_ok {#} {#} h" shows "all_freed h"
proof -
  note ok = assms [unfolded heap_ok_def refs_ok_def]
  have t: "tfields h t = None" for t
  proof -
    have "count_of (tfields h t) = 0" "counted (tfields h t)" using ok by simp_all
    then show ?thesis by (cases "tfields h t") auto
  qed
  then have lead: "leading (tfields h) a = {}" for a by (simp add: leading_def)
  have s: "sfields h a = None" for a
  proof -
    have "count_of (sfields h a) = 0" "counted (sfields h a)" using ok lead by simp_all
    then show ?thesis by (cases "sfields h a") auto
  qed
  have "p \<notin> set (g_weak h)" for p using ok s t by (cases p) (auto simp: weak_ok_def)
  then have "g_weak h = []" by (cases "g_weak h") auto
  then show ?thesis using ok s t by (simp add: all_freed_def sfields_def tfields_def)
qed

lemma finalize_kept:
  "om_states (cancel_switch h) = om_states h" "om_active_state (cancel_switch h) = om_active_state h"
  "om_states (obj_finish_active_transition h) = om_states h"
  "om_active_state (obj_finish_active_transition h) = om_active_state h" "om_pending_switch (obj_finish_active_transition h) = om_pending_switch h"
  "om_active_transition (drop_next_transition h) = om_active_transition h" "om_pending_switch (drop_next_transition h) = om_pending_switch h"
  by (simp_all add: cancel_switch_def obj_finish_active_transition_def obj_transition_finished_def drop_next_transition_def unref_opt_def
      split: option.split)

lemma finalize_frees:
  assumes "owned {#} {#} h" and "\<And>a. om_active_state h = Some a \<Longrightarrow> Some a \<in> set (om_states h)"
  shows "all_freed (nci_sm_object_finalize h)"
proof -
  let ?h1 = "obj_finish_active_transition (cancel_switch h)"
  note h1 = finish_owned [OF cancel_owned(1) [OF assms(1)]]
  have leave: "obj_leave_active_state ?h1 = ?h1"
  proof (cases "om_active_state ?h1")
    case (Some a)
    then have "Some a \<in> set (om_states ?h1)" using assms(2) by (simp add: finalize_kept)
    then have "g_states ?h1 a \<noteq> None" by (rule owned_states [OF h1(1)])
    then show ?thesis using Some by (auto simp: obj_leave_active_state_def unref_opt_def touch_state_def upd_state_def fun_upd_idem)
  qed (simp add: obj_leave_active_state_def unref_opt_def)
  define h2 where "h2 = drop_next_transition ?h1"
  have h2: "owned {#} {#} h2" "om_next_transition h2 = None" "om_active_transition h2 = None" "om_pending_switch h2 = None"
    using drop_next_owned [OF h1(1)] h1(2) cancel_owned(2) [OF assms(1)] by (simp_all add: h2_def finalize_kept)
  then have "heap_ok (state_owners h2) (mset (om_transitions h2) + opt_mset (om_reset_transition h2)) h2"
    by (simp add: owned_def transition_owners_def)
  from fold_unref_transitions [OF this]
  have "heap_ok (state_owners h2) (opt_mset (om_reset_transition h2)) (fold nci_transition_unref (om_transitions h2) h2)" .
  then have t: "heap_ok (state_owners h2) (opt_mset (om_reset_transition h2)) ((fold nci_transition_unref (om_transitions h2) h2)\<lparr>om_transitions := []\<rparr>)" by simp
  define h3 where "h3 = (fold nci_transition_unref (om_transitions h2) h2)\<lparr>om_transitions := []\<rparr>"
  have "gheap.more (fold nci_transition_unref (om_transitions h2) h2) = gheap.more h2" by (rule fold_more) simp
  note more3 = om_more [OF this]
  have h3: "om_states h3 = om_states h2" "om_reset_transition h3 = om_reset_transition h2" by (simp_all add: h3_def more3)
  have "heap_ok (mset (concat (map (\<lambda>p. case p of Some a \<Rightarrow> [a] | None \<Rightarrow> []) (om_states h3))) + {#}) (opt_mset (om_reset_transition h2)) h3"
    using t h2(4) by (simp add: state_owners_def h3 h3_def [symmetric])
  note s = fold_unref_states [OF this]
  define h4 where "h4 = (fold (unref_opt nci_state_unref) (om_states h3) h3)\<lparr>om_states := []\<rparr>"
  have "gheap.more (fold (unref_opt nci_state_unref) (om_states h3) h3) = gheap.more h3"
    by (rule fold_more) (simp add: unref_opt_def split: option.split)
  from om_more(3) [OF this] have "om_reset_transition h4 = om_reset_transition h2" by (simp add: h4_def h3)
  moreover have "heap_ok {#} (opt_mset (om_reset_transition h2)) h4" using s by (simp add: h4_def)
  ultimately have "heap_ok {#} {#} (unref_opt nci_transition_unref (om_reset_transition h4) h4)"
    by (auto simp: unref_opt_def intro: transition_unref_ok split: option.split)
  then have "heap_ok {#} {#} (nci_sm_object_finalize h)"
    by (simp only: nci_sm_object_finalize_def Let_def leave h2_def [symmetric] h3_def [symmetric] h4_def [symmetric])
      (simp add: heap_ok_fields(3))
  then show ?thesis by (rule unowned_freed)
qed

lemma state_at_kept:
  assumes "state_at h a s" shows "Some a \<in> set (om_states h)"
proof -
  have "state_value s < length (om_states h)" "om_states h ! state_value s = Some a"
    using assms by (simp_all add: state_at_def obj_sm_state_by_id_def split: if_splits)
  then show ?thesis by (metis nth_mem)
qed

lemma free_frees:
  assumes "good {#} {#} h v" shows "all_freed (nci_sm_free h)"
proof -
  let ?n = "fold nci_sm_weak_pointer_notify (g_weak h) h"
  have "gheap.more ?n = gheap.more h" by (rule fold_more) (simp add: notified_fields)
  note more = om_more [OF this]
  have "heap_ok (state_owners h) (transition_owners h) (h\<lparr>g_weak := g_weak h\<rparr>)" using assms by (simp add: good_def owned_def)
  from disposed_ok [OF this] have "owned {#} {#} (?n\<lparr>g_weak := []\<rparr>)" by (simp add: owned_def state_owners_def transition_owners_def more)
  moreover have "Some a \<in> set (om_states h)" if "om_active_state h = Some a" for a
  proof -
    obtain s where "state_at h a s" using assms \<open>om_active_state h = Some a\<close> by (auto simp: good_def named_def option_rel_Some1)
    then show ?thesis by (rule state_at_kept)
  qed
  ultimately show ?thesis unfolding nci_sm_free_def by (intro finalize_frees) (simp_all add: more)
qed

section \<open>What is shown of the objects\<close>

text \<open>
  C16. \<open>nci_sm_new\<close> builds what the model of the library takes for given: there is one object of
  every state, its table leads to the transitions of \<open>sm_transitions\<close> and these to their
  destinations, and the machine and its states stand where those of a new core do.
\<close>

theorem nci_sm_new_tables:
  "\<exists>a. obj_sm_state_by_id (nci_sm_new timed) s = Some a \<and> state_at (nci_sm_new timed) a s \<and>
     rel_option (transition_at (nci_sm_new timed)) (obj_state_get_transition (nci_sm_new timed) a d) (nci_state_get_transition s d) \<and>
     named (nci_sm_new timed) (sm_view (nci_core_new (\<lambda>w. w)))"
proof -
  have g: "good {#} {#} (nci_sm_new timed) (sm_view (nci_core_new (\<lambda>w. w)))" by (rule new_good [OF new_world_view])
  obtain a where a: "obj_sm_state_by_id (nci_sm_new timed) s = Some a" "state_at (nci_sm_new timed) a s"
    using machine_by_id [OF good_machine [OF g]] by blast
  then show ?thesis using get_transition_good [OF g a(2)] g by (auto simp: good_def)
qed

lemma good_reference_counts:
  assumes "good {#} {#} h v"
  shows "\<not> g_fault h"
    "g_states h a = Some so \<Longrightarrow> ob_refs so = count (state_owners h) a + card {t. \<exists>to. g_transitions h t = Some to \<and> tb_dest to = a}"
    "g_transitions h t = Some to \<Longrightarrow> tb_refs to = count (transition_owners h) t"
    "a \<in># state_owners h \<Longrightarrow> g_states h a \<noteq> None" "t \<in># transition_owners h \<Longrightarrow> g_transitions h t \<noteq> None"
    "g_timer h t \<Longrightarrow> g_transitions h t \<noteq> None"
proof -
  have ok: "heap_ok (state_owners h) (transition_owners h) h" using assms by (simp add: good_def owned_def)
  then have r: "refs_ok (state_owners h) (transition_owners h) (sfields h) (tfields h)" by (simp add: heap_ok_def)
  have lead: "leading (tfields h) a = {t. \<exists>to. g_transitions h t = Some to \<and> tb_dest to = a}" by (auto simp: leading_def tfields_def)
  have "count_of (sfields h a) = count (state_owners h) a + card (leading (tfields h) a)" "count_of (tfields h t) = count (transition_owners h) t"
    using r by (simp_all add: refs_ok_def)
  then show "g_states h a = Some so \<Longrightarrow> ob_refs so = count (state_owners h) a + card {t. \<exists>to. g_transitions h t = Some to \<and> tb_dest to = a}"
    "g_transitions h t = Some to \<Longrightarrow> tb_refs to = count (transition_owners h) t"
    unfolding lead by (simp_all add: sfields_def tfields_def)
  show "\<not> g_fault h" "g_timer h t \<Longrightarrow> g_transitions h t \<noteq> None" using ok by (auto simp: heap_ok_def tfields_def)
  show "a \<in># state_owners h \<Longrightarrow> g_states h a \<noteq> None" "t \<in># transition_owners h \<Longrightarrow> g_transitions h t \<noteq> None"
    using refs_okD(1,2) [OF r] by (auto simp: sfields_def tfields_def)
qed

text \<open>
  C5. Memory safety of the state machine: whatever the handlers do, no object is used after it
  has been freed, every object counts the pointers that hold it, what they point to is alive,
  and timers run for live transitions only; and freeing the machine at any time frees every
  state and transition, with its timer and its weak reference to the machine.
\<close>

theorem objects_released:
  assumes "obj_reachable timed h"
  shows "\<not> g_fault h \<and>
    (\<forall>a so. g_states h a = Some so \<longrightarrow>
       ob_refs so = count (state_owners h) a + card {t. \<exists>to. g_transitions h t = Some to \<and> tb_dest to = a}) \<and>
    (\<forall>t to. g_transitions h t = Some to \<longrightarrow> tb_refs to = count (transition_owners h) t) \<and>
    (\<forall>a \<in># state_owners h. g_states h a \<noteq> None) \<and> (\<forall>t \<in># transition_owners h. g_transitions h t \<noteq> None) \<and>
    (\<forall>t. g_timer h t \<longrightarrow> g_transitions h t \<noteq> None) \<and> all_freed (nci_sm_free h)"
proof -
  obtain v where g: "good {#} {#} h v" using run_good [OF assms] by blast
  show ?thesis using good_reference_counts [OF g] free_frees [OF g] by blast
qed

text \<open>
  C9. The state machine on objects is the one on names: when they are at the same point
  (\<open>named\<close>), entering a state, stalling, switching, resetting, the end of the active transition
  and its timeout take both to the same point again, whatever the objects have been through.
\<close>

theorem objects_refined:
  assumes "\<And>e w. nci_sar.more (env_app env e w) = nci_sar.more w" and "core_reachable env w"
    and "obj_reachable timed h" and "named h (sm_view w)"
  shows "named (obj_enter_state s h) (sm_view (nci_sm_enter_state env s None w)) \<and>
    named (obj_switch_to s h) (sm_view (nci_sm_switch_to env s w)) \<and>
    named (obj_stall_internal ty h) (sm_view (nci_sm_stall env ty w)) \<and>
    named (obj_reset h) (sm_view (nci_sm_reset env w)) \<and>
    (\<forall>t. om_active_transition h = Some t \<longrightarrow> (\<exists>c. sm_active_transition w = Some c \<and>
       named (obj_transition_finish t h) (sm_view (nci_transition_finish env c w)) \<and>
       named (obj_transition_timeout t h) (sm_view (nci_transition_timeout env c w))))"
proof -
  have app: "observing_app env" by (rule observing_app.intro) (rule assms(1))
  have w: "sm_entering_state w = 0" using sm_wf_facts(3) [OF observing_app.reachable_wf [OF app assms(2)]] .
  obtain v where "good {#} {#} h v" using run_good [OF assms(3)] by blast
  then have g: "good {#} {#} h (sm_view w)" using assms(4) by (simp add: good_def)
  note views = observing_app.enter_state_view [OF app] observing_app.switch_internal_view [OF app] observing_app.stall_internal_view [OF app]
    observing_app.basic_view(3) [OF app] observing_app.enter_internal_view [OF app] observing_app.entered_view [OF app]
  have goodD: "named h' v'" if "good {#} {#} h' v'" for h' v' using that by (simp add: good_def)
  have "named (obj_enter_state s h) (sm_view (nci_sm_enter_state env s None w))"
    by (rule goodD) (simp add: views enter_state_good [OF g])
  moreover have "named (obj_switch_to s h) (sm_view (nci_sm_switch_to env s w))"
    by (rule goodD) (use switch_to_good [OF g, of s] in \<open>simp add: views nci_sm_switch_to_def Let_def w run_entering [OF assms(3)]\<close>)
  moreover have "named (obj_stall_internal ty h) (sm_view (nci_sm_stall env ty w))"
    by (rule goodD) (simp add: views nci_sm_stall_def stall_good [OF g])
  moreover have "named (obj_reset h) (sm_view (nci_sm_reset env w))"
    by (rule goodD) (simp add: views nci_sm_reset_def reset_good [OF g])
  moreover have "\<exists>c. sm_active_transition w = Some c \<and>
       named (obj_transition_finish t h) (sm_view (nci_transition_finish env c w)) \<and>
       named (obj_transition_timeout t h) (sm_view (nci_transition_timeout env c w))" if t: "om_active_transition h = Some t" for t
  proof -
    obtain c where c: "sm_active_transition w = Some c" "transition_at h t c"
      using assms(4) t by (auto simp: named_def option_rel_Some1 sm_view_fields)
    have "named (obj_transition_finish t h) (sm_view (nci_transition_finish env c w))"
      by (rule goodD) (use transition_finish_good [OF g c(2)] in
        \<open>simp add: views t nci_transition_finish_def nci_sm_active_transition_def c(1)\<close>)
    moreover have "good {#} {#} h ((sm_view w)\<lparr>v_timer := (tr_timeout_id w)(c := False)\<rparr>)" using g by simp
    from transition_timeout_good [OF this c(2)] have "named (obj_transition_timeout t h) (sm_view (nci_transition_timeout env c w))"
      by (intro goodD) (simp add: views nci_transition_timeout_def nci_sm_stall_def)
    ultimately show ?thesis using c(1) by blast
  qed
  ultimately show ?thesis by blast
qed

text \<open>One run: asked for discovery, the machine resets first; then its timer fires.\<close>

lemma example_reachable: "obj_reachable timed (obj_switch_to NCI_RFST_DISCOVERY (nci_sm_new timed))"
  unfolding obj_reachable_def by (rule r_into_rtranclp) (rule obj_step.switch_to)

lemma objects_released_witness: "all_freed (nci_sm_free (obj_switch_to NCI_RFST_DISCOVERY (nci_sm_new True)))"
  using objects_released [OF example_reachable [of True]] by blast

lemma objects_refined_witness:
  "named (obj_switch_to NCI_RFST_DISCOVERY (nci_sm_new True))
     (sm_view (nci_sm_switch_to echo_env NCI_RFST_DISCOVERY (nci_core_new (\<lambda>w. w))))"
proof -
  have "obj_reachable True (nci_sm_new True)" by (simp add: obj_reachable_def)
  moreover have "named (nci_sm_new True) (sm_view (nci_core_new (\<lambda>w. w)))"
    using new_good [OF new_world_view] by (simp add: good_def)
  ultimately show ?thesis using objects_refined [OF echo_more core_reachable.new] by blast
qed

end
