(* ===== verification/Core_Release.thy ===== *)
theory Core_Release
  imports Cmd_Properties Sar_Properties
begin

text \<open>
  The end of a core: what \<open>nci_core_free\<close> leaves behind.
\<close>

unbundle bit_operations_syntax

section \<open>Freeing the core\<close>

text \<open>Handlers of an application that only watches.\<close>

lemma watching_stall:
  assumes "\<And>e w. env_app env e w = w" and "core_cmd_id w = 0"
  shows "sar_core (nci_sm_stall env ty w) = sar_core w"
proof -
  have finish: "sar_core (nci_sm_finish_active_transition u) = sar_core u" for u :: nci_world
    by (simp add: nci_sm_finish_active_transition_def nci_transition_finished_def nci_transition_default_finished_def
        nci_transition_listen_active_to_idle_reset_def nci_sar.defs split: option.split)
  have emit: "sar_core (nci_sm_emit_pending_signals env u) = sar_core u" for u
    by (simp add: nci_sm_emit_pending_signals_def nci_core_next_state_changed_def nci_core_last_state_changed_def assms(1)
        Let_def nci_sar.defs)
  have set: "sar_core (nci_sm_set_last_state s u) = sar_core u" "sar_core (nci_sm_set_next_state s u) = sar_core u" for s u
    by (simp_all add: nci_sm_set_last_state_def nci_sm_set_next_state_def nci_sar.defs)
  have leave: "sar_core (leave_active_state u) = sar_core u" for u
    by (simp add: leave_active_state_def nci_state_leave_def nci_sar.defs Let_def split: option.split)
  have cancel: "sar_core (nci_core_io_cancel env w) = sar_core w"
    using assms(2) by (simp add: nci_core_io_cancel_def nci_core_cancel_command_def nci_sar.defs)
  have enter: "nci_state_entered env s None u = u" if "s \<in> {NCI_STATE_STOP, NCI_STATE_ERROR}" for s u
    using that by (auto simp: nci_state_entered_def nci_state_entered0_def)
  have "sar_core (u\<lparr>sm_active_state := x\<rparr>) = sar_core u" "sar_core (u\<lparr>st_active := y\<rparr>) = sar_core u" for u :: nci_world and x y
    by (simp_all add: nci_sar.defs)
  then show ?thesis
    by (simp add: nci_sm_stall_def nci_sm_stall_internal_def emit Let_def enter leave set finish cancel split: NCI_STALL.split)
qed

lemma watching_client:
  assumes "\<And>e w. env_app env e w = w"
  shows "sar_core (fn_destroy (core_client env) d w) = sar_core w" "sar_core (fn_complete (core_client env) c False w) = sar_core w"
proof -
  show "sar_core (fn_destroy (core_client env) d w) = sar_core w"
    by (simp add: core_client_def run_destroy_def nci_core_send_data_msg_destroy_def assms split: sar_destroy.split option.split)
  have "sar_core (w\<lparr>core_cmd_id := 0\<rparr>) = sar_core w" by (simp add: nci_sar.defs)
  then show "sar_core (fn_complete (core_client env) c False w) = sar_core w"
    using watching_stall [OF assms, of "w\<lparr>core_cmd_id := 0\<rparr>"]
    by (simp add: core_client_def run_completion_def nci_core_command_completion_def nci_core_send_data_msg_complete_def assms
        split: sar_completion.split option.split)
qed

context observing_app begin

lemma released_wf: "sm_wf w \<Longrightarrow> sm_wf (nci_sar_reset (core_client env) (w\<lparr>core_cmd_timeout_id := False\<rparr>))"
proof -
  assume "sm_wf w"
  then have "sm_from (sm_abs w) (w\<lparr>core_cmd_timeout_id := False\<rparr>)" by (simp add: sm_from_def sm_wf_def sm_abs_def)
  then have "sm_from (sm_abs w) (nci_sar_reset (core_client env) (w\<lparr>core_cmd_timeout_id := False\<rparr>))" by (rule machine.reset)
  then show ?thesis by (simp add: sm_from_def)
qed

end

lemma finalize_fields:
  "sar_core (finalize_sm w) = sar_core w" "sm_pending_switch (finalize_sm w) = None"
  "core_cmd_timeout_id (finalize_sm w) = core_cmd_timeout_id w"
  "tr_timeout_id (finalize_sm w) t \<longleftrightarrow> tr_timeout_id w t \<and> sm_active_transition w \<noteq> Some t"
proof -
  have leave: "sar_core (leave_active_state u) = sar_core u" "sm_pending_switch (leave_active_state u) = sm_pending_switch u"
    "core_cmd_timeout_id (leave_active_state u) = core_cmd_timeout_id u" "tr_timeout_id (leave_active_state u) = tr_timeout_id u" for u
    by (cases "sm_active_state u"; simp add: leave_active_state_def nci_state_leave_def nci_sar.defs Let_def)+
  have finish: "sar_core (nci_sm_finish_active_transition u) = sar_core u"
    "sm_pending_switch (nci_sm_finish_active_transition u) = sm_pending_switch u"
    "core_cmd_timeout_id (nci_sm_finish_active_transition u) = core_cmd_timeout_id u"
    "tr_timeout_id (nci_sm_finish_active_transition u) t \<longleftrightarrow> tr_timeout_id u t \<and> sm_active_transition u \<noteq> Some t" for u
    by (cases "sm_active_transition u"; simp add: nci_sm_finish_active_transition_def nci_transition_finished_def
      nci_transition_default_finished_def nci_transition_listen_active_to_idle_reset_def nci_sar.defs; blast?)+
  have set: "sar_core (u\<lparr>sm_rf_interfaces := x, sm_next_transition := y\<rparr>) = sar_core u"
    "sar_core (u\<lparr>sm_pending_switch := z\<rparr>) = sar_core u" for u :: nci_world and x y z
    by (simp_all add: nci_sar.defs)
  show "sar_core (finalize_sm w) = sar_core w" "sm_pending_switch (finalize_sm w) = None"
    "core_cmd_timeout_id (finalize_sm w) = core_cmd_timeout_id w"
    "tr_timeout_id (finalize_sm w) t \<longleftrightarrow> tr_timeout_id w t \<and> sm_active_transition w \<noteq> Some t"
    by (simp_all add: finalize_sm_def set leave finish)
qed


text \<open>A core freed in the middle of a restart, with \<open>CORE_RESET_CMD\<close> on the wire.\<close>

definition watching_env :: nci_env where
  "watching_env = echo_env\<lparr>env_app := \<lambda>e w. w\<rparr>"


end
