(* ===== verification/Spec2Isabelle.thy ===== *)
theory Spec2Isabelle
  imports Core_Properties Sar_Properties Discovery_Properties Nci_Util_Copy Boot_Properties Param_Invariant Obj_Properties Core_Release
begin

text \<open>
  \<^bold>\<open>libncicore, a library that drives an NFC controller (NFCC) through the NFC Controller
  Interface.\<close>

  The program. An application opens an \<open>NciCore\<close> (\<open>src/nci_core.c\<close>) over a HAL
  (\<open>include/nci_hal.h\<close>) that writes bytes to the NFCC and reports bytes read. \<open>NciSar\<close>
  (\<open>src/nci_sar.c\<close>) cuts commands and data into segments, gates data by credits and
  reassembles what comes in; its client is \<open>NciCore\<close>, which keeps the one outstanding command
  with its timeout and hands responses to the handler that sent the command, notifications
  to the state machine \<open>NciSm\<close> (\<open>src/nci_sm.c\<close>) and data to the application. The state machine
  is at rest in one of ten states (\<open>src/nci_state*.c\<close>, what a state does when entered and with
  notifications) or runs one of six transitions (\<open>src/nci_transition*.c\<close>, a first command and
  response handlers), perhaps with a second one to follow. \<open>src/nci_util.c\<close> parses packets.

  \<^bold>\<open>Theories and sources.\<close>
  \<^item> \<open>Prelude\<close>: bounded reads (a read outside the bytes given is \<open>None\<close>), C arrays, bytes.
  \<^item> \<open>Nci_Types\<close>: \<open>include/nci_types.h\<close>, \<open>src/nci_types_p.h\<close>. Enumerations are datatypes, or
    byte constants where raw bytes are compared; unions are datatypes with one constructor
    per member. \<open>NCI_STATE\<close> is ordered as the enumeration is.
  \<^item> \<open>Nci_Util\<close>, \<open>Nci_Util_Copy\<close>: the parsers and the flat copies of \<open>src/nci_util.c\<close>.
  \<^item> \<open>Sar_Queue\<close>, \<open>Nci_Sar\<close>, \<open>Nci_Sar_Rx\<close>: \<open>src/nci_sar.c\<close>. The record \<open>nci_sar\<close> is \<open>NciSar\<close>, its
    extension the client's state, \<open>sar_client\<close> the client's functions and the answers of the
    HAL; \<open>sar_hal\<close> is the trace of calls to the HAL. Packets have addresses, so the two
    pointers of a queue and the pointers kept to packets and connections can dangle.
  \<^item> \<open>Nci_World\<close>: the state of the whole library (\<open>nci_world\<close> extends \<open>nci_sar\<close>), the tables of
    states and transitions, the command channel and the signals. \<open>nci_env\<close> holds what is
    outside: the HAL, the application (any function on the state at each signal, because a
    handler may call back), two C structure sizes, \<open>g_slist_insert_sorted\<close>.
  \<^item> \<open>Discovery_Cmds\<close>: payloads and decisions of \<open>src/nci_transition_idle_to_discovery.c\<close>;
    \<open>Nci_Transition\<close>: starting and finishing the six transitions; \<open>Nci_Sm\<close>: entering, stalling,
    switching; \<open>Nci_Rsp\<close>: every response handler; \<open>Nci_Ntf\<close>: every notification handler;
    \<open>Nci_Core\<close>: the client functions, timeout, restart, parameters and interface of
    \<open>src/nci_core.c\<close>; \<open>Nci_Config\<close>: the configuration file; \<open>Nci_Machine\<close>: all entries into the
    library as one step relation \<open>core_step\<close>, and the states it reaches.
  \<^item> \<open>Nci_Objects\<close>: states and transitions as objects on a heap, with the reference counts, weak
    references and timers of \<open>src/nci_state.c\<close>, \<open>src/nci_transition.c\<close> and \<open>src/nci_sm.c\<close>, from
    \<open>nci_sm_new\<close> to \<open>nci_sm_free\<close>; using an object that has been freed sets \<open>g_fault\<close>.
  \<^item> \<open>Sm_Spec\<close>: the abstract state machine. All other theories hold proofs.

  \<^bold>\<open>How the code is modelled.\<close> A function that changes objects is a function on the state.
  Response handlers with their user data are tags (\<open>rsp_handler\<close>) run by \<open>run_rsp\<close>; states and
  transitions are objects of which there is one each, so pointers to them are names
  (\<open>Nci_Objects\<close> has the pointers, \<open>objects_refined\<close> shows that the names are enough). A
  scheduled source of the main loop is a flag in the state and its callback a step. A read
  outside a buffer, a wrong union member or a wrapped \<open>memset\<close> sets \<open>sar_fault\<close> or is \<open>None\<close>.
  Entering \<open>RFST_W4_ALL_DISCOVERIES\<close> can enter \<open>RFST_W4_HOST_SELECT\<close> from inside, which enters
  nothing: \<open>nci_sm_enter_state_internal\<close> takes the state's own method as an argument, so this
  depth of two is exact and needs no fuel. \<open>nci_sar_cancel\<close> inside the command channel uses a
  client that can only destroy (\<open>free_client\<close>); \<open>cancel_client\<close> and \<open>run_rsp_cancelled\<close> show that
  the whole client (\<open>core_client\<close>) would do the same. Loops are structural or, over the bytes
  read, \<open>function\<close> with a measure; nothing uses fuel.

  \<^bold>\<open>What is shown.\<close>
  \<^item> Segmentation: what goes out on the wire, that reassembly inverts segmentation for data and
    control packets whatever the chunks, that reading ends, what credits allow, reset,
    cancellation (\<open>Sar_Segments\<close>, \<open>Sar_Reassembly\<close>, \<open>Sar_Properties\<close>); the invariant \<open>sar_ok\<close>
    under any client that keeps it (locale \<open>sar_callbacks\<close>, \<open>Sar_Invariant\<close>) and its converse
    (locale \<open>client_invariant\<close>, \<open>Sar_Client\<close>).
  \<^item> The circle of the two: the core and the state machine are such a client for every
    application that keeps \<open>sar_ok\<close> (locale \<open>sar_app\<close>, \<open>World_Sar\<close>), so the layer is sound in
    every reachable state.
  \<^item> The state machine refines the abstract one (\<open>Sm_View\<close>: the operations act on the relevant
    fields as functions on the record \<open>sm_view\<close>; \<open>Sm_Invariant\<close>: all handlers keep it and move
    along \<open>spec_step\<close>; \<open>Sm_Properties\<close>). Here the application may send and cancel in its
    handlers but not switch states (locale \<open>observing_app\<close>).
  \<^item> What every entry into the library keeps, for any predicate that the parts keep (locale
    \<open>library_invariant\<close>, \<open>World_Invariant\<close>). With it: a timer runs while anything is awaited, and
    when it fires nothing is (\<open>Cmd_Invariant\<close>, \<open>Cmd_Properties\<close>); the parameters stay within
    their types, whatever the application calls in its handlers (locale \<open>param_app\<close>,
    \<open>Param_Invariant\<close>).
  \<^item> All parts together: an NFCC that answers every command brings the library to rest in
    \<open>RFST_DISCOVERY\<close>, through the transport, segmentation, command channel and state machine
    (\<open>Boot_Properties\<close>, with what a message does to the layers below in \<open>Sar_Incoming\<close>, locale
    \<open>polite_app\<close>: the application does not touch the reader's buffers in its handlers).
  \<^item> Objects: reference counts and weak references are right in every run (\<open>Obj_Invariant\<close>:
    \<open>heap_ok\<close>, one lemma for each way to take or give up a reference); the machine on objects
    does what the one on names does (\<open>Obj_Machine\<close>, \<open>Obj_Steps\<close>: \<open>good\<close> relates a heap to the
    record \<open>sm_view\<close>); \<open>nci_sm_new\<close> establishes it, which is checked on the finite heap by
    evaluation (\<open>Obj_New\<close>); \<open>nci_sm_free\<close> leaves an empty heap (\<open>Obj_Properties\<close>).
  \<^item> The end: what \<open>nci_core_free\<close> leaves of the segmentation layer, the timers and the main loop
    when the application only watches (\<open>Core_Release\<close>).
  \<^item> A restart reaches \<open>RFST_IDLE\<close>, and its payloads read back (\<open>Reset_Properties\<close>); the endpoint
    selected, credits, parameters (\<open>Core_Properties\<close>); the discovery configuration and commands
    (\<open>Discovery_Properties\<close>); parsers are memory safe but for the two places named, invert the
    formats of the specification and fill the union members their tags select (\<open>Nci_Util\<close>,
    \<open>Nci_Util_Copy\<close>).
  \<^item> Faults of the code are theorems as well, named in the text above each.

  The locales are interpreted on \<open>echo_env\<close>, an application that answers every data packet
  (\<open>World_Sar\<close>, \<open>Sm_Invariant\<close>, \<open>Boot_Properties\<close>), on applications that call back to any depth
  (\<open>nested_env\<close>, \<open>Param_Invariant\<close>), on the queue of \<open>Sar_Queue\<close>, and, for \<open>sar_callbacks\<close> and
  \<open>client_invariant\<close>, by sublocales on \<open>core_client\<close> and \<open>free_client\<close>.

  \<^bold>\<open>Not modelled.\<close> Logging and debug dumps (\<open>src/nci_log.c\<close>, also inside handlers): output only.
  Registration of signal handlers and class initialisation: glib. The reference counts of
  parameters and byte buffers, which are local to a function. Loading the configuration file
  (\<open>nci_sm_load_config\<close>); the parsing of its contents is modelled over glib's string functions
  as parameters. An application that switches states inside a signal handler is
  covered by the definitions and by \<open>core_sar_sound\<close>, not by the refinement.
\<close>

end
